(* ===== verification/Prelude.thy ===== *)
theory Prelude
  imports Main "HOL-Library.AList"
begin

text \<open>
  Shared foundations of the development: the model of Go maps (association
  lists with distinct keys, so that \<open>len\<close> and \<open>range\<close> compute), a contract
  for finite maps as a locale with the lemmas its clients need, a locale for
  event-driven actors whose handlers keep an invariant, and a few list lemmas.

  Go leaves the iteration order of a map unspecified. A Go map is modelled by
  an association list whose order stands for one iteration order; every
  theorem is quantified over all such lists and therefore over every order.
\<close>

named_theorems gomap_simps "rewriting rules for Go maps"
named_theorems keeps_inv "invariant preservation lemmas of the handlers"

section \<open>Time and durations\<close>

text \<open>
  \<open>time.Time\<close> and \<open>time.Duration\<close> are nanosecond counts; \<open>int\<close> is used for both.
\<close>

type_synonym time = int
type_synonym duration = int

abbreviation millisecond :: duration where "millisecond \<equiv> 1000000"
abbreviation second :: duration where "second \<equiv> 1000000000"
abbreviation minute :: duration where "minute \<equiv> 60000000000"

section \<open>The contract of a finite map\<close>

locale finite_map =
  fixes empty :: "'m"
    and get :: "'m \<Rightarrow> 'k \<Rightarrow> 'v option"
    and put :: "'k \<Rightarrow> 'v \<Rightarrow> 'm \<Rightarrow> 'm"
    and del :: "'k \<Rightarrow> 'm \<Rightarrow> 'm"
    and len :: "'m \<Rightarrow> nat"
    and ok :: "'m \<Rightarrow> bool"
  assumes ok_empty: "ok empty"
    and ok_put: "ok m \<Longrightarrow> ok (put k v m)"
    and ok_del: "ok m \<Longrightarrow> ok (del k m)"
    and get_empty: "get empty k = None"
    and get_put: "ok m \<Longrightarrow> get (put k v m) k' = (if k' = k then Some v else get m k')"
    and get_del: "ok m \<Longrightarrow> get (del k m) k' = (if k' = k then None else get m k')"
    and fin: "ok m \<Longrightarrow> finite (dom (get m))"
    and len_card: "ok m \<Longrightarrow> len m = card (dom (get m))"
begin

lemma dom_put: "ok m \<Longrightarrow> dom (get (put k v m)) = insert k (dom (get m))"
  by (auto simp: get_put dom_def)

lemma dom_del: "ok m \<Longrightarrow> dom (get (del k m)) = dom (get m) - {k}"
  by (auto simp: get_del dom_def)

lemma len_empty: "len empty = 0"
  by (simp add: len_card [OF ok_empty] dom_def get_empty)

lemma len_put_new: "ok m \<Longrightarrow> get m k = None \<Longrightarrow> len (put k v m) = Suc (len m)"
  by (simp add: len_card ok_put dom_put fin domIff)

lemma len_put_old: "ok m \<Longrightarrow> get m k = Some w \<Longrightarrow> len (put k v m) = len m"
  by (simp add: len_card ok_put dom_put insert_absorb domI)

lemma len_put_le: "ok m \<Longrightarrow> len (put k v m) \<le> Suc (len m)"
  by (cases "get m k") (simp_all add: len_put_new len_put_old)

lemma len_del_some: "ok m \<Longrightarrow> get m k = Some w \<Longrightarrow> Suc (len (del k m)) = len m"
  unfolding len_card len_card [OF ok_del] dom_del
  by (metis card_Suc_Diff1 domI dom_del fin len_card ok_del)

lemma len_del_le: "ok m \<Longrightarrow> len (del k m) \<le> len m"
  by (simp add: len_card ok_del dom_del fin card_mono)

lemma len_zero: "ok m \<Longrightarrow> len m = 0 \<Longrightarrow> get m k = None"
  using fin by (fastforce simp: len_card)

end

section \<open>Go maps as association lists\<close>

type_synonym ('k, 'v) gomap = "('k \<times> 'v) list"

definition gm_ok :: "('k, 'v) gomap \<Rightarrow> bool" where
  "gm_ok m \<longleftrightarrow> distinct (map fst m)"

abbreviation gm_get :: "('k, 'v) gomap \<Rightarrow> 'k \<Rightarrow> 'v option" where
  "gm_get \<equiv> map_of"

abbreviation gm_put :: "'k \<Rightarrow> 'v \<Rightarrow> ('k, 'v) gomap \<Rightarrow> ('k, 'v) gomap" where
  "gm_put \<equiv> AList.update"

abbreviation gm_del :: "'k \<Rightarrow> ('k, 'v) gomap \<Rightarrow> ('k, 'v) gomap" where
  "gm_del \<equiv> AList.delete"

abbreviation gm_len :: "('k, 'v) gomap \<Rightarrow> nat" where
  "gm_len \<equiv> length"

lemma gm_ok_put [simp, keeps_inv]: "gm_ok m \<Longrightarrow> gm_ok (gm_put k v m)"
  by (simp add: gm_ok_def distinct_update)

lemma gm_ok_del [simp, keeps_inv]: "gm_ok m \<Longrightarrow> gm_ok (gm_del k m)"
  by (simp add: gm_ok_def distinct_delete)

lemma gm_ok_Nil [simp]: "gm_ok []"
  by (simp add: gm_ok_def)

lemma gm_ok_filter [simp, keeps_inv]: "gm_ok m \<Longrightarrow> gm_ok (filter P m)"
  unfolding gm_ok_def by (induction m) auto

lemma gm_get_put [gomap_simps]:
  "gm_get (gm_put k v m) k' = (if k' = k then Some v else gm_get m k')"
  by (simp add: update_conv')

lemma gm_get_del [gomap_simps]:
  "gm_get (gm_del k m) k' = (if k' = k then None else gm_get m k')"
  by (simp add: delete_conv')

lemma gm_len_card: "gm_ok m \<Longrightarrow> gm_len m = card (dom (gm_get m))"
  unfolding gm_ok_def dom_map_of_conv_image_fst
  by (metis distinct_card length_map set_map)

interpretation gm: finite_map "[]" gm_get gm_put gm_del gm_len gm_ok
  by unfold_locales (auto simp: gomap_simps gm_len_card finite_dom_map_of)

lemma gm_in_iff: "gm_ok m \<Longrightarrow> (k, v) \<in> set m \<longleftrightarrow> gm_get m k = Some v"
  by (simp add: gm_ok_def)

lemma gm_in_put: "gm_ok m \<Longrightarrow> p \<in> set (gm_put k v m) \<Longrightarrow> p = (k, v) \<or> p \<in> set m"
  by (cases p) (auto simp: gm_in_iff gomap_simps split: if_splits)

lemma gm_get_filter:
  "gm_ok m \<Longrightarrow> gm_get (filter P m) k =
     (case gm_get m k of None \<Rightarrow> None | Some v \<Rightarrow> if P (k, v) then Some v else None)"
proof (induction m)
  case Nil
  then show ?case by simp
next
  case (Cons a m)
  then have "gm_ok m" and "fst a \<notin> fst ` set m"
    by (simp_all add: gm_ok_def)
  moreover from this(2) have "gm_get m (fst a) = None"
    by (simp add: map_of_eq_None_iff)
  ultimately show ?case
    using Cons.IH by (cases a) (auto split: option.splits)
qed

section \<open>Actors: handlers that keep an invariant\<close>

text \<open>
  An actor processes one message at a time. \<open>step\<close> is its message handler
  (state before, message, state after); the mailbox delivers an arbitrary
  sequence of messages.
\<close>

locale actor_guarded =
  fixes step :: "'s \<Rightarrow> 'e \<Rightarrow> 's"
    and inv :: "'s \<Rightarrow> bool"
    and legal :: "'e \<Rightarrow> bool"
  assumes legal_step_keeps: "inv s \<Longrightarrow> legal e \<Longrightarrow> inv (step s e)"
begin

lemma legal_run_keeps: "inv s \<Longrightarrow> \<forall>e \<in> set es. legal e \<Longrightarrow> inv (foldl step s es)"
  by (induction es arbitrary: s) (auto simp: legal_step_keeps)

end

text \<open>Most handlers keep their invariant on every message.\<close>

locale actor_inv =
  fixes step :: "'s \<Rightarrow> 'e \<Rightarrow> 's"
    and inv :: "'s \<Rightarrow> bool"
  assumes step_keeps: "inv s \<Longrightarrow> inv (step s e)"

sublocale actor_inv \<subseteq> actor_guarded step inv "\<lambda>_. True"
  by unfold_locales (rule step_keeps)

context actor_inv
begin

lemma run_keeps: "inv s \<Longrightarrow> inv (foldl step s es)"
  by (rule legal_run_keeps) simp_all

end

text \<open>
  The extension for a quantity every message leaves alone unless it is of a
  kind \<open>relevant\<close>: a run without relevant messages leaves it alone.
\<close>

locale actor_frame = actor_inv +
  fixes obs :: "'s \<Rightarrow> 'o"
    and relevant :: "'e \<Rightarrow> bool"
  assumes step_frame: "inv s \<Longrightarrow> \<not> relevant e \<Longrightarrow> obs (step s e) = obs s"
begin

lemma run_frame: "inv s \<Longrightarrow> (\<forall>e \<in> set es. \<not> relevant e) \<Longrightarrow> obs (foldl step s es) = obs s"
  by (induction es arbitrary: s) (auto simp: step_keeps step_frame)

end

section \<open>Numbers as text\<close>

text \<open>Go's \<open>strconv.Itoa\<close>.\<close>

definition digit_char :: "nat \<Rightarrow> char" where
  "digit_char d = char_of (48 + d)"

fun decimal :: "nat \<Rightarrow> string" where
  "decimal n = (if n < 10 then [digit_char n] else decimal (n div 10) @ [digit_char (n mod 10)])"

declare decimal.simps [simp del]

definition Itoa :: "int \<Rightarrow> string" where
  "Itoa i = (if i < 0 then ''-'' @ decimal (nat (- i)) else decimal (nat i))"

section \<open>Strings\<close>

text \<open>Go's \<open>strings.ToLower\<close> on ASCII text and \<open>strings.Contains\<close>.\<close>

definition ToLower :: "string \<Rightarrow> string" where
  "ToLower s = map (\<lambda>c. let n = (of_char c :: nat) in if 65 \<le> n \<and> n \<le> 90 then char_of (n + 32) else c) s"

fun Contains :: "string \<Rightarrow> string \<Rightarrow> bool" where
  "Contains [] sub \<longleftrightarrow> sub = []"
| "Contains (c # s) sub \<longleftrightarrow> take (length sub) (c # s) = sub \<or> Contains s sub"

text \<open>Go's \<open>%q\<close> for a name without characters to escape.\<close>

definition quoted :: "string \<Rightarrow> string" where
  "quoted s = CHR 0x22 # s @ [CHR 0x22]"

section \<open>Lists\<close>

lemma foldl_count:
  "foldl (\<lambda>n p. if P p then n + 1 else n) k xs = k + int (length (filter P xs))"
  by (induction xs arbitrary: k) auto

lemma foldl_frame: "(\<And>s x. obs (f s x) = obs s) \<Longrightarrow> obs (foldl f s xs) = obs s"
  by (induction xs arbitrary: s) auto

lemma find_append: "find P (xs @ ys) = (case find P xs of None \<Rightarrow> find P ys | Some x \<Rightarrow> Some x)"
  by (induction xs) auto

lemma map_filter_if: "List.map_filter (\<lambda>x. if P x then Some x else None) xs = filter P xs"
  by (induction xs) (auto simp: List.map_filter_def)

lemma find_SomeD: "find P xs = Some x \<Longrightarrow> x \<in> set xs \<and> P x"
  by (auto simp: find_Some_iff)

end
