(* ===== verification/Mcp_Types.thy ===== *)
theory Mcp_Types
  imports Prelude
begin

text \<open>
  The public data model of package \<open>mcp\<close>: identities, structured errors
  (errors.go), tools (tool.go), schemas and resources, invocations and their
  results, credentials, quotas, audit events and status records.

  A Go string type with named constants is a datatype with one constructor per
  constant; where the code accepts any other string (a transport, a state, a
  policy taken from configuration) a last constructor carries it. A pointer
  that may be nil is an option. Opaque user-supplied objects (an OAuth handler,
  a TLS bundle on disk) are identified by a number.
\<close>

section \<open>Identity (identity.go)\<close>

type_synonym TenantID = string
type_synonym ClientID = string
type_synonym ToolID = string
type_synonym SessionID = string
type_synonym RequestID = string
type_synonym TraceID = string
type_synonym handle = nat
type_synonym strmap = "(string, string) gomap"

definition IsZero :: "string \<Rightarrow> bool" where
  "IsZero s \<longleftrightarrow> s = ''''"

section \<open>Errors (errors.go)\<close>

datatype ErrorCode =
    ErrCodeToolNotFound
  | ErrCodeToolUnavailable
  | ErrCodeToolDisabled
  | ErrCodeSessionNotFound
  | ErrCodeSessionUnavailable
  | ErrCodePolicyDenied
  | ErrCodeQuotaExceeded
  | ErrCodeRateLimited
  | ErrCodeConcurrencyLimitReached
  | ErrCodeCredentialUnavailable
  | ErrCodeInvocationTimeout
  | ErrCodeTransportFailure
  | ErrCodeInvalidRequest
  | ErrCodeInternal

fun error_code_string :: "ErrorCode \<Rightarrow> string" where
  "error_code_string ErrCodeToolNotFound = ''TOOL_NOT_FOUND''"
| "error_code_string ErrCodeToolUnavailable = ''TOOL_UNAVAILABLE''"
| "error_code_string ErrCodeToolDisabled = ''TOOL_DISABLED''"
| "error_code_string ErrCodeSessionNotFound = ''SESSION_NOT_FOUND''"
| "error_code_string ErrCodeSessionUnavailable = ''SESSION_UNAVAILABLE''"
| "error_code_string ErrCodePolicyDenied = ''POLICY_DENIED''"
| "error_code_string ErrCodeQuotaExceeded = ''QUOTA_EXCEEDED''"
| "error_code_string ErrCodeRateLimited = ''RATE_LIMITED''"
| "error_code_string ErrCodeConcurrencyLimitReached = ''CONCURRENCY_LIMIT_REACHED''"
| "error_code_string ErrCodeCredentialUnavailable = ''CREDENTIAL_UNAVAILABLE''"
| "error_code_string ErrCodeInvocationTimeout = ''INVOCATION_TIMEOUT''"
| "error_code_string ErrCodeTransportFailure = ''TRANSPORT_FAILURE''"
| "error_code_string ErrCodeInvalidRequest = ''INVALID_REQUEST''"
| "error_code_string ErrCodeInternal = ''INTERNAL''"

text \<open>
  A non-nil Go \<open>error\<close>: a \<open>*RuntimeError\<close>, an error made by \<open>errors.New\<close> or by
  \<open>fmt.Errorf\<close> without \<open>%w\<close>, or one made by \<open>fmt.Errorf\<close> with \<open>%w\<close> (its whole text
  and the error it wraps).
\<close>

datatype go_error =
    RuntimeErr RuntimeError
  | PlainErr string
  | WrapErr string go_error
and RuntimeError = RuntimeError (Code: ErrorCode) (Message: string) (Cause: "go_error option")

definition NewRuntimeError :: "ErrorCode \<Rightarrow> string \<Rightarrow> RuntimeError" where
  "NewRuntimeError code message = RuntimeError code message None"

definition WrapRuntimeError :: "ErrorCode \<Rightarrow> string \<Rightarrow> go_error option \<Rightarrow> RuntimeError" where
  "WrapRuntimeError code message cause = RuntimeError code message cause"

fun error_text :: "go_error \<Rightarrow> string"
  and runtime_error_text :: "RuntimeError \<Rightarrow> string" where
  "error_text (RuntimeErr e) = runtime_error_text e"
| "error_text (PlainErr s) = s"
| "error_text (WrapErr s e) = s"
| "runtime_error_text (RuntimeError c m (Some e)) =
     ''['' @ error_code_string c @ ''] '' @ m @ '': '' @ error_text e"
| "runtime_error_text (RuntimeError c m None) =
     ''['' @ error_code_string c @ ''] '' @ m"

text \<open>\<open>errors.As(err, &re)\<close> and \<open>errors.AsType\<close> at \<open>*RuntimeError\<close>: the first runtime error of the chain.\<close>

fun as_runtime_error :: "go_error \<Rightarrow> RuntimeError option" where
  "as_runtime_error (RuntimeErr e) = Some e"
| "as_runtime_error (PlainErr s) = None"
| "as_runtime_error (WrapErr s e) = as_runtime_error e"

definition ErrToolNotFound :: go_error where
  "ErrToolNotFound = RuntimeErr (NewRuntimeError ErrCodeToolNotFound ''tool not found'')"

abbreviation rt_error :: "ErrorCode \<Rightarrow> string \<Rightarrow> go_error" where
  "rt_error c m \<equiv> RuntimeErr (NewRuntimeError c m)"

abbreviation rt_wrap :: "ErrorCode \<Rightarrow> string \<Rightarrow> go_error \<Rightarrow> go_error" where
  "rt_wrap c m e \<equiv> RuntimeErr (WrapRuntimeError c m (Some e))"

lemmas runtime_error_defs = NewRuntimeError_def WrapRuntimeError_def ErrToolNotFound_def

lemma error_code_string_inject [simp]:
  "error_code_string c = error_code_string c' \<longleftrightarrow> c = c'"
  by (cases c; cases c') simp_all

section \<open>Dynamic values (\<open>any\<close>)\<close>

text \<open>
  The dynamic types the code distinguishes by type assertion; every other
  dynamic value is only passed on and is identified by a number.
\<close>

datatype any =
    ANil
  | AString string
  | ABytes string
  | ASlice "any list"
  | AMap "(string \<times> any) list"
  | AMapSlice "(string \<times> any) list list"
  | AOther nat

type_synonym anymap = "(string, any) gomap"

section \<open>Schemas and resources (schema.go, resource.go)\<close>

record ToolSchema =
  schema_Name :: string
  schema_Description :: string
  schema_InputSchema :: "string option"

record ResourceSchema =
  res_URI :: string
  res_Name :: string
  res_Description :: string
  res_MIMEType :: string

record ResourceTemplateSchema =
  tmpl_URITemplate :: string
  tmpl_Name :: string
  tmpl_Description :: string
  tmpl_MIMEType :: string

section \<open>Tools (tool.go)\<close>

datatype TransportType = TransportStdio | TransportHTTP | TransportGRPC | TransportOther string
datatype RoutingMode = RoutingSticky | RoutingLeastLoaded | RoutingOther string
datatype ToolState =
  ToolStateEnabled | ToolStateDisabled | ToolStateDegraded | ToolStateUnavailable | ToolStateOther string
datatype CredentialPolicy =
  CredentialPolicyOptional | CredentialPolicyRequired | CredentialPolicyOther string
datatype AuthorizationPolicy = AuthorizationPolicyTenantAllowlist | AuthorizationPolicyOther string

fun tool_state_string :: "ToolState \<Rightarrow> string" where
  "tool_state_string ToolStateEnabled = ''enabled''"
| "tool_state_string ToolStateDisabled = ''disabled''"
| "tool_state_string ToolStateDegraded = ''degraded''"
| "tool_state_string ToolStateUnavailable = ''unavailable''"
| "tool_state_string (ToolStateOther s) = s"

record StdioTransportConfig =
  stdio_Command :: string
  stdio_Args :: "string list"
  stdio_Env :: strmap
  stdio_WorkingDirectory :: string

record TLSClientConfig =
  tls_CACertFile :: string
  tls_ClientCertFile :: string
  tls_ClientKeyFile :: string
  tls_InsecureSkipVerify :: bool

record HTTPTransportConfig =
  http_URL :: string
  http_TLS :: "TLSClientConfig option"
  http_OAuthHandler :: "handle option"

record GRPCTransportConfig =
  grpc_Target :: string
  grpc_Service :: string
  grpc_Method :: string
  grpc_DescriptorSet :: string
  grpc_Reflection :: bool
  grpc_TLS :: "TLSClientConfig option"
  grpc_Metadata :: strmap

record Tool =
  tool_ID :: ToolID
  tool_Transport :: TransportType
  tool_Stdio :: "StdioTransportConfig option"
  tool_HTTP :: "HTTPTransportConfig option"
  tool_GRPC :: "GRPCTransportConfig option"
  tool_StartupTimeout :: duration
  tool_RequestTimeout :: duration
  tool_IdleTimeout :: duration
  tool_Routing :: RoutingMode
  tool_CredentialPolicy :: CredentialPolicy
  tool_AuthorizationPolicy :: AuthorizationPolicy
  tool_State :: ToolState
  tool_MaxSessionsPerTool :: int
  tool_Schemas :: "ToolSchema list"
  tool_Resources :: "ResourceSchema list"
  tool_ResourceTemplates :: "ResourceTemplateSchema list"

definition IsAvailable :: "Tool \<Rightarrow> bool" where
  "IsAvailable t \<longleftrightarrow> tool_State t = ToolStateEnabled \<or> tool_State t = ToolStateDegraded"

section \<open>Invocations and results (invocation.go, methods.go)\<close>

record CorrelationMeta =
  corr_TenantID :: TenantID
  corr_ClientID :: ClientID
  corr_RequestID :: RequestID
  corr_TraceID :: TraceID

record Invocation =
  inv_Correlation :: CorrelationMeta
  inv_ToolID :: ToolID
  inv_SessionID :: SessionID
  inv_Method :: string
  inv_Params :: "anymap option"
  inv_Metadata :: strmap
  inv_Credentials :: strmap
  inv_Scopes :: "string list"
  inv_ReceivedAt :: time

definition MethodToolsCall :: string where "MethodToolsCall = ''tools/call''"
definition MethodResourcesRead :: string where "MethodResourcesRead = ''resources/read''"

datatype ExecutionStatus =
    ExecutionStatusSuccess
  | ExecutionStatusFailure
  | ExecutionStatusTimeout
  | ExecutionStatusDenied
  | ExecutionStatusThrottled

fun execution_status_string :: "ExecutionStatus \<Rightarrow> string" where
  "execution_status_string ExecutionStatusSuccess = ''success''"
| "execution_status_string ExecutionStatusFailure = ''failure''"
| "execution_status_string ExecutionStatusTimeout = ''timeout''"
| "execution_status_string ExecutionStatusDenied = ''denied''"
| "execution_status_string ExecutionStatusThrottled = ''throttled''"

record ExecutionResult =
  exec_Status :: ExecutionStatus
  exec_Output :: "anymap option"
  exec_Err :: "RuntimeError option"
  exec_Duration :: duration
  exec_Correlation :: CorrelationMeta

definition Succeeded :: "ExecutionResult \<Rightarrow> bool" where
  "Succeeded r \<longleftrightarrow> exec_Status r = ExecutionStatusSuccess"

section \<open>Credentials, quotas, policy input (credentials.go, config.go, policy.go)\<close>

record Credentials =
  cred_TenantID :: TenantID
  cred_ToolID :: ToolID
  cred_Values :: strmap

record PolicyInput =
  pol_TenantID :: TenantID
  pol_ToolID :: ToolID
  pol_ActiveSessionCount :: int
  pol_RequestsInCurrentMinute :: int
  pol_Scopes :: "string list"

record TenantQuotaConfig =
  quota_RequestsPerMinute :: int
  quota_ConcurrentSessions :: int

text \<open>The custom policy evaluator is user code: a function that returns nil or a runtime error.\<close>

record TenantConfig =
  tenant_ID :: TenantID
  tenant_Quotas :: TenantQuotaConfig
  tenant_Evaluator :: "(PolicyInput \<Rightarrow> RuntimeError option) option"

section \<open>Audit events and status (audit.go, status.go)\<close>

datatype AuditEventType =
    AuditEventTypePolicyDecision
  | AuditEventTypeInvocationStart
  | AuditEventTypeInvocationComplete
  | AuditEventTypeInvocationFailed
  | AuditEventTypeHealthTransition
  | AuditEventTypeCircuitStateChange

record AuditEvent =
  audit_Type :: AuditEventType
  audit_Timestamp :: time
  audit_TenantID :: string
  audit_ClientID :: string
  audit_ToolID :: string
  audit_RequestID :: string
  audit_TraceID :: string
  audit_Outcome :: string
  audit_ErrorCode :: string
  audit_Message :: string
  audit_Metadata :: strmap

record SessionInfo =
  sess_Name :: string
  sess_ToolID :: ToolID
  sess_TenantID :: TenantID
  sess_ClientID :: ClientID

end
