(* ===== verification/Mcp_Circuit.thy ===== *)
theory Mcp_Circuit
  imports Mcp_Types "HOL-Library.Sublist"
begin

text \<open>
  The circuit breaker of mcp/circuit.go. The breaker's clock is read at most
  once by every operation, so each operation takes that reading as \<open>now\<close>;
  operations return the updated breaker with the Go results.
\<close>

section \<open>State and configuration\<close>

datatype CircuitState = CircuitClosed | CircuitOpen | CircuitHalfOpen

datatype CircuitAcquireOutcome =
  CircuitAcquireAccepted | CircuitAcquireRejectedOpen | CircuitAcquireRejectedHalfOpenLimit

datatype CircuitTransitionReason =
    CircuitReasonThresholdExceeded
  | CircuitReasonHalfOpenProbeFailed
  | CircuitReasonHalfOpenProbeSucceeded
  | CircuitReasonOpenDurationElapsed
  | CircuitReasonManualReset

record CircuitTransition =
  tr_From :: CircuitState
  tr_To :: CircuitState
  tr_Reason :: CircuitTransitionReason
  tr_FailureCount :: int

record CircuitConfig =
  FailureThreshold :: int
  OpenDuration :: duration
  HalfOpenMaxRequests :: int

record CircuitBreaker =
  cb_config :: CircuitConfig
  cb_state :: CircuitState
  cb_failureCount :: int
  cb_openedAt :: time
  cb_halfOpenInFlight :: int

fun circuit_state_string :: "CircuitState \<Rightarrow> string" where
  "circuit_state_string CircuitClosed = ''closed''"
| "circuit_state_string CircuitOpen = ''open''"
| "circuit_state_string CircuitHalfOpen = ''half_open''"

fun circuit_reason_string :: "CircuitTransitionReason \<Rightarrow> string" where
  "circuit_reason_string CircuitReasonThresholdExceeded = ''failure_threshold_exceeded''"
| "circuit_reason_string CircuitReasonHalfOpenProbeFailed = ''half_open_probe_failed''"
| "circuit_reason_string CircuitReasonHalfOpenProbeSucceeded = ''half_open_probe_success''"
| "circuit_reason_string CircuitReasonOpenDurationElapsed = ''open_duration_elapsed''"
| "circuit_reason_string CircuitReasonManualReset = ''manual_reset''"

definition DefaultCircuitFailureThreshold :: int where
  "DefaultCircuitFailureThreshold = 5"
definition DefaultCircuitOpenDuration :: duration where
  "DefaultCircuitOpenDuration = 30 * second"
definition DefaultCircuitHalfOpenMaxRequests :: int where
  "DefaultCircuitHalfOpenMaxRequests = 1"

definition CanAccept :: "CircuitState \<Rightarrow> bool" where
  "CanAccept s \<longleftrightarrow> s = CircuitClosed \<or> s = CircuitHalfOpen"

definition IsOpen :: "CircuitState \<Rightarrow> bool" where
  "IsOpen s \<longleftrightarrow> s = CircuitOpen"

section \<open>Operations\<close>

definition sanitizeCircuitConfig :: "CircuitConfig \<Rightarrow> CircuitConfig" where
  "sanitizeCircuitConfig config =
     (let config = (if FailureThreshold config \<le> 0
            then config\<lparr>FailureThreshold := DefaultCircuitFailureThreshold\<rparr> else config);
          config = (if OpenDuration config \<le> 0
            then config\<lparr>OpenDuration := DefaultCircuitOpenDuration\<rparr> else config);
          config = (if HalfOpenMaxRequests config \<le> 0
            then config\<lparr>HalfOpenMaxRequests := DefaultCircuitHalfOpenMaxRequests\<rparr> else config)
      in config)"

definition NewCircuitBreaker :: "CircuitConfig \<Rightarrow> CircuitBreaker" where
  "NewCircuitBreaker config =
     \<lparr>cb_config = sanitizeCircuitConfig config, cb_state = CircuitClosed,
      cb_failureCount = 0, cb_openedAt = 0, cb_halfOpenInFlight = 0\<rparr>"

definition transitionTo ::
  "time \<Rightarrow> CircuitBreaker \<Rightarrow> CircuitState \<Rightarrow> CircuitTransitionReason \<Rightarrow> CircuitBreaker \<times> CircuitTransition" where
  "transitionTo now b target reason =
     (let prev = cb_state b;
          failureCount = cb_failureCount b;
          b = b\<lparr>cb_state := target\<rparr>;
          b = (case target of
                 CircuitOpen \<Rightarrow> b\<lparr>cb_openedAt := now, cb_halfOpenInFlight := 0\<rparr>
               | CircuitHalfOpen \<Rightarrow> b\<lparr>cb_halfOpenInFlight := 0\<rparr>
               | CircuitClosed \<Rightarrow> b\<lparr>cb_failureCount := 0, cb_halfOpenInFlight := 0\<rparr>)
      in (b, \<lparr>tr_From = prev, tr_To = target, tr_Reason = reason, tr_FailureCount = failureCount\<rparr>))"

definition maybeHalfOpen :: "time \<Rightarrow> CircuitBreaker \<Rightarrow> CircuitBreaker \<times> CircuitTransition option" where
  "maybeHalfOpen now b =
     (if cb_state b \<noteq> CircuitOpen then (b, None)
      else if now - cb_openedAt b < OpenDuration (cb_config b) then (b, None)
      else (let (b, t) = transitionTo now b CircuitHalfOpen CircuitReasonOpenDurationElapsed
            in (b, Some t)))"

definition Peek :: "time \<Rightarrow> CircuitBreaker \<Rightarrow> CircuitBreaker \<times> CircuitState \<times> CircuitTransition option" where
  "Peek now b = (let (b, transition) = maybeHalfOpen now b in (b, cb_state b, transition))"

definition Acquire ::
  "time \<Rightarrow> CircuitBreaker \<Rightarrow> CircuitBreaker \<times> CircuitAcquireOutcome \<times> CircuitTransition option" where
  "Acquire now b =
     (let (b, transition) = maybeHalfOpen now b
      in case cb_state b of
           CircuitClosed \<Rightarrow> (b, CircuitAcquireAccepted, transition)
         | CircuitHalfOpen \<Rightarrow>
             if cb_halfOpenInFlight b \<ge> HalfOpenMaxRequests (cb_config b)
             then (b, CircuitAcquireRejectedHalfOpenLimit, transition)
             else (b\<lparr>cb_halfOpenInFlight := cb_halfOpenInFlight b + 1\<rparr>, CircuitAcquireAccepted, transition)
         | CircuitOpen \<Rightarrow> (b, CircuitAcquireRejectedOpen, transition))"

definition OnSuccess :: "time \<Rightarrow> CircuitBreaker \<Rightarrow> CircuitBreaker \<times> CircuitTransition option" where
  "OnSuccess now b =
     (case cb_state b of
        CircuitHalfOpen \<Rightarrow>
          (let (b, t) = transitionTo now b CircuitClosed CircuitReasonHalfOpenProbeSucceeded in (b, Some t))
      | CircuitClosed \<Rightarrow> (b\<lparr>cb_failureCount := 0\<rparr>, None)
      | CircuitOpen \<Rightarrow> (b, None))"

definition OnFailure :: "time \<Rightarrow> CircuitBreaker \<Rightarrow> CircuitBreaker \<times> CircuitTransition option" where
  "OnFailure now b =
     (case cb_state b of
        CircuitHalfOpen \<Rightarrow>
          (let (b, t) = transitionTo now b CircuitOpen CircuitReasonHalfOpenProbeFailed in (b, Some t))
      | CircuitClosed \<Rightarrow>
          (let b = b\<lparr>cb_failureCount := cb_failureCount b + 1\<rparr>
           in if cb_failureCount b \<ge> FailureThreshold (cb_config b)
              then (let (b, t) = transitionTo now b CircuitOpen CircuitReasonThresholdExceeded in (b, Some t))
              else (b, None))
      | CircuitOpen \<Rightarrow> (b, None))"

definition Reset :: "time \<Rightarrow> CircuitBreaker \<Rightarrow> CircuitBreaker \<times> CircuitTransition option" where
  "Reset now b =
     (if cb_state b = CircuitClosed
      then (b\<lparr>cb_failureCount := 0, cb_halfOpenInFlight := 0\<rparr>, None)
      else (let (b, t) = transitionTo now b CircuitClosed CircuitReasonManualReset in (b, Some t)))"

lemmas circuit_defs =
  transitionTo_def maybeHalfOpen_def Peek_def Acquire_def OnSuccess_def OnFailure_def Reset_def


section \<open>Well-formed breakers\<close>

text \<open>
  The configuration is sanitized; the failure counter never passes the
  threshold and equals it exactly when the breaker is not closed; probe slots
  are only used in the half-open state and never exceed their limit.
\<close>

definition config_ok :: "CircuitConfig \<Rightarrow> bool" where
  "config_ok c \<longleftrightarrow> 0 < FailureThreshold c \<and> 0 < OpenDuration c \<and> 0 < HalfOpenMaxRequests c"

definition circuit_inv :: "CircuitBreaker \<Rightarrow> bool" where
  "circuit_inv b \<longleftrightarrow>
     config_ok (cb_config b) \<and>
     0 \<le> cb_failureCount b \<and> 0 \<le> cb_halfOpenInFlight b \<and>
     (case cb_state b of
        CircuitClosed \<Rightarrow> cb_failureCount b < FailureThreshold (cb_config b) \<and> cb_halfOpenInFlight b = 0
      | CircuitOpen \<Rightarrow> cb_failureCount b = FailureThreshold (cb_config b) \<and> cb_halfOpenInFlight b = 0
      | CircuitHalfOpen \<Rightarrow> cb_failureCount b = FailureThreshold (cb_config b) \<and>
          cb_halfOpenInFlight b \<le> HalfOpenMaxRequests (cb_config b))"

lemma config_ok_sanitize [simp]: "config_ok (sanitizeCircuitConfig c)"
  by (simp add: config_ok_def sanitizeCircuitConfig_def Let_def DefaultCircuitFailureThreshold_def
      DefaultCircuitOpenDuration_def DefaultCircuitHalfOpenMaxRequests_def)

lemma sanitize_ok_id: "config_ok c \<Longrightarrow> sanitizeCircuitConfig c = c"
  by (simp add: config_ok_def sanitizeCircuitConfig_def Let_def)

lemma circuit_inv_new [simp]: "circuit_inv (NewCircuitBreaker c)"
  using config_ok_sanitize [of c] by (simp add: circuit_inv_def NewCircuitBreaker_def config_ok_def)

lemma maybeHalfOpen_inv: "circuit_inv b \<Longrightarrow> circuit_inv (fst (maybeHalfOpen now b))"
  by (auto simp: circuit_inv_def circuit_defs config_ok_def split: CircuitState.splits)

lemma Acquire_inv: "circuit_inv b \<Longrightarrow> circuit_inv (fst (Acquire now b))"
  by (auto simp: circuit_inv_def circuit_defs config_ok_def split: CircuitState.splits)

lemma Peek_inv: "circuit_inv b \<Longrightarrow> circuit_inv (fst (Peek now b))"
  by (auto simp: circuit_inv_def circuit_defs config_ok_def split: CircuitState.splits)

lemma OnSuccess_inv: "circuit_inv b \<Longrightarrow> circuit_inv (fst (OnSuccess now b))"
  by (auto simp: circuit_inv_def circuit_defs config_ok_def split: CircuitState.splits)

lemma OnFailure_inv: "circuit_inv b \<Longrightarrow> circuit_inv (fst (OnFailure now b))"
  by (auto simp: circuit_inv_def circuit_defs config_ok_def Let_def split: CircuitState.splits)

lemma Reset_inv: "circuit_inv b \<Longrightarrow> circuit_inv (fst (Reset now b))"
  by (auto simp: circuit_inv_def circuit_defs config_ok_def split: CircuitState.splits)

lemmas circuit_ops_inv [keeps_inv] =
  Acquire_inv Peek_inv OnSuccess_inv OnFailure_inv Reset_inv

text \<open>A reported transition is the change of state, and every change is reported.\<close>

definition reports_change :: "CircuitBreaker \<Rightarrow> CircuitBreaker \<Rightarrow> CircuitTransition option \<Rightarrow> bool" where
  "reports_change b b' t \<longleftrightarrow>
     (case t of
        None \<Rightarrow> cb_state b' = cb_state b
      | Some t \<Rightarrow> tr_From t = cb_state b \<and> tr_To t = cb_state b' \<and> cb_state b \<noteq> cb_state b')"

lemma circuit_ops_report:
  "reports_change b (fst (Peek now b)) (snd (snd (Peek now b)))"
  "reports_change b (fst (Acquire now b)) (snd (snd (Acquire now b)))"
  "reports_change b (fst (OnSuccess now b)) (snd (OnSuccess now b))"
  "reports_change b (fst (OnFailure now b)) (snd (OnFailure now b))"
  "reports_change b (fst (Reset now b)) (snd (Reset now b))"
  by (auto simp: reports_change_def circuit_defs Let_def split: CircuitState.splits)

section \<open>The contract the tool supervisor relies on\<close>

text \<open>
  A breaker, as its client sees it: five operations that keep an invariant, an
  observable state, fail-fast while open, and a reset that closes.
\<close>

locale breaker_contract =
  fixes peek :: "time \<Rightarrow> 'b \<Rightarrow> 'b \<times> CircuitState \<times> CircuitTransition option"
    and acquire :: "time \<Rightarrow> 'b \<Rightarrow> 'b \<times> CircuitAcquireOutcome \<times> CircuitTransition option"
    and success :: "time \<Rightarrow> 'b \<Rightarrow> 'b \<times> CircuitTransition option"
    and failure :: "time \<Rightarrow> 'b \<Rightarrow> 'b \<times> CircuitTransition option"
    and reset :: "time \<Rightarrow> 'b \<Rightarrow> 'b \<times> CircuitTransition option"
    and state :: "'b \<Rightarrow> CircuitState"
    and inv :: "'b \<Rightarrow> bool"
  assumes peek_inv: "inv b \<Longrightarrow> inv (fst (peek now b))"
    and acquire_inv: "inv b \<Longrightarrow> inv (fst (acquire now b))"
    and success_inv: "inv b \<Longrightarrow> inv (fst (success now b))"
    and failure_inv: "inv b \<Longrightarrow> inv (fst (failure now b))"
    and reset_inv: "inv b \<Longrightarrow> inv (fst (reset now b))"
    and reset_closes: "state (fst (reset now b)) = CircuitClosed"
    and acquire_open: "acquire now b = (b', CircuitAcquireRejectedOpen, t) \<Longrightarrow> state b' = CircuitOpen"
    and acquire_ok: "acquire now b = (b', CircuitAcquireAccepted, t) \<Longrightarrow> state b' \<noteq> CircuitOpen"
    and acquire_limit:
      "acquire now b = (b', CircuitAcquireRejectedHalfOpenLimit, t) \<Longrightarrow> state b' = CircuitHalfOpen"
    and closed_accepts: "state b = CircuitClosed \<Longrightarrow> \<exists>t. acquire now b = (b, CircuitAcquireAccepted, t)"
begin

lemma reset_then_accepts:
  "\<exists>t. acquire now' (fst (reset now b)) = (fst (reset now b), CircuitAcquireAccepted, t)"
  by (rule closed_accepts) (rule reset_closes)

lemma acquire_accepted_can_accept:
  "acquire now b = (b', CircuitAcquireAccepted, t) \<Longrightarrow> CanAccept (state b')"
  using acquire_ok by (cases "state b'") (fastforce simp: CanAccept_def)+

end

interpretation cb: breaker_contract Peek Acquire OnSuccess OnFailure Reset cb_state circuit_inv
  by unfold_locales
    (auto simp: circuit_ops_inv,
     auto simp: circuit_defs Let_def split: CircuitState.splits if_splits prod.splits)

section \<open>Runs of a breaker\<close>

datatype circuit_event =
  EvPeek time | EvAcquire time | EvSuccess time | EvFailure time | EvReset time

fun circuit_step :: "CircuitBreaker \<Rightarrow> circuit_event \<Rightarrow> CircuitBreaker" where
  "circuit_step b (EvPeek now) = fst (Peek now b)"
| "circuit_step b (EvAcquire now) = fst (Acquire now b)"
| "circuit_step b (EvSuccess now) = fst (OnSuccess now b)"
| "circuit_step b (EvFailure now) = fst (OnFailure now b)"
| "circuit_step b (EvReset now) = fst (Reset now b)"

abbreviation circuit_run :: "CircuitBreaker \<Rightarrow> circuit_event list \<Rightarrow> CircuitBreaker" where
  "circuit_run \<equiv> foldl circuit_step"

interpretation cb_run: actor_inv circuit_step circuit_inv
proof unfold_locales
  show "circuit_inv s \<Longrightarrow> circuit_inv (circuit_step s e)" for s e
    by (cases e) (simp_all add: circuit_ops_inv)
qed

lemma circuit_step_config [simp]: "cb_config (circuit_step b e) = cb_config b"
  by (cases e) (auto simp: circuit_defs Let_def split: CircuitState.splits)

lemma circuit_run_config [simp]: "cb_config (circuit_run b es) = cb_config b"
  by (induction es arbitrary: b) simp_all

section \<open>Abstract specification and refinement\<close>

text \<open>
  The specification has no counters outside the states that use them: closed
  with the length of the current run of failures, open since a time, half-open
  with the number of probe slots taken.
\<close>

datatype breaker_spec = SClosed int | SOpen time | SHalfOpen int

fun spec_half :: "CircuitConfig \<Rightarrow> time \<Rightarrow> breaker_spec \<Rightarrow> breaker_spec" where
  "spec_half c now (SOpen t) = (if t + OpenDuration c \<le> now then SHalfOpen 0 else SOpen t)"
| "spec_half c now s = s"

fun spec_take :: "CircuitConfig \<Rightarrow> breaker_spec \<Rightarrow> breaker_spec" where
  "spec_take c (SHalfOpen k) = (if k < HalfOpenMaxRequests c then SHalfOpen (k + 1) else SHalfOpen k)"
| "spec_take c s = s"

fun spec_step :: "CircuitConfig \<Rightarrow> breaker_spec \<Rightarrow> circuit_event \<Rightarrow> breaker_spec" where
  "spec_step c s (EvPeek now) = spec_half c now s"
| "spec_step c s (EvAcquire now) = spec_take c (spec_half c now s)"
| "spec_step c (SHalfOpen k) (EvSuccess now) = SClosed 0"
| "spec_step c (SClosed n) (EvSuccess now) = SClosed 0"
| "spec_step c (SOpen t) (EvSuccess now) = SOpen t"
| "spec_step c (SHalfOpen k) (EvFailure now) = SOpen now"
| "spec_step c (SClosed n) (EvFailure now) =
     (if n + 1 < FailureThreshold c then SClosed (n + 1) else SOpen now)"
| "spec_step c (SOpen t) (EvFailure now) = SOpen t"
| "spec_step c s (EvReset now) = SClosed 0"

definition spec_accepts :: "CircuitConfig \<Rightarrow> time \<Rightarrow> breaker_spec \<Rightarrow> bool" where
  "spec_accepts c now s =
     (case spec_half c now s of SClosed _ \<Rightarrow> True | SOpen _ \<Rightarrow> False | SHalfOpen k \<Rightarrow> k < HalfOpenMaxRequests c)"

definition abs_breaker :: "CircuitBreaker \<Rightarrow> breaker_spec" where
  "abs_breaker b = (case cb_state b of
      CircuitClosed \<Rightarrow> SClosed (cb_failureCount b)
    | CircuitOpen \<Rightarrow> SOpen (cb_openedAt b)
    | CircuitHalfOpen \<Rightarrow> SHalfOpen (cb_halfOpenInFlight b))"

lemma step_refines_spec:
  "abs_breaker (circuit_step b e) = spec_step (cb_config b) (abs_breaker b) e"
  by (cases e; cases "cb_state b") (auto simp: abs_breaker_def circuit_defs Let_def)

lemma accepts_refines_spec:
  "fst (snd (Acquire now b)) = CircuitAcquireAccepted \<longleftrightarrow> spec_accepts (cb_config b) now (abs_breaker b)"
  by (cases "cb_state b") (auto simp: abs_breaker_def spec_accepts_def circuit_defs Let_def)

lemma run_refines_spec:
  "abs_breaker (circuit_run b es) = foldl (spec_step (cb_config b)) (abs_breaker b) es"
  by (induction es arbitrary: b) (simp_all add: step_refines_spec)


section \<open>When the breaker trips\<close>

text \<open>
  Reported outcomes, as the supervisor receives them: a flag that is true for a
  failure, with the time of the report.
\<close>

fun outcome_event :: "bool \<times> time \<Rightarrow> circuit_event" where
  "outcome_event (failed, now) = (if failed then EvFailure now else EvSuccess now)"

fun has_run :: "int \<Rightarrow> int \<Rightarrow> bool list \<Rightarrow> bool" where
  "has_run n k [] = False"
| "has_run n k (failed # os) =
     (if failed then k + 1 \<ge> n \<or> has_run n (k + 1) os else has_run n 0 os)"

abbreviation spec_open :: "breaker_spec \<Rightarrow> bool" where
  "spec_open s \<equiv> (case s of SOpen _ \<Rightarrow> True | _ \<Rightarrow> False)"

lemma spec_outcomes_open:
  "spec_open (foldl (spec_step c) (SOpen t) (map outcome_event os))"
  by (induction os arbitrary: t) (auto split: prod.splits)

lemma spec_outcomes_trip:
  "spec_open (foldl (spec_step c) (SClosed k) (map outcome_event os)) \<longleftrightarrow>
     has_run (FailureThreshold c) k (map fst os)"
proof (induction os arbitrary: k)
  case Nil
  then show ?case by simp
next
  case (Cons x os)
  obtain failed now where x: "x = (failed, now)" by (cases x)
  show ?case
  proof (cases "failed \<and> FailureThreshold c \<le> k + 1")
    case True
    with x spec_outcomes_open [of c now os] show ?thesis by simp
  next
    case False
    with x Cons.IH [of "k + 1"] Cons.IH [of 0] show ?thesis by auto
  qed
qed

lemma failures_not_across_success:
  assumes "k < n"
  shows "sublist (replicate n True) (replicate k True @ False # os) \<longleftrightarrow> sublist (replicate n True) os"
    (is "sublist ?r _ \<longleftrightarrow> _")
proof -
  have short: "\<not> sublist ?r (replicate k True)" "\<not> suffix ?r (replicate k True)"
    using assms by (auto dest: sublist_length_le suffix_length_le)
  have split: "\<not> prefix xs2 (False # os)" if "?r = xs1 @ xs2" "xs2 \<noteq> []" for xs1 xs2
  proof -
    have "set xs2 \<subseteq> set ?r"
      unfolding that(1) by simp
    then have "set xs2 \<subseteq> {True}"
      by (auto split: if_splits)
    with that(2) show ?thesis by (cases xs2) auto
  qed
  have "\<not> prefix ?r (False # os)"
    using split [of "[]" ?r] assms by auto
  moreover have "\<nexists>xs1 xs2. ?r = xs1 @ xs2 \<and> suffix xs1 (replicate k True) \<and> prefix xs2 (False # os)"
    using split short(2) by (metis append_Nil2)
  ultimately show ?thesis
    unfolding sublist_append using short(1) by (auto simp: sublist_Cons_right)
qed

lemma has_run_sublist:
  assumes "k < n"
  shows "has_run (int n) (int k) os \<longleftrightarrow> sublist (replicate n True) (replicate k True @ os)"
  using assms
proof (induction os arbitrary: k)
  case Nil
  then show ?case by (auto dest: sublist_length_le)
next
  case (Cons failed os)
  show ?case
  proof (cases failed)
    case True
    show ?thesis
    proof (cases "Suc k < n")
      case True
      with Cons.IH [OF True] \<open>failed\<close> show ?thesis by (simp add: add.commute replicate_app_Cons_same)
    next
      case False
      with Cons.prems have "n = Suc k" by simp
      then have "sublist (replicate n True) (replicate (Suc k) True @ os)"
        by (metis append_Nil sublist_appendI)
      with False \<open>failed\<close> show ?thesis by (simp add: replicate_app_Cons_same)
    qed
  next
    case False
    with Cons.IH [of 0] Cons.prems failures_not_across_success [of k n os] show ?thesis by simp
  qed
qed

lemma abs_breaker_open: "spec_open (abs_breaker b) \<longleftrightarrow> cb_state b = CircuitOpen"
  by (cases "cb_state b") (simp_all add: abs_breaker_def)

section \<open>Fail-fast, probing and exhausted probe slots\<close>

fun not_reset :: "circuit_event \<Rightarrow> bool" where
  "not_reset (EvReset _) = False"
| "not_reset _ = True"

fun event_time :: "circuit_event \<Rightarrow> time" where
  "event_time (EvPeek t) = t"
| "event_time (EvAcquire t) = t"
| "event_time (EvSuccess t) = t"
| "event_time (EvFailure t) = t"
| "event_time (EvReset t) = t"

lemma open_step:
  assumes "cb_state b = CircuitOpen" "not_reset e"
    and "event_time e < cb_openedAt b + OpenDuration (cb_config b)"
  shows "circuit_step b e = b"
  using assms by (cases e) (auto simp: circuit_defs Let_def)

lemma open_run:
  assumes "cb_state b = CircuitOpen"
    and "\<forall>e \<in> set es. not_reset e \<and> event_time e < cb_openedAt b + OpenDuration (cb_config b)"
  shows "circuit_run b es = b"
  using assms by (induction es) (simp_all add: open_step)

text \<open>The number of acquisitions a breaker grants along a run.\<close>

fun granted :: "CircuitBreaker \<Rightarrow> circuit_event list \<Rightarrow> int" where
  "granted b [] = 0"
| "granted b (EvAcquire now # es) =
     (if fst (snd (Acquire now b)) = CircuitAcquireAccepted then 1 else 0)
       + granted (fst (Acquire now b)) es"
| "granted b (e # es) = granted (circuit_step b e) es"

fun is_query :: "circuit_event \<Rightarrow> bool" where
  "is_query (EvPeek _) = True"
| "is_query (EvAcquire _) = True"
| "is_query _ = False"

fun is_acquire :: "circuit_event \<Rightarrow> bool" where
  "is_acquire (EvAcquire _) = True"
| "is_acquire _ = False"

lemma half_open_peek: "cb_state b = CircuitHalfOpen \<Longrightarrow> Peek now b = (b, CircuitHalfOpen, None)"
  by (simp add: circuit_defs)

lemma half_open_granted:
  assumes "cb_state b = CircuitHalfOpen" "cb_halfOpenInFlight b \<le> HalfOpenMaxRequests (cb_config b)"
    and "\<forall>e \<in> set es. is_query e"
  shows "cb_state (circuit_run b es) = CircuitHalfOpen \<and>
    granted b es = min (HalfOpenMaxRequests (cb_config b) - cb_halfOpenInFlight b)
      (int (length (filter is_acquire es)))"
  using assms
proof (induction es arbitrary: b)
  case Nil
  then show ?case by simp
next
  case (Cons e es)
  show ?case
  proof (cases e)
    case (EvPeek now)
    with Cons show ?thesis by (simp add: half_open_peek)
  next
    case (EvAcquire now)
    with Cons.prems Cons.IH [of b] Cons.IH [of "b\<lparr>cb_halfOpenInFlight := cb_halfOpenInFlight b + 1\<rparr>"]
    show ?thesis by (auto simp: circuit_defs Let_def)
  qed (use Cons.prems in auto)
qed

lemma exhausted_step:
  assumes "cb_state b = CircuitHalfOpen" "cb_halfOpenInFlight b \<ge> HalfOpenMaxRequests (cb_config b)"
    and "is_query e"
  shows "circuit_step b e = b"
  using assms by (cases e) (auto simp: circuit_defs Let_def)

lemma exhausted_acquire:
  assumes "cb_state b = CircuitHalfOpen" "cb_halfOpenInFlight b \<ge> HalfOpenMaxRequests (cb_config b)"
  shows "Acquire now b = (b, CircuitAcquireRejectedHalfOpenLimit, None)"
  using assms by (simp add: circuit_defs)

lemma exhausted_run:
  assumes "cb_state b = CircuitHalfOpen" "cb_halfOpenInFlight b \<ge> HalfOpenMaxRequests (cb_config b)"
    and "\<forall>e \<in> set es. is_query e"
  shows "circuit_run b es = b"
  using assms by (induction es) (simp_all add: exhausted_step)


section \<open>Properties\<close>

text \<open>C9: Along every sequence of operations a new breaker behaves as its
  specification, a three-state machine over the sanitized configuration, and it
  accepts a call exactly when the specification does.\<close>

theorem circuit_refines_spec:
  "abs_breaker (circuit_run (NewCircuitBreaker c) es) =
     foldl (spec_step (sanitizeCircuitConfig c)) (SClosed 0) es \<and>
   (fst (snd (Acquire now (circuit_run (NewCircuitBreaker c) es))) = CircuitAcquireAccepted \<longleftrightarrow>
     spec_accepts (sanitizeCircuitConfig c) now
       (foldl (spec_step (sanitizeCircuitConfig c)) (SClosed 0) es))"
proof -
  have "cb_config (NewCircuitBreaker c) = sanitizeCircuitConfig c"
    and "abs_breaker (NewCircuitBreaker c) = SClosed 0"
    by (simp_all add: NewCircuitBreaker_def abs_breaker_def)
  then show ?thesis
    by (simp add: run_refines_spec accepts_refines_spec)
qed

text \<open>In every reachable state the failure counter is at most the threshold and
  equals it exactly outside the closed state, probe slots are in use only while
  half-open and never more than the configured limit.\<close>

theorem circuit_reachable_inv: "circuit_inv (circuit_run (NewCircuitBreaker c) es)"
  by (rule cb_run.run_keeps) simp

text \<open>C23: A new breaker that only receives outcome reports is open if and only if
  the reports contain a run of consecutive failures of the threshold's length.\<close>

theorem circuit_trips_iff_consecutive_failures:
  "cb_state (circuit_run (NewCircuitBreaker c) (map outcome_event os)) = CircuitOpen \<longleftrightarrow>
     sublist (replicate (nat (FailureThreshold (sanitizeCircuitConfig c))) True) (map fst os)"
proof -
  let ?n = "FailureThreshold (sanitizeCircuitConfig c)"
  have pos: "0 < ?n"
    using config_ok_sanitize [of c] by (simp add: config_ok_def)
  have "cb_state (circuit_run (NewCircuitBreaker c) (map outcome_event os)) = CircuitOpen \<longleftrightarrow>
      has_run ?n 0 (map fst os)"
    unfolding abs_breaker_open [symmetric] run_refines_spec
    by (simp add: NewCircuitBreaker_def abs_breaker_def spec_outcomes_trip)
  also have "\<dots> \<longleftrightarrow> sublist (replicate (nat ?n) True) (map fst os)"
    using has_run_sublist [of 0 "nat ?n" "map fst os"] pos by simp
  finally show ?thesis .
qed

text \<open>An open breaker is unaffected by every operation but a reset and rejects
  every call until its open duration has elapsed; the first call from then on
  is accepted as a half-open probe.\<close>

theorem circuit_fails_fast_then_probes:
  assumes "circuit_inv b" and "cb_state b = CircuitOpen"
    and "\<forall>e \<in> set es. not_reset e \<and> event_time e < cb_openedAt b + OpenDuration (cb_config b)"
  shows "Acquire now (circuit_run b es) =
    (if now < cb_openedAt b + OpenDuration (cb_config b)
     then (b, CircuitAcquireRejectedOpen, None)
     else (b\<lparr>cb_state := CircuitHalfOpen, cb_halfOpenInFlight := 1\<rparr>, CircuitAcquireAccepted,
           Some \<lparr>tr_From = CircuitOpen, tr_To = CircuitHalfOpen,
                 tr_Reason = CircuitReasonOpenDurationElapsed, tr_FailureCount = cb_failureCount b\<rparr>))"
proof -
  have "0 < HalfOpenMaxRequests (cb_config b)"
    using assms(1) by (simp add: circuit_inv_def config_ok_def)
  then show ?thesis
    unfolding open_run [OF assms(2,3)] using assms(2) by (simp add: circuit_defs Let_def)
qed

theorem circuit_fails_fast_then_probes_witness:
  "fst (snd (Acquire (40 * second) (circuit_run
      (circuit_run (NewCircuitBreaker \<lparr>FailureThreshold = 1, OpenDuration = 0, HalfOpenMaxRequests = 0\<rparr>)
        [EvFailure 0]) [EvAcquire second, EvSuccess second]))) = CircuitAcquireAccepted"
proof -
  let ?b = "circuit_run (NewCircuitBreaker \<lparr>FailureThreshold = 1, OpenDuration = 0, HalfOpenMaxRequests = 0\<rparr>)
    [EvFailure 0]"
  have "circuit_inv ?b"
    by (rule cb_run.run_keeps) simp
  moreover have "cb_state ?b = CircuitOpen" "cb_openedAt ?b = 0"
      "OpenDuration (cb_config ?b) = 30 * second"
    by (simp_all add: NewCircuitBreaker_def sanitizeCircuitConfig_def circuit_defs Let_def
        DefaultCircuitOpenDuration_def)
  ultimately show ?thesis
    using circuit_fails_fast_then_probes [of ?b "[EvAcquire second, EvSuccess second]" "40 * second"]
    by simp
qed

text \<open>C24: When the open duration has elapsed, a burst of callers is granted exactly
  as many probes as the configuration allows until an outcome is reported.\<close>

theorem circuit_probe_bound:
  assumes "circuit_inv b" and "cb_state b = CircuitOpen"
    and "cb_openedAt b + OpenDuration (cb_config b) \<le> now"
    and "\<forall>e \<in> set es. is_query e"
  shows "granted b (EvAcquire now # es) =
    min (HalfOpenMaxRequests (cb_config b)) (1 + int (length (filter is_acquire es)))"
proof -
  let ?h = "b\<lparr>cb_state := CircuitHalfOpen, cb_halfOpenInFlight := 1\<rparr>"
  have max: "1 \<le> HalfOpenMaxRequests (cb_config b)"
    using assms(1) by (simp add: circuit_inv_def config_ok_def)
  have "Acquire now b = (?h, CircuitAcquireAccepted,
      Some \<lparr>tr_From = CircuitOpen, tr_To = CircuitHalfOpen,
            tr_Reason = CircuitReasonOpenDurationElapsed, tr_FailureCount = cb_failureCount b\<rparr>)"
    using assms(2,3) max by (simp add: circuit_defs Let_def)
  with half_open_granted [of ?h es] max assms(4) show ?thesis by simp
qed

theorem circuit_probe_bound_witness:
  "granted (circuit_run (NewCircuitBreaker \<lparr>FailureThreshold = 1, OpenDuration = 5, HalfOpenMaxRequests = 2\<rparr>)
      [EvFailure 0]) [EvAcquire 5, EvAcquire 6, EvPeek 7, EvAcquire 8, EvAcquire 1000] = 2"
proof -
  let ?b = "circuit_run (NewCircuitBreaker \<lparr>FailureThreshold = 1, OpenDuration = 5, HalfOpenMaxRequests = 2\<rparr>)
    [EvFailure 0]"
  have "circuit_inv ?b"
    by (rule cb_run.run_keeps) simp
  moreover have "cb_state ?b = CircuitOpen" "cb_openedAt ?b = 0"
      "OpenDuration (cb_config ?b) = 5" "HalfOpenMaxRequests (cb_config ?b) = 2"
    by (simp_all add: NewCircuitBreaker_def sanitizeCircuitConfig_def circuit_defs Let_def)
  ultimately show ?thesis
    using circuit_probe_bound [of ?b 5 "[EvAcquire 6, EvPeek 7, EvAcquire 8, EvAcquire 1000]"]
    by simp
qed

end
