(* ===== verification/Naming.thy ===== *)
theory Naming
  imports Mcp_Types "HOL-Library.Sublist"
begin

text \<open>
  The deterministic actor names of internal/naming/naming.go: one supervisor
  per tool, one session grain per tenant, client and tool.
\<close>

section \<open>Names\<close>

definition ActorNameGatewayManager :: string where "ActorNameGatewayManager = ''gateway-manager''"
definition ActorNameRegistrar :: string where "ActorNameRegistrar = ''registrar''"
definition ActorNameHealth :: string where "ActorNameHealth = ''health''"
definition ActorNameJournal :: string where "ActorNameJournal = ''journal''"
definition ActorNameCredentialBroker :: string where "ActorNameCredentialBroker = ''credential-broker''"
definition ActorNameRouter :: string where "ActorNameRouter = ''router''"
definition ActorNamePolicy :: string where "ActorNamePolicy = ''policy''"

lemmas actor_names =
  ActorNameGatewayManager_def ActorNameRegistrar_def ActorNameHealth_def ActorNameJournal_def
  ActorNameCredentialBroker_def ActorNameRouter_def ActorNamePolicy_def

text \<open>Go's \<open>strings.TrimPrefix\<close>.\<close>

definition TrimPrefix :: "string \<Rightarrow> string \<Rightarrow> string" where
  "TrimPrefix s p = (if prefix p s then drop (length p) s else s)"

definition ToolSupervisorName :: "ToolID \<Rightarrow> string" where
  "ToolSupervisorName toolID = ''supervisor-'' @ toolID"

definition ToolIDFromSupervisorName :: "string \<Rightarrow> ToolID" where
  "ToolIDFromSupervisorName name = TrimPrefix name ''supervisor-''"

definition SessionName :: "TenantID \<Rightarrow> ClientID \<Rightarrow> ToolID \<Rightarrow> string" where
  "SessionName tenantID clientID toolID =
     ''session-'' @ tenantID @ ''-'' @ clientID @ ''-'' @ toolID"

section \<open>Separators\<close>

lemma separator_inject:
  assumes "x @ s # a = y @ s # b" and "s \<notin> set x" and "s \<notin> set y"
  shows "x = y \<and> a = b"
  using assms
proof (induction x arbitrary: y)
  case Nil
  then show ?case by (cases y) auto
next
  case (Cons c x)
  then show ?case by (cases y) auto
qed

lemma ToolSupervisorName_inject [simp]: "ToolSupervisorName a = ToolSupervisorName b \<longleftrightarrow> a = b"
  by (simp add: ToolSupervisorName_def)

lemma ToolID_of_SupervisorName [simp]: "ToolIDFromSupervisorName (ToolSupervisorName t) = t"
  by (simp add: ToolIDFromSupervisorName_def ToolSupervisorName_def TrimPrefix_def)

lemma SessionName_eqD:
  assumes "SessionName t c u = SessionName t' c' u'"
    and "CHR ''-'' \<notin> set t" "CHR ''-'' \<notin> set t'" "CHR ''-'' \<notin> set c" "CHR ''-'' \<notin> set c'"
  shows "t = t' \<and> c = c' \<and> u = u'"
proof -
  have "t @ CHR ''-'' # (c @ CHR ''-'' # u) = t' @ CHR ''-'' # (c' @ CHR ''-'' # u')"
    using assms(1) by (simp add: SessionName_def)
  from separator_inject [OF this assms(2,3)]
  have "t = t'" and "c @ CHR ''-'' # u = c' @ CHR ''-'' # u'" by simp_all
  with separator_inject [OF this(2) assms(4,5)] show ?thesis by simp
qed

lemma SessionName_collision:
  "SessionName (a @ ''-'' @ b) c u = SessionName a (b @ ''-'' @ c) u"
  by (simp add: SessionName_def)

section \<open>Properties\<close>

text \<open>A supervisor's tool is recovered from its actor name, and the name of a
  supervisor is never the name of a foundational actor.\<close>

theorem supervisor_name_roundtrip:
  "ToolIDFromSupervisorName (ToolSupervisorName t) = t \<and>
   ToolSupervisorName t \<notin> {ActorNameGatewayManager, ActorNameRegistrar, ActorNameHealth,
     ActorNameJournal, ActorNameCredentialBroker, ActorNameRouter, ActorNamePolicy}"
  by simp (simp add: ToolSupervisorName_def actor_names)

text \<open>Session names identify their tenant, client and tool as long as tenant and
  client identifiers contain no dash; a dash makes sessions of different tenants
  share a name.\<close>

theorem session_name_injective:
  "(CHR ''-'' \<notin> set t \<and> CHR ''-'' \<notin> set t' \<and> CHR ''-'' \<notin> set c \<and> CHR ''-'' \<notin> set c' \<longrightarrow>
      (SessionName t c u = SessionName t' c' u') = (t = t' \<and> c = c' \<and> u = u')) \<and>
   SessionName (a @ ''-'' @ b) d u = SessionName a (b @ ''-'' @ d) u"
  by (rule conjI, blast dest: SessionName_eqD, rule SessionName_collision)

theorem session_name_injective_witness:
  "SessionName ''acme'' ''web'' ''fs'' \<noteq> SessionName ''globex'' ''web'' ''fs'' \<and>
   SessionName ''acme-eu'' ''web'' ''fs'' = SessionName ''acme'' ''eu-web'' ''fs''"
  using session_name_injective [of "''acme''" "''globex''" "''web''" "''web''" "''fs''" "''fs''"
      "''acme''" "''eu''" "''web''"]
  by simp

end
