(* ===== verification/Tls.thy ===== *)
theory Tls
  imports Mcp_Types
begin

text \<open>
  TLS settings (internal/security/tls.go): the configurations for a server, for an
  outbound connection and for the remoting of a cluster, from files named in the
  configuration. Reading files and parsing certificates are the functions of a record;
  certificates are handles. What every caller relies on is stated once, as the shape of a
  hardened configuration.
\<close>

section \<open>Configurations\<close>

datatype TLSVersion = VersionTLS10 | VersionTLS11 | VersionTLS12 | VersionTLS13

datatype CipherSuite =
    TLS_ECDHE_ECDSA_WITH_AES_128_GCM_SHA256
  | TLS_ECDHE_RSA_WITH_AES_128_GCM_SHA256
  | TLS_ECDHE_ECDSA_WITH_AES_256_GCM_SHA384
  | TLS_ECDHE_RSA_WITH_AES_256_GCM_SHA384
  | TLS_ECDHE_ECDSA_WITH_CHACHA20_POLY1305_SHA256
  | TLS_ECDHE_RSA_WITH_CHACHA20_POLY1305_SHA256
  | OtherCipherSuite nat

datatype CurveID = X25519 | CurveP256 | CurveP384 | OtherCurve nat
datatype ClientAuthType = NoClientCert | RequireAndVerifyClientCert
datatype RenegotiationSupport = RenegotiateNever

text \<open>A pool of certificates is \<open>None\<close> where the field is nil, which stands for the system's roots.\<close>

record tls_Config =
  tc_Certificates :: "handle list"
  tc_MinVersion :: TLSVersion
  tc_CipherSuites :: "CipherSuite list"
  tc_CurvePreferences :: "CurveID list"
  tc_RootCAs :: "handle list option"
  tc_ClientCAs :: "handle list option"
  tc_ClientAuth :: ClientAuthType
  tc_Renegotiation :: RenegotiationSupport
  tc_InsecureSkipVerify :: bool

definition productionCipherSuites :: "CipherSuite list" where
  "productionCipherSuites =
     [TLS_ECDHE_ECDSA_WITH_AES_128_GCM_SHA256,
      TLS_ECDHE_RSA_WITH_AES_128_GCM_SHA256,
      TLS_ECDHE_ECDSA_WITH_AES_256_GCM_SHA384,
      TLS_ECDHE_RSA_WITH_AES_256_GCM_SHA384,
      TLS_ECDHE_ECDSA_WITH_CHACHA20_POLY1305_SHA256,
      TLS_ECDHE_RSA_WITH_CHACHA20_POLY1305_SHA256]"

definition productionCurvePreferences :: "CurveID list" where
  "productionCurvePreferences = [X25519, CurveP256, CurveP384]"

text \<open>A configuration with the production settings and nothing loaded.\<close>

abbreviation production_config :: tls_Config where
  "production_config \<equiv>
     \<lparr>tc_Certificates = [], tc_MinVersion = VersionTLS12, tc_CipherSuites = productionCipherSuites,
      tc_CurvePreferences = productionCurvePreferences, tc_RootCAs = None, tc_ClientCAs = None,
      tc_ClientAuth = NoClientCert, tc_Renegotiation = RenegotiateNever, tc_InsecureSkipVerify = False\<rparr>"

section \<open>Loading\<close>

text \<open>
  \<open>pki_CertsFromPEM\<close> gives the certificates that parse; appending them to a pool reports
  success when there is at least one.
\<close>

record pki =
  pki_LoadX509KeyPair :: "string \<Rightarrow> string \<Rightarrow> go_error + handle"
  pki_ReadFile :: "string \<Rightarrow> go_error + string"
  pki_CertsFromPEM :: "string \<Rightarrow> handle list"

text \<open>No files at all.\<close>

definition no_pki :: pki where
  "no_pki = \<lparr>pki_LoadX509KeyPair = (\<lambda>_ _. Inl (PlainErr ''no such file'')),
     pki_ReadFile = (\<lambda>_. Inl (PlainErr ''no such file'')), pki_CertsFromPEM = (\<lambda>_. [])\<rparr>"

abbreviation errorf :: "string \<Rightarrow> go_error \<Rightarrow> go_error" where
  "errorf what err \<equiv> WrapErr (what @ '': '' @ error_text err) err"

definition load_pool :: "pki \<Rightarrow> string \<Rightarrow> string \<Rightarrow> go_error + handle list" where
  "load_pool pk what path =
     (case pki_ReadFile pk path of
        Inl err \<Rightarrow> Inl (errorf (''read '' @ what) err)
      | Inr pem \<Rightarrow>
          if pki_CertsFromPEM pk pem = [] then Inl (PlainErr (''parse '' @ what @ '': no valid certificates''))
          else Inr (pki_CertsFromPEM pk pem))"

definition BuildServerTLSConfig :: "pki \<Rightarrow> string \<Rightarrow> string \<Rightarrow> string \<Rightarrow> go_error + tls_Config" where
  "BuildServerTLSConfig pk certFile keyFile clientCAFile =
     (case pki_LoadX509KeyPair pk certFile keyFile of
        Inl err \<Rightarrow> Inl (errorf ''load server cert'' err)
      | Inr cert \<Rightarrow>
          (let tlsConfig = production_config\<lparr>tc_Certificates := [cert]\<rparr>
           in if clientCAFile \<noteq> '''' then
                (case load_pool pk ''client CA'' clientCAFile of
                   Inl err \<Rightarrow> Inl err
                 | Inr pool \<Rightarrow>
                     Inr (tlsConfig\<lparr>tc_ClientCAs := Some pool, tc_ClientAuth := RequireAndVerifyClientCert\<rparr>))
              else Inr tlsConfig))"

definition BuildClientTLSConfig :: "pki \<Rightarrow> TLSClientConfig option \<Rightarrow> go_error + tls_Config option" where
  "BuildClientTLSConfig pk config =
     (case config of
        None \<Rightarrow> Inr None
      | Some c \<Rightarrow>
     if tls_InsecureSkipVerify c \<and> tls_CACertFile c \<noteq> '''' then
       Inl (PlainErr ''TLS client config: InsecureSkipVerify and CACertFile are mutually exclusive'')
     else
     (let hasClientCert = (tls_ClientCertFile c \<noteq> '''');
          hasClientKey = (tls_ClientKeyFile c \<noteq> '''')
      in if hasClientCert \<noteq> hasClientKey then
           Inl (PlainErr ''TLS client config: ClientCertFile and ClientKeyFile must both be set or both be empty'')
         else
           (let tlsConfig = production_config\<lparr>tc_InsecureSkipVerify := tls_InsecureSkipVerify c\<rparr>
            in case (if tls_CACertFile c \<noteq> '''' then
                       (case load_pool pk ''CA cert'' (tls_CACertFile c) of
                          Inl err \<Rightarrow> Inl err
                        | Inr pool \<Rightarrow> Inr (tlsConfig\<lparr>tc_RootCAs := Some pool\<rparr>))
                     else Inr tlsConfig) of
                 Inl err \<Rightarrow> Inl err
               | Inr tlsConfig \<Rightarrow>
                   if hasClientCert then
                     (case pki_LoadX509KeyPair pk (tls_ClientCertFile c) (tls_ClientKeyFile c) of
                        Inl err \<Rightarrow> Inl (errorf ''load client cert'' err)
                      | Inr cert \<Rightarrow> Inr (Some (tlsConfig\<lparr>tc_Certificates := [cert]\<rparr>)))
                   else Inr (Some tlsConfig))))"

record RemotingTLSConfig =
  rtls_CertFile :: string
  rtls_KeyFile :: string
  rtls_ClientCAFile :: string
  rtls_CACertFile :: string
  rtls_ClientCertFile :: string
  rtls_ClientKeyFile :: string
  rtls_InsecureSkipVerify :: bool

record tls_Info =
  ti_ServerConfig :: tls_Config
  ti_ClientConfig :: tls_Config

definition BuildRemotingTLSInfo :: "pki \<Rightarrow> RemotingTLSConfig option \<Rightarrow> go_error + tls_Info option" where
  "BuildRemotingTLSInfo pk config =
     (case config of
        None \<Rightarrow> Inr None
      | Some c \<Rightarrow>
     if rtls_CertFile c = '''' \<or> rtls_KeyFile c = '''' then
       Inl (PlainErr ''remoting TLS: CertFile and KeyFile are required'')
     else
     (case BuildServerTLSConfig pk (rtls_CertFile c) (rtls_KeyFile c) (rtls_ClientCAFile c) of
        Inl err \<Rightarrow> Inl (errorf ''remoting TLS server'' err)
      | Inr serverCfg \<Rightarrow>
     (case BuildClientTLSConfig pk
             (Some \<lparr>tls_CACertFile = rtls_CACertFile c, tls_ClientCertFile = rtls_ClientCertFile c,
                    tls_ClientKeyFile = rtls_ClientKeyFile c, tls_InsecureSkipVerify = rtls_InsecureSkipVerify c\<rparr>) of
        Inl err \<Rightarrow> Inl (errorf ''remoting TLS client'' err)
      | Inr clientCfg \<Rightarrow>
          Inr (Some \<lparr>ti_ServerConfig = serverCfg,
            ti_ClientConfig = (case clientCfg of
               None \<Rightarrow> production_config\<lparr>tc_CipherSuites := [], tc_CurvePreferences := []\<rparr>
             | Some cfg \<Rightarrow> cfg)\<rparr>))))"

section \<open>Hardened configurations\<close>

text \<open>
  What the files and flags of an outbound configuration promise: the production
  protocol settings, the peer verified against the given CA and nothing else unless
  verification was switched off, which excludes a CA, and the given client certificate.
\<close>

definition hardened :: "tls_Config \<Rightarrow> bool" where
  "hardened cfg \<longleftrightarrow> tc_MinVersion cfg = VersionTLS12 \<and> tc_CipherSuites cfg = productionCipherSuites \<and>
     tc_CurvePreferences cfg = productionCurvePreferences \<and> tc_Renegotiation cfg = RenegotiateNever"

definition trusts_file :: "pki \<Rightarrow> string \<Rightarrow> handle list option \<Rightarrow> bool" where
  "trusts_file pk path pool \<longleftrightarrow>
     (if path = '''' then pool = None
      else \<exists>pem. pki_ReadFile pk path = Inr pem \<and> pool = Some (pki_CertsFromPEM pk pem) \<and> pki_CertsFromPEM pk pem \<noteq> [])"

definition presents_pair :: "pki \<Rightarrow> string \<Rightarrow> string \<Rightarrow> handle list \<Rightarrow> bool" where
  "presents_pair pk certFile keyFile certs \<longleftrightarrow>
     (if certFile = '''' then keyFile = '''' \<and> certs = []
      else keyFile \<noteq> '''' \<and> (\<exists>cert. pki_LoadX509KeyPair pk certFile keyFile = Inr cert \<and> certs = [cert]))"

definition client_config_for :: "pki \<Rightarrow> TLSClientConfig \<Rightarrow> tls_Config \<Rightarrow> bool" where
  "client_config_for pk c cfg \<longleftrightarrow> hardened cfg \<and>
     tc_InsecureSkipVerify cfg = tls_InsecureSkipVerify c \<and> (tls_InsecureSkipVerify c \<longrightarrow> tls_CACertFile c = '''') \<and>
     trusts_file pk (tls_CACertFile c) (tc_RootCAs cfg) \<and>
     presents_pair pk (tls_ClientCertFile c) (tls_ClientKeyFile c) (tc_Certificates cfg) \<and>
     tc_ClientCAs cfg = None \<and> tc_ClientAuth cfg = NoClientCert"

lemma load_pool_Inr: "load_pool pk what path = Inr pool \<Longrightarrow> path \<noteq> '''' \<Longrightarrow> trusts_file pk path (Some pool)"
  by (auto simp: load_pool_def trusts_file_def split: sum.splits if_splits)

lemma load_pool_trusts:
  assumes "path \<noteq> ''''"
  shows "(\<exists>pool. load_pool pk what path = Inr pool) \<longleftrightarrow> (\<exists>pool. trusts_file pk path pool)"
  using assms by (auto simp: load_pool_def trusts_file_def split: sum.splits if_splits)

lemma client_config_sound:
  assumes "BuildClientTLSConfig pk (Some c) = Inr r"
  shows "\<exists>cfg. r = Some cfg \<and> client_config_for pk c cfg"
  using assms
  by (auto simp: BuildClientTLSConfig_def client_config_for_def hardened_def presents_pair_def Let_def
      intro: load_pool_Inr split: if_splits sum.splits) (auto simp: trusts_file_def)

lemma load_pool_eq:
  assumes "pki_ReadFile pk path = Inr pem" and "pki_CertsFromPEM pk pem \<noteq> []"
  shows "load_pool pk what path = Inr (pki_CertsFromPEM pk pem)"
  using assms by (simp add: load_pool_def)

lemma trusts_file_unique: "trusts_file pk path p \<Longrightarrow> trusts_file pk path q \<Longrightarrow> p = q"
  by (auto simp: trusts_file_def split: if_splits)

lemma presents_pair_unique: "presents_pair pk c k p \<Longrightarrow> presents_pair pk c k q \<Longrightarrow> p = q"
  by (auto simp: presents_pair_def split: if_splits)

lemma client_config_unique:
  "client_config_for pk c cfg \<Longrightarrow> client_config_for pk c cfg' \<Longrightarrow> cfg = cfg'"
  unfolding client_config_for_def hardened_def
  by (rule tls_Config.equality) (auto dest: trusts_file_unique presents_pair_unique)

lemma client_config_complete:
  assumes "client_config_for pk c cfg"
  shows "BuildClientTLSConfig pk (Some c) = Inr (Some cfg)"
proof -
  have files: "trusts_file pk (tls_CACertFile c) (tc_RootCAs cfg)"
      "presents_pair pk (tls_ClientCertFile c) (tls_ClientKeyFile c) (tc_Certificates cfg)"
      "\<not> (tls_InsecureSkipVerify c \<and> tls_CACertFile c \<noteq> [])"
    using assms by (auto simp: client_config_for_def)
  obtain pool where pool: "tls_CACertFile c \<noteq> [] \<Longrightarrow> load_pool pk ''CA cert'' (tls_CACertFile c) = Inr pool"
    using files(1) load_pool_trusts by blast
  from files(2) consider (bare) "tls_ClientCertFile c = []" "tls_ClientKeyFile c = []"
    | (pair) cert where "tls_ClientCertFile c \<noteq> []" "tls_ClientKeyFile c \<noteq> []"
        "pki_LoadX509KeyPair pk (tls_ClientCertFile c) (tls_ClientKeyFile c) = Inr cert"
    by (auto simp: presents_pair_def split: if_splits)
  then have "\<exists>r. BuildClientTLSConfig pk (Some c) = Inr r"
    using files(3) pool by cases (cases "tls_CACertFile c = []"; simp add: BuildClientTLSConfig_def Let_def)+
  then obtain r where r: "BuildClientTLSConfig pk (Some c) = Inr r" by blast
  with client_config_sound [OF r] client_config_unique assms show ?thesis by blast
qed

definition server_config_for :: "pki \<Rightarrow> string \<Rightarrow> string \<Rightarrow> string \<Rightarrow> tls_Config \<Rightarrow> bool" where
  "server_config_for pk certFile keyFile clientCAFile cfg \<longleftrightarrow> hardened cfg \<and>
     (\<exists>cert. pki_LoadX509KeyPair pk certFile keyFile = Inr cert \<and> tc_Certificates cfg = [cert]) \<and>
     trusts_file pk clientCAFile (tc_ClientCAs cfg) \<and>
     tc_ClientAuth cfg = (if clientCAFile = '''' then NoClientCert else RequireAndVerifyClientCert) \<and>
     tc_RootCAs cfg = None \<and> \<not> tc_InsecureSkipVerify cfg"

lemma server_config_sound:
  assumes "BuildServerTLSConfig pk certFile keyFile clientCAFile = Inr cfg"
  shows "server_config_for pk certFile keyFile clientCAFile cfg"
  using assms
  by (auto simp: BuildServerTLSConfig_def server_config_for_def hardened_def Let_def
      intro: load_pool_Inr split: if_splits sum.splits) (auto simp: trusts_file_def)

lemma server_config_unique:
  "server_config_for pk a b c cfg \<Longrightarrow> server_config_for pk a b c cfg' \<Longrightarrow> cfg = cfg'"
  unfolding server_config_for_def hardened_def
  by (rule tls_Config.equality) (auto dest: trusts_file_unique)

lemma server_config_complete:
  assumes "server_config_for pk certFile keyFile clientCAFile cfg"
  shows "BuildServerTLSConfig pk certFile keyFile clientCAFile = Inr cfg"
proof -
  obtain cert where cert: "pki_LoadX509KeyPair pk certFile keyFile = Inr cert"
    using assms by (auto simp: server_config_for_def)
  have trust: "trusts_file pk clientCAFile (tc_ClientCAs cfg)" using assms by (simp add: server_config_for_def)
  have "\<exists>cfg. BuildServerTLSConfig pk certFile keyFile clientCAFile = Inr cfg"
  proof (cases "clientCAFile = []")
    case True
    with cert show ?thesis by (simp add: BuildServerTLSConfig_def)
  next
    case False
    with trust obtain pool where "load_pool pk ''client CA'' clientCAFile = Inr pool"
      using load_pool_trusts by blast
    with False cert show ?thesis by (simp add: BuildServerTLSConfig_def)
  qed
  with server_config_sound server_config_unique assms show ?thesis by blast
qed

lemma server_config_iff:
  "BuildServerTLSConfig pk certFile keyFile clientCAFile = Inr cfg \<longleftrightarrow>
     server_config_for pk certFile keyFile clientCAFile cfg"
  using server_config_sound server_config_complete by blast

lemma client_config_iff:
  "BuildClientTLSConfig pk (Some c) = Inr r \<longleftrightarrow> (\<exists>cfg. r = Some cfg \<and> client_config_for pk c cfg)"
  using client_config_sound client_config_complete by blast

section \<open>Properties\<close>

text \<open>The outbound TLS configuration is built exactly when the settings can be honoured, and then
  honours them: the production protocol settings, the peer verified against the
  certificates of the given CA file and nothing else, verification off only when the
  settings say so and name no CA, and the given client certificate.\<close>

theorem client_tls_config_iff:
  "BuildClientTLSConfig pk (Some c) = Inr r \<longleftrightarrow> (\<exists>cfg. r = Some cfg \<and> client_config_for pk c cfg)"
  by (rule client_config_iff)

text \<open>The TLS settings of a cluster are built exactly when both sides can be: a server side that
  presents the node's certificate and, when a client CA is given, refuses clients
  without a certificate of that CA, and an outbound side as for a tool.\<close>

theorem remoting_tls_info_iff:
  "BuildRemotingTLSInfo pk (Some c) = Inr (Some info) \<longleftrightarrow>
     rtls_CertFile c \<noteq> '''' \<and> rtls_KeyFile c \<noteq> '''' \<and>
     server_config_for pk (rtls_CertFile c) (rtls_KeyFile c) (rtls_ClientCAFile c) (ti_ServerConfig info) \<and>
     client_config_for pk
       \<lparr>tls_CACertFile = rtls_CACertFile c, tls_ClientCertFile = rtls_ClientCertFile c,
        tls_ClientKeyFile = rtls_ClientKeyFile c, tls_InsecureSkipVerify = rtls_InsecureSkipVerify c\<rparr>
       (ti_ClientConfig info)"
  by (cases info) (auto simp: BuildRemotingTLSInfo_def server_config_iff client_config_iff
      dest: server_config_complete server_config_unique client_config_complete client_config_unique
      split: sum.splits option.splits)

end
