(* ===== verification/Mcp_Config.thy ===== *)
theory Mcp_Config
  imports Mcp_Types Tls
begin

text \<open>
  Tool validation (mcp/tool_validation.go), the gateway configuration
  (mcp/config.go), its defaults and its validation (internal/runtime/config)
  and the cluster predicate of internal/runtime/cluster. A nil slice and an
  empty one are both the empty list. User-supplied objects are named by
  numbers, except the tenants' evaluators and the credential providers, which
  are functions.
\<close>

section \<open>Tool validation\<close>

definition validateGRPCTool :: "Tool \<Rightarrow> go_error option" where
  "validateGRPCTool tool =
     (case tool_GRPC tool of
        None \<Rightarrow> Some (rt_error ErrCodeInvalidRequest ''grpc tool must have non-nil GRPC config'')
      | Some g \<Rightarrow>
          if grpc_Target g = '''' then
            Some (rt_error ErrCodeInvalidRequest ''grpc tool must have non-empty target'')
          else if grpc_Service g = '''' then
            Some (rt_error ErrCodeInvalidRequest ''grpc tool must have non-empty service'')
          else
            (let hasDescriptor = grpc_DescriptorSet g \<noteq> '''';
                 hasReflection = grpc_Reflection g
             in if hasDescriptor \<and> hasReflection then
                  Some (rt_error ErrCodeInvalidRequest ''grpc tool must set DescriptorSet or Reflection, not both'')
                else if \<not> hasDescriptor \<and> \<not> hasReflection then
                  Some (rt_error ErrCodeInvalidRequest ''grpc tool must set either DescriptorSet or Reflection'')
                else None))"

definition ValidateTool :: "Tool \<Rightarrow> go_error option" where
  "ValidateTool tool =
     (if IsZero (tool_ID tool) then Some (rt_error ErrCodeInvalidRequest ''tool ID is required'')
      else case tool_Transport tool of
        TransportStdio \<Rightarrow>
          (case tool_Stdio tool of
             None \<Rightarrow> Some (rt_error ErrCodeInvalidRequest ''stdio tool must have non-empty command'')
           | Some s \<Rightarrow>
               if stdio_Command s = ''''
               then Some (rt_error ErrCodeInvalidRequest ''stdio tool must have non-empty command'')
               else None)
      | TransportHTTP \<Rightarrow>
          (case tool_HTTP tool of
             None \<Rightarrow> Some (rt_error ErrCodeInvalidRequest ''http tool must have non-empty URL'')
           | Some h \<Rightarrow>
               if http_URL h = ''''
               then Some (rt_error ErrCodeInvalidRequest ''http tool must have non-empty URL'')
               else None)
      | TransportGRPC \<Rightarrow> validateGRPCTool tool
      | TransportOther _ \<Rightarrow>
          Some (rt_error ErrCodeInvalidRequest ''transport must be stdio, http, or grpc''))"

text \<open>What validation guarantees, stated without the order of the checks.\<close>

definition transport_ok :: "Tool \<Rightarrow> bool" where
  "transport_ok tool =
     (case tool_Transport tool of
        TransportStdio \<Rightarrow> (\<exists>s. tool_Stdio tool = Some s \<and> stdio_Command s \<noteq> '''')
      | TransportHTTP \<Rightarrow> (\<exists>h. tool_HTTP tool = Some h \<and> http_URL h \<noteq> '''')
      | TransportGRPC \<Rightarrow> (\<exists>g. tool_GRPC tool = Some g \<and> grpc_Target g \<noteq> '''' \<and> grpc_Service g \<noteq> '''' \<and>
          (grpc_DescriptorSet g \<noteq> '''') \<noteq> grpc_Reflection g)
      | TransportOther _ \<Rightarrow> False)"

lemma ValidateTool_None_iff:
  "ValidateTool tool = None \<longleftrightarrow> tool_ID tool \<noteq> '''' \<and> transport_ok tool"
  by (auto simp: ValidateTool_def validateGRPCTool_def transport_ok_def IsZero_def Let_def
      split: TransportType.splits option.splits if_splits)

lemma ValidateTool_Some:
  "ValidateTool tool = Some e \<Longrightarrow> \<exists>m. e = rt_error ErrCodeInvalidRequest m"
  by (auto simp: ValidateTool_def validateGRPCTool_def Let_def
      split: TransportType.splits option.splits if_splits)

section \<open>Configuration\<close>

definition DefaultSessionIdleTimeout :: duration where "DefaultSessionIdleTimeout = 5 * minute"
definition DefaultRequestTimeout :: duration where "DefaultRequestTimeout = 30 * second"
definition DefaultStartupTimeout :: duration where "DefaultStartupTimeout = 10 * second"
definition DefaultHealthProbeInterval :: duration where "DefaultHealthProbeInterval = 30 * second"
definition DefaultHealthProbeTimeout :: duration where "DefaultHealthProbeTimeout = 10 * second"
definition DefaultShutdownTimeout :: duration where "DefaultShutdownTimeout = 30 * second"
definition DefaultMaxCacheEntries :: int where "DefaultMaxCacheEntries = 1000"
definition DefaultAuditMailboxSize :: int where "DefaultAuditMailboxSize = 1024"

lemmas default_values =
  DefaultSessionIdleTimeout_def DefaultRequestTimeout_def DefaultStartupTimeout_def
  DefaultHealthProbeInterval_def DefaultHealthProbeTimeout_def DefaultShutdownTimeout_def
  DefaultMaxCacheEntries_def DefaultAuditMailboxSize_def

record RuntimeConfig =
  rt_SessionIdleTimeout :: duration
  rt_RequestTimeout :: duration
  rt_StartupTimeout :: duration
  rt_HealthProbeInterval :: duration
  rt_ShutdownTimeout :: duration

text \<open>An interface value holding a discovery provider: nil, a nil pointer of some type, or an object.\<close>

datatype DiscoveryProvider = NilInterface | TypedNilPointer | ProviderObject handle

record ClusterConfig =
  cl_Enabled :: bool
  cl_DiscoveryProvider :: DiscoveryProvider
  cl_RegistrarRole :: string
  cl_DiscoveryPort :: int
  cl_PeersPort :: int
  cl_RemotingPort :: int
  cl_TLS :: "RemotingTLSConfig option"

text \<open>A credential provider: its identifier and its answer, an error, nothing, or credentials.
  What it answers may change, so the answer depends on the moment of the call.\<close>

record CredentialsProvider =
  prov_ID :: string
  prov_Resolve :: "time \<Rightarrow> TenantID \<Rightarrow> ToolID \<Rightarrow> go_error + Credentials option"

record CredentialsConfig =
  cc_Providers :: "CredentialsProvider list"
  cc_CacheTTL :: duration
  cc_MaxCacheEntries :: int

record HealthProbeConfig =
  hp_Interval :: duration
  hp_Timeout :: duration

record AuditConfig =
  ac_Sink :: "handle option"
  ac_MailboxSize :: int

record Config =
  cfg_LogLevel :: string
  cfg_Runtime :: RuntimeConfig
  cfg_Cluster :: ClusterConfig
  cfg_OTLPEndpoint :: string
  cfg_Audit :: AuditConfig
  cfg_Credentials :: CredentialsConfig
  cfg_Tenants :: "TenantConfig list"
  cfg_HealthProbe :: HealthProbeConfig
  cfg_Tools :: "Tool list"

section \<open>Defaults\<close>

abbreviation or_default :: "int \<Rightarrow> int \<Rightarrow> int" where
  "or_default v d \<equiv> (if v \<le> 0 then d else v)"

definition ApplyDefaults :: "Config \<Rightarrow> Config" where
  "ApplyDefaults cfg =
     cfg\<lparr>cfg_Runtime :=
           \<lparr>rt_SessionIdleTimeout = or_default (rt_SessionIdleTimeout (cfg_Runtime cfg)) DefaultSessionIdleTimeout,
            rt_RequestTimeout = or_default (rt_RequestTimeout (cfg_Runtime cfg)) DefaultRequestTimeout,
            rt_StartupTimeout = or_default (rt_StartupTimeout (cfg_Runtime cfg)) DefaultStartupTimeout,
            rt_HealthProbeInterval = or_default (rt_HealthProbeInterval (cfg_Runtime cfg)) DefaultHealthProbeInterval,
            rt_ShutdownTimeout = or_default (rt_ShutdownTimeout (cfg_Runtime cfg)) DefaultShutdownTimeout\<rparr>,
         cfg_HealthProbe := (cfg_HealthProbe cfg)
           \<lparr>hp_Timeout := or_default (hp_Timeout (cfg_HealthProbe cfg)) DefaultHealthProbeTimeout\<rparr>,
         cfg_Credentials := (cfg_Credentials cfg)
           \<lparr>cc_MaxCacheEntries := or_default (cc_MaxCacheEntries (cfg_Credentials cfg)) DefaultMaxCacheEntries\<rparr>,
         cfg_Audit := (cfg_Audit cfg)
           \<lparr>ac_MailboxSize := or_default (ac_MailboxSize (cfg_Audit cfg)) DefaultAuditMailboxSize\<rparr>\<rparr>"

section \<open>Tool configurations (config.go)\<close>

record ToolConfig =
  tc_ID :: ToolID
  tc_Transport :: TransportType
  tc_Command :: string
  tc_Args :: "string list"
  tc_Env :: strmap
  tc_WorkingDirectory :: string
  tc_URL :: string
  tc_HTTPTLS :: "TLSClientConfig option"
  tc_StartupTimeout :: duration
  tc_RequestTimeout :: duration
  tc_IdleTimeout :: duration
  tc_Routing :: RoutingMode
  tc_CredentialPolicy :: CredentialPolicy
  tc_AuthorizationPolicy :: AuthorizationPolicy

definition ToolConfigToTool :: "ToolConfig \<Rightarrow> RuntimeConfig \<Rightarrow> Tool" where
  "ToolConfigToTool c d =
     \<lparr>tool_ID = tc_ID c,
      tool_Transport = tc_Transport c,
      tool_Stdio = (case tc_Transport c of
          TransportStdio \<Rightarrow> Some \<lparr>stdio_Command = tc_Command c, stdio_Args = tc_Args c,
            stdio_Env = tc_Env c, stdio_WorkingDirectory = tc_WorkingDirectory c\<rparr>
        | _ \<Rightarrow> None),
      tool_HTTP = (case tc_Transport c of
          TransportHTTP \<Rightarrow> Some \<lparr>http_URL = tc_URL c, http_TLS = tc_HTTPTLS c, http_OAuthHandler = None\<rparr>
        | _ \<Rightarrow> None),
      tool_GRPC = None,
      tool_StartupTimeout = (if tc_StartupTimeout c \<le> 0
          then or_default (rt_StartupTimeout d) DefaultStartupTimeout else tc_StartupTimeout c),
      tool_RequestTimeout = (if tc_RequestTimeout c \<le> 0
          then or_default (rt_RequestTimeout d) DefaultRequestTimeout else tc_RequestTimeout c),
      tool_IdleTimeout = (if tc_IdleTimeout c \<le> 0
          then or_default (rt_SessionIdleTimeout d) DefaultSessionIdleTimeout else tc_IdleTimeout c),
      tool_Routing = tc_Routing c,
      tool_CredentialPolicy = tc_CredentialPolicy c,
      tool_AuthorizationPolicy = tc_AuthorizationPolicy c,
      tool_State = ToolStateEnabled,
      tool_MaxSessionsPerTool = 0,
      tool_Schemas = [], tool_Resources = [], tool_ResourceTemplates = []\<rparr>"

section \<open>Validation (validate.go)\<close>

text \<open>The messages of \<open>fmt.Errorf\<close> are constructors with the values they print.\<close>

datatype config_error =
    DiscoveryProviderRequired
  | TenantIdRequired nat
  | DuplicateTenantId TenantID
  | ToolIdRequired nat
  | DuplicateToolId ToolID
  | InvalidTool nat ToolID go_error

definition IsNilDiscoveryProvider :: "DiscoveryProvider \<Rightarrow> bool" where
  "IsNilDiscoveryProvider p = (case p of NilInterface \<Rightarrow> True | TypedNilPointer \<Rightarrow> True | ProviderObject _ \<Rightarrow> False)"

definition IsClusterConfigured :: "Config \<Rightarrow> bool" where
  "IsClusterConfigured cfg \<longleftrightarrow>
     cl_Enabled (cfg_Cluster cfg) \<and> \<not> IsNilDiscoveryProvider (cl_DiscoveryProvider (cfg_Cluster cfg))"

definition validateCluster :: "ClusterConfig \<Rightarrow> config_error option" where
  "validateCluster c =
     (if cl_Enabled c \<and> IsNilDiscoveryProvider (cl_DiscoveryProvider c)
      then Some DiscoveryProviderRequired else None)"

fun validateTenants_from :: "nat \<Rightarrow> TenantID list \<Rightarrow> TenantConfig list \<Rightarrow> config_error option" where
  "validateTenants_from i seen [] = None"
| "validateTenants_from i seen (t # ts) =
     (if tenant_ID t = '''' then Some (TenantIdRequired i)
      else if List.member seen (tenant_ID t) then Some (DuplicateTenantId (tenant_ID t))
      else validateTenants_from (Suc i) (tenant_ID t # seen) ts)"

definition validateTenants :: "TenantConfig list \<Rightarrow> config_error option" where
  "validateTenants = validateTenants_from 0 []"

fun validateTools_from :: "nat \<Rightarrow> ToolID list \<Rightarrow> Tool list \<Rightarrow> config_error option" where
  "validateTools_from i seen [] = None"
| "validateTools_from i seen (t # ts) =
     (if tool_ID t = '''' then Some (ToolIdRequired i)
      else if List.member seen (tool_ID t) then Some (DuplicateToolId (tool_ID t))
      else case ValidateTool t of
             Some err \<Rightarrow> Some (InvalidTool i (tool_ID t) err)
           | None \<Rightarrow> validateTools_from (Suc i) (tool_ID t # seen) ts)"

definition validateTools :: "Tool list \<Rightarrow> config_error option" where
  "validateTools = validateTools_from 0 []"

definition Validate :: "Config \<Rightarrow> config_error option" where
  "Validate cfg =
     (case validateCluster (cfg_Cluster cfg) of
        Some err \<Rightarrow> Some err
      | None \<Rightarrow>
          (case validateTenants (cfg_Tenants cfg) of
             Some err \<Rightarrow> Some err
           | None \<Rightarrow> validateTools (cfg_Tools cfg)))"

lemma validateTenants_from_None:
  "validateTenants_from i seen ts = None \<longleftrightarrow>
     '''' \<notin> tenant_ID ` set ts \<and> distinct (map tenant_ID ts) \<and> set seen \<inter> tenant_ID ` set ts = {}"
  by (induction i seen ts rule: validateTenants_from.induct) auto

lemma validateTools_from_None:
  "validateTools_from i seen ts = None \<longleftrightarrow>
     (\<forall>t \<in> set ts. ValidateTool t = None) \<and> distinct (map tool_ID ts) \<and>
     set seen \<inter> tool_ID ` set ts = {}"
proof (induction i seen ts rule: validateTools_from.induct)
  case (1 i seen)
  then show ?case by simp
next
  case (2 i seen t ts)
  show ?case
  proof (cases "ValidateTool t")
    case None
    then have "tool_ID t \<noteq> ''''"
      using ValidateTool_None_iff by blast
    with 2 None show ?thesis by auto
  next
    case (Some e)
    then show ?thesis by auto
  qed
qed

section \<open>Example values\<close>

text \<open>A small HTTP tool, configuration and tenant, for concrete instances.\<close>

definition example_tool :: Tool where
  "example_tool =
     \<lparr>tool_ID = ''fs'', tool_Transport = TransportHTTP, tool_Stdio = None,
      tool_HTTP = Some \<lparr>http_URL = ''http://fs'', http_TLS = None, http_OAuthHandler = None\<rparr>,
      tool_GRPC = None, tool_StartupTimeout = 0, tool_RequestTimeout = 0, tool_IdleTimeout = 0,
      tool_Routing = RoutingSticky, tool_CredentialPolicy = CredentialPolicyOptional,
      tool_AuthorizationPolicy = AuthorizationPolicyOther '''', tool_State = ToolStateEnabled,
      tool_MaxSessionsPerTool = 0, tool_Schemas = [], tool_Resources = [], tool_ResourceTemplates = []\<rparr>"

definition example_config ::
  "CredentialsProvider list \<Rightarrow> duration \<Rightarrow> int \<Rightarrow> TenantConfig list \<Rightarrow> Tool list \<Rightarrow> Config" where
  "example_config providers ttl maxEntries tenants tools =
     \<lparr>cfg_LogLevel = '''',
      cfg_Runtime = \<lparr>rt_SessionIdleTimeout = 0, rt_RequestTimeout = 0, rt_StartupTimeout = 0,
        rt_HealthProbeInterval = 0, rt_ShutdownTimeout = 0\<rparr>,
      cfg_Cluster = \<lparr>cl_Enabled = False, cl_DiscoveryProvider = NilInterface, cl_RegistrarRole = '''',
        cl_DiscoveryPort = 0, cl_PeersPort = 0, cl_RemotingPort = 0, cl_TLS = None\<rparr>,
      cfg_OTLPEndpoint = '''', cfg_Audit = \<lparr>ac_Sink = None, ac_MailboxSize = 0\<rparr>,
      cfg_Credentials = \<lparr>cc_Providers = providers, cc_CacheTTL = ttl, cc_MaxCacheEntries = maxEntries\<rparr>,
      cfg_Tenants = tenants, cfg_HealthProbe = \<lparr>hp_Interval = 0, hp_Timeout = 0\<rparr>, cfg_Tools = tools\<rparr>"

definition example_tenant :: "TenantID \<Rightarrow> int \<Rightarrow> int \<Rightarrow> TenantConfig" where
  "example_tenant t rpm sessions =
     \<lparr>tenant_ID = t, tenant_Quotas = \<lparr>quota_RequestsPerMinute = rpm, quota_ConcurrentSessions = sessions\<rparr>,
      tenant_Evaluator = None\<rparr>"

definition example_invocation :: "TenantID \<Rightarrow> ClientID \<Rightarrow> ToolID \<Rightarrow> Invocation" where
  "example_invocation t c u =
     \<lparr>inv_Correlation = \<lparr>corr_TenantID = t, corr_ClientID = c, corr_RequestID = ''r1'', corr_TraceID = ''''\<rparr>,
      inv_ToolID = u, inv_SessionID = '''', inv_Method = MethodToolsCall, inv_Params = None,
      inv_Metadata = [], inv_Credentials = [], inv_Scopes = [], inv_ReceivedAt = 0\<rparr>"

lemmas example_defs =
  example_tool_def example_config_def example_tenant_def example_invocation_def

section \<open>Properties\<close>

text \<open>Tool validation accepts exactly the tools with an identifier and a complete
  configuration for their transport (for gRPC exactly one descriptor source), and
  rejects every other with an invalid-request error.\<close>

theorem ValidateTool_correct:
  "(ValidateTool tool = None \<longleftrightarrow> tool_ID tool \<noteq> '''' \<and> transport_ok tool) \<and>
   (\<forall>e. ValidateTool tool = Some e \<longrightarrow> (\<exists>m. e = rt_error ErrCodeInvalidRequest m))"
  by (auto simp: ValidateTool_None_iff dest: ValidateTool_Some)

theorem ValidateTool_correct_witness:
  "\<exists>e m. ValidateTool (ToolConfigToTool
     \<lparr>tc_ID = ''fs'', tc_Transport = TransportHTTP, tc_Command = '''', tc_Args = [], tc_Env = [],
      tc_WorkingDirectory = '''', tc_URL = '''', tc_HTTPTLS = None, tc_StartupTimeout = 0,
      tc_RequestTimeout = 0, tc_IdleTimeout = 0, tc_Routing = RoutingSticky,
      tc_CredentialPolicy = CredentialPolicyOptional,
      tc_AuthorizationPolicy = AuthorizationPolicyTenantAllowlist\<rparr>
     \<lparr>rt_SessionIdleTimeout = 0, rt_RequestTimeout = 0, rt_StartupTimeout = 0,
      rt_HealthProbeInterval = 0, rt_ShutdownTimeout = 0\<rparr>) = Some e \<and> e = rt_error ErrCodeInvalidRequest m"
  (is "\<exists>e m. ValidateTool ?tool = _ \<and> _")
proof -
  have "\<not> transport_ok ?tool" by (simp add: ToolConfigToTool_def transport_ok_def)
  then show ?thesis using ValidateTool_correct [of ?tool] by (cases "ValidateTool ?tool") auto
qed

text \<open>Configuration validation succeeds exactly when a cluster has a usable
  discovery provider, tenant identifiers are non-empty and unique, and tools are
  valid with unique identifiers.\<close>

theorem Validate_correct:
  "Validate cfg = None \<longleftrightarrow>
     (cl_Enabled (cfg_Cluster cfg) \<longrightarrow> IsClusterConfigured cfg) \<and>
     '''' \<notin> tenant_ID ` set (cfg_Tenants cfg) \<and> distinct (map tenant_ID (cfg_Tenants cfg)) \<and>
     (\<forall>t \<in> set (cfg_Tools cfg). ValidateTool t = None) \<and> distinct (map tool_ID (cfg_Tools cfg))"
  using validateTenants_from_None [of 0 "[]" "cfg_Tenants cfg"]
    validateTools_from_None [of 0 "[]" "cfg_Tools cfg"]
  by (auto simp: Validate_def validateCluster_def validateTenants_def validateTools_def
      IsClusterConfigured_def split: option.splits)

theorem Validate_correct_witness:
  "Validate (example_config [] 0 0 [example_tenant ''acme'' 0 0] [example_tool]) = None \<and>
   Validate (example_config [] 0 0 [example_tenant ''acme'' 0 0, example_tenant ''acme'' 1 1] []) \<noteq> None"
proof -
  have "ValidateTool example_tool = None"
    by (simp add: ValidateTool_None_iff transport_ok_def example_tool_def)
  then show ?thesis
    using Validate_correct [of "example_config [] 0 0 [example_tenant ''acme'' 0 0] [example_tool]"]
      Validate_correct [of "example_config [] 0 0 [example_tenant ''acme'' 0 0, example_tenant ''acme'' 1 1] []"]
    by (simp add: example_config_def example_tenant_def)
qed

text \<open>Defaults make every runtime limit positive and applying them twice changes
  nothing; the tenants, the tools and the probe interval the health checker reads
  are left as configured.\<close>

theorem ApplyDefaults_correct:
  "let d = ApplyDefaults cfg; r = cfg_Runtime d in
     0 < rt_SessionIdleTimeout r \<and> 0 < rt_RequestTimeout r \<and> 0 < rt_StartupTimeout r \<and>
     0 < rt_HealthProbeInterval r \<and> 0 < rt_ShutdownTimeout r \<and> 0 < hp_Timeout (cfg_HealthProbe d) \<and>
     0 < cc_MaxCacheEntries (cfg_Credentials d) \<and> 0 < ac_MailboxSize (cfg_Audit d) \<and>
     ApplyDefaults d = d \<and> hp_Interval (cfg_HealthProbe d) = hp_Interval (cfg_HealthProbe cfg) \<and>
     cfg_Tenants d = cfg_Tenants cfg \<and> cfg_Tools d = cfg_Tools cfg"
  by (simp add: ApplyDefaults_def Let_def default_values)

end
