(* ===== verification/Policy.thy ===== *)
theory Policy
  imports Mcp_Config
begin

text \<open>
  Policy evaluation: the stateless evaluator of internal/runtime/policy and the
  policy actor of internal/runtime/actor/policy.go, which counts requests per
  tenant and calendar minute and runs a tenant's custom evaluator last.
\<close>

section \<open>Types (policy/types.go)\<close>

datatype Decision = DecisionAllow | DecisionDeny | DecisionThrottle

record Input =
  in_Invocation :: "Invocation option"
  in_Tool :: Tool
  in_TenantID :: TenantID
  in_ClientID :: ClientID
  in_TenantConfig :: "TenantConfig option"
  in_ActiveSessionCount :: int
  in_RequestsInCurrentMinute :: int
  in_Scopes :: "string list"

record Result =
  res_Decision :: Decision
  res_Reason :: string
  res_Err :: "go_error option"

definition Allowed :: "Result \<Rightarrow> bool" where
  "Allowed r \<longleftrightarrow> res_Decision r = DecisionAllow \<and> res_Err r = None"

abbreviation allow_result :: Result where
  "allow_result \<equiv> \<lparr>res_Decision = DecisionAllow, res_Reason = '''', res_Err = None\<rparr>"

section \<open>Evaluator (policy/evaluator.go)\<close>

definition checkAuthorization :: "Config \<Rightarrow> Input \<Rightarrow> Result" where
  "checkAuthorization config i =
     (if tool_AuthorizationPolicy (in_Tool i) \<noteq> AuthorizationPolicyTenantAllowlist then allow_result
      else if length (cfg_Tenants config) = 0 then allow_result
      else if list_ex (\<lambda>tc. tenant_ID tc = in_TenantID i) (cfg_Tenants config) then allow_result
      else \<lparr>res_Decision = DecisionDeny, res_Reason = ''tenant not in allowlist'',
            res_Err = Some (rt_error ErrCodePolicyDenied ''tenant not permitted for this tool'')\<rparr>)"

definition checkQuotas :: "Input \<Rightarrow> Result" where
  "checkQuotas i =
     (case in_TenantConfig i of
        None \<Rightarrow> allow_result
      | Some tc \<Rightarrow>
          (let q = tenant_Quotas tc
           in if quota_ConcurrentSessions q > 0 \<and> in_ActiveSessionCount i \<ge> quota_ConcurrentSessions q then
                \<lparr>res_Decision = DecisionThrottle, res_Reason = ''concurrent session limit reached'',
                 res_Err = Some (rt_error ErrCodeConcurrencyLimitReached ''tenant concurrent session limit reached'')\<rparr>
              else if quota_RequestsPerMinute q > 0 \<and> in_RequestsInCurrentMinute i \<ge> quota_RequestsPerMinute q then
                \<lparr>res_Decision = DecisionThrottle, res_Reason = ''requests per minute limit exceeded'',
                 res_Err = Some (rt_error ErrCodeRateLimited ''tenant rate limit exceeded'')\<rparr>
              else allow_result))"

definition Evaluate :: "Config \<Rightarrow> Input option \<Rightarrow> Result" where
  "Evaluate config inp =
     (case inp of
        None \<Rightarrow> \<lparr>res_Decision = DecisionDeny, res_Reason = ''invalid policy input'',
                 res_Err = Some (rt_error ErrCodeInvalidRequest ''invalid policy input'')\<rparr>
      | Some i \<Rightarrow>
          if in_Invocation i = None \<or> IsZero (tool_ID (in_Tool i)) then
            \<lparr>res_Decision = DecisionDeny, res_Reason = ''invalid policy input'',
             res_Err = Some (rt_error ErrCodeInvalidRequest ''invalid policy input'')\<rparr>
          else (let r = checkAuthorization config i in if \<not> Allowed r then r
          else (let r = checkQuotas i in if \<not> Allowed r then r
          else allow_result)))"

section \<open>Policy actor (actor/policy.go)\<close>

record policyMaker =
  pm_config :: Config
  pm_requestCounts :: "(TenantID, int) gomap"
  pm_currentMinute :: int

text \<open>\<open>PreStart\<close>: no request seen, minute zero.\<close>

definition newPolicyMaker :: "Config \<Rightarrow> policyMaker" where
  "newPolicyMaker config = \<lparr>pm_config = config, pm_requestCounts = [], pm_currentMinute = 0\<rparr>"

text \<open>\<open>now.Unix() / 60\<close>, for a clock after the epoch.\<close>

definition unix_minute :: "time \<Rightarrow> int" where
  "unix_minute now = (now div second) div 60"

definition lookupTenantConfig :: "Config \<Rightarrow> TenantID \<Rightarrow> TenantConfig option" where
  "lookupTenantConfig config tenantID = find (\<lambda>tc. tenant_ID tc = tenantID) (cfg_Tenants config)"

text \<open>The index expression \<open>m[k]\<close> of a Go map of integers: the zero value when absent.\<close>

definition count_of :: "(TenantID, int) gomap \<Rightarrow> TenantID \<Rightarrow> int" where
  "count_of m t = (case gm_get m t of None \<Rightarrow> 0 | Some c \<Rightarrow> c)"

definition roll_minute :: "time \<Rightarrow> policyMaker \<Rightarrow> policyMaker" where
  "roll_minute now x =
     (if unix_minute now \<noteq> pm_currentMinute x
      then x\<lparr>pm_requestCounts := [], pm_currentMinute := unix_minute now\<rparr> else x)"

definition custom_policy_input :: "Input \<Rightarrow> PolicyInput" where
  "custom_policy_input i =
     \<lparr>pol_TenantID = in_TenantID i, pol_ToolID = tool_ID (in_Tool i),
      pol_ActiveSessionCount = in_ActiveSessionCount i,
      pol_RequestsInCurrentMinute = in_RequestsInCurrentMinute i, pol_Scopes = in_Scopes i\<rparr>"

definition handleEvaluate :: "time \<Rightarrow> Input option \<Rightarrow> policyMaker \<Rightarrow> policyMaker \<times> Result" where
  "handleEvaluate now msg x =
     (case msg of
        None \<Rightarrow> (x, \<lparr>res_Decision = DecisionDeny, res_Reason = ''missing policy input'',
                     res_Err = Some (rt_error ErrCodeInvalidRequest ''missing policy input'')\<rparr>)
      | Some i \<Rightarrow>
          (let x = roll_minute now x;
               i = i\<lparr>in_RequestsInCurrentMinute := count_of (pm_requestCounts x) (in_TenantID i)\<rparr>;
               x = x\<lparr>pm_requestCounts :=
                     gm_put (in_TenantID i) (count_of (pm_requestCounts x) (in_TenantID i) + 1) (pm_requestCounts x)\<rparr>;
               i = i\<lparr>in_TenantConfig := lookupTenantConfig (pm_config x) (in_TenantID i)\<rparr>;
               result = Evaluate (pm_config x) (Some i)
           in if \<not> Allowed result then (x, result)
              else case Option.bind (in_TenantConfig i) tenant_Evaluator of
                     Some evaluator \<Rightarrow>
                       (case evaluator (custom_policy_input i) of
                          Some runtimeErr \<Rightarrow>
                            (x, \<lparr>res_Decision = DecisionDeny, res_Reason = Message runtimeErr,
                                 res_Err = Some (RuntimeErr runtimeErr)\<rparr>)
                        | None \<Rightarrow> (x, result))
                   | None \<Rightarrow> (x, result)))"

lemma Allowed_allow_result [simp]: "Allowed allow_result"
  by (simp add: Allowed_def)

lemma list_ex_tenant: "list_ex (\<lambda>tc. tenant_ID tc = t) ts \<longleftrightarrow> t \<in> tenant_ID ` set ts"
  by (induction ts) auto

lemma Allowed_checkAuthorization:
  "Allowed (checkAuthorization config i) \<longleftrightarrow>
     tool_AuthorizationPolicy (in_Tool i) = AuthorizationPolicyTenantAllowlist \<longrightarrow>
     cfg_Tenants config \<noteq> [] \<longrightarrow> in_TenantID i \<in> tenant_ID ` set (cfg_Tenants config)"
  by (simp add: checkAuthorization_def Allowed_def list_ex_tenant)

text \<open>Quotas, without the order of the checks.\<close>

definition within_quotas :: "TenantConfig option \<Rightarrow> int \<Rightarrow> int \<Rightarrow> bool" where
  "within_quotas tc sessions requests =
     (case tc of None \<Rightarrow> True | Some tc \<Rightarrow>
        (quota_ConcurrentSessions (tenant_Quotas tc) > 0 \<longrightarrow>
           sessions < quota_ConcurrentSessions (tenant_Quotas tc)) \<and>
        (quota_RequestsPerMinute (tenant_Quotas tc) > 0 \<longrightarrow>
           requests < quota_RequestsPerMinute (tenant_Quotas tc)))"

lemma Allowed_checkQuotas:
  "Allowed (checkQuotas i) \<longleftrightarrow>
     within_quotas (in_TenantConfig i) (in_ActiveSessionCount i) (in_RequestsInCurrentMinute i)"
  by (auto simp: checkQuotas_def within_quotas_def Allowed_def Let_def split: option.splits)

lemma Allowed_Evaluate:
  "Allowed (Evaluate config (Some i)) \<longleftrightarrow>
     in_Invocation i \<noteq> None \<and> tool_ID (in_Tool i) \<noteq> '''' \<and>
     Allowed (checkAuthorization config i) \<and> Allowed (checkQuotas i)"
  by (auto simp: Evaluate_def IsZero_def Let_def Allowed_def)


section \<open>One request\<close>

text \<open>The request count the actor sees for a tenant at a given time.\<close>

definition seen_requests :: "time \<Rightarrow> policyMaker \<Rightarrow> TenantID \<Rightarrow> int" where
  "seen_requests now x t =
     (if unix_minute now = pm_currentMinute x then count_of (pm_requestCounts x) t else 0)"

definition custom_ok :: "Config \<Rightarrow> Input \<Rightarrow> int \<Rightarrow> bool" where
  "custom_ok config i n =
     (case Option.bind (lookupTenantConfig config (in_TenantID i)) tenant_Evaluator of
        None \<Rightarrow> True
      | Some f \<Rightarrow> f (custom_policy_input (i\<lparr>in_RequestsInCurrentMinute := n\<rparr>)) = None)"

lemma count_of_put [simp]:
  "count_of (gm_put k v m) t = (if t = k then v else count_of m t)"
  by (simp add: count_of_def gomap_simps)

lemma count_of_Nil [simp]: "count_of [] t = 0"
  by (simp add: count_of_def)

lemma roll_minute_simps [simp]:
  "pm_config (roll_minute now x) = pm_config x"
  "pm_currentMinute (roll_minute now x) = unix_minute now"
  "count_of (pm_requestCounts (roll_minute now x)) t = seen_requests now x t"
  by (simp_all add: roll_minute_def seen_requests_def)

lemma handleEvaluate_state:
  "fst (handleEvaluate now (Some i) x) =
     (roll_minute now x)\<lparr>pm_requestCounts :=
       gm_put (in_TenantID i) (seen_requests now x (in_TenantID i) + 1) (pm_requestCounts (roll_minute now x))\<rparr>"
  by (simp add: handleEvaluate_def Let_def split: option.splits)

lemma handleEvaluate_frame [simp]:
  "pm_config (fst (handleEvaluate now (Some i) x)) = pm_config x"
  "pm_currentMinute (fst (handleEvaluate now (Some i) x)) = unix_minute now"
  "count_of (pm_requestCounts (fst (handleEvaluate now (Some i) x))) t =
     seen_requests now x t + (if t = in_TenantID i then 1 else 0)"
  by (simp_all add: handleEvaluate_state)

lemma handleEvaluate_allowed_iff:
  "Allowed (snd (handleEvaluate now (Some i) x)) \<longleftrightarrow>
     in_Invocation i \<noteq> None \<and> tool_ID (in_Tool i) \<noteq> '''' \<and>
     Allowed (checkAuthorization (pm_config x) i) \<and>
     within_quotas (lookupTenantConfig (pm_config x) (in_TenantID i)) (in_ActiveSessionCount i)
       (seen_requests now x (in_TenantID i)) \<and>
     custom_ok (pm_config x) i (seen_requests now x (in_TenantID i))"
proof -
  let ?n = "seen_requests now x (in_TenantID i)"
  let ?j = "i\<lparr>in_RequestsInCurrentMinute := ?n,
              in_TenantConfig := lookupTenantConfig (pm_config x) (in_TenantID i)\<rparr>"
  have "Allowed (checkAuthorization (pm_config x) ?j) = Allowed (checkAuthorization (pm_config x) i)"
    by (simp add: Allowed_checkAuthorization)
  moreover have "custom_policy_input ?j = custom_policy_input (i\<lparr>in_RequestsInCurrentMinute := ?n\<rparr>)"
    by (simp add: custom_policy_input_def)
  moreover have "Allowed (Evaluate (pm_config x) (Some ?j)) \<longleftrightarrow> in_Invocation i \<noteq> None \<and>
      tool_ID (in_Tool i) \<noteq> '''' \<and> Allowed (checkAuthorization (pm_config x) ?j) \<and>
      within_quotas (lookupTenantConfig (pm_config x) (in_TenantID i)) (in_ActiveSessionCount i) ?n"
    by (simp add: Allowed_Evaluate Allowed_checkQuotas)
  ultimately show ?thesis
    by (auto simp: handleEvaluate_def Let_def custom_ok_def Allowed_def [where r = "\<lparr>res_Decision = _, res_Reason = _, res_Err = _\<rparr>"]
        split: option.splits)
qed

lemma checkAuthorization_err: "Allowed (checkAuthorization config i) \<or> res_Err (checkAuthorization config i) \<noteq> None"
  by (simp add: checkAuthorization_def Allowed_def)

lemma checkQuotas_err: "Allowed (checkQuotas i) \<or> res_Err (checkQuotas i) \<noteq> None"
  by (simp add: checkQuotas_def Allowed_def Let_def split: option.split)

lemma Evaluate_err: "Allowed (Evaluate config j) \<or> res_Err (Evaluate config j) \<noteq> None"
  using checkAuthorization_err [of config "the j"] checkQuotas_err [of "the j"]
  by (cases j) (auto simp: Evaluate_def Let_def)

lemma handleEvaluate_rejects_with_error:
  "\<not> Allowed (snd (handleEvaluate now msg x)) \<Longrightarrow> res_Err (snd (handleEvaluate now msg x)) \<noteq> None"
proof (cases msg)
  case None
  then show ?thesis by (simp add: handleEvaluate_def)
next
  case (Some i)
  let ?j = "i\<lparr>in_RequestsInCurrentMinute := seen_requests now x (in_TenantID i),
              in_TenantConfig := lookupTenantConfig (pm_config x) (in_TenantID i)\<rparr>"
  assume "\<not> Allowed (snd (handleEvaluate now msg x))"
  with Some Evaluate_err [of "pm_config x" "Some ?j"] show ?thesis
    by (auto simp: handleEvaluate_def Let_def split: option.splits if_splits)
qed

section \<open>Runs of the policy actor\<close>

fun policy_run :: "policyMaker \<Rightarrow> (time \<times> Input) list \<Rightarrow> Result list" where
  "policy_run x [] = []"
| "policy_run x ((now, i) # evs) =
     (let (x', r) = handleEvaluate now (Some i) x in r # policy_run x' evs)"

definition policy_inv :: "policyMaker \<Rightarrow> bool" where
  "policy_inv x \<longleftrightarrow> gm_ok (pm_requestCounts x) \<and> (\<forall>t. 0 \<le> count_of (pm_requestCounts x) t)"

abbreviation policy_step :: "policyMaker \<Rightarrow> time \<times> Input option \<Rightarrow> policyMaker" where
  "policy_step x e \<equiv> fst (handleEvaluate (fst e) (snd e) x)"

lemma policy_inv_new [simp]: "policy_inv (newPolicyMaker config)"
  by (simp add: policy_inv_def newPolicyMaker_def)

interpretation pol: actor_inv policy_step policy_inv
proof unfold_locales
  fix x e assume inv: "policy_inv x"
  show "policy_inv (policy_step x e)"
  proof (cases "snd e")
    case None
    with inv show ?thesis by (simp add: handleEvaluate_def)
  next
    case (Some i)
    have "gm_ok (pm_requestCounts (roll_minute (fst e) x))"
      using inv by (simp add: policy_inv_def roll_minute_def)
    moreover have "0 \<le> seen_requests (fst e) x t" for t
      using inv by (simp add: policy_inv_def seen_requests_def)
    ultimately show ?thesis
      using Some by (simp add: policy_inv_def handleEvaluate_state add_nonneg_nonneg)
  qed
qed

text \<open>The requests of a tenant that were admitted in a given minute.\<close>

definition admitted :: "TenantID \<Rightarrow> int \<Rightarrow> (time \<times> Input) list \<Rightarrow> Result list \<Rightarrow> nat" where
  "admitted t m evs rs = length (filter (\<lambda>((now, i), r).
      in_TenantID i = t \<and> unix_minute now = m \<and> Allowed r) (zip evs rs))"

definition budget :: "int \<Rightarrow> policyMaker \<Rightarrow> TenantID \<Rightarrow> int \<Rightarrow> int" where
  "budget q x t m =
     (if m < pm_currentMinute x then 0
      else if m = pm_currentMinute x then max 0 (q - count_of (pm_requestCounts x) t) else q)"

lemma unix_minute_mono: "a \<le> b \<Longrightarrow> unix_minute a \<le> unix_minute b"
  by (simp add: unix_minute_def zdiv_mono1)

lemma budget_step:
  assumes "0 < q" and "pm_currentMinute x \<le> unix_minute now"
    and "lookupTenantConfig (pm_config x) t = Some tc" and "quota_RequestsPerMinute (tenant_Quotas tc) = q"
  shows "budget q (fst (handleEvaluate now (Some i) x)) t m
      + (if in_TenantID i = t \<and> unix_minute now = m \<and> Allowed (snd (handleEvaluate now (Some i) x)) then 1 else 0)
    \<le> budget q x t m"
  using assms by (auto simp: budget_def seen_requests_def handleEvaluate_allowed_iff within_quotas_def)

lemma rate_limit_run:
  assumes "0 < q" and "lookupTenantConfig (pm_config x) t = Some tc"
    and "quota_RequestsPerMinute (tenant_Quotas tc) = q"
    and "sorted (map fst evs)" and "\<forall>ev \<in> set evs. pm_currentMinute x \<le> unix_minute (fst ev)"
  shows "int (admitted t m evs (policy_run x evs)) \<le> budget q x t m"
  using assms(2,4,5)
proof (induction evs arbitrary: x)
  case Nil
  then show ?case using assms(1) by (simp add: admitted_def budget_def)
next
  case (Cons ev evs)
  obtain now i where ev: "ev = (now, i)" by (cases ev)
  let ?x = "fst (handleEvaluate now (Some i) x)" and ?r = "snd (handleEvaluate now (Some i) x)"
  have "int (admitted t m evs (policy_run ?x evs)) \<le> budget q ?x t m"
    using Cons.prems ev by (intro Cons.IH) (auto simp: unix_minute_mono)
  moreover have "policy_run x (ev # evs) = ?r # policy_run ?x evs"
    by (simp add: ev split: prod.splits)
  ultimately show ?case
    using budget_step [OF assms(1), of x now t tc i m] Cons.prems assms(3)
    by (auto simp: ev admitted_def split: if_splits)
qed

definition example_input :: "TenantID \<Rightarrow> Input" where
  "example_input t =
     \<lparr>in_Invocation = Some (example_invocation t ''web'' ''fs''), in_Tool = example_tool, in_TenantID = t,
      in_ClientID = ''web'', in_TenantConfig = None, in_ActiveSessionCount = 0,
      in_RequestsInCurrentMinute = 0, in_Scopes = []\<rparr>"

section \<open>Properties\<close>

text \<open>C17: A request is allowed exactly when the input is valid, the tool's allowlist
  admits the tenant, the tenant's session and request quotas are not used up at
  that moment, and the tenant's custom evaluator, if any, has no objection; every
  other outcome carries an error.\<close>

theorem policy_allows_iff:
  "(Allowed (snd (handleEvaluate now (Some i) x)) \<longleftrightarrow>
      in_Invocation i \<noteq> None \<and> tool_ID (in_Tool i) \<noteq> '''' \<and>
      (tool_AuthorizationPolicy (in_Tool i) \<noteq> AuthorizationPolicyTenantAllowlist \<or>
        cfg_Tenants (pm_config x) = [] \<or> in_TenantID i \<in> tenant_ID ` set (cfg_Tenants (pm_config x))) \<and>
      within_quotas (lookupTenantConfig (pm_config x) (in_TenantID i)) (in_ActiveSessionCount i)
        (seen_requests now x (in_TenantID i)) \<and>
      custom_ok (pm_config x) i (seen_requests now x (in_TenantID i))) \<and>
   (Allowed (snd (handleEvaluate now (Some i) x)) \<or> res_Err (snd (handleEvaluate now (Some i) x)) \<noteq> None)"
  using handleEvaluate_rejects_with_error [of now "Some i" x]
    handleEvaluate_allowed_iff [of now i x] Allowed_checkAuthorization [of "pm_config x" i]
  by blast

theorem policy_allows_iff_witness:
  "\<not> Allowed (snd (handleEvaluate 0 (Some ((example_input ''evil'')\<lparr>in_Tool :=
       example_tool\<lparr>tool_AuthorizationPolicy := AuthorizationPolicyTenantAllowlist\<rparr>\<rparr>))
     (newPolicyMaker (example_config [] 0 0 [example_tenant ''acme'' 2 0] []))))"
  by (simp add: policy_allows_iff newPolicyMaker_def example_config_def example_tenant_def example_input_def)

text \<open>C11: With a clock that does not run backwards, the policy actor never admits
  more requests of a tenant in one calendar minute than the tenant's
  requests-per-minute quota, whatever other requests are interleaved.\<close>

theorem policy_rate_limit:
  assumes "lookupTenantConfig config t = Some tc"
    and "0 < quota_RequestsPerMinute (tenant_Quotas tc)"
    and "sorted (0 # map fst evs)"
  shows "int (admitted t m evs (policy_run (newPolicyMaker config) evs)) \<le> quota_RequestsPerMinute (tenant_Quotas tc)"
proof -
  have "\<forall>ev \<in> set evs. 0 \<le> unix_minute (fst ev)"
    using assms(3) by (auto simp: unix_minute_def)
  with assms rate_limit_run [of "quota_RequestsPerMinute (tenant_Quotas tc)" "newPolicyMaker config" t tc evs m]
  have "int (admitted t m evs (policy_run (newPolicyMaker config) evs))
      \<le> budget (quota_RequestsPerMinute (tenant_Quotas tc)) (newPolicyMaker config) t m"
    by (simp add: newPolicyMaker_def)
  also have "\<dots> \<le> quota_RequestsPerMinute (tenant_Quotas tc)"
    using assms(2) by (simp add: budget_def newPolicyMaker_def)
  finally show ?thesis .
qed

theorem policy_rate_limit_witness:
  "int (admitted ''acme'' 0
      [(second, example_input ''acme''), (2 * second, example_input ''acme''), (3 * second, example_input ''acme'')]
      (policy_run (newPolicyMaker (example_config [] 0 0 [example_tenant ''acme'' 2 0] []))
        [(second, example_input ''acme''), (2 * second, example_input ''acme''), (3 * second, example_input ''acme'')]))
    \<le> 2"
  using policy_rate_limit [of "example_config [] 0 0 [example_tenant ''acme'' 2 0] []" "''acme''"
      "example_tenant ''acme'' 2 0"
      "[(second, example_input ''acme''), (2 * second, example_input ''acme''), (3 * second, example_input ''acme'')]" 0]
  by (simp add: example_config_def example_tenant_def lookupTenantConfig_def)

end
