(* ===== verification/Credential_Broker.thy ===== *)
theory Credential_Broker
  imports Mcp_Config Naming
begin

text \<open>
  The credential broker of internal/runtime/actor/credential_broker.go: an
  ordered list of providers behind a cache with a time to live, a size limit
  and least-recently-used eviction. A request reads the clock at up to four
  points and asks the providers between them; the readings, and the moment at which the
  i-th provider is asked, are given by a record. A provider may answer differently, or
  fail, from one moment to the next.
\<close>

section \<open>State\<close>

record credentialCacheEntry =
  ce_creds :: strmap
  ce_expiresAt :: time
  ce_lastAccess :: time

record credentialBroker =
  br_providers :: "CredentialsProvider list"
  br_cache :: "(string, credentialCacheEntry) gomap"
  br_cacheTTL :: duration
  br_maxEntries :: int

record ResolveResult =
  rr_Credentials :: "Credentials option"
  rr_Err :: "go_error option"

record resolve_clock =
  clk_check :: time
  clk_touch :: time
  clk_asked :: "nat \<Rightarrow> time"
  clk_evict :: time
  clk_store :: time

definition Resolved :: "ResolveResult \<Rightarrow> bool" where
  "Resolved r \<longleftrightarrow> rr_Err r = None \<and>
     (case rr_Credentials r of None \<Rightarrow> False | Some c \<Rightarrow> length (cred_Values c) > 0)"

definition broker_PreStart :: "Config \<Rightarrow> credentialBroker" where
  "broker_PreStart config =
     \<lparr>br_providers = cc_Providers (cfg_Credentials config), br_cache = [],
      br_cacheTTL = cc_CacheTTL (cfg_Credentials config),
      br_maxEntries = (if cc_MaxCacheEntries (cfg_Credentials config) = 0 then DefaultMaxCacheEntries
                       else cc_MaxCacheEntries (cfg_Credentials config))\<rparr>"

definition broker_PostStop :: "credentialBroker \<Rightarrow> credentialBroker" where
  "broker_PostStop x = x\<lparr>br_cache := []\<rparr>"

section \<open>Operations\<close>

definition cacheKey :: "TenantID \<Rightarrow> ToolID \<Rightarrow> string" where
  "cacheKey tenantID toolID = tenantID @ '':'' @ toolID"

text \<open>The loop over the providers: errors and empty answers are skipped, the first
  non-empty answer wins.\<close>

fun resolve_providers :: "(nat \<Rightarrow> time) \<Rightarrow> CredentialsProvider list \<Rightarrow> TenantID \<Rightarrow> ToolID \<Rightarrow> strmap" where
  "resolve_providers asked [] t u = []"
| "resolve_providers asked (p # ps) t u =
     (case prov_Resolve p (asked 0) t u of
        Inl err \<Rightarrow> resolve_providers (\<lambda>i. asked (Suc i)) ps t u
      | Inr None \<Rightarrow> resolve_providers (\<lambda>i. asked (Suc i)) ps t u
      | Inr (Some creds) \<Rightarrow>
          if length (cred_Values creds) > 0 then cred_Values creds
          else resolve_providers (\<lambda>i. asked (Suc i)) ps t u)"

text \<open>The loop that looks for the entry with the oldest access.\<close>

fun oldest_loop :: "string \<times> time \<Rightarrow> (string, credentialCacheEntry) gomap \<Rightarrow> string \<times> time" where
  "oldest_loop acc [] = acc"
| "oldest_loop (oldestKey, oldestAccess) ((k, entry) # rest) =
     (if oldestKey = '''' \<or> ce_lastAccess entry < oldestAccess
      then oldest_loop (k, ce_lastAccess entry) rest
      else oldest_loop (oldestKey, oldestAccess) rest)"

definition evictIfNeeded :: "time \<Rightarrow> credentialBroker \<Rightarrow> credentialBroker" where
  "evictIfNeeded now x =
     (if br_maxEntries x \<le> 0 \<or> int (gm_len (br_cache x)) < br_maxEntries x then x
      else (let x = x\<lparr>br_cache := filter (\<lambda>(k, entry). \<not> (now > ce_expiresAt entry)) (br_cache x)\<rparr>
            in if int (gm_len (br_cache x)) < br_maxEntries x then x
               else (let (oldestKey, _) = oldest_loop ('''', 0) (br_cache x)
                     in if oldestKey \<noteq> '''' then x\<lparr>br_cache := gm_del oldestKey (br_cache x)\<rparr> else x)))"

definition handleResolve ::
  "resolve_clock \<Rightarrow> TenantID \<Rightarrow> ToolID \<Rightarrow> credentialBroker \<Rightarrow> credentialBroker \<times> ResolveResult" where
  "handleResolve clk tenantID toolID x =
     (let cachingEnabled = br_cacheTTL x > 0;
          key = cacheKey tenantID toolID;
          miss =
            (let resolved = resolve_providers (clk_asked clk) (br_providers x) tenantID toolID
             in if length resolved = 0 then
                  (x, \<lparr>rr_Credentials = None,
                       rr_Err = Some (rt_error ErrCodeCredentialUnavailable ''no credentials found for tenant and tool'')\<rparr>)
                else
                  (let x = (if cachingEnabled
                            then (let x = evictIfNeeded (clk_evict clk) x
                                  in x\<lparr>br_cache := gm_put key
                                         \<lparr>ce_creds = resolved, ce_expiresAt = clk_store clk + br_cacheTTL x,
                                          ce_lastAccess = clk_store clk\<rparr> (br_cache x)\<rparr>)
                            else x)
                   in (x, \<lparr>rr_Credentials = Some \<lparr>cred_TenantID = tenantID, cred_ToolID = toolID, cred_Values = resolved\<rparr>,
                           rr_Err = None\<rparr>)))
      in if cachingEnabled then
           (case gm_get (br_cache x) key of
              Some entry \<Rightarrow>
                if clk_check clk < ce_expiresAt entry then
                  (x\<lparr>br_cache := gm_put key (entry\<lparr>ce_lastAccess := clk_touch clk\<rparr>) (br_cache x)\<rparr>,
                   \<lparr>rr_Credentials = Some \<lparr>cred_TenantID = '''', cred_ToolID = '''', cred_Values = ce_creds entry\<rparr>,
                    rr_Err = None\<rparr>)
                else miss
            | None \<Rightarrow> miss)
         else miss)"

section \<open>Cache keys\<close>

lemma cacheKey_nonempty [simp]: "cacheKey t u \<noteq> ''''"
  by (simp add: cacheKey_def)

lemma cacheKey_inject:
  assumes "cacheKey t u = cacheKey t' u'" "CHR '':'' \<notin> set t" "CHR '':'' \<notin> set t'"
  shows "t = t' \<and> u = u'"
  using separator_inject [of t "CHR '':''" u t' u'] assms by (simp add: cacheKey_def)

section \<open>Eviction\<close>

lemma oldest_loop_least:
  assumes "k0 \<noteq> ''''" and "\<forall>(k, e) \<in> set m. k \<noteq> ''''"
    and "oldest_loop (k0, a0) m = (k, a)"
  shows "a \<le> a0 \<and> (\<forall>(k', e) \<in> set m. a \<le> ce_lastAccess e) \<and>
    (k = k0 \<and> a = a0 \<or> (\<exists>e. (k, e) \<in> set m \<and> a = ce_lastAccess e))"
  using assms
proof (induction m arbitrary: k0 a0)
  case Nil
  then show ?case by simp
next
  case (Cons p m)
  obtain k1 e1 where p: "p = (k1, e1)" by (cases p)
  show ?case
  proof (cases "ce_lastAccess e1 < a0")
    case True
    with Cons.IH [of k1 "ce_lastAccess e1"] Cons.prems p show ?thesis by auto
  next
    case False
    with Cons.IH [of k0 a0] Cons.prems p show ?thesis by auto
  qed
qed

lemma oldest_loop_start:
  assumes "m \<noteq> []" and "\<forall>(k, e) \<in> set m. k \<noteq> ''''" and "oldest_loop ('''', 0) m = (k, a)"
  shows "k \<noteq> '''' \<and> (\<exists>e. (k, e) \<in> set m \<and> a = ce_lastAccess e) \<and>
    (\<forall>(k', e) \<in> set m. a \<le> ce_lastAccess e)"
proof -
  from assms(1) obtain k1 e1 m' where m: "m = (k1, e1) # m'" by (cases m) auto
  with assms have "oldest_loop (k1, ce_lastAccess e1) m' = (k, a)" "k1 \<noteq> ''''"
    "\<forall>(k, e) \<in> set m'. k \<noteq> ''''" by simp_all
  from oldest_loop_least [OF this(2,3,1)] assms(2) show ?thesis
    by (auto simp: m)
qed

section \<open>Well-formed brokers\<close>

text \<open>
  The cache has distinct keys and never more entries than configured. Each entry holds
  what the providers answered to one of the requests \<^term>\<open>H\<close> made so far, under the key
  of that request, and expires a time to live after it was stored.
\<close>

type_synonym resolve_request = "resolve_clock \<times> TenantID \<times> ToolID"

definition entry_sound ::
  "resolve_request set \<Rightarrow> duration \<Rightarrow> CredentialsProvider list \<Rightarrow> string \<times> credentialCacheEntry \<Rightarrow> bool" where
  "entry_sound H ttl ps = (\<lambda>(k, e). \<exists>clk t u. (clk, t, u) \<in> H \<and> k = cacheKey t u \<and>
     ce_creds e = resolve_providers (clk_asked clk) ps t u \<and> ce_creds e \<noteq> [] \<and> ce_expiresAt e = clk_store clk + ttl)"

definition broker_inv :: "resolve_request set \<Rightarrow> credentialBroker \<Rightarrow> bool" where
  "broker_inv H x \<longleftrightarrow> gm_ok (br_cache x) \<and>
     (\<forall>p \<in> set (br_cache x). entry_sound H (br_cacheTTL x) (br_providers x) p) \<and>
     (br_maxEntries x > 0 \<longrightarrow> int (gm_len (br_cache x)) \<le> br_maxEntries x)"

lemma entry_sound_key: "entry_sound H ttl ps (k, e) \<Longrightarrow> k \<noteq> ''''"
  by (auto simp: entry_sound_def)

lemma evict_frame [simp]:
  "br_providers (evictIfNeeded now x) = br_providers x"
  "br_cacheTTL (evictIfNeeded now x) = br_cacheTTL x"
  "br_maxEntries (evictIfNeeded now x) = br_maxEntries x"
  by (simp_all add: evictIfNeeded_def Let_def split: prod.split)

lemma evict_subset: "set (br_cache (evictIfNeeded now x)) \<subseteq> set (br_cache x)"
  by (auto simp: evictIfNeeded_def Let_def AList.delete_eq split: prod.splits if_splits)

lemma evict_ok: "gm_ok (br_cache x) \<Longrightarrow> gm_ok (br_cache (evictIfNeeded now x))"
  by (simp add: evictIfNeeded_def Let_def split: prod.split)

lemma evict_makes_room:
  assumes "broker_inv H x" and "br_maxEntries x > 0"
  shows "int (gm_len (br_cache (evictIfNeeded now x))) < br_maxEntries x"
proof (cases "int (gm_len (br_cache x)) < br_maxEntries x")
  case True
  then show ?thesis by (simp add: evictIfNeeded_def)
next
  case full: False
  let ?live = "filter (\<lambda>(k, entry). \<not> (now > ce_expiresAt entry)) (br_cache x)"
  have ok: "gm_ok (br_cache x)" and bound: "int (gm_len (br_cache x)) \<le> br_maxEntries x"
    using assms by (simp_all add: broker_inv_def)
  have live: "gm_ok ?live" "int (gm_len ?live) \<le> br_maxEntries x"
    using ok bound length_filter_le [of "\<lambda>(k, entry). \<not> (now > ce_expiresAt entry)" "br_cache x"]
    by (simp, linarith)
  obtain k a where k: "oldest_loop ('''', 0) ?live = (k, a)" by fastforce
  show ?thesis
  proof (cases "int (gm_len ?live) < br_maxEntries x")
    case True
    with full show ?thesis by (simp add: evictIfNeeded_def Let_def)
  next
    case still: False
    have keys: "\<forall>(k, e) \<in> set ?live. k \<noteq> ''''"
      using assms(1) entry_sound_key by (fastforce simp: broker_inv_def)
    have "?live \<noteq> []"
      using still assms(2) by (metis list.size(3) of_nat_0)
    from oldest_loop_start [OF this keys k] obtain e where "k \<noteq> ''''" "(k, e) \<in> set ?live" by blast
    with live(1) have "gm_get ?live k = Some e" by (metis gm_in_iff)
    from gm.len_del_some [OF live(1) this] live(2) full still k \<open>k \<noteq> ''''\<close> show ?thesis
      by (simp add: evictIfNeeded_def Let_def)
  qed
qed


lemma broker_inv_start [simp]: "broker_inv H (broker_PreStart config)"
  by (simp add: broker_inv_def broker_PreStart_def)

lemma entry_sound_touch:
  "entry_sound H ttl ps (k, e) \<Longrightarrow> entry_sound H ttl ps (k, e\<lparr>ce_lastAccess := a\<rparr>)"
  by (auto simp: entry_sound_def)

lemma handleResolve_frame [simp]:
  "br_providers (fst (handleResolve clk t u x)) = br_providers x"
  "br_maxEntries (fst (handleResolve clk t u x)) = br_maxEntries x"
  "br_cacheTTL (fst (handleResolve clk t u x)) = br_cacheTTL x"
  by (simp_all add: handleResolve_def Let_def split: option.split)

text \<open>The two ways a request is answered: from a live entry, or by the providers.\<close>

definition cache_hit :: "resolve_clock \<Rightarrow> TenantID \<Rightarrow> ToolID \<Rightarrow> credentialBroker \<Rightarrow> credentialCacheEntry option" where
  "cache_hit clk t u x =
     (if br_cacheTTL x > 0 then
        (case gm_get (br_cache x) (cacheKey t u) of
           Some e \<Rightarrow> if clk_check clk < ce_expiresAt e then Some e else None
         | None \<Rightarrow> None)
      else None)"

definition rr_values :: "ResolveResult \<Rightarrow> strmap" where
  "rr_values r = (case rr_Credentials r of None \<Rightarrow> [] | Some c \<Rightarrow> cred_Values c)"

lemma handleResolve_hit:
  assumes "cache_hit clk t u x = Some e"
  shows "fst (handleResolve clk t u x) =
      x\<lparr>br_cache := gm_put (cacheKey t u) (e\<lparr>ce_lastAccess := clk_touch clk\<rparr>) (br_cache x)\<rparr> \<and>
    rr_values (snd (handleResolve clk t u x)) = ce_creds e \<and>
    gm_get (br_cache x) (cacheKey t u) = Some e \<and> clk_check clk < ce_expiresAt e"
  using assms by (auto simp: cache_hit_def handleResolve_def rr_values_def Let_def split: if_splits option.splits)

lemma handleResolve_miss:
  assumes "cache_hit clk t u x = None"
  shows "fst (handleResolve clk t u x) =
      (if resolve_providers (clk_asked clk) (br_providers x) t u \<noteq> [] \<and> br_cacheTTL x > 0
       then (evictIfNeeded (clk_evict clk) x)\<lparr>br_cache := gm_put (cacheKey t u)
              \<lparr>ce_creds = resolve_providers (clk_asked clk) (br_providers x) t u,
               ce_expiresAt = clk_store clk + br_cacheTTL x, ce_lastAccess = clk_store clk\<rparr>
              (br_cache (evictIfNeeded (clk_evict clk) x))\<rparr>
       else x) \<and>
    rr_values (snd (handleResolve clk t u x)) = resolve_providers (clk_asked clk) (br_providers x) t u"
  using assms by (auto simp: cache_hit_def handleResolve_def rr_values_def Let_def split: if_splits option.splits)

lemma handleResolve_inv:
  assumes inv: "broker_inv H x" and t: "(clk, t, u) \<in> H"
  shows "broker_inv H (fst (handleResolve clk t u x))"
proof (cases "cache_hit clk t u x")
  case (Some e)
  note hit = handleResolve_hit [OF Some]
  from inv have ok: "gm_ok (br_cache x)" by (simp add: broker_inv_def)
  from inv hit ok have "entry_sound H (br_cacheTTL x) (br_providers x) (cacheKey t u, e)"
    by (metis broker_inv_def gm_in_iff)
  then have "entry_sound H (br_cacheTTL x) (br_providers x) (cacheKey t u, e\<lparr>ce_lastAccess := clk_touch clk\<rparr>)"
    by (rule entry_sound_touch)
  with inv hit ok show ?thesis
    by (auto simp: broker_inv_def gm.len_put_old dest!: gm_in_put [OF ok])
next
  case None
  note miss = handleResolve_miss [OF None]
  let ?y = "evictIfNeeded (clk_evict clk) x"
  from inv have ok: "gm_ok (br_cache ?y)" by (simp add: broker_inv_def evict_ok)
  show ?thesis
  proof (cases "resolve_providers (clk_asked clk) (br_providers x) t u \<noteq> [] \<and> br_cacheTTL x > 0")
    case True
    let ?e = "\<lparr>ce_creds = resolve_providers (clk_asked clk) (br_providers x) t u,
               ce_expiresAt = clk_store clk + br_cacheTTL x, ce_lastAccess = clk_store clk\<rparr>"
    from True t have "entry_sound H (br_cacheTTL x) (br_providers x) (cacheKey t u, ?e)"
      by (auto simp: entry_sound_def)
    moreover have "int (gm_len (gm_put (cacheKey t u) ?e (br_cache ?y))) \<le> br_maxEntries x" if "br_maxEntries x > 0"
      using evict_makes_room [OF inv that, of "clk_evict clk"]
        gm.len_put_le [OF ok, of "cacheKey t u" ?e] by linarith
    ultimately show ?thesis
      using miss True inv ok evict_subset [of "clk_evict clk" x]
      by (auto simp: broker_inv_def dest!: gm_in_put [OF ok])
  next
    case False
    with miss inv show ?thesis by auto
  qed
qed

text \<open>Where an answer comes from: the providers, now, or an earlier request whose answer has
  not outlived its time.\<close>

lemma handleResolve_source:
  assumes "broker_inv H x"
  obtains (asked) "rr_values (snd (handleResolve clk t u x)) = resolve_providers (clk_asked clk) (br_providers x) t u"
  | (cached) clk' t' u' where "(clk', t', u') \<in> H" "cacheKey t' u' = cacheKey t u" "0 < br_cacheTTL x"
      "rr_values (snd (handleResolve clk t u x)) = resolve_providers (clk_asked clk') (br_providers x) t' u'"
      "rr_values (snd (handleResolve clk t u x)) \<noteq> []" "clk_check clk < clk_store clk' + br_cacheTTL x"
proof (cases "cache_hit clk t u x")
  case (Some e)
  note hit = handleResolve_hit [OF Some]
  with assms have "entry_sound H (br_cacheTTL x) (br_providers x) (cacheKey t u, e)"
    by (metis broker_inv_def gm_in_iff)
  moreover have "0 < br_cacheTTL x" using Some by (simp add: cache_hit_def split: if_splits)
  ultimately show ?thesis
    using hit cached by (auto simp: entry_sound_def)
next
  case None
  from handleResolve_miss [OF None] asked show ?thesis by blast
qed

lemma handleResolve_status:
  "rr_Err (snd (handleResolve clk t u x)) = None \<longleftrightarrow>
     cache_hit clk t u x \<noteq> None \<or> resolve_providers (clk_asked clk) (br_providers x) t u \<noteq> []"
  by (auto simp: cache_hit_def handleResolve_def Let_def split: option.splits if_splits)

section \<open>Runs of the broker\<close>

fun broker_step :: "credentialBroker \<Rightarrow> resolve_request \<Rightarrow> credentialBroker" where
  "broker_step x (clk, t, u) = fst (handleResolve clk t u x)"

fun broker_run :: "credentialBroker \<Rightarrow> resolve_request list \<Rightarrow> ResolveResult list" where
  "broker_run x [] = []"
| "broker_run x ((clk, t, u) # rs) =
     snd (handleResolve clk t u x) # broker_run (fst (handleResolve clk t u x)) rs"

fun request_tenant :: "resolve_request \<Rightarrow> TenantID" where
  "request_tenant (clk, t, u) = t"

interpretation br: actor_guarded broker_step "broker_inv H" "\<lambda>r. r \<in> H" for H
proof unfold_locales
  show "broker_inv H s \<Longrightarrow> e \<in> H \<Longrightarrow> broker_inv H (broker_step s e)" for s e
    by (cases e) (simp add: handleResolve_inv)
qed

abbreviation colon_free :: "string \<Rightarrow> bool" where
  "colon_free t \<equiv> CHR '':'' \<notin> set t"

lemma broker_steps_frame [simp]:
  "br_maxEntries (foldl broker_step x rs) = br_maxEntries x"
  "br_providers (foldl broker_step x rs) = br_providers x"
  "br_cacheTTL (foldl broker_step x rs) = br_cacheTTL x"
  by (induction rs arbitrary: x) auto

lemma broker_run_nth:
  "i < length rs \<Longrightarrow> rs ! i = (clk, t, u) \<Longrightarrow>
     broker_run x rs ! i = snd (handleResolve clk t u (foldl broker_step x (take i rs)))"
  by (induction x rs arbitrary: i rule: broker_run.induct) (auto simp: nth_Cons' take_Cons')

section \<open>Example values\<close>

definition example_clock :: "time \<Rightarrow> resolve_clock" where
  "example_clock now = \<lparr>clk_check = now, clk_touch = now, clk_asked = \<lambda>_. now, clk_evict = now, clk_store = now\<rparr>"

definition example_provider :: CredentialsProvider where
  "example_provider = \<lparr>prov_ID = ''env'', prov_Resolve = (\<lambda>now t u.
     Inr (Some \<lparr>cred_TenantID = t, cred_ToolID = u, cred_Values = [(''token'', t)]\<rparr>))\<rparr>"

definition tenant_only_provider :: "TenantID \<Rightarrow> CredentialsProvider" where
  "tenant_only_provider owner = \<lparr>prov_ID = ''vault'', prov_Resolve = (\<lambda>now t u.
     Inr (if t = owner then Some \<lparr>cred_TenantID = t, cred_ToolID = u, cred_Values = [(''token'', t)]\<rparr> else None))\<rparr>"

section \<open>Properties\<close>

text \<open>The credential cache never holds more entries than the configured maximum,
  whatever the sequence of requests and clock readings.\<close>

theorem credential_cache_bounded:
  assumes "0 \<le> cc_MaxCacheEntries (cfg_Credentials config)"
  shows "int (gm_len (br_cache (foldl broker_step (broker_PreStart config) rs)))
    \<le> br_maxEntries (broker_PreStart config)"
proof -
  let ?x = "foldl broker_step (broker_PreStart config) rs"
  have "broker_inv UNIV ?x"
    by (rule br.legal_run_keeps) simp_all
  then show ?thesis
    using assms by (auto simp: broker_inv_def broker_PreStart_def DefaultMaxCacheEntries_def split: if_splits)
qed

theorem credential_cache_bounded_witness:
  "int (gm_len (br_cache (foldl broker_step (broker_PreStart (example_config [example_provider] minute 1 [] []))
      [(example_clock 0, ''acme'', ''fs''), (example_clock 1, ''globex'', ''fs'')]))) \<le> 1"
  using credential_cache_bounded [of "example_config [example_provider] minute 1 [] []"
      "[(example_clock 0, ''acme'', ''fs''), (example_clock 1, ''globex'', ''fs'')]"]
  by (simp add: example_config_def broker_PreStart_def)

text \<open>C12: What the cache answers is fresh and the tenant's own. However the answers of the
  providers change over time, every answer of a sequence of requests, made for tenants
  whose identifiers contain no colon, is the answer the providers gave to this request, or
  to an earlier one for the same tenant and tool that was stored less than the configured
  time to live ago; with caching off it is always the former, and that no credentials were
  found is never answered from the cache.\<close>

theorem credential_answers_fresh:
  fixes config
  defines "cc \<equiv> cfg_Credentials config"
  assumes "\<forall>r \<in> set rs. colon_free (request_tenant r)" and "i < length rs" and "rs ! i = (clk, t, u)"
  shows "\<exists>j \<le> i. \<exists>clk'. rs ! j = (clk', t, u) \<and>
    rr_values (broker_run (broker_PreStart config) rs ! i) =
      resolve_providers (clk_asked clk') (cc_Providers cc) t u \<and>
    (j = i \<or> 0 < cc_CacheTTL cc \<and> clk_check clk < clk_store clk' + cc_CacheTTL cc \<and>
       rr_values (broker_run (broker_PreStart config) rs ! i) \<noteq> [])"
proof -
  let ?x = "foldl broker_step (broker_PreStart config) (take i rs)"
  have cfg: "br_providers ?x = cc_Providers cc" "br_cacheTTL ?x = cc_CacheTTL cc"
    by (simp_all add: broker_PreStart_def cc_def)
  have "broker_inv (set (take i rs)) ?x" by (rule br.legal_run_keeps) simp_all
  then show ?thesis
    unfolding broker_run_nth [OF assms(3,4)]
  proof (cases rule: handleResolve_source [where clk = clk and t = t and u = u])
    case asked
    with assms(4) cfg show "\<exists>j \<le> i. \<exists>clk'. rs ! j = (clk', t, u) \<and>
        rr_values (snd (handleResolve clk t u ?x)) = resolve_providers (clk_asked clk') (cc_Providers cc) t u \<and>
        (j = i \<or> 0 < cc_CacheTTL cc \<and> clk_check clk < clk_store clk' + cc_CacheTTL cc \<and>
         rr_values (snd (handleResolve clk t u ?x)) \<noteq> [])"
      by auto
  next
    case (cached clk' t' u')
    then obtain j where j: "j < i" "rs ! j = (clk', t', u')" using assms(3) by (auto simp: in_set_conv_nth)
    then have "(clk', t', u') \<in> set rs" using assms(3) by (metis nth_mem order_less_trans)
    moreover have "(clk, t, u) \<in> set rs" using assms(3,4) by (metis nth_mem)
    ultimately have "colon_free t'" "colon_free t" using assms(2) by force+
    with cacheKey_inject [OF cached(2)] have same: "t' = t" "u' = u" by simp_all
    show "\<exists>j \<le> i. \<exists>clk'. rs ! j = (clk', t, u) \<and>
        rr_values (snd (handleResolve clk t u ?x)) = resolve_providers (clk_asked clk') (cc_Providers cc) t u \<and>
        (j = i \<or> 0 < cc_CacheTTL cc \<and> clk_check clk < clk_store clk' + cc_CacheTTL cc \<and>
         rr_values (snd (handleResolve clk t u ?x)) \<noteq> [])"
      using j cached(3-) cfg unfolding same by (intro exI [of _ j] exI [of _ clk']) simp
  qed
qed

text \<open>A provider whose secret is rotated every minute.\<close>

definition rotating_provider :: CredentialsProvider where
  "rotating_provider = \<lparr>prov_ID = ''vault'', prov_Resolve = (\<lambda>now t u.
     Inr (Some \<lparr>cred_TenantID = t, cred_ToolID = u, cred_Values = [(''token'', if now < minute then ''old'' else ''new'')]\<rparr>))\<rparr>"

theorem credential_answers_fresh_witness:
  "rr_values (broker_run (broker_PreStart (example_config [rotating_provider] minute 1 [] []))
      [(example_clock 0, ''acme'', ''fs''), (example_clock minute, ''acme'', ''fs'')] ! 1) = [(''token'', ''new'')]"
proof -
  let ?rs = "[(example_clock 0, ''acme'', ''fs''), (example_clock minute, ''acme'', ''fs'')]"
  have "\<forall>r \<in> set ?rs. colon_free (request_tenant r)" "1 < length ?rs" "?rs ! 1 = (example_clock minute, ''acme'', ''fs'')"
    by simp_all
  from credential_answers_fresh [OF this, of "example_config [rotating_provider] minute 1 [] []"]
  show ?thesis
    by (auto simp: le_Suc_eq example_config_def example_clock_def rotating_provider_def)
qed

text \<open>An answer is taken from the cache only while the entry is live; an expired
  entry is never used, and the providers are asked again.\<close>

theorem credential_expired_not_used:
  assumes "gm_get (br_cache x) (cacheKey t u) = Some e" and "ce_expiresAt e \<le> clk_check clk"
  shows "rr_values (snd (handleResolve clk t u x)) = resolve_providers (clk_asked clk) (br_providers x) t u \<and>
    (rr_Err (snd (handleResolve clk t u x)) = None \<longleftrightarrow> resolve_providers (clk_asked clk) (br_providers x) t u \<noteq> [])"
proof -
  have "cache_hit clk t u x = None"
    using assms by (simp add: cache_hit_def)
  with handleResolve_miss [OF this] handleResolve_status [of clk t u x] show ?thesis by blast
qed

theorem credential_expired_not_used_witness:
  "rr_values (snd (handleResolve (example_clock 10) ''acme'' ''fs''
      \<lparr>br_providers = [example_provider],
       br_cache = [(''acme:fs'', \<lparr>ce_creds = [(''token'', ''old'')], ce_expiresAt = 10, ce_lastAccess = 0\<rparr>)],
       br_cacheTTL = 5, br_maxEntries = 1\<rparr>)) = [(''token'', ''acme'')]"
  using credential_expired_not_used [of
      "\<lparr>br_providers = [example_provider],
        br_cache = [(''acme:fs'', \<lparr>ce_creds = [(''token'', ''old'')], ce_expiresAt = 10, ce_lastAccess = 0\<rparr>)],
        br_cacheTTL = 5, br_maxEntries = 1\<rparr>" "''acme''" "''fs''"
      "\<lparr>ce_creds = [(''token'', ''old'')], ce_expiresAt = 10, ce_lastAccess = 0\<rparr>" "example_clock 10"]
  by (simp add: cacheKey_def example_clock_def example_provider_def)

text \<open>When the cache is full of live entries, the entry evicted to make room is
  the one with the oldest access, and every other entry stays.\<close>

theorem credential_eviction_lru:
  assumes "broker_inv H x" and "0 < br_maxEntries x" and "int (gm_len (br_cache x)) = br_maxEntries x"
    and "\<forall>(k, e) \<in> set (br_cache x). now \<le> ce_expiresAt e"
  shows "\<exists>k e. (k, e) \<in> set (br_cache x) \<and> (\<forall>(k', e') \<in> set (br_cache x). ce_lastAccess e \<le> ce_lastAccess e') \<and>
    br_cache (evictIfNeeded now x) = gm_del k (br_cache x)"
proof -
  have live: "filter (\<lambda>(k, entry). \<not> (now > ce_expiresAt entry)) (br_cache x) = br_cache x"
    using assms(4) by (auto simp: filter_id_conv)
  have keys: "\<forall>(k, e) \<in> set (br_cache x). k \<noteq> ''''"
    using assms(1) entry_sound_key by (fastforce simp: broker_inv_def)
  have "br_cache x \<noteq> []"
    using assms(2,3) by auto
  moreover obtain k a where k: "oldest_loop ('''', 0) (br_cache x) = (k, a)" by fastforce
  ultimately obtain e where "k \<noteq> ''''" "(k, e) \<in> set (br_cache x)" "a = ce_lastAccess e"
      "\<forall>(k', e') \<in> set (br_cache x). a \<le> ce_lastAccess e'"
    using oldest_loop_start [OF _ keys k] by blast
  with assms(2,3) k show ?thesis
    by (intro exI [of _ k] exI [of _ e]) (simp add: evictIfNeeded_def live Let_def)
qed

theorem credential_eviction_lru_witness:
  "br_cache (evictIfNeeded 5
      \<lparr>br_providers = [example_provider],
       br_cache = [(''acme:fs'', \<lparr>ce_creds = [(''token'', ''acme'')], ce_expiresAt = 10, ce_lastAccess = 0\<rparr>)],
       br_cacheTTL = 5, br_maxEntries = 1\<rparr>) = []"
proof -
  let ?e = "\<lparr>ce_creds = [(''token'', ''acme'')], ce_expiresAt = 10, ce_lastAccess = 0\<rparr>"
  let ?x = "\<lparr>br_providers = [example_provider], br_cache = [(''acme:fs'', ?e)], br_cacheTTL = 5, br_maxEntries = 1\<rparr>"
  have "''acme:fs'' = cacheKey ''acme'' ''fs''"
    by (simp add: cacheKey_def)
  then have "entry_sound {(example_clock 5, ''acme'', ''fs'')} 5 [example_provider] (''acme:fs'', ?e)"
    unfolding entry_sound_def by (force simp: example_provider_def example_clock_def)
  then have "broker_inv {(example_clock 5, ''acme'', ''fs'')} ?x"
    by (simp add: broker_inv_def gm_ok_def)
  from credential_eviction_lru [OF this, of 5] show ?thesis by auto
qed

text \<open>The cache key joins tenant and tool with a colon, so a tenant identifier
  that contains a colon can be served the cached secret of another tenant.\<close>

theorem credential_cache_cross_tenant:
  "map rr_values (broker_run (broker_PreStart (example_config [tenant_only_provider ''acme:eu''] minute 10 [] []))
      [(example_clock 0, ''acme:eu'', ''fs''), (example_clock 1, ''acme'', ''eu:fs'')]) =
     [[(''token'', ''acme:eu'')], [(''token'', ''acme:eu'')]] \<and>
   resolve_providers (\<lambda>_. 1) [tenant_only_provider ''acme:eu''] ''acme'' ''eu:fs'' = []"
  by (simp add: example_config_def broker_PreStart_def tenant_only_provider_def handleResolve_def
      cacheKey_def rr_values_def example_clock_def evictIfNeeded_def Let_def)

end
