(* ===== verification/Audit_Journal.thy ===== *)
theory Audit_Journal
  imports Mcp_Types
begin

text \<open>
  Audit: event construction (internal/runtime/audit/events.go), the in-memory
  sink (memory_sink.go) and the journal actor (internal/runtime/actor/journal.go).
  The journal works with any implementation of \<open>mcp.AuditSink\<close>: its write and
  close functions are arguments of the handlers, its contract is the locale
  \<open>audit_sink\<close>, which the in-memory sink fulfils.
\<close>

section \<open>Event construction\<close>

definition MetadataKeyFromState :: string where "MetadataKeyFromState = ''from''"
definition MetadataKeyToState :: string where "MetadataKeyToState = ''to''"
definition MetadataKeyReason :: string where "MetadataKeyReason = ''reason''"
definition MetadataKeyFailureCount :: string where "MetadataKeyFailureCount = ''failure_count''"

lemmas metadata_keys =
  MetadataKeyFromState_def MetadataKeyToState_def MetadataKeyReason_def MetadataKeyFailureCount_def

abbreviation empty_event :: "AuditEventType \<Rightarrow> time \<Rightarrow> AuditEvent" where
  "empty_event typ now \<equiv>
     \<lparr>audit_Type = typ, audit_Timestamp = now, audit_TenantID = '''', audit_ClientID = '''',
      audit_ToolID = '''', audit_RequestID = '''', audit_TraceID = '''', audit_Outcome = '''',
      audit_ErrorCode = '''', audit_Message = '''', audit_Metadata = []\<rparr>"

definition HealthTransitionAuditEvent :: "time \<Rightarrow> string \<Rightarrow> string \<Rightarrow> string \<Rightarrow> AuditEvent" where
  "HealthTransitionAuditEvent now toolID fromState toState =
     (empty_event AuditEventTypeHealthTransition now)
       \<lparr>audit_ToolID := toolID, audit_Outcome := toState,
        audit_Metadata := [(MetadataKeyFromState, fromState), (MetadataKeyToState, toState)]\<rparr>"

definition CircuitStateChangeAuditEvent :: "time \<Rightarrow> string \<Rightarrow> string \<Rightarrow> strmap \<Rightarrow> AuditEvent" where
  "CircuitStateChangeAuditEvent now toolID state metadata =
     (empty_event AuditEventTypeCircuitStateChange now)
       \<lparr>audit_ToolID := toolID, audit_Outcome := state, audit_Metadata := metadata\<rparr>"

section \<open>In-memory sink\<close>

record MemorySink =
  ms_events :: "AuditEvent list"
  ms_closed :: bool

definition NewMemorySink :: MemorySink where
  "NewMemorySink = \<lparr>ms_events = [], ms_closed = False\<rparr>"

definition MemorySink_Write :: "AuditEvent \<Rightarrow> MemorySink \<Rightarrow> MemorySink \<times> go_error option" where
  "MemorySink_Write event m =
     (if ms_closed m then (m, None) else (m\<lparr>ms_events := ms_events m @ [event]\<rparr>, None))"

definition MemorySink_Close :: "MemorySink \<Rightarrow> MemorySink" where
  "MemorySink_Close m = m\<lparr>ms_closed := True\<rparr>"

definition MemorySink_Events :: "MemorySink \<Rightarrow> AuditEvent list" where
  "MemorySink_Events m = ms_events m"

section \<open>Journal actor\<close>

text \<open>
  \<open>jr_stream\<close> records what was published on the audit topic, or is nil without
  the extension. A write error is logged and otherwise ignored.
\<close>

record 's journaler =
  jr_sink :: "'s option"
  jr_stream :: "AuditEvent list option"

definition handleRecordAuditEvent ::
  "(AuditEvent \<Rightarrow> 's \<Rightarrow> 's \<times> go_error option) \<Rightarrow> 's journaler \<Rightarrow> AuditEvent option \<Rightarrow> 's journaler" where
  "handleRecordAuditEvent wr x msg =
     (case msg of
        None \<Rightarrow> x
      | Some event \<Rightarrow>
          x\<lparr>jr_sink := map_option (\<lambda>sink. fst (wr event sink)) (jr_sink x),
            jr_stream := map_option (\<lambda>s. s @ [event]) (jr_stream x)\<rparr>)"

definition journal_PostStop :: "('s \<Rightarrow> 's) \<Rightarrow> 's journaler \<Rightarrow> 's journaler" where
  "journal_PostStop close x = x\<lparr>jr_sink := map_option close (jr_sink x)\<rparr>"

section \<open>The contract of a sink\<close>

locale audit_sink =
  fixes wr :: "AuditEvent \<Rightarrow> 's \<Rightarrow> 's \<times> go_error option"
    and close :: "'s \<Rightarrow> 's"
    and contents :: "'s \<Rightarrow> AuditEvent list"
    and opened :: "'s \<Rightarrow> bool"
  assumes write_open: "opened s \<Longrightarrow> contents (fst (wr e s)) = contents s @ [e] \<and> opened (fst (wr e s))"
    and write_closed: "\<not> opened s \<Longrightarrow> contents (fst (wr e s)) = contents s \<and> \<not> opened (fst (wr e s))"
    and close_contents: "contents (close s) = contents s \<and> \<not> opened (close s)"
begin

lemma journal_run:
  assumes "jr_sink x = Some m" and "opened m" and "jr_stream x = Some s"
  shows "\<exists>m'. jr_sink (foldl (handleRecordAuditEvent wr) x es) = Some m' \<and> opened m' \<and>
    contents m' = contents m @ List.map_filter id es \<and>
    jr_stream (foldl (handleRecordAuditEvent wr) x es) = Some (s @ List.map_filter id es)"
  using assms
proof (induction es arbitrary: x m s)
  case Nil
  then show ?case by (simp add: List.map_filter_simps)
next
  case (Cons e es)
  show ?case
  proof (cases e)
    case None
    with Cons.IH [OF Cons.prems] show ?thesis
      by (simp add: handleRecordAuditEvent_def List.map_filter_simps)
  next
    case (Some ev)
    let ?x = "handleRecordAuditEvent wr x e"
    have "jr_sink ?x = Some (fst (wr ev m))" "jr_stream ?x = Some (s @ [ev])"
      using Cons.prems Some by (simp_all add: handleRecordAuditEvent_def)
    with Cons.IH [of ?x "fst (wr ev m)" "s @ [ev]"] Cons.prems(2) Some show ?thesis
      by (simp add: write_open List.map_filter_simps)
  qed
qed

lemma stopped_run:
  assumes "jr_sink x = Some m" and "\<not> opened m"
  shows "\<exists>m'. jr_sink (foldl (handleRecordAuditEvent wr) x es) = Some m' \<and> contents m' = contents m"
  using assms
proof (induction es arbitrary: x m)
  case Nil
  then show ?case by simp
next
  case (Cons e es)
  have "\<exists>m'. jr_sink (handleRecordAuditEvent wr x e) = Some m' \<and> \<not> opened m' \<and> contents m' = contents m"
    using Cons.prems write_closed [of m] by (auto simp: handleRecordAuditEvent_def split: option.split)
  with Cons.IH show ?case by fastforce
qed

end

interpretation mem: audit_sink MemorySink_Write MemorySink_Close MemorySink_Events "\<lambda>m. \<not> ms_closed m"
  by unfold_locales (simp_all add: MemorySink_Write_def MemorySink_Close_def MemorySink_Events_def)

section \<open>Properties\<close>

text \<open>C39: While the in-memory sink is open the journal records and publishes every
  non-nil event exactly once and in the order of arrival; once the actor has
  stopped, no later event reaches the sink.\<close>

theorem journal_complete_in_order:
  assumes "jr_sink x = Some m" and "\<not> ms_closed m" and "jr_stream x = Some s"
  shows "let y = foldl (handleRecordAuditEvent MemorySink_Write) x es;
             z = foldl (handleRecordAuditEvent MemorySink_Write) (journal_PostStop MemorySink_Close y) es' in
    map_option MemorySink_Events (jr_sink y) = Some (MemorySink_Events m @ List.map_filter id es) \<and>
    jr_stream y = Some (s @ List.map_filter id es) \<and>
    map_option MemorySink_Events (jr_sink z) = map_option MemorySink_Events (jr_sink y)"
proof -
  let ?y = "foldl (handleRecordAuditEvent MemorySink_Write) x es"
  obtain m' where y: "jr_sink ?y = Some m'" "MemorySink_Events m' = MemorySink_Events m @ List.map_filter id es"
      "jr_stream ?y = Some (s @ List.map_filter id es)"
    using mem.journal_run [OF assms, of es] by blast
  then have "jr_sink (journal_PostStop MemorySink_Close ?y) = Some (MemorySink_Close m')"
    by (simp add: journal_PostStop_def)
  from mem.stopped_run [OF this, of es'] y show ?thesis
    by (fastforce simp: Let_def mem.close_contents)
qed

theorem journal_complete_in_order_witness:
  "jr_stream (foldl (handleRecordAuditEvent MemorySink_Write) \<lparr>jr_sink = Some NewMemorySink, jr_stream = Some []\<rparr>
     [Some (HealthTransitionAuditEvent 1 ''fs'' ''enabled'' ''unavailable''), None,
      Some (CircuitStateChangeAuditEvent 2 ''fs'' ''open'' [])]) =
   Some [HealthTransitionAuditEvent 1 ''fs'' ''enabled'' ''unavailable'',
         CircuitStateChangeAuditEvent 2 ''fs'' ''open'' []]"
  using journal_complete_in_order [of "\<lparr>jr_sink = Some NewMemorySink, jr_stream = Some []\<rparr>" NewMemorySink "[]"
      "[Some (HealthTransitionAuditEvent 1 ''fs'' ''enabled'' ''unavailable''), None,
        Some (CircuitStateChangeAuditEvent 2 ''fs'' ''open'' [])]"]
  by (simp add: NewMemorySink_def List.map_filter_simps Let_def)

end
