(* ===== verification/Extensions.thy ===== *)
theory Extensions
  imports Mcp_Types
begin

text \<open>
  The system extensions of internal/runtime/actor/extension the actors share:
  the table of tool definitions, the dependency handed to a session grain with its
  binary form, and the extensions that carry a value to the actors.
\<close>

section \<open>Tool configuration extension\<close>

type_synonym ToolConfigExtension = "(ToolID, Tool) gomap"

definition ext_Register :: "Tool \<Rightarrow> ToolConfigExtension \<Rightarrow> ToolConfigExtension" where
  "ext_Register tool e = gm_put (tool_ID tool) tool e"

definition ext_Remove :: "ToolID \<Rightarrow> ToolConfigExtension \<Rightarrow> ToolConfigExtension" where
  "ext_Remove toolID e = gm_del toolID e"

definition ext_Get :: "ToolID \<Rightarrow> ToolConfigExtension \<Rightarrow> Tool option" where
  "ext_Get toolID e = gm_get e toolID"

text \<open>Every definition is filed under its own identifier.\<close>

definition ext_inv :: "ToolConfigExtension \<Rightarrow> bool" where
  "ext_inv e \<longleftrightarrow> gm_ok e \<and> (\<forall>k t. gm_get e k = Some t \<longrightarrow> tool_ID t = k)"

lemma ext_Get_Register [simp]:
  "ext_Get k (ext_Register t e) = (if k = tool_ID t then Some t else ext_Get k e)"
  by (simp add: ext_Get_def ext_Register_def gomap_simps)

lemma ext_Get_Remove [simp]: "ext_Get k (ext_Remove k' e) = (if k = k' then None else ext_Get k e)"
  by (simp add: ext_Get_def ext_Remove_def gomap_simps)

lemma ext_inv_Register [simp, keeps_inv]: "ext_inv e \<Longrightarrow> ext_inv (ext_Register t e)"
  by (auto simp: ext_inv_def ext_Register_def gomap_simps split: if_splits)

lemma ext_inv_Remove [simp, keeps_inv]: "ext_inv e \<Longrightarrow> ext_inv (ext_Remove k e)"
  by (auto simp: ext_inv_def ext_Remove_def gomap_simps split: if_splits)

lemma ext_inv_Nil [simp]: "ext_inv []"
  by (simp add: ext_inv_def)

lemma ext_inv_Get: "ext_inv e \<Longrightarrow> ext_Get k e = Some t \<Longrightarrow> tool_ID t = k"
  by (simp add: ext_inv_def ext_Get_def)

section \<open>Session dependency\<close>

record SessionDependency =
  dep_tenantID :: TenantID
  dep_clientID :: ClientID
  dep_toolID :: ToolID
  dep_tool :: Tool
  dep_credentials :: strmap

text \<open>The credentials are copied; a nil map and an empty one are both the empty map.\<close>

definition NewSessionDependency ::
  "TenantID \<Rightarrow> ClientID \<Rightarrow> ToolID \<Rightarrow> Tool \<Rightarrow> strmap \<Rightarrow> SessionDependency" where
  "NewSessionDependency tenantID clientID toolID tool credentials =
     \<lparr>dep_tenantID = tenantID, dep_clientID = clientID, dep_toolID = toolID, dep_tool = tool,
      dep_credentials = (if length credentials > 0 then credentials else [])\<rparr>"

definition SessionDependencyID :: string where "SessionDependencyID = ''session''"

text \<open>
  The binary form of a dependency: a payload with the same fields, encoded by the gob
  package of the Go library, which is an argument.
\<close>

record sessionDependencyPayload =
  pl_TenantID :: string
  pl_ClientID :: string
  pl_ToolID :: string
  pl_Tool :: Tool
  pl_Credentials :: strmap

record gob =
  gob_Encode :: "sessionDependencyPayload \<Rightarrow> go_error + string"
  gob_Decode :: "string \<Rightarrow> go_error + sessionDependencyPayload"

definition MarshalBinary :: "gob \<Rightarrow> SessionDependency \<Rightarrow> go_error + string" where
  "MarshalBinary gb s =
     (let payload = \<lparr>pl_TenantID = dep_tenantID s, pl_ClientID = dep_clientID s, pl_ToolID = dep_toolID s,
                     pl_Tool = dep_tool s, pl_Credentials = dep_credentials s\<rparr>
      in case gob_Encode gb payload of Inl err \<Rightarrow> Inl err | Inr data \<Rightarrow> Inr data)"

definition UnmarshalBinary :: "gob \<Rightarrow> string \<Rightarrow> SessionDependency \<Rightarrow> SessionDependency \<times> go_error option" where
  "UnmarshalBinary gb data s =
     (case gob_Decode gb data of
        Inl err \<Rightarrow> (s, Some err)
      | Inr payload \<Rightarrow>
          (s\<lparr>dep_tenantID := pl_TenantID payload, dep_clientID := pl_ClientID payload, dep_toolID := pl_ToolID payload,
             dep_tool := pl_Tool payload, dep_credentials := pl_Credentials payload\<rparr>, None))"

section \<open>Extensions that carry a value\<close>

definition ToolConfigExtensionID :: string where "ToolConfigExtensionID = ''tool-config''"
definition CircuitConfigExtensionID :: string where "CircuitConfigExtensionID = ''circuit-config''"
definition ConfigExtensionID :: string where "ConfigExtensionID = ''config''"
definition AuditStreamExtensionID :: string where "AuditStreamExtensionID = ''audit-stream''"
definition AuditStreamTopic :: string where "AuditStreamTopic = ''mcp.audit''"
definition ExecutorFactoryExtensionID :: string where "ExecutorFactoryExtensionID = ''executor-factory''"
definition SchemaFetcherExtensionID :: string where "SchemaFetcherExtensionID = ''schema-fetcher''"
definition ResourceFetcherExtensionID :: string where "ResourceFetcherExtensionID = ''resource-fetcher''"

lemmas extension_ids =
  ToolConfigExtensionID_def CircuitConfigExtensionID_def ConfigExtensionID_def AuditStreamExtensionID_def
  ExecutorFactoryExtensionID_def SchemaFetcherExtensionID_def ResourceFetcherExtensionID_def

text \<open>An extension by what it holds; values outside the model are handles.\<close>

datatype 'c system_extension =
    ToolConfigExt ToolConfigExtension
  | CircuitConfigExt 'c
  | ConfigExt handle
  | AuditStreamExt "handle option"
  | ExecutorFactoryExt "handle option"
  | SchemaFetcherExt "handle option"
  | ResourceFetcherExt "handle option"

fun ext_ID :: "'c system_extension \<Rightarrow> string" where
  "ext_ID (ToolConfigExt _) = ToolConfigExtensionID"
| "ext_ID (CircuitConfigExt _) = CircuitConfigExtensionID"
| "ext_ID (ConfigExt _) = ConfigExtensionID"
| "ext_ID (AuditStreamExt _) = AuditStreamExtensionID"
| "ext_ID (ExecutorFactoryExt _) = ExecutorFactoryExtensionID"
| "ext_ID (SchemaFetcherExt _) = SchemaFetcherExtensionID"
| "ext_ID (ResourceFetcherExt _) = ResourceFetcherExtensionID"

text \<open>The actor system finds an extension by its identifier.\<close>

definition ctx_Extension :: "string \<Rightarrow> 'c system_extension list \<Rightarrow> 'c system_extension option" where
  "ctx_Extension k exts = find (\<lambda>e. ext_ID e = k) exts"

section \<open>Properties\<close>

text \<open>A lookup by the identifier of an extension finds an extension of the same kind, so that the
  type assertions of the actors hold whatever extensions are registered.\<close>

fun same_kind :: "'c system_extension \<Rightarrow> 'c system_extension \<Rightarrow> bool" where
  "same_kind (ToolConfigExt _) (ToolConfigExt _) = True"
| "same_kind (CircuitConfigExt _) (CircuitConfigExt _) = True"
| "same_kind (ConfigExt _) (ConfigExt _) = True"
| "same_kind (AuditStreamExt _) (AuditStreamExt _) = True"
| "same_kind (ExecutorFactoryExt _) (ExecutorFactoryExt _) = True"
| "same_kind (SchemaFetcherExt _) (SchemaFetcherExt _) = True"
| "same_kind (ResourceFetcherExt _) (ResourceFetcherExt _) = True"
| "same_kind _ _ = False"

theorem extension_lookup_kind:
  "ctx_Extension (ext_ID e) exts = Some e' \<Longrightarrow> same_kind e e'"
  unfolding ctx_Extension_def by (drule find_SomeD, cases e; cases e') (auto simp: extension_ids)

text \<open>A session dependency survives being sent to another node: decoding what was encoded gives
  the same dependency, whatever object it is decoded into.\<close>

theorem session_dependency_roundtrip:
  assumes "\<And>p data. gob_Encode gb p = Inr data \<Longrightarrow> gob_Decode gb data = Inr p"
    and "MarshalBinary gb s = Inr data"
  shows "UnmarshalBinary gb data s' = (s, None)"
proof -
  from assms(2) have "gob_Decode gb data = Inr \<lparr>pl_TenantID = dep_tenantID s, pl_ClientID = dep_clientID s,
      pl_ToolID = dep_toolID s, pl_Tool = dep_tool s, pl_Credentials = dep_credentials s\<rparr>"
    by (auto simp: MarshalBinary_def Let_def intro!: assms(1) split: sum.splits)
  then show ?thesis by (cases s; cases s') (simp add: UnmarshalBinary_def)
qed

end
