(* ===== verification/Tool_Supervisor.thy ===== *)
theory Tool_Supervisor
  imports Mcp_Circuit Mcp_Config Naming Audit_Journal Extensions
begin

text \<open>
  The tool supervisor actor of internal/runtime/actor/tool_supervisor.go, one
  per registered tool: it owns the circuit breaker, the drain flag and the
  registry of active sessions. \<open>receive_ctx\<close> holds what a handler reads from
  its receive context: two clock readings (the breaker's and the audit
  event's), the actor's name, whether the journal resolves and runs, and the
  system extensions. Messages sent to the journal are the list \<open>so_events\<close>.

  Activating a grain is the actor runtime's work: \<open>GrainIdentity\<close> is an argument
  that maps the state of the grain engine, the grain's name, its dependency
  and its idle timeout to a new engine state and an identity or an error.
\<close>

section \<open>Constants, messages and state\<close>

definition canAcceptReasonToolMismatch :: string where
  "canAcceptReasonToolMismatch = ''tool ID mismatch''"
definition canAcceptReasonToolDisabled :: string where
  "canAcceptReasonToolDisabled = ''tool is disabled''"
definition canAcceptReasonToolDraining :: string where
  "canAcceptReasonToolDraining = ''tool is draining''"
definition canAcceptReasonCircuitOpen :: string where
  "canAcceptReasonCircuitOpen = ''circuit is open''"
definition canAcceptReasonHalfOpenLimit :: string where
  "canAcceptReasonHalfOpenLimit = ''half-open probe limit reached''"
definition canAcceptReasonBackpressureCap :: string where
  "canAcceptReasonBackpressureCap = ''tool session limit reached (backpressure)''"

lemmas can_accept_reasons =
  canAcceptReasonToolMismatch_def canAcceptReasonToolDisabled_def canAcceptReasonToolDraining_def
  canAcceptReasonCircuitOpen_def canAcceptReasonHalfOpenLimit_def canAcceptReasonBackpressureCap_def

record sessionRegistration =
  reg_TenantID :: TenantID
  reg_ClientID :: ClientID

record toolSupervisor =
  sv_tool :: Tool
  sv_circuit :: CircuitBreaker
  sv_journal :: bool
  sv_draining :: bool
  sv_sessions :: "(string, sessionRegistration) gomap"

record receive_ctx =
  ctx_now :: time
  ctx_auditNow :: time
  ctx_Self :: string
  ctx_ActorOf_journal :: "go_error option"
  ctx_journalRunning :: bool
  ctx_toolExt :: "ToolConfigExtension option"
  ctx_circuitExt :: "CircuitConfig option"

record ToolStatus =
  st_ToolID :: ToolID
  st_State :: ToolState
  st_Circuit :: CircuitState
  st_SessionCount :: int
  st_Draining :: bool
  st_Schemas :: "ToolSchema list"

datatype sup_msg =
    PostStart
  | CanAcceptWork ToolID
  | GetOrCreateSession TenantID ClientID ToolID strmap
  | ReportFailure ToolID
  | ReportSuccess ToolID
  | SessionActivated TenantID ClientID ToolID
  | SessionDeactivated TenantID ClientID ToolID
  | SupervisorCountSessionsForTenant TenantID
  | RefreshToolConfig ToolID
  | GetToolStatus ToolID
  | ResetCircuit ToolID
  | DrainTool ToolID
  | ListSupervisorSessions
  | OtherMessage

datatype sup_reply =
    CanAcceptWorkResult (Accept: bool) (Reason: string) (SessionCount: int)
  | GetOrCreateSessionResult "string option" bool "go_error option"
  | SupervisorCountSessionsForTenantResult int
  | GetToolStatusResult "ToolStatus option" "go_error option"
  | ResetCircuitResult "go_error option"
  | DrainToolResult "go_error option"
  | ListSupervisorSessionsResult "SessionInfo list"

record sup_out =
  so_events :: "AuditEvent list"
  so_reply :: "sup_reply option"
  so_err :: "go_error option"

abbreviation quiet :: sup_out where
  "quiet \<equiv> \<lparr>so_events = [], so_reply = None, so_err = None\<rparr>"

abbreviation reply :: "sup_reply \<Rightarrow> sup_out" where
  "reply r \<equiv> quiet\<lparr>so_reply := Some r\<rparr>"

text \<open>The state \<open>newToolSupervisor\<close> and \<open>PreStart\<close> leave: no tool yet (Go's zero value).\<close>

definition zero_tool :: Tool where
  "zero_tool = \<lparr>tool_ID = '''', tool_Transport = TransportOther '''', tool_Stdio = None,
     tool_HTTP = None, tool_GRPC = None, tool_StartupTimeout = 0, tool_RequestTimeout = 0,
     tool_IdleTimeout = 0, tool_Routing = RoutingOther '''', tool_CredentialPolicy = CredentialPolicyOther '''',
     tool_AuthorizationPolicy = AuthorizationPolicyOther '''', tool_State = ToolStateOther '''',
     tool_MaxSessionsPerTool = 0, tool_Schemas = [], tool_Resources = [], tool_ResourceTemplates = []\<rparr>"

definition supervisor_PreStart :: toolSupervisor where
  "supervisor_PreStart =
     \<lparr>sv_tool = zero_tool,
      sv_circuit = NewCircuitBreaker \<lparr>FailureThreshold = 0, OpenDuration = 0, HalfOpenMaxRequests = 0\<rparr>,
      sv_journal = False, sv_draining = False, sv_sessions = []\<rparr>"

section \<open>Audit of circuit transitions\<close>

definition circuitTransitionMetadata :: "CircuitTransition \<Rightarrow> strmap" where
  "circuitTransitionMetadata transition =
     (let meta = [(MetadataKeyReason, circuit_reason_string (tr_Reason transition))]
      in if tr_Reason transition = CircuitReasonThresholdExceeded
         then gm_put MetadataKeyFailureCount (Itoa (tr_FailureCount transition)) meta
         else meta)"

definition emitTransition ::
  "receive_ctx \<Rightarrow> toolSupervisor \<Rightarrow> CircuitTransition option \<Rightarrow> AuditEvent list" where
  "emitTransition ctx x transition =
     (case transition of
        None \<Rightarrow> []
      | Some t \<Rightarrow>
          if \<not> sv_journal x \<or> \<not> ctx_journalRunning ctx then []
          else [CircuitStateChangeAuditEvent (ctx_auditNow ctx) (tool_ID (sv_tool x))
                  (circuit_state_string (tr_To t)) (circuitTransitionMetadata t)])"

section \<open>Handlers\<close>

definition handlePostStart :: "receive_ctx \<Rightarrow> toolSupervisor \<Rightarrow> toolSupervisor \<times> sup_out" where
  "handlePostStart ctx x =
     (case ctx_ActorOf_journal ctx of
        Some err \<Rightarrow> (x, quiet\<lparr>so_err := Some err\<rparr>)
      | None \<Rightarrow>
          (let x = x\<lparr>sv_journal := True\<rparr>;
               toolID = ToolIDFromSupervisorName (ctx_Self ctx)
           in case ctx_toolExt ctx of
                None \<Rightarrow> (x, quiet\<lparr>so_err := Some (rt_error ErrCodeInternal ''tool config extension not found'')\<rparr>)
              | Some toolExt \<Rightarrow>
                  (case ext_Get toolID toolExt of
                     None \<Rightarrow> (x, quiet\<lparr>so_err := Some (rt_error ErrCodeInternal ''tool config not found'')\<rparr>)
                   | Some tool \<Rightarrow>
                       (let x = x\<lparr>sv_tool := tool\<rparr>
                        in case ctx_circuitExt ctx of
                             None \<Rightarrow> (x, quiet)
                           | Some cfg \<Rightarrow> (x\<lparr>sv_circuit := NewCircuitBreaker cfg\<rparr>, quiet)))))"

definition handleCanAcceptWork ::
  "receive_ctx \<Rightarrow> ToolID \<Rightarrow> toolSupervisor \<Rightarrow> toolSupervisor \<times> sup_out" where
  "handleCanAcceptWork ctx toolID x =
     (let sessionCount = int (gm_len (sv_sessions x));
          reject = (\<lambda>reason. CanAcceptWorkResult False reason sessionCount)
      in if toolID \<noteq> tool_ID (sv_tool x) then (x, reply (reject canAcceptReasonToolMismatch))
         else if tool_State (sv_tool x) = ToolStateDisabled then (x, reply (reject canAcceptReasonToolDisabled))
         else if sv_draining x then (x, reply (reject canAcceptReasonToolDraining))
         else
           (let (circuit, outcome, transition) = Acquire (ctx_now ctx) (sv_circuit x);
                x = x\<lparr>sv_circuit := circuit\<rparr>;
                out = (\<lambda>r. \<lparr>so_events = emitTransition ctx x transition, so_reply = Some r, so_err = None\<rparr>)
            in case outcome of
                 CircuitAcquireRejectedOpen \<Rightarrow> (x, out (reject canAcceptReasonCircuitOpen))
               | CircuitAcquireRejectedHalfOpenLimit \<Rightarrow> (x, out (reject canAcceptReasonHalfOpenLimit))
               | CircuitAcquireAccepted \<Rightarrow>
                   if tool_MaxSessionsPerTool (sv_tool x) > 0 \<and> sessionCount \<ge> tool_MaxSessionsPerTool (sv_tool x)
                   then (x, out (reject canAcceptReasonBackpressureCap))
                   else (x, out (CanAcceptWorkResult True '''' sessionCount))))"

definition sessionIdleTimeout :: "Tool \<Rightarrow> duration" where
  "sessionIdleTimeout tool =
     (if tool_IdleTimeout tool > 0 then tool_IdleTimeout tool else DefaultSessionIdleTimeout)"

type_synonym 'w grain_engine = "string \<Rightarrow> SessionDependency \<Rightarrow> duration \<Rightarrow> 'w \<Rightarrow> 'w \<times> (go_error + string)"

definition handleGetOrCreateSession ::
  "'w grain_engine \<Rightarrow> TenantID \<Rightarrow> ClientID \<Rightarrow> ToolID \<Rightarrow> strmap \<Rightarrow> toolSupervisor \<Rightarrow> 'w \<Rightarrow> 'w \<times> sup_reply" where
  "handleGetOrCreateSession GrainIdentity tenantID clientID toolID credentials x w =
     (if toolID \<noteq> tool_ID (sv_tool x)
      then (w, GetOrCreateSessionResult None False (Some (rt_error ErrCodeInvalidRequest ''tool ID mismatch'')))
      else
        (let sessDep = NewSessionDependency tenantID clientID toolID (sv_tool x) credentials;
             name = SessionName tenantID clientID toolID;
             (w, res) = GrainIdentity name sessDep (sessionIdleTimeout (sv_tool x)) w
         in case res of
              Inl err \<Rightarrow> (w, GetOrCreateSessionResult None False
                (Some (rt_wrap ErrCodeInternal ''failed to activate session grain'' err)))
            | Inr identity \<Rightarrow> (w, GetOrCreateSessionResult (Some identity) True None)))"

definition handleReportFailure ::
  "receive_ctx \<Rightarrow> ToolID \<Rightarrow> toolSupervisor \<Rightarrow> toolSupervisor \<times> sup_out" where
  "handleReportFailure ctx toolID x =
     (if toolID \<noteq> tool_ID (sv_tool x) then (x, quiet)
      else (let (circuit, transition) = OnFailure (ctx_now ctx) (sv_circuit x);
                x = x\<lparr>sv_circuit := circuit\<rparr>
            in (x, quiet\<lparr>so_events := emitTransition ctx x transition\<rparr>)))"

definition handleReportSuccess ::
  "receive_ctx \<Rightarrow> ToolID \<Rightarrow> toolSupervisor \<Rightarrow> toolSupervisor \<times> sup_out" where
  "handleReportSuccess ctx toolID x =
     (if toolID \<noteq> tool_ID (sv_tool x) then (x, quiet)
      else (let (circuit, transition) = OnSuccess (ctx_now ctx) (sv_circuit x);
                x = x\<lparr>sv_circuit := circuit\<rparr>
            in (x, quiet\<lparr>so_events := emitTransition ctx x transition\<rparr>)))"

definition handleSessionActivated ::
  "TenantID \<Rightarrow> ClientID \<Rightarrow> ToolID \<Rightarrow> toolSupervisor \<Rightarrow> toolSupervisor" where
  "handleSessionActivated tenantID clientID toolID x =
     (if toolID \<noteq> tool_ID (sv_tool x) then x
      else x\<lparr>sv_sessions := gm_put (SessionName tenantID clientID toolID)
               \<lparr>reg_TenantID = tenantID, reg_ClientID = clientID\<rparr> (sv_sessions x)\<rparr>)"

definition handleSessionDeactivated ::
  "TenantID \<Rightarrow> ClientID \<Rightarrow> ToolID \<Rightarrow> toolSupervisor \<Rightarrow> toolSupervisor" where
  "handleSessionDeactivated tenantID clientID toolID x =
     (if toolID \<noteq> tool_ID (sv_tool x) then x
      else x\<lparr>sv_sessions := gm_del (SessionName tenantID clientID toolID) (sv_sessions x)\<rparr>)"

definition handleCountSessionsForTenant :: "TenantID \<Rightarrow> toolSupervisor \<Rightarrow> sup_reply" where
  "handleCountSessionsForTenant tenantID x =
     SupervisorCountSessionsForTenantResult
       (foldl (\<lambda>count (_, reg). if reg_TenantID reg = tenantID then count + 1 else count) 0 (sv_sessions x))"

definition handleRefreshToolConfig :: "receive_ctx \<Rightarrow> ToolID \<Rightarrow> toolSupervisor \<Rightarrow> toolSupervisor" where
  "handleRefreshToolConfig ctx toolID x =
     (case ctx_toolExt ctx of
        None \<Rightarrow> x
      | Some toolExt \<Rightarrow>
          (case ext_Get toolID toolExt of
             None \<Rightarrow> x
           | Some tool \<Rightarrow>
               (let x = x\<lparr>sv_tool := tool\<rparr>
                in if tool_State tool = ToolStateEnabled then x\<lparr>sv_draining := False\<rparr> else x)))"

definition handleGetToolStatus ::
  "receive_ctx \<Rightarrow> ToolID \<Rightarrow> toolSupervisor \<Rightarrow> toolSupervisor \<times> sup_out" where
  "handleGetToolStatus ctx toolID x =
     (if toolID \<noteq> tool_ID (sv_tool x)
      then (x, reply (GetToolStatusResult None (Some (rt_error ErrCodeInvalidRequest ''tool ID mismatch''))))
      else
        (let (circuit, state, transition) = Peek (ctx_now ctx) (sv_circuit x);
             x = x\<lparr>sv_circuit := circuit\<rparr>
         in (x, \<lparr>so_events = emitTransition ctx x transition,
                 so_reply = Some (GetToolStatusResult
                   (Some \<lparr>st_ToolID = tool_ID (sv_tool x), st_State = tool_State (sv_tool x), st_Circuit = state,
                          st_SessionCount = int (gm_len (sv_sessions x)), st_Draining = sv_draining x, st_Schemas = []\<rparr>) None),
                 so_err = None\<rparr>)))"

definition handleResetCircuit ::
  "receive_ctx \<Rightarrow> ToolID \<Rightarrow> toolSupervisor \<Rightarrow> toolSupervisor \<times> sup_out" where
  "handleResetCircuit ctx toolID x =
     (if toolID \<noteq> tool_ID (sv_tool x)
      then (x, reply (ResetCircuitResult (Some (rt_error ErrCodeInvalidRequest ''tool ID mismatch''))))
      else
        (let (circuit, transition) = Reset (ctx_now ctx) (sv_circuit x);
             x = x\<lparr>sv_circuit := circuit\<rparr>
         in (x, (reply (ResetCircuitResult None))\<lparr>so_events := emitTransition ctx x transition\<rparr>)))"

definition handleDrainTool :: "ToolID \<Rightarrow> toolSupervisor \<Rightarrow> toolSupervisor \<times> sup_out" where
  "handleDrainTool toolID x =
     (if toolID \<noteq> tool_ID (sv_tool x)
      then (x, reply (DrainToolResult (Some (rt_error ErrCodeInvalidRequest ''tool ID mismatch''))))
      else (x\<lparr>sv_draining := True\<rparr>, reply (DrainToolResult None)))"

definition handleListSupervisorSessions :: "toolSupervisor \<Rightarrow> sup_reply" where
  "handleListSupervisorSessions x =
     ListSupervisorSessionsResult
       (map (\<lambda>(name, reg). \<lparr>sess_Name = name, sess_ToolID = tool_ID (sv_tool x),
                             sess_TenantID = reg_TenantID reg, sess_ClientID = reg_ClientID reg\<rparr>)
          (sv_sessions x))"

fun supervisor_Receive ::
  "'w grain_engine \<Rightarrow> receive_ctx \<Rightarrow> toolSupervisor \<Rightarrow> sup_msg \<Rightarrow> 'w \<Rightarrow> 'w \<times> toolSupervisor \<times> sup_out" where
  "supervisor_Receive g ctx x PostStart w = (w, handlePostStart ctx x)"
| "supervisor_Receive g ctx x (CanAcceptWork toolID) w = (w, handleCanAcceptWork ctx toolID x)"
| "supervisor_Receive g ctx x (GetOrCreateSession t c u creds) w =
     (let (w, r) = handleGetOrCreateSession g t c u creds x w in (w, x, reply r))"
| "supervisor_Receive g ctx x (ReportFailure toolID) w = (w, handleReportFailure ctx toolID x)"
| "supervisor_Receive g ctx x (ReportSuccess toolID) w = (w, handleReportSuccess ctx toolID x)"
| "supervisor_Receive g ctx x (SessionActivated t c u) w = (w, handleSessionActivated t c u x, quiet)"
| "supervisor_Receive g ctx x (SessionDeactivated t c u) w = (w, handleSessionDeactivated t c u x, quiet)"
| "supervisor_Receive g ctx x (SupervisorCountSessionsForTenant t) w =
     (w, x, reply (handleCountSessionsForTenant t x))"
| "supervisor_Receive g ctx x (RefreshToolConfig toolID) w = (w, handleRefreshToolConfig ctx toolID x, quiet)"
| "supervisor_Receive g ctx x (GetToolStatus toolID) w = (w, handleGetToolStatus ctx toolID x)"
| "supervisor_Receive g ctx x (ResetCircuit toolID) w = (w, handleResetCircuit ctx toolID x)"
| "supervisor_Receive g ctx x (DrainTool toolID) w = (w, handleDrainTool toolID x)"
| "supervisor_Receive g ctx x ListSupervisorSessions w = (w, x, reply (handleListSupervisorSessions x))"
| "supervisor_Receive g ctx x OtherMessage w = (w, x, quiet)"


section \<open>The state part of a handler\<close>

text \<open>
  No handler's effect on the supervisor depends on the grain engine; \<open>sup_step\<close>
  is that effect and \<open>sup_out_of\<close> the output of every message but the session request.
\<close>

definition no_engine :: "unit grain_engine" where
  "no_engine name dep idle w = (w, Inr name)"

definition sup_step :: "toolSupervisor \<Rightarrow> receive_ctx \<times> sup_msg \<Rightarrow> toolSupervisor" where
  "sup_step x e = fst (snd (supervisor_Receive no_engine (fst e) x (snd e) ()))"

lemma sup_step_simps [simp]:
  "sup_step x (ctx, PostStart) = fst (handlePostStart ctx x)"
  "sup_step x (ctx, CanAcceptWork u) = fst (handleCanAcceptWork ctx u x)"
  "sup_step x (ctx, GetOrCreateSession t c u creds) = x"
  "sup_step x (ctx, ReportFailure u) = fst (handleReportFailure ctx u x)"
  "sup_step x (ctx, ReportSuccess u) = fst (handleReportSuccess ctx u x)"
  "sup_step x (ctx, SessionActivated t c u) = handleSessionActivated t c u x"
  "sup_step x (ctx, SessionDeactivated t c u) = handleSessionDeactivated t c u x"
  "sup_step x (ctx, SupervisorCountSessionsForTenant t) = x"
  "sup_step x (ctx, RefreshToolConfig u) = handleRefreshToolConfig ctx u x"
  "sup_step x (ctx, GetToolStatus u) = fst (handleGetToolStatus ctx u x)"
  "sup_step x (ctx, ResetCircuit u) = fst (handleResetCircuit ctx u x)"
  "sup_step x (ctx, DrainTool u) = fst (handleDrainTool u x)"
  "sup_step x (ctx, ListSupervisorSessions) = x"
  "sup_step x (ctx, OtherMessage) = x"
  by (simp_all add: sup_step_def split: prod.split)

lemma supervisor_Receive_state: "fst (snd (supervisor_Receive g ctx x msg w)) = sup_step x (ctx, msg)"
  by (cases msg) (simp_all split: prod.split)

abbreviation sup_run :: "toolSupervisor \<Rightarrow> (receive_ctx \<times> sup_msg) list \<Rightarrow> toolSupervisor" where
  "sup_run \<equiv> foldl sup_step"

lemmas handler_defs =
  handlePostStart_def handleCanAcceptWork_def handleReportFailure_def handleReportSuccess_def
  handleSessionActivated_def handleSessionDeactivated_def handleRefreshToolConfig_def
  handleGetToolStatus_def handleResetCircuit_def handleDrainTool_def

lemmas handler_splits =
  prod.splits option.splits CircuitAcquireOutcome.splits if_splits

text \<open>What the handlers do to each field.\<close>

lemma handleCanAcceptWork_state:
  "fst (handleCanAcceptWork ctx u x) =
     (if u \<noteq> tool_ID (sv_tool x) \<or> tool_State (sv_tool x) = ToolStateDisabled \<or> sv_draining x then x
      else x\<lparr>sv_circuit := fst (Acquire (ctx_now ctx) (sv_circuit x))\<rparr>)"
  by (auto simp: handleCanAcceptWork_def Let_def split: prod.split CircuitAcquireOutcome.split)

lemma report_state:
  "fst (handleReportFailure ctx u x) =
     (if u \<noteq> tool_ID (sv_tool x) then x
      else x\<lparr>sv_circuit := fst (OnFailure (ctx_now ctx) (sv_circuit x))\<rparr>)"
  "fst (handleReportSuccess ctx u x) =
     (if u \<noteq> tool_ID (sv_tool x) then x
      else x\<lparr>sv_circuit := fst (OnSuccess (ctx_now ctx) (sv_circuit x))\<rparr>)"
  "fst (handleGetToolStatus ctx u x) =
     (if u \<noteq> tool_ID (sv_tool x) then x
      else x\<lparr>sv_circuit := fst (Peek (ctx_now ctx) (sv_circuit x))\<rparr>)"
  "fst (handleResetCircuit ctx u x) =
     (if u \<noteq> tool_ID (sv_tool x) then x
      else x\<lparr>sv_circuit := fst (Reset (ctx_now ctx) (sv_circuit x))\<rparr>)"
  by (simp_all add: handler_defs Let_def split: prod.split)

lemmas handler_states = handleCanAcceptWork_state report_state

section \<open>Invariant\<close>

text \<open>
  A supervisor of tool \<open>tid\<close>: a well-formed breaker, a session registry keyed by the
  names of the registered sessions. Messages are legal when they come from the
  registrar of this tool (its name, a refresh from a consistent extension).
\<close>

definition no_dash :: "string \<Rightarrow> bool" where
  "no_dash s \<longleftrightarrow> CHR ''-'' \<notin> set s"

definition sup_inv :: "ToolID \<Rightarrow> toolSupervisor \<Rightarrow> bool" where
  "sup_inv tid x \<longleftrightarrow>
     tool_ID (sv_tool x) = tid \<and> circuit_inv (sv_circuit x) \<and> gm_ok (sv_sessions x) \<and>
     (\<forall>(name, r) \<in> set (sv_sessions x). name = SessionName (reg_TenantID r) (reg_ClientID r) tid)"

fun sup_legal :: "ToolID \<Rightarrow> receive_ctx \<times> sup_msg \<Rightarrow> bool" where
  "sup_legal tid (ctx, PostStart) \<longleftrightarrow>
     ctx_Self ctx = ToolSupervisorName tid \<and> (case ctx_toolExt ctx of None \<Rightarrow> True | Some e \<Rightarrow> ext_inv e)"
| "sup_legal tid (ctx, RefreshToolConfig u) \<longleftrightarrow>
     u = tid \<and> (case ctx_toolExt ctx of None \<Rightarrow> True | Some e \<Rightarrow> ext_inv e)"
| "sup_legal tid _ \<longleftrightarrow> True"

lemma sup_inv_circuit [keeps_inv]:
  "sup_inv tid x \<Longrightarrow> circuit_inv c \<Longrightarrow> sup_inv tid (x\<lparr>sv_circuit := c\<rparr>)"
  by (simp add: sup_inv_def)

lemma sup_inv_draining: "sup_inv tid x \<Longrightarrow> sup_inv tid (x\<lparr>sv_draining := d\<rparr>)"
  by (simp add: sup_inv_def)

lemma sup_inv_sessions [keeps_inv]:
  assumes "sup_inv tid x"
  shows "sup_inv tid (handleSessionActivated t c u x)" "sup_inv tid (handleSessionDeactivated t c u x)"
  using assms by (auto simp: sup_inv_def handler_defs AList.delete_eq dest!: gm_in_put [rotated])

lemma sup_inv_config [keeps_inv]:
  assumes "sup_inv tid x"
  shows "sup_legal tid (ctx, PostStart) \<Longrightarrow> sup_inv tid (fst (handlePostStart ctx x))"
    and "sup_legal tid (ctx, RefreshToolConfig u) \<Longrightarrow> sup_inv tid (handleRefreshToolConfig ctx u x)"
  using assms
  by (auto simp: sup_inv_def handlePostStart_def handleRefreshToolConfig_def Let_def
      dest: ext_inv_Get split: option.splits)

interpretation sup: actor_guarded sup_step "sup_inv tid" "sup_legal tid" for tid
proof unfold_locales
  fix x e
  assume inv: "sup_inv tid x" and legal: "sup_legal tid e"
  obtain ctx msg where e: "e = (ctx, msg)" by (cases e)
  have "circuit_inv (sv_circuit x)"
    using inv by (simp add: sup_inv_def)
  then show "sup_inv tid (sup_step x e)"
    using inv legal unfolding e
    by (cases msg) (simp_all add: handler_states handleDrainTool_def sup_inv_draining keeps_inv
        del: sup_legal.simps(1,2))
qed


section \<open>The session registry\<close>

text \<open>The sessions the supervisor knows, and the set the lifecycle messages describe.\<close>

definition registered :: "toolSupervisor \<Rightarrow> (TenantID \<times> ClientID) set" where
  "registered x = (\<lambda>(_, r). (reg_TenantID r, reg_ClientID r)) ` set (sv_sessions x)"

fun lifecycle :: "ToolID \<Rightarrow> (TenantID \<times> ClientID) set \<Rightarrow> receive_ctx \<times> sup_msg \<Rightarrow> (TenantID \<times> ClientID) set" where
  "lifecycle tid S (_, SessionActivated t c u) = (if u = tid then insert (t, c) S else S)"
| "lifecycle tid S (_, SessionDeactivated t c u) = (if u = tid then S - {(t, c)} else S)"
| "lifecycle tid S _ = S"

fun clean_lifecycle :: "receive_ctx \<times> sup_msg \<Rightarrow> bool" where
  "clean_lifecycle (_, SessionActivated t c u) \<longleftrightarrow> no_dash t \<and> no_dash c"
| "clean_lifecycle (_, SessionDeactivated t c u) \<longleftrightarrow> no_dash t \<and> no_dash c"
| "clean_lifecycle _ \<longleftrightarrow> True"

definition clean_registry :: "toolSupervisor \<Rightarrow> bool" where
  "clean_registry x \<longleftrightarrow> (\<forall>(t, c) \<in> registered x. no_dash t \<and> no_dash c)"

lemma SessionName_clean:
  "no_dash t \<Longrightarrow> no_dash c \<Longrightarrow> no_dash t' \<Longrightarrow> no_dash c' \<Longrightarrow>
   SessionName t c u = SessionName t' c' u \<longleftrightarrow> t = t' \<and> c = c'"
  using SessionName_eqD [of t c u t' c' u] unfolding no_dash_def by blast

lemma registered_entry:
  assumes "sup_inv tid x" and "clean_registry x" and "(n, r) \<in> set (sv_sessions x)"
  shows "n = SessionName (reg_TenantID r) (reg_ClientID r) tid"
    "no_dash (reg_TenantID r)" "no_dash (reg_ClientID r)"
proof -
  show "n = SessionName (reg_TenantID r) (reg_ClientID r) tid"
    using assms(1,3) unfolding sup_inv_def by (elim conjE) (drule (1) bspec, simp)
  have "(reg_TenantID r, reg_ClientID r) \<in> registered x"
    using assms(3) unfolding registered_def by force
  with assms(2) show "no_dash (reg_TenantID r)" "no_dash (reg_ClientID r)"
    unfolding clean_registry_def by blast+
qed

lemma registered_lookup:
  assumes "sup_inv tid x" and "clean_registry x" and "no_dash t" and "no_dash c"
    and "gm_get (sv_sessions x) (SessionName t c tid) = Some r"
  shows "r = \<lparr>reg_TenantID = t, reg_ClientID = c\<rparr>"
proof -
  note r = registered_entry [OF assms(1,2) map_of_SomeD [OF assms(5)]]
  from r(1) have "t = reg_TenantID r \<and> c = reg_ClientID r"
    by (rule SessionName_clean [OF assms(3,4) r(2,3), THEN iffD1])
  then show ?thesis by simp
qed

lemma registered_put:
  assumes "sup_inv tid x" and "clean_registry x" and "no_dash t" and "no_dash c"
  shows "registered (handleSessionActivated t c tid x) = insert (t, c) (registered x)"
proof -
  let ?n = "SessionName t c tid" and ?r = "\<lparr>reg_TenantID = t, reg_ClientID = c\<rparr>"
  have id: "tool_ID (sv_tool x) = tid" and ok: "gm_ok (sv_sessions x)"
    using assms(1) by (simp_all add: sup_inv_def)
  have "set (gm_put ?n ?r (sv_sessions x)) = insert (?n, ?r) (set (sv_sessions x))"
    using ok registered_lookup [OF assms] by (auto simp: gm_in_iff gomap_simps split: if_splits)
  with id show ?thesis
    by (simp add: registered_def handleSessionActivated_def)
qed

lemma registered_del:
  assumes "sup_inv tid x" and "clean_registry x" and "no_dash t" and "no_dash c"
  shows "registered (handleSessionDeactivated t c tid x) = registered x - {(t, c)}"
proof -
  let ?n = "SessionName t c tid"
  have id: "tool_ID (sv_tool x) = tid"
    using assms(1) by (simp add: sup_inv_def)
  have "fst p = ?n \<longleftrightarrow> (reg_TenantID (snd p), reg_ClientID (snd p)) = (t, c)" if "p \<in> set (sv_sessions x)" for p
  proof -
    note p = registered_entry [OF assms(1,2), of "fst p" "snd p", unfolded prod.collapse, OF that]
    show ?thesis
      unfolding p(1) SessionName_clean [OF p(2,3) assms(3,4)] by simp
  qed
  then show ?thesis
    using id by (fastforce simp: registered_def handleSessionDeactivated_def AList.delete_eq)
qed

lemma registered_frame:
  assumes "\<nexists>t c u. msg = SessionActivated t c u \<or> msg = SessionDeactivated t c u"
  shows "sv_sessions (sup_step x (ctx, msg)) = sv_sessions x"
  using assms
  by (cases msg) (auto simp: handler_states handlePostStart_def handleRefreshToolConfig_def
      handleDrainTool_def Let_def split: option.splits)

lemma registry_step:
  assumes "sup_inv tid x" and "clean_registry x" and "clean_lifecycle e"
  shows "registered (sup_step x e) = lifecycle tid (registered x) e \<and> clean_registry (sup_step x e)"
proof -
  obtain ctx msg where e: "e = (ctx, msg)" by (cases e)
  have id: "tool_ID (sv_tool x) = tid"
    using assms(1) by (simp add: sup_inv_def)
  have "registered (sup_step x e) = lifecycle tid (registered x) e"
    using assms id registered_put [OF assms(1,2)] registered_del [OF assms(1,2)]
      registered_frame [of msg x ctx] unfolding e
    by (cases msg) (auto simp: registered_def handleSessionActivated_def handleSessionDeactivated_def)
  moreover have "clean_registry (sup_step x e)"
    using calculation assms(2,3) unfolding e clean_registry_def by (cases msg) auto
  ultimately show ?thesis by blast
qed

lemma registry_run:
  assumes "sup_inv tid x" and "clean_registry x"
    and "\<forall>e \<in> set es. sup_legal tid e \<and> clean_lifecycle e"
  shows "registered (sup_run x es) = foldl (lifecycle tid) (registered x) es \<and>
    clean_registry (sup_run x es) \<and> sup_inv tid (sup_run x es)"
  using assms
  by (induction es arbitrary: x) (simp_all add: registry_step sup.legal_step_keeps)

lemma tenant_count:
  assumes "sup_inv tid x"
  shows "length (filter (\<lambda>(_, r). reg_TenantID r = t) (sv_sessions x)) = card {c. (t, c) \<in> registered x}"
proof -
  let ?l = "filter (\<lambda>(_, r). reg_TenantID r = t) (sv_sessions x)"
  have ok: "gm_ok (sv_sessions x)"
    and key: "\<And>n r. (n, r) \<in> set (sv_sessions x) \<Longrightarrow> n = SessionName (reg_TenantID r) (reg_ClientID r) tid"
    using assms by (auto simp: sup_inv_def)
  have "distinct ?l"
    using ok by (auto simp: gm_ok_def distinct_map intro: distinct_filter)
  then have "length ?l = card (set ?l)"
    by (metis distinct_card)
  also have "inj_on (\<lambda>(_, r). reg_ClientID r) (set ?l)"
    by (rule inj_onI) (auto dest!: key)
  then have "card (set ?l) = card ((\<lambda>(_, r). reg_ClientID r) ` set ?l)"
    by (simp add: card_image)
  also have "(\<lambda>(_, r). reg_ClientID r) ` set ?l = {c. (t, c) \<in> registered x}"
    by (force simp: registered_def)
  finally show ?thesis .
qed

lemma count_reply:
  assumes "sup_inv tid x"
  shows "handleCountSessionsForTenant t x =
    SupervisorCountSessionsForTenantResult (int (card {c. (t, c) \<in> registered x}))"
  unfolding handleCountSessionsForTenant_def tenant_count [OF assms, symmetric]
  using foldl_count [of "\<lambda>(_, r). reg_TenantID r = t" 0 "sv_sessions x"]
  by (simp add: case_prod_unfold)


section \<open>Draining, refreshed definitions, exhausted probe slots\<close>

fun config_msg :: "receive_ctx \<times> sup_msg \<Rightarrow> bool" where
  "config_msg (_, PostStart) \<longleftrightarrow> True"
| "config_msg (_, RefreshToolConfig u) \<longleftrightarrow> True"
| "config_msg _ \<longleftrightarrow> False"

interpretation sup_tool: actor_frame sup_step "\<lambda>_. True" sv_tool config_msg
proof unfold_locales
  fix x :: toolSupervisor and e
  show "\<not> config_msg e \<Longrightarrow> sv_tool (sup_step x e) = sv_tool x"
    by (cases e; cases "snd e")
      (auto simp: handler_states handleDrainTool_def handleSessionActivated_def handleSessionDeactivated_def)
qed simp

interpretation drained: actor_guarded sup_step sv_draining "\<lambda>e. \<not> config_msg e"
proof unfold_locales
  fix x :: toolSupervisor and e
  assume "sv_draining x" and "\<not> config_msg e"
  then show "sv_draining (sup_step x e)"
    by (cases e; cases "snd e")
      (auto simp: handler_states handleDrainTool_def handleSessionActivated_def handleSessionDeactivated_def)
qed

definition exhausted :: "CircuitBreaker \<Rightarrow> bool" where
  "exhausted b \<longleftrightarrow>
     cb_state b = CircuitHalfOpen \<and> cb_halfOpenInFlight b \<ge> HalfOpenMaxRequests (cb_config b)"

fun outcome_msg :: "receive_ctx \<times> sup_msg \<Rightarrow> bool" where
  "outcome_msg (_, ReportFailure u) \<longleftrightarrow> True"
| "outcome_msg (_, ReportSuccess u) \<longleftrightarrow> True"
| "outcome_msg (_, ResetCircuit u) \<longleftrightarrow> True"
| "outcome_msg (_, PostStart) \<longleftrightarrow> True"
| "outcome_msg _ \<longleftrightarrow> False"

interpretation wedged: actor_guarded sup_step "\<lambda>x. exhausted (sv_circuit x)" "\<lambda>e. \<not> outcome_msg e"
proof unfold_locales
  fix x :: toolSupervisor and e
  assume "exhausted (sv_circuit x)" and "\<not> outcome_msg e"
  then show "exhausted (sv_circuit (sup_step x e))"
    by (cases e; cases "snd e")
      (auto simp: exhausted_def exhausted_acquire half_open_peek handler_states handleDrainTool_def
        handleSessionActivated_def handleSessionDeactivated_def handleRefreshToolConfig_def Let_def
        split: option.splits)
qed

section \<open>Acceptance\<close>

definition sup_accepts :: "receive_ctx \<Rightarrow> ToolID \<Rightarrow> toolSupervisor \<Rightarrow> bool" where
  "sup_accepts ctx u x =
     (case so_reply (snd (handleCanAcceptWork ctx u x)) of
        Some (CanAcceptWorkResult a _ _) \<Rightarrow> a | _ \<Rightarrow> False)"

lemma sup_accepts_iff:
  "sup_accepts ctx u x \<longleftrightarrow>
     u = tool_ID (sv_tool x) \<and> tool_State (sv_tool x) \<noteq> ToolStateDisabled \<and> \<not> sv_draining x \<and>
     fst (snd (Acquire (ctx_now ctx) (sv_circuit x))) = CircuitAcquireAccepted \<and>
     (tool_MaxSessionsPerTool (sv_tool x) \<le> 0 \<or>
      int (gm_len (sv_sessions x)) < tool_MaxSessionsPerTool (sv_tool x))"
  by (auto simp: sup_accepts_def handleCanAcceptWork_def Let_def
      split: prod.split CircuitAcquireOutcome.split)

lemma wedged_rejects: "exhausted (sv_circuit x) \<Longrightarrow> \<not> sup_accepts ctx u x"
  by (simp add: sup_accepts_iff exhausted_def exhausted_acquire)

section \<open>Audit of the breaker\<close>

abbreviation event_facts :: "AuditEvent list \<Rightarrow> (AuditEventType \<times> string \<times> string) list" where
  "event_facts \<equiv> map (\<lambda>e. (audit_Type e, audit_ToolID e, audit_Outcome e))"

lemma emitTransition_reports:
  assumes "reports_change (sv_circuit x) c t" and "sv_journal x" and "ctx_journalRunning ctx"
  shows "event_facts (emitTransition ctx (x\<lparr>sv_circuit := c\<rparr>) t) =
    (if cb_state c = cb_state (sv_circuit x) then []
     else [(AuditEventTypeCircuitStateChange, tool_ID (sv_tool x), circuit_state_string (cb_state c))])"
  using assms by (auto simp: emitTransition_def reports_change_def CircuitStateChangeAuditEvent_def
      split: option.splits)

lemma handler_events:
  "so_events (snd (handleCanAcceptWork ctx u x)) =
     (if u \<noteq> tool_ID (sv_tool x) \<or> tool_State (sv_tool x) = ToolStateDisabled \<or> sv_draining x then []
      else emitTransition ctx (fst (handleCanAcceptWork ctx u x)) (snd (snd (Acquire (ctx_now ctx) (sv_circuit x)))))"
  "so_events (snd (handleReportFailure ctx u x)) =
     (if u \<noteq> tool_ID (sv_tool x) then []
      else emitTransition ctx (fst (handleReportFailure ctx u x)) (snd (OnFailure (ctx_now ctx) (sv_circuit x))))"
  "so_events (snd (handleReportSuccess ctx u x)) =
     (if u \<noteq> tool_ID (sv_tool x) then []
      else emitTransition ctx (fst (handleReportSuccess ctx u x)) (snd (OnSuccess (ctx_now ctx) (sv_circuit x))))"
  "so_events (snd (handleGetToolStatus ctx u x)) =
     (if u \<noteq> tool_ID (sv_tool x) then []
      else emitTransition ctx (fst (handleGetToolStatus ctx u x)) (snd (snd (Peek (ctx_now ctx) (sv_circuit x)))))"
  "so_events (snd (handleResetCircuit ctx u x)) =
     (if u \<noteq> tool_ID (sv_tool x) then []
      else emitTransition ctx (fst (handleResetCircuit ctx u x)) (snd (Reset (ctx_now ctx) (sv_circuit x))))"
  by (auto simp: handler_defs Let_def split: prod.split CircuitAcquireOutcome.split)

lemma audit_step:
  assumes "msg \<noteq> PostStart" and "sv_journal x" and "ctx_journalRunning ctx"
    and "supervisor_Receive g ctx x msg w = (w', x', out)"
  shows "event_facts (so_events out) =
    (if cb_state (sv_circuit x') = cb_state (sv_circuit x) then []
     else [(AuditEventTypeCircuitStateChange, tool_ID (sv_tool x), circuit_state_string (cb_state (sv_circuit x')))])"
proof -
  note report = circuit_ops_report [of "sv_circuit x" "ctx_now ctx", THEN emitTransition_reports, OF assms(2,3)]
  have x': "x' = fst (snd (supervisor_Receive g ctx x msg w))"
    and out: "out = snd (snd (supervisor_Receive g ctx x msg w))"
    using assms(4) by simp_all
  show ?thesis
    unfolding x' out using assms(1,2) report
    by (cases msg)
      (auto simp: handler_events handler_states handleSessionActivated_def
        handleSessionDeactivated_def handleDrainTool_def handleRefreshToolConfig_def Let_def
        split: option.splits prod.splits)
qed

text \<open>The events recorded over a run of messages.\<close>

fun sup_trail :: "toolSupervisor \<Rightarrow> (receive_ctx \<times> sup_msg) list \<Rightarrow> AuditEvent list" where
  "sup_trail x [] = []"
| "sup_trail x (e # es) =
     so_events (snd (snd (supervisor_Receive no_engine (fst e) x (snd e) ()))) @ sup_trail (sup_step x e) es"

lemma circuit_state_string_inject: "circuit_state_string a = circuit_state_string b \<longleftrightarrow> a = b"
  by (cases a; cases b) simp_all

lemma sup_step_journal: "snd e \<noteq> PostStart \<Longrightarrow> sv_journal (sup_step x e) = sv_journal x"
  by (cases e; cases "snd e")
    (auto simp: handler_states handleDrainTool_def handleSessionActivated_def handleSessionDeactivated_def
      handleRefreshToolConfig_def Let_def split: option.splits)

lemma trail_of_run:
  assumes "sup_inv tid x" and "sv_journal x"
    and "\<forall>e \<in> set es. sup_legal tid e \<and> snd e \<noteq> PostStart \<and> ctx_journalRunning (fst e)"
  shows "(\<forall>ev \<in> set (sup_trail x es). audit_Type ev = AuditEventTypeCircuitStateChange \<and> audit_ToolID ev = tid) \<and>
    distinct_adj (circuit_state_string (cb_state (sv_circuit x)) # map audit_Outcome (sup_trail x es)) \<and>
    last (circuit_state_string (cb_state (sv_circuit x)) # map audit_Outcome (sup_trail x es)) =
      circuit_state_string (cb_state (sv_circuit (sup_run x es)))"
  using assms
proof (induction es arbitrary: x)
  case (Cons e es)
  let ?y = "sup_step x e" and ?evs = "so_events (snd (snd (supervisor_Receive no_engine (fst e) x (snd e) ())))"
  let ?s = "circuit_state_string (cb_state (sv_circuit x))" and ?s' = "circuit_state_string (cb_state (sv_circuit ?y))"
  from Cons.prems have inv: "sup_inv tid ?y" and "sv_journal ?y"
    by (auto intro: sup.legal_step_keeps simp: sup_step_journal)
  note IH = Cons.IH [OF this] and tid = Cons.prems(1) [unfolded sup_inv_def]
  have facts: "event_facts ?evs = (if cb_state (sv_circuit ?y) = cb_state (sv_circuit x) then []
      else [(AuditEventTypeCircuitStateChange, tool_ID (sv_tool x), ?s')])"
    using audit_step [of "snd e" x "fst e" no_engine "()"] Cons.prems(2,3) unfolding sup_step_def
    by (auto simp: prod_eq_iff)
  show ?case
  proof (cases "cb_state (sv_circuit ?y) = cb_state (sv_circuit x)")
    case True
    with facts have "?evs = []" by simp
    with IH Cons.prems(3) True show ?thesis by simp
  next
    case False
    with facts obtain ev where "?evs = [ev]" "audit_Type ev = AuditEventTypeCircuitStateChange"
        "audit_ToolID ev = tid" "audit_Outcome ev = ?s'"
      using tid by (auto simp: map_eq_Cons_conv)
    with IH Cons.prems(3) False show ?thesis by (simp add: circuit_state_string_inject)
  qed
qed simp

section \<open>Started supervisors\<close>

definition started_ok :: "ToolID \<Rightarrow> receive_ctx \<Rightarrow> Tool \<Rightarrow> bool" where
  "started_ok tid ctx tool \<longleftrightarrow>
     ctx_Self ctx = ToolSupervisorName tid \<and> ctx_ActorOf_journal ctx = None \<and>
     (\<exists>e. ctx_toolExt ctx = Some e \<and> ext_inv e \<and> ext_Get tid e = Some tool)"

abbreviation start_supervisor :: "receive_ctx \<Rightarrow> toolSupervisor" where
  "start_supervisor ctx \<equiv> sup_step supervisor_PreStart (ctx, PostStart)"

lemma started:
  assumes "started_ok tid ctx tool"
  shows "sup_inv tid (start_supervisor ctx)" "sv_tool (start_supervisor ctx) = tool"
    "sv_sessions (start_supervisor ctx) = []" "\<not> sv_draining (start_supervisor ctx)"
    "sv_journal (start_supervisor ctx)"
  using assms
  by (auto simp: started_ok_def handlePostStart_def supervisor_PreStart_def sup_inv_def Let_def
      dest: ext_inv_Get split: option.splits)

definition example_ctx :: "time \<Rightarrow> Tool \<Rightarrow> receive_ctx" where
  "example_ctx now tool =
     \<lparr>ctx_now = now, ctx_auditNow = now, ctx_Self = ToolSupervisorName (tool_ID tool), ctx_ActorOf_journal = None,
      ctx_journalRunning = True, ctx_toolExt = Some [(tool_ID tool, tool)],
      ctx_circuitExt = Some \<lparr>FailureThreshold = 1, OpenDuration = 10, HalfOpenMaxRequests = 1\<rparr>\<rparr>"

lemma example_started [simp]: "started_ok (tool_ID tool) (example_ctx now tool) tool"
  by (auto simp: started_ok_def example_ctx_def ext_inv_def ext_Get_def gm_ok_def)

lemma example_tool_ID [simp]: "tool_ID example_tool = ''fs''" "tool_State example_tool = ToolStateEnabled"
  by (simp_all add: example_tool_def)

section \<open>Properties\<close>

text \<open>C7: A supervisor accepts work exactly when the request is for its tool, the tool
  is not disabled or draining, its circuit breaker (as specified) grants the call
  and the session limit is not reached; the reply always carries the session
  count, and a supervisor that is disabled or draining does not touch the breaker.\<close>

theorem supervisor_accepts_iff:
  "let (x', out) = handleCanAcceptWork ctx u x in
   (\<exists>r. so_reply out = Some (CanAcceptWorkResult
      (u = tool_ID (sv_tool x) \<and> tool_State (sv_tool x) \<noteq> ToolStateDisabled \<and> \<not> sv_draining x \<and>
       spec_accepts (cb_config (sv_circuit x)) (ctx_now ctx) (abs_breaker (sv_circuit x)) \<and>
       (tool_MaxSessionsPerTool (sv_tool x) \<le> 0 \<or>
        int (gm_len (sv_sessions x)) < tool_MaxSessionsPerTool (sv_tool x))) r (int (gm_len (sv_sessions x))))) \<and>
   sv_circuit x' =
     (if u = tool_ID (sv_tool x) \<and> tool_State (sv_tool x) \<noteq> ToolStateDisabled \<and> \<not> sv_draining x
      then fst (Acquire (ctx_now ctx) (sv_circuit x)) else sv_circuit x)"
  using accepts_refines_spec [of "ctx_now ctx" "sv_circuit x", symmetric]
  by (auto simp: handleCanAcceptWork_def Let_def split: prod.split CircuitAcquireOutcome.split)

text \<open>C20: However lifecycle, outcome and administrative messages interleave, a
  supervisor's breaker stays well formed and the number of sessions it reports for
  a tenant is the number of distinct clients activated and not deactivated since
  (for tenant and client identifiers without a dash).\<close>

theorem supervisor_registry_counts:
  assumes "started_ok tid ctx tool" and "\<forall>e \<in> set es. sup_legal tid e \<and> clean_lifecycle e"
  shows "circuit_inv (sv_circuit (sup_run (start_supervisor ctx) es)) \<and>
    handleCountSessionsForTenant t (sup_run (start_supervisor ctx) es) =
      SupervisorCountSessionsForTenantResult (int (card {c. (t, c) \<in> foldl (lifecycle tid) {} es}))"
proof -
  have "registered (start_supervisor ctx) = {}" "clean_registry (start_supervisor ctx)"
    using started(3) [OF assms(1)] by (simp_all add: clean_registry_def registered_def)
  with registry_run [OF started(1) [OF assms(1)] _ assms(2)]
  have "registered (sup_run (start_supervisor ctx) es) = foldl (lifecycle tid) {} es"
    and "sup_inv tid (sup_run (start_supervisor ctx) es)" by simp_all
  then show ?thesis
    by (simp add: count_reply) (simp add: sup_inv_def)
qed

theorem supervisor_registry_counts_witness:
  "handleCountSessionsForTenant ''acme'' (sup_run (start_supervisor (example_ctx 0 example_tool))
     (map (Pair (example_ctx 1 example_tool))
       [SessionActivated ''acme'' ''web'' ''fs'', SessionActivated ''acme'' ''cli'' ''fs'',
        SessionActivated ''globex'' ''web'' ''fs'', SessionActivated ''acme'' ''web'' ''fs'',
        ReportFailure ''fs'', SessionDeactivated ''acme'' ''cli'' ''fs''])) =
   SupervisorCountSessionsForTenantResult 1"
proof -
  let ?es = "map (Pair (example_ctx 1 example_tool))
       [SessionActivated ''acme'' ''web'' ''fs'', SessionActivated ''acme'' ''cli'' ''fs'',
        SessionActivated ''globex'' ''web'' ''fs'', SessionActivated ''acme'' ''web'' ''fs'',
        ReportFailure ''fs'', SessionDeactivated ''acme'' ''cli'' ''fs'']"
  have "{c. (''acme'', c) \<in> foldl (lifecycle ''fs'') {} ?es} = {''web''}"
    by auto
  then show ?thesis
    using supervisor_registry_counts [OF example_started [of example_tool 0], of ?es "''acme''"]
    by (simp add: no_dash_def)
qed

text \<open>From a drain request on, until the tool's definition is refreshed, every
  request for work is rejected and leaves the supervisor as it is, whatever other
  messages arrive; a refresh that finds the tool enabled ends draining.\<close>

theorem supervisor_drain_rejects:
  assumes "tool_ID (sv_tool x) = u" and "\<forall>e \<in> set es. \<not> config_msg e"
  shows "let y = sup_run (fst (handleDrainTool u x)) es in
    \<not> sup_accepts ctx u y \<and> fst (handleCanAcceptWork ctx u y) = y \<and>
    (ctx_toolExt ctx = Some e \<and> ext_Get u e = Some tool \<and> tool_State tool = ToolStateEnabled \<longrightarrow>
      \<not> sv_draining (handleRefreshToolConfig ctx u y))"
proof -
  let ?y = "sup_run (fst (handleDrainTool u x)) es"
  have "sv_draining ?y"
    using assms by (intro drained.legal_run_keeps) (simp_all add: handleDrainTool_def)
  moreover have "sv_tool ?y = sv_tool x"
    using sup_tool.run_frame [of es] assms by (simp add: handleDrainTool_def)
  ultimately show ?thesis
    using assms(1)
    by (simp add: Let_def sup_accepts_iff handleCanAcceptWork_state handleRefreshToolConfig_def)
qed

theorem supervisor_drain_rejects_witness:
  "\<not> sup_accepts (example_ctx 2 example_tool) ''fs''
     (sup_run (fst (handleDrainTool ''fs'' (start_supervisor (example_ctx 0 example_tool))))
       [(example_ctx 1 example_tool, ReportSuccess ''fs''), (example_ctx 1 example_tool, ResetCircuit ''fs'')])"
  using supervisor_drain_rejects [of "start_supervisor (example_ctx 0 example_tool)" "''fs''"
      "[(example_ctx 1 example_tool, ReportSuccess ''fs''), (example_ctx 1 example_tool, ResetCircuit ''fs'')]"
      "example_ctx 2 example_tool"]
    started(2) [OF example_started [of example_tool 0]]
  by (simp add: Let_def)

text \<open>C40: The audit trail of a supervisor tells the history of its circuit breaker. While the journal runs,
  the circuit events a started supervisor records over any messages all name its tool, and
  their outcomes are the states the breaker went through after the closed one it began
  in: no state is recorded twice in a row, and the last one recorded is the present one.\<close>

theorem supervisor_audit_trail:
  assumes "started_ok tid ctx tool"
    and "\<forall>e \<in> set es. sup_legal tid e \<and> snd e \<noteq> PostStart \<and> ctx_journalRunning (fst e)"
  shows "let x = start_supervisor ctx; trail = sup_trail x es; states = ''closed'' # map audit_Outcome trail in
    (\<forall>ev \<in> set trail. audit_Type ev = AuditEventTypeCircuitStateChange \<and> audit_ToolID ev = tid) \<and>
    distinct_adj states \<and> last states = circuit_state_string (cb_state (sv_circuit (sup_run x es)))"
proof -
  have closed: "circuit_state_string (cb_state (sv_circuit (start_supervisor ctx))) = ''closed''"
    using assms(1) by (auto simp: started_ok_def handlePostStart_def supervisor_PreStart_def NewCircuitBreaker_def Let_def
        split: option.splits)
  show ?thesis
    using trail_of_run [OF started(1) [OF assms(1)] started(5) [OF assms(1)] assms(2)] unfolding closed Let_def by blast
qed

theorem supervisor_audit_trail_witness:
  "last (''closed'' # map audit_Outcome (sup_trail (start_supervisor (example_ctx 0 example_tool))
     [(example_ctx 1 example_tool, ReportFailure ''fs'')])) = ''open''"
proof -
  let ?x = "start_supervisor (example_ctx 0 example_tool)" and ?es = "[(example_ctx 1 example_tool, ReportFailure ''fs'')]"
  have x: "?x = \<lparr>sv_tool = example_tool,
      sv_circuit = NewCircuitBreaker \<lparr>FailureThreshold = 1, OpenDuration = 10, HalfOpenMaxRequests = 1\<rparr>,
      sv_journal = True, sv_draining = False, sv_sessions = []\<rparr>"
    by (simp add: handlePostStart_def example_ctx_def ext_Get_def supervisor_PreStart_def Let_def)
  have "cb_state (sv_circuit (sup_run ?x ?es)) = CircuitOpen"
    unfolding x by (auto simp: handleReportFailure_def NewCircuitBreaker_def sanitizeCircuitConfig_def
        circuit_defs Let_def split: prod.splits)
  moreover have "\<forall>e \<in> set ?es. sup_legal ''fs'' e \<and> snd e \<noteq> PostStart \<and> ctx_journalRunning (fst e)"
    by (simp add: example_ctx_def)
  moreover have "started_ok ''fs'' (example_ctx 0 example_tool) example_tool"
    using example_started [of example_tool 0] by simp
  ultimately show ?thesis
    using supervisor_audit_trail [of "''fs''" "example_ctx 0 example_tool" example_tool ?es] by (simp add: Let_def)
qed

text \<open>A request refused for the session limit keeps the half-open probe slot it
  took: when it took the last slot, every later request is refused too, also after
  sessions have ended and however much time passes, until an outcome is reported
  or the breaker is reset.\<close>

theorem supervisor_backpressure_leaks_probe:
  assumes "sup_inv u x" and "tool_State (sv_tool x) \<noteq> ToolStateDisabled" and "\<not> sv_draining x"
    and "cb_state (sv_circuit x) = CircuitOpen"
    and "cb_openedAt (sv_circuit x) + OpenDuration (cb_config (sv_circuit x)) \<le> ctx_now ctx"
    and "HalfOpenMaxRequests (cb_config (sv_circuit x)) = 1"
    and "0 < tool_MaxSessionsPerTool (sv_tool x)"
    and "tool_MaxSessionsPerTool (sv_tool x) \<le> int (gm_len (sv_sessions x))"
    and "\<forall>e \<in> set es. \<not> outcome_msg e"
  shows "\<not> sup_accepts ctx u x \<and>
    \<not> sup_accepts ctx' u (sup_run (fst (handleCanAcceptWork ctx u x)) es)"
proof -
  have "exhausted (sv_circuit (fst (handleCanAcceptWork ctx u x)))"
    using assms(1-6) by (simp add: handleCanAcceptWork_state sup_inv_def exhausted_def circuit_defs Let_def)
  then have "exhausted (sv_circuit (sup_run (fst (handleCanAcceptWork ctx u x)) es))"
    by (rule wedged.legal_run_keeps [OF _ assms(9)])
  moreover have "\<not> sup_accepts ctx u x"
    using assms(7,8) by (simp add: sup_accepts_iff)
  ultimately show ?thesis
    by (simp add: wedged_rejects)
qed

theorem supervisor_backpressure_leaks_probe_witness:
  "let tool = example_tool\<lparr>tool_MaxSessionsPerTool := 1\<rparr>;
       x = sup_run (start_supervisor (example_ctx 0 tool))
             (map (Pair (example_ctx 0 tool)) [SessionActivated ''acme'' ''web'' ''fs'', ReportFailure ''fs'']) in
   \<not> sup_accepts (example_ctx 1000000 tool) ''fs''
     (sup_run (fst (handleCanAcceptWork (example_ctx 10 tool) ''fs'' x))
       [(example_ctx 11 tool, SessionDeactivated ''acme'' ''web'' ''fs'')])"
proof -
  let ?tool = "example_tool\<lparr>tool_MaxSessionsPerTool := 1\<rparr>"
  let ?es = "map (Pair (example_ctx 0 ?tool)) [SessionActivated ''acme'' ''web'' ''fs'', ReportFailure ''fs'']"
  let ?x = "sup_run (start_supervisor (example_ctx 0 ?tool)) ?es"
  have id: "tool_ID ?tool = ''fs''" "tool_State ?tool = ToolStateEnabled" by simp_all
  have "started_ok ''fs'' (example_ctx 0 ?tool) ?tool"
    using example_started [of ?tool 0] id by simp
  then have inv: "sup_inv ''fs'' ?x"
    by (intro sup.legal_run_keeps started(1)) simp_all
  have x0: "start_supervisor (example_ctx 0 ?tool) = \<lparr>sv_tool = ?tool,
      sv_circuit = NewCircuitBreaker \<lparr>FailureThreshold = 1, OpenDuration = 10, HalfOpenMaxRequests = 1\<rparr>,
      sv_journal = True, sv_draining = False, sv_sessions = []\<rparr>"
    by (simp add: handlePostStart_def example_ctx_def ext_Get_def supervisor_PreStart_def Let_def)
  have "?x = \<lparr>sv_tool = ?tool,
      sv_circuit = \<lparr>cb_config = \<lparr>FailureThreshold = 1, OpenDuration = 10, HalfOpenMaxRequests = 1\<rparr>,
        cb_state = CircuitOpen, cb_failureCount = 1, cb_openedAt = 0, cb_halfOpenInFlight = 0\<rparr>,
      sv_journal = True, sv_draining = False,
      sv_sessions = [(SessionName ''acme'' ''web'' ''fs'', \<lparr>reg_TenantID = ''acme'', reg_ClientID = ''web''\<rparr>)]\<rparr>"
    unfolding x0 by (simp add: handler_states handleSessionActivated_def NewCircuitBreaker_def
        sanitizeCircuitConfig_def circuit_defs example_ctx_def Let_def)
  then show ?thesis
    using supervisor_backpressure_leaks_probe [OF inv, of "example_ctx 10 ?tool"
        "[(example_ctx 11 ?tool, SessionDeactivated ''acme'' ''web'' ''fs'')]" "example_ctx 1000000 ?tool"]
    by (simp add: Let_def example_ctx_def)
qed

end
