(* ===== verification/Session_Grain.thy ===== *)
theory Session_Grain
  imports Tool_Supervisor "HOL-Library.Multiset"
begin

text \<open>
  The session grain of internal/runtime/actor/session_grain.go: one per tenant,
  client and tool. It owns an executor, runs invocations with one recovery and
  retry after a transport failure, and reports each outcome to the supervisor.

  Executors and their factory are interfaces (mcp/executor.go); the record
  \<open>backend\<close> holds their methods as functions on a world \<open>'w\<close>. An executor value is a
  handle with the optional interfaces it implements. Elapsed times are arguments.
  A call of a method on a nil executor panics; \<open>None\<close> stands for the panic, which
  leaves the grain without a response.
\<close>

section \<open>Executors\<close>

record executor =
  ex_id :: handle
  ex_resource :: bool
  ex_stream :: bool

type_synonym go_result = "ExecutionResult option \<times> go_error option"

record stream_source =
  str_progress :: "string list"
  str_final :: "ExecutionResult option"

record 'w backend =
  be_Execute :: "executor \<Rightarrow> duration \<Rightarrow> Invocation \<Rightarrow> 'w \<Rightarrow> 'w \<times> go_result"
  be_ReadResource :: "executor \<Rightarrow> duration \<Rightarrow> Invocation \<Rightarrow> 'w \<Rightarrow> 'w \<times> go_result"
  be_ExecuteStream :: "executor \<Rightarrow> duration \<Rightarrow> Invocation \<Rightarrow> 'w \<Rightarrow> 'w \<times> (go_error + stream_source)"
  be_Close :: "executor \<Rightarrow> 'w \<Rightarrow> 'w"
  be_Factory :: "(Tool \<Rightarrow> strmap \<Rightarrow> 'w \<Rightarrow> 'w \<times> (go_error + executor option)) option option"

text \<open>
  \<open>be_Factory\<close> is the executor factory extension: absent, present with a nil
  factory, or a factory, which may return a nil executor.
\<close>

section \<open>Grain state\<close>

record sessionGrain =
  gr_streams :: int
  gr_tenantID :: TenantID
  gr_clientID :: ClientID
  gr_toolID :: ToolID
  gr_tool :: Tool
  gr_executor :: "executor option"
  gr_credentials :: strmap

datatype SessionInvokeResult = SessionInvokeResult "ExecutionResult option" "go_error option"
datatype SessionInvokeStreamResult =
  SessionInvokeStreamResult "stream_source option" "ExecutionResult option" "go_error option"

definition newSessionGrain :: sessionGrain where
  "newSessionGrain = \<lparr>gr_streams = 0, gr_tenantID = '''', gr_clientID = '''', gr_toolID = '''',
     gr_tool = zero_tool, gr_executor = None, gr_credentials = []\<rparr>"

definition requestTimeout :: "sessionGrain \<Rightarrow> duration" where
  "requestTimeout g =
     (if tool_RequestTimeout (gr_tool g) > 0 then tool_RequestTimeout (gr_tool g) else DefaultRequestTimeout)"

definition isTransportFailure :: "ExecutionResult option \<Rightarrow> bool" where
  "isTransportFailure result =
     (case result of
        None \<Rightarrow> False
      | Some r \<Rightarrow> (case exec_Err r of None \<Rightarrow> False | Some e \<Rightarrow> Code e = ErrCodeTransportFailure))"

text \<open>The first session dependency among the dependencies of the grain; others are \<open>None\<close>.\<close>

definition findSessionDependency :: "SessionDependency option list \<Rightarrow> SessionDependency option" where
  "findSessionDependency deps = Option.bind (find (\<lambda>d. d \<noteq> None) deps) id"

section \<open>Messages to the supervisor\<close>

text \<open>
  \<open>up\<close> tells whether \<open>resolveSupervisor\<close> finds a running supervisor; the result is
  the list of messages told to it.
\<close>

definition notifySupervisor :: "bool \<Rightarrow> sup_msg \<Rightarrow> sup_msg list" where
  "notifySupervisor up msg = (if up then [msg] else [])"

definition reportOutcomeToSupervisor :: "bool \<Rightarrow> sessionGrain \<Rightarrow> ExecutionResult option \<Rightarrow> sup_msg list" where
  "reportOutcomeToSupervisor up g result =
     (if \<not> up then []
      else
        (let success = (case result of
               None \<Rightarrow> False
             | Some r \<Rightarrow> exec_Status r = ExecutionStatusSuccess \<and> exec_Err r = None)
         in if success then [ReportSuccess (gr_toolID g)] else [ReportFailure (gr_toolID g)]))"

section \<open>Activation and deactivation\<close>

definition createExecutor ::
  "'w backend \<Rightarrow> sessionGrain \<Rightarrow> 'w \<Rightarrow> 'w \<times> (go_error + executor option)" where
  "createExecutor be g w =
     (case be_Factory be of
        None \<Rightarrow> (w, Inr None)
      | Some None \<Rightarrow> (w, Inr None)
      | Some (Some factory_Create) \<Rightarrow>
          (case factory_Create (gr_tool g) (gr_credentials g) w of
             (w, Inl err) \<Rightarrow> (w, Inl (rt_wrap ErrCodeInternal ''failed to create executor'' err))
           | (w, Inr ex) \<Rightarrow> (w, Inr ex)))"

definition OnActivate ::
  "'w backend \<Rightarrow> bool \<Rightarrow> SessionDependency option list \<Rightarrow> sessionGrain \<Rightarrow> 'w \<Rightarrow>
     'w \<times> sessionGrain \<times> sup_msg list \<times> go_error option" where
  "OnActivate be up deps g w =
     (case findSessionDependency deps of
        None \<Rightarrow> (w, g, [], Some (rt_error ErrCodeInternal ''session dependency not found''))
      | Some dep \<Rightarrow>
          (let g = g\<lparr>gr_tenantID := dep_tenantID dep, gr_clientID := dep_clientID dep,
                     gr_toolID := dep_toolID dep, gr_tool := dep_tool dep,
                     gr_credentials := dep_credentials dep\<rparr>
           in if IsZero (gr_toolID g)
              then (w, g, [], Some (rt_error ErrCodeInternal ''session dependency has empty tool ID''))
              else
                (case createExecutor be g w of
                   (w, Inl err) \<Rightarrow> (w, g, [], Some err)
                 | (w, Inr ex) \<Rightarrow>
                     (w, g\<lparr>gr_executor := ex\<rparr>,
                      notifySupervisor up (SessionActivated (gr_tenantID g) (gr_clientID g) (gr_toolID g)),
                      None))))"

text \<open>\<open>OnDeactivate\<close> blocks until no stream is in flight, so it runs only in such a state.\<close>

definition OnDeactivate ::
  "'w backend \<Rightarrow> bool \<Rightarrow> sessionGrain \<Rightarrow> 'w \<Rightarrow> 'w \<times> sessionGrain \<times> sup_msg list" where
  "OnDeactivate be up g w =
     (let executor = gr_executor g;
          g = g\<lparr>gr_executor := None\<rparr>;
          w = (case executor of None \<Rightarrow> w | Some ex \<Rightarrow> be_Close be ex w)
      in (w, g, notifySupervisor up (SessionDeactivated (gr_tenantID g) (gr_clientID g) (gr_toolID g))))"

section \<open>Synchronous invocation\<close>

definition executeResourceRead ::
  "'w backend \<Rightarrow> duration \<Rightarrow> executor option \<Rightarrow> Invocation \<Rightarrow> 'w \<Rightarrow> 'w \<times> go_result" where
  "executeResourceRead be timeout executor ivk w =
     (case executor of
        Some ex \<Rightarrow>
          if ex_resource ex then be_ReadResource be ex timeout ivk w
          else (w, Some \<lparr>exec_Status = ExecutionStatusFailure, exec_Output = None,
                  exec_Err = Some (NewRuntimeError ErrCodeInvalidRequest ''executor does not support resources''),
                  exec_Duration = 0, exec_Correlation = inv_Correlation ivk\<rparr>, None)
      | None \<Rightarrow>
          (w, Some \<lparr>exec_Status = ExecutionStatusFailure, exec_Output = None,
             exec_Err = Some (NewRuntimeError ErrCodeInvalidRequest ''executor does not support resources''),
             exec_Duration = 0, exec_Correlation = inv_Correlation ivk\<rparr>, None))"

definition dispatch ::
  "'w backend \<Rightarrow> duration \<Rightarrow> executor option \<Rightarrow> Invocation \<Rightarrow> 'w \<Rightarrow> 'w \<times> go_result option" where
  "dispatch be timeout executor ivk w =
     (if inv_Method ivk = MethodResourcesRead
      then (let (w, r) = executeResourceRead be timeout executor ivk w in (w, Some r))
      else case executor of
             None \<Rightarrow> (w, None)
           | Some ex \<Rightarrow> (let (w, r) = be_Execute be ex timeout ivk w in (w, Some r)))"

definition tryRecoverExecutor :: "'w backend \<Rightarrow> sessionGrain \<Rightarrow> 'w \<Rightarrow> 'w \<times> sessionGrain \<times> bool" where
  "tryRecoverExecutor be g w =
     (case be_Factory be of
        None \<Rightarrow> (w, g, False)
      | Some None \<Rightarrow> (w, g, False)
      | Some (Some factory_Create) \<Rightarrow>
          (case factory_Create (gr_tool g) (gr_credentials g) w of
             (w, Inl err) \<Rightarrow> (w, g, False)
           | (w, Inr newExec) \<Rightarrow>
               (let old = gr_executor g;
                    g = g\<lparr>gr_executor := newExec\<rparr>;
                    w = (case old of None \<Rightarrow> w | Some ex \<Rightarrow> be_Close be ex w)
                in (w, g, True))))"

text \<open>The end of \<open>executeOnce\<close>: an error becomes a failure result, a zero duration is filled in.\<close>

definition settle_result :: "Invocation \<Rightarrow> duration \<Rightarrow> go_result \<Rightarrow> ExecutionResult option" where
  "settle_result ivk duration r =
     (case r of
        (result, Some err) \<Rightarrow>
          Some \<lparr>exec_Status = ExecutionStatusFailure, exec_Output = None,
            exec_Err = Some (WrapRuntimeError ErrCodeInternal ''execution failed'' (Some err)),
            exec_Duration = duration, exec_Correlation = inv_Correlation ivk\<rparr>
      | (result, None) \<Rightarrow>
          map_option (\<lambda>r. if exec_Duration r = 0 then r\<lparr>exec_Duration := duration\<rparr> else r) result)"

definition executeOnce ::
  "'w backend \<Rightarrow> duration \<Rightarrow> duration \<Rightarrow> executor \<Rightarrow> Invocation \<Rightarrow> sessionGrain \<Rightarrow> 'w \<Rightarrow>
     'w \<times> sessionGrain \<times> ExecutionResult option option" where
  "executeOnce be elapsed retryElapsed ex ivk g w =
     (let timeout = requestTimeout g
      in case dispatch be timeout (Some ex) ivk w of
           (w, None) \<Rightarrow> (w, g, None)
         | (w, Some (result, err)) \<Rightarrow>
             if err \<noteq> None \<or> isTransportFailure result
             then (case tryRecoverExecutor be g w of
                     (w, g, True) \<Rightarrow>
                       (case dispatch be timeout (gr_executor g) ivk w of
                          (w, None) \<Rightarrow> (w, g, None)
                        | (w, Some r) \<Rightarrow> (w, g, Some (settle_result ivk retryElapsed r)))
                   | (w, g, False) \<Rightarrow> (w, g, Some (settle_result ivk elapsed (result, err))))
             else (w, g, Some (settle_result ivk elapsed (result, err))))"

definition stub_result :: "Invocation \<Rightarrow> duration \<Rightarrow> ExecutionResult" where
  "stub_result ivk elapsed =
     \<lparr>exec_Status = ExecutionStatusSuccess, exec_Output = Some [], exec_Err = None,
      exec_Duration = elapsed, exec_Correlation = inv_Correlation ivk\<rparr>"

definition handleSessionInvoke ::
  "'w backend \<Rightarrow> bool \<Rightarrow> duration \<Rightarrow> duration \<Rightarrow> Invocation option \<Rightarrow> sessionGrain \<Rightarrow> 'w \<Rightarrow>
     'w \<times> sessionGrain \<times> SessionInvokeResult option \<times> sup_msg list" where
  "handleSessionInvoke be up elapsed retryElapsed msg g w =
     (case msg of
        None \<Rightarrow> (w, g, Some (SessionInvokeResult None
          (Some (rt_error ErrCodeInvalidRequest ''invocation is required''))), [])
      | Some ivk \<Rightarrow>
          if inv_ToolID ivk \<noteq> gr_toolID g
          then (w, g, Some (SessionInvokeResult None
            (Some (rt_error ErrCodeInvalidRequest ''tool ID mismatch''))), [])
          else
            (case gr_executor g of
               None \<Rightarrow>
                 (let result = stub_result ivk elapsed
                  in (w, g, Some (SessionInvokeResult (Some result) None),
                      reportOutcomeToSupervisor up g (Some result)))
             | Some ex \<Rightarrow>
                 (case executeOnce be elapsed retryElapsed ex ivk g w of
                    (w, g, None) \<Rightarrow> (w, g, None, [])
                  | (w, g, Some result) \<Rightarrow>
                      (w, g, Some (SessionInvokeResult result None), reportOutcomeToSupervisor up g result))))"

section \<open>Streaming invocation\<close>

definition handleSessionInvokeStreamFallback ::
  "'w backend \<Rightarrow> bool \<Rightarrow> duration \<Rightarrow> executor option \<Rightarrow> Invocation \<Rightarrow> sessionGrain \<Rightarrow> 'w \<Rightarrow>
     'w \<times> sessionGrain \<times> SessionInvokeStreamResult \<times> sup_msg list" where
  "handleSessionInvokeStreamFallback be up elapsed executor ivk g w =
     (case executor of
        None \<Rightarrow>
          (let result = stub_result ivk elapsed
           in (w, g, SessionInvokeStreamResult None (Some result) None,
               reportOutcomeToSupervisor up g (Some result)))
      | Some ex \<Rightarrow>
          (let (w, result, err) = be_Execute be ex (requestTimeout g) ivk w;
               result = (case err of
                   None \<Rightarrow> result
                 | Some e \<Rightarrow> Some \<lparr>exec_Status = ExecutionStatusFailure, exec_Output = None,
                     exec_Err = Some (WrapRuntimeError ErrCodeInternal ''execution failed'' (Some e)),
                     exec_Duration = elapsed, exec_Correlation = inv_Correlation ivk\<rparr>);
               result = map_option (\<lambda>r. if exec_Duration r = 0 then r\<lparr>exec_Duration := elapsed\<rparr> else r) result
           in (w, g, SessionInvokeStreamResult None result None, reportOutcomeToSupervisor up g result)))"

text \<open>
  When a stream starts, the caller gets it and a goroutine forwards it
  (\<open>forwardStream\<close>) and reports the outcome later.
\<close>

definition handleSessionInvokeStream ::
  "'w backend \<Rightarrow> bool \<Rightarrow> duration \<Rightarrow> Invocation option \<Rightarrow> sessionGrain \<Rightarrow> 'w \<Rightarrow>
     'w \<times> sessionGrain \<times> SessionInvokeStreamResult \<times> sup_msg list" where
  "handleSessionInvokeStream be up elapsed msg g w =
     (case msg of
        None \<Rightarrow> (w, g, SessionInvokeStreamResult None None
          (Some (rt_error ErrCodeInvalidRequest ''invocation is required'')), [])
      | Some ivk \<Rightarrow>
          if inv_ToolID ivk \<noteq> gr_toolID g
          then (w, g, SessionInvokeStreamResult None None
            (Some (rt_error ErrCodeInvalidRequest ''tool ID mismatch'')), [])
          else
            (case gr_executor g of
               None \<Rightarrow> handleSessionInvokeStreamFallback be up elapsed None ivk g w
             | Some ex \<Rightarrow>
                 if \<not> ex_stream ex then handleSessionInvokeStreamFallback be up elapsed (Some ex) ivk g w
                 else
                   (case be_ExecuteStream be ex (requestTimeout g) ivk w of
                      (w, Inl err) \<Rightarrow>
                        (let result = \<lparr>exec_Status = ExecutionStatusFailure, exec_Output = None,
                               exec_Err = Some (WrapRuntimeError ErrCodeInternal ''stream execution failed'' (Some err)),
                               exec_Duration = 0, exec_Correlation = inv_Correlation ivk\<rparr>
                         in (w, g, SessionInvokeStreamResult None (Some result) None,
                             reportOutcomeToSupervisor up g (Some result)))
                    | (w, Inr sr) \<Rightarrow>
                        (w, g\<lparr>gr_streams := gr_streams g + 1\<rparr>,
                         SessionInvokeStreamResult (Some sr) None None, []))))"

text \<open>
  \<open>forwardProgress\<close> hands the events of the source to the consumer one by one;
  \<open>accepts\<close> tells for each whether the consumer took it within the send timeout.
  The source closes its channel after its last event.
\<close>

fun forwardProgress :: "string list \<Rightarrow> bool list \<Rightarrow> string list \<times> bool" where
  "forwardProgress [] accepts = ([], True)"
| "forwardProgress (evt # src) (True # accepts) =
     (let (sent, consumed) = forwardProgress src accepts in (evt # sent, consumed))"
| "forwardProgress (evt # src) (False # accepts) = ([], False)"
| "forwardProgress (evt # src) [] = ([], False)"

text \<open>
  The result of the goroutine: the progress events and the final result the
  caller sees, the outcome reported, and the grain with one stream less.
  \<open>ready\<close> tells whether the final result is there when the consumer has gone.
\<close>

definition forwardStream ::
  "bool \<Rightarrow> bool list \<Rightarrow> bool \<Rightarrow> stream_source \<Rightarrow> sessionGrain \<Rightarrow>
     sessionGrain \<times> string list \<times> ExecutionResult option \<times> sup_msg list" where
  "forwardStream up accepts ready source g =
     (let (sent, consumed) = forwardProgress (str_progress source) accepts;
          g' = g\<lparr>gr_streams := gr_streams g - 1\<rparr>
      in if \<not> consumed
         then (g', sent, if ready then str_final source else None, reportOutcomeToSupervisor up g None)
         else (g', sent, str_final source, reportOutcomeToSupervisor up g (str_final source)))"


section \<open>Message dispatch\<close>

datatype grain_msg =
    SessionInvoke "Invocation option"
  | SessionInvokeStream "Invocation option"
  | GetSessionIdentity
  | OtherGrainMessage

datatype grain_reply =
    InvokeReply SessionInvokeResult
  | StreamReply SessionInvokeStreamResult
  | GetSessionIdentityResult TenantID ClientID ToolID

fun grain_OnReceive ::
  "'w backend \<Rightarrow> bool \<Rightarrow> duration \<Rightarrow> duration \<Rightarrow> grain_msg \<Rightarrow> sessionGrain \<Rightarrow> 'w \<Rightarrow>
     'w \<times> sessionGrain \<times> grain_reply option \<times> sup_msg list" where
  "grain_OnReceive be up d1 d2 (SessionInvoke i) g w =
     (let (w, g, r, ms) = handleSessionInvoke be up d1 d2 i g w in (w, g, map_option InvokeReply r, ms))"
| "grain_OnReceive be up d1 d2 (SessionInvokeStream i) g w =
     (let (w, g, r, ms) = handleSessionInvokeStream be up d1 i g w in (w, g, Some (StreamReply r), ms))"
| "grain_OnReceive be up d1 d2 GetSessionIdentity g w =
     (w, g, Some (GetSessionIdentityResult (gr_tenantID g) (gr_clientID g) (gr_toolID g)), [])"
| "grain_OnReceive be up d1 d2 OtherGrainMessage g w = (w, g, None, [])"

lemmas session_defs =
  executeResourceRead_def dispatch_def tryRecoverExecutor_def executeOnce_def

section \<open>The life of an executor\<close>

text \<open>
  A backend that keeps a log of the calls it gets, and a checker of such logs: every
  executor that is closed, or on which a call, a read or a stream is begun, has been
  created and not yet closed. The checker returns the executors left open. A stream is in
  the log where it is begun; what its producer does with the executor afterwards is not.
\<close>

datatype backend_call =
    CallExecute executor
  | CallRead executor
  | CallStream executor
  | CallClose executor
  | CallCreate "executor option"

definition logged :: "'w backend \<Rightarrow> ('w \<times> backend_call list) backend" where
  "logged be =
     \<lparr>be_Execute = (\<lambda>ex d i (w, l). let (w, r) = be_Execute be ex d i w in ((w, l @ [CallExecute ex]), r)),
      be_ReadResource = (\<lambda>ex d i (w, l). let (w, r) = be_ReadResource be ex d i w in ((w, l @ [CallRead ex]), r)),
      be_ExecuteStream = (\<lambda>ex d i (w, l). let (w, r) = be_ExecuteStream be ex d i w in ((w, l @ [CallStream ex]), r)),
      be_Close = (\<lambda>ex (w, l). (be_Close be ex w, l @ [CallClose ex])),
      be_Factory = map_option (map_option (\<lambda>create tool creds (w, l).
         let (w, r) = create tool creds w
         in ((w, l @ [CallCreate (case r of Inl _ \<Rightarrow> None | Inr ex \<Rightarrow> ex)]), r))) (be_Factory be)\<rparr>"

fun check_call :: "executor multiset option \<Rightarrow> backend_call \<Rightarrow> executor multiset option" where
  "check_call None c = None"
| "check_call (Some M) (CallCreate None) = Some M"
| "check_call (Some M) (CallCreate (Some ex)) = Some (M + {#ex#})"
| "check_call (Some M) (CallClose ex) = (if ex \<in># M then Some (M - {#ex#}) else None)"
| "check_call (Some M) (CallExecute ex) = (if ex \<in># M then Some M else None)"
| "check_call (Some M) (CallRead ex) = (if ex \<in># M then Some M else None)"
| "check_call (Some M) (CallStream ex) = (if ex \<in># M then Some M else None)"

abbreviation open_executors :: "backend_call list \<Rightarrow> executor multiset option" where
  "open_executors \<equiv> foldl check_call (Some {#})"

text \<open>The executors the log says were made and closed.\<close>

definition created_in :: "backend_call list \<Rightarrow> executor list" where
  "created_in l = List.map_filter (\<lambda>c. case c of CallCreate e \<Rightarrow> e | _ \<Rightarrow> None) l"

definition closed_in :: "backend_call list \<Rightarrow> executor list" where
  "closed_in l = List.map_filter (\<lambda>c. case c of CallClose ex \<Rightarrow> Some ex | _ \<Rightarrow> None) l"

lemma created_or_closed_snoc [simp]:
  "created_in [] = []" "closed_in [] = []"
  "created_in (l @ [c]) = created_in l @ (case c of CallCreate (Some ex) \<Rightarrow> [ex] | _ \<Rightarrow> [])"
  "closed_in (l @ [c]) = closed_in l @ (case c of CallClose ex \<Rightarrow> [ex] | _ \<Rightarrow> [])"
  by (auto simp: created_in_def closed_in_def List.map_filter_def split: backend_call.split option.split)

lemma open_executors_balance:
  "open_executors l = Some M \<Longrightarrow> mset (created_in l) = mset (closed_in l) + M"
proof (induction l arbitrary: M rule: rev_induct)
  case (snoc c l)
  then obtain M' where M': "open_executors l = Some M'" "check_call (Some M') c = Some M"
    by (cases "open_executors l") auto
  from snoc.IH [OF M'(1)] M'(2) show ?case
    by (cases c) (auto split: if_splits option.splits)
qed simp

abbreviation held :: "sessionGrain \<Rightarrow> executor multiset" where
  "held g \<equiv> (case gr_executor g of None \<Rightarrow> {#} | Some ex \<Rightarrow> {#ex#})"

text \<open>The calls one attempt makes.\<close>

definition attempt :: "Invocation \<Rightarrow> executor option \<Rightarrow> backend_call list" where
  "attempt ivk e =
     (case e of
        None \<Rightarrow> []
      | Some ex \<Rightarrow> if inv_Method ivk = MethodResourcesRead then (if ex_resource ex then [CallRead ex] else [])
                   else [CallExecute ex])"

lemma dispatch_logged:
  "dispatch (logged be) d e ivk (w, l) = ((w', l'), r) \<Longrightarrow> l' = l @ attempt ivk e"
  by (auto simp: dispatch_def executeResourceRead_def attempt_def logged_def Let_def
      split: option.splits if_splits prod.splits)

lemma attempt_checks:
  "open_executors l = Some {#ex#} \<Longrightarrow> open_executors (l @ attempt ivk (Some ex)) = Some {#ex#}"
  by (simp add: attempt_def)

text \<open>Recovery creates an executor, then closes the one it replaces; or changes nothing.\<close>

lemma tryRecover_logged:
  assumes "tryRecoverExecutor (logged be) g (w, l) = ((w', l'), g', ok)" and "gr_executor g = Some ex"
  shows "if ok then l' = l @ [CallCreate (gr_executor g'), CallClose ex]
         else g' = g \<and> (l' = l \<or> l' = l @ [CallCreate None])"
  using assms
  by (auto simp: tryRecoverExecutor_def logged_def Let_def split: option.splits prod.splits sum.splits)

lemma tryRecover_frame:
  "tryRecoverExecutor be g w = (w', g', ok) \<Longrightarrow>
   g' = g\<lparr>gr_executor := gr_executor g'\<rparr>"
  by (auto simp: tryRecoverExecutor_def Let_def split: option.splits prod.splits sum.splits)

lemma executeOnce_logged:
  assumes "executeOnce (logged be) d1 d2 ex ivk g (w, l) = ((w', l'), g', r)" and "gr_executor g = Some ex"
  shows "\<exists>calls. l' = l @ attempt ivk (Some ex) @ calls \<and>
    (g' = g \<and> (calls = [] \<or> calls = [CallCreate None]) \<or>
     calls = [CallCreate (gr_executor g'), CallClose ex] @ attempt ivk (gr_executor g'))"
proof -
  obtain w1 l1 r1 where d: "dispatch (logged be) (requestTimeout g) (Some ex) ivk (w, l) = ((w1, l1), r1)"
    by (metis surj_pair)
  have l1: "l1 = l @ attempt ivk (Some ex)"
    by (rule dispatch_logged [OF d])
  show ?thesis
  proof (cases "\<exists>result err. r1 = Some (result, err) \<and> (err \<noteq> None \<or> isTransportFailure result)")
    case False
    with assms(1) d have "g' = g" and "l' = l1"
      by (auto simp: executeOnce_def Let_def split: option.splits prod.splits if_splits)
    with l1 show ?thesis by simp
  next
    case True
    then obtain result err where r1: "r1 = Some (result, err)" "err \<noteq> None \<or> isTransportFailure result"
      by blast
    obtain w2 l2 g2 ok where t: "tryRecoverExecutor (logged be) g (w1, l1) = ((w2, l2), g2, ok)"
      by (metis surj_pair)
    note rec = tryRecover_logged [OF t assms(2)]
    show ?thesis
    proof (cases ok)
      case False
      with assms(1) d r1 t have "g' = g2" "l' = l2"
        by (simp_all add: executeOnce_def Let_def)
      with rec False l1 show ?thesis by auto
    next
      case True
      obtain w3 l3 r3 where d': "dispatch (logged be) (requestTimeout g) (gr_executor g2) ivk (w2, l2) = ((w3, l3), r3)"
        by (metis surj_pair)
      with True assms(1) d r1 t have "g' = g2" "l' = l3"
        by (auto simp: executeOnce_def Let_def split: option.splits)
      with rec True l1 dispatch_logged [OF d'] show ?thesis by simp
    qed
  qed
qed


text \<open>
  What happens to an active grain: messages, with whether the supervisor is up
  and the elapsed times, and the ends of forwarded streams.
\<close>

datatype grain_event =
    GMessage bool duration duration grain_msg
  | GStreamEnd bool "bool list" bool stream_source

fun grain_step :: "'w backend \<Rightarrow> 'w \<times> sessionGrain \<Rightarrow> grain_event \<Rightarrow> 'w \<times> sessionGrain" where
  "grain_step be (w, g) (GMessage up d1 d2 m) =
     (let (w, g, _, _) = grain_OnReceive be up d1 d2 m g w in (w, g))"
| "grain_step be (w, g) (GStreamEnd up accepts ready src) = (w, fst (forwardStream up accepts ready src g))"

definition accounted :: "('w \<times> backend_call list) \<times> sessionGrain \<Rightarrow> bool" where
  "accounted s \<longleftrightarrow> open_executors (snd (fst s)) = Some (held (snd s))"

lemma held_streams [simp]: "held (g\<lparr>gr_streams := n\<rparr>) = held g"
  by simp

lemma handleSessionInvoke_accounted:
  assumes "open_executors l = Some (held g)"
    and "handleSessionInvoke (logged be) up d1 d2 i g (w, l) = ((w', l'), g', r, ms)"
  shows "open_executors l' = Some (held g')"
proof (cases "\<exists>ivk ex. i = Some ivk \<and> inv_ToolID ivk = gr_toolID g \<and> gr_executor g = Some ex")
  case False
  with assms(2) have "l' = l \<and> g' = g"
    by (auto simp: handleSessionInvoke_def Let_def split: option.splits if_splits)
  with assms(1) show ?thesis by simp
next
  case True
  then obtain ivk ex where i: "i = Some ivk" "inv_ToolID ivk = gr_toolID g" "gr_executor g = Some ex" by blast
  with assms(2) obtain r' where e: "executeOnce (logged be) d1 d2 ex ivk g (w, l) = ((w', l'), g', r')"
    by (auto simp: handleSessionInvoke_def split: option.splits prod.splits)
  have op: "open_executors (l @ attempt ivk (Some ex)) = Some {#ex#}"
    using assms(1) i(3) attempt_checks by simp
  have new: "foldl check_call (Some (held g')) (attempt ivk (gr_executor g')) = Some (held g')"
    by (simp add: attempt_def split: option.split)
  from executeOnce_logged [OF e i(3)] op new i(3) show ?thesis
    by (cases "gr_executor g'") (auto simp del: foldl_append simp add: foldl_append [of check_call])
qed

lemma handleSessionInvokeStream_accounted:
  assumes "open_executors l = Some (held g)"
    and "handleSessionInvokeStream (logged be) up d1 i g (w, l) = ((w', l'), g', r, ms)"
  shows "open_executors l' = Some (held g')"
  using assms
  by (auto simp: handleSessionInvokeStream_def handleSessionInvokeStreamFallback_def logged_def Let_def
      split: option.splits if_splits prod.splits sum.splits)

interpretation grain: actor_inv "grain_step (logged be)" accounted for be :: "'w backend"
proof unfold_locales
  fix s e
  assume inv: "accounted (s :: ('w \<times> backend_call list) \<times> sessionGrain)"
  obtain w l g where s: "s = ((w, l), g)" by (metis surj_pair)
  show "accounted (grain_step (logged be) s e)"
  proof (cases e)
    case (GMessage up d1 d2 m)
    then show ?thesis
      using inv unfolding s accounted_def
      by (cases m) (auto split: prod.splits dest: handleSessionInvoke_accounted handleSessionInvokeStream_accounted)
  next
    case (GStreamEnd up accepts ready src)
    then show ?thesis
      using inv unfolding s accounted_def by (simp add: forwardStream_def Let_def split: prod.splits)
  qed
qed

lemma createExecutor_logged:
  assumes "createExecutor (logged be) g (w, l) = ((w', l'), r)"
  shows "l' = l \<and> r = Inr None \<or> l' = l @ [CallCreate (case r of Inl _ \<Rightarrow> None | Inr ex \<Rightarrow> ex)]"
  using assms
  by (auto simp: createExecutor_def logged_def split: option.splits prod.splits sum.splits)

lemma OnActivate_accounted:
  assumes "OnActivate (logged be) up deps newSessionGrain (w, []) = ((w', l'), g, ms, err)"
  shows "open_executors l' = Some (held g)"
proof (cases "\<exists>dep. findSessionDependency deps = Some dep \<and> \<not> IsZero (dep_toolID dep)")
  case False
  with assms show ?thesis
    by (auto simp: OnActivate_def newSessionGrain_def Let_def split: option.splits)
next
  case True
  then obtain dep where dep: "findSessionDependency deps = Some dep" "\<not> IsZero (dep_toolID dep)" by blast
  let ?g = "newSessionGrain\<lparr>gr_tenantID := dep_tenantID dep, gr_clientID := dep_clientID dep,
    gr_toolID := dep_toolID dep, gr_tool := dep_tool dep, gr_credentials := dep_credentials dep\<rparr>"
  obtain w1 l1 r where c: "createExecutor (logged be) ?g (w, []) = ((w1, l1), r)"
    by (metis surj_pair)
  have "l' = l1 \<and> gr_executor g = (case r of Inl _ \<Rightarrow> None | Inr ex \<Rightarrow> ex)"
    using assms dep c by (cases r) (auto simp: OnActivate_def newSessionGrain_def Let_def)
  then show ?thesis
    using createExecutor_logged [OF c] by (cases "case r of Inl _ \<Rightarrow> None | Inr ex \<Rightarrow> ex") auto
qed

lemma OnDeactivate_accounted:
  assumes "open_executors l = Some (held g)"
  shows "open_executors (snd (fst (OnDeactivate (logged be) up g (w, l)))) = Some {#}"
proof (cases "gr_executor g")
  case None
  with assms show ?thesis by (simp add: OnDeactivate_def Let_def)
next
  case (Some ex)
  with assms show ?thesis by (simp add: OnDeactivate_def logged_def Let_def)
qed


section \<open>Replies and reports\<close>

lemma dispatch_logged_eq:
  "dispatch (logged be) d e ivk (w, l) =
     (let (w', r) = dispatch be d e ivk w in ((w', l @ attempt ivk e), r))"
  by (simp add: dispatch_def executeResourceRead_def attempt_def logged_def Let_def
      split: option.splits prod.splits)

definition failed_attempt :: "go_result option \<Rightarrow> bool" where
  "failed_attempt r = (case r of None \<Rightarrow> False | Some (result, err) \<Rightarrow> err \<noteq> None \<or> isTransportFailure result)"

lemma executeOnce_clean:
  assumes "dispatch be (requestTimeout g) (Some ex) ivk w = (w1, r1)" and "\<not> failed_attempt r1"
  shows "executeOnce be d1 d2 ex ivk g w = (w1, g, map_option (settle_result ivk d1) r1)"
  using assms by (auto simp: executeOnce_def failed_attempt_def Let_def split: option.splits prod.splits)

text \<open>The executor the factory would make for the session, if it makes one.\<close>

definition fresh_executor :: "'w backend \<Rightarrow> sessionGrain \<Rightarrow> 'w \<Rightarrow> executor option option" where
  "fresh_executor be g w =
     (case be_Factory be of
        Some (Some create) \<Rightarrow>
          (case snd (create (gr_tool g) (gr_credentials g) w) of Inl _ \<Rightarrow> None | Inr e \<Rightarrow> Some e)
      | _ \<Rightarrow> None)"

lemma tryRecover_fresh:
  assumes "gr_executor g = Some ex"
  obtains w' l' g' where "tryRecoverExecutor (logged be) g (w, l) = ((w', l'), g', fresh_executor be g w \<noteq> None)"
    "case fresh_executor be g w of
       None \<Rightarrow> g' = g \<and> (l' = l \<or> l' = l @ [CallCreate None])
     | Some e \<Rightarrow> gr_executor g' = e \<and> l' = l @ [CallCreate e, CallClose ex]"
  using assms that
  by (fastforce simp: tryRecoverExecutor_def fresh_executor_def logged_def Let_def split: option.splits prod.splits sum.splits)

lemma executeOnce_failed:
  assumes "dispatch be (requestTimeout g) (Some ex) ivk w = (w1, r1)" and "failed_attempt r1"
    and "tryRecoverExecutor be g w1 = (w2, g2, ok)"
  shows "executeOnce be d1 d2 ex ivk g w =
    (if ok then (let (w3, r3) = dispatch be (requestTimeout g) (gr_executor g2) ivk w2
                 in (w3, g2, map_option (settle_result ivk d2) r3))
     else (w2, g2, map_option (settle_result ivk d1) r1))"
  using assms by (auto simp: executeOnce_def failed_attempt_def Let_def split: option.splits prod.splits)

lemma executeOnce_tool: "gr_toolID (fst (snd (executeOnce be d1 d2 ex ivk g w))) = gr_toolID g"
proof (cases "failed_attempt (snd (dispatch be (requestTimeout g) (Some ex) ivk w))")
  case False
  then show ?thesis
    by (cases "dispatch be (requestTimeout g) (Some ex) ivk w") (simp add: executeOnce_clean)
next
  case True
  then obtain w1 result err where d: "dispatch be (requestTimeout g) (Some ex) ivk w = (w1, Some (result, err))"
      "err \<noteq> None \<or> isTransportFailure result"
    by (cases "dispatch be (requestTimeout g) (Some ex) ivk w") (auto simp: failed_attempt_def split: option.splits)
  obtain w2 g2 ok where t: "tryRecoverExecutor be g w1 = (w2, g2, ok)" by (metis surj_pair)
  have "gr_toolID g2 = gr_toolID g"
    by (subst tryRecover_frame [OF t]) simp
  with d t show ?thesis
    by (cases ok) (auto simp: executeOnce_def Let_def split: option.splits prod.splits)
qed

abbreviation good_result :: "ExecutionResult option \<Rightarrow> bool" where
  "good_result r \<equiv> (case r of None \<Rightarrow> False | Some x \<Rightarrow> Succeeded x \<and> exec_Err x = None)"

lemma report_up:
  "reportOutcomeToSupervisor True g r = [if good_result r then ReportSuccess (gr_toolID g) else ReportFailure (gr_toolID g)]"
  by (auto simp: reportOutcomeToSupervisor_def Succeeded_def Let_def split: option.splits)

lemma forwardProgress_prefix:
  "forwardProgress src acc = (sent, consumed) \<Longrightarrow>
     sent = take (length (takeWhile id acc)) src \<and> (consumed \<longleftrightarrow> length src \<le> length (takeWhile id acc))"
  by (induction src acc arbitrary: sent consumed rule: forwardProgress.induct) (auto split: prod.splits)

section \<open>A concrete session\<close>

definition example_executor :: "handle \<Rightarrow> executor" where
  "example_executor n = \<lparr>ex_id = n, ex_resource = False, ex_stream = True\<rparr>"

text \<open>
  A backend whose world counts the executors made; the first executor fails at
  the transport, later ones succeed.
\<close>

definition flaky_backend :: "nat backend" where
  "flaky_backend =
     \<lparr>be_Execute = (\<lambda>ex d i w. (w, Some \<lparr>exec_Status = (if ex_id ex = 0 then ExecutionStatusFailure else ExecutionStatusSuccess),
          exec_Output = None,
          exec_Err = (if ex_id ex = 0 then Some (NewRuntimeError ErrCodeTransportFailure ''broken pipe'') else None),
          exec_Duration = 1, exec_Correlation = inv_Correlation i\<rparr>, None)),
      be_ReadResource = (\<lambda>ex d i w. (w, None, Some (PlainErr ''unsupported''))),
      be_ExecuteStream = (\<lambda>ex d i w. (w, Inr \<lparr>str_progress = [''half''], str_final = None\<rparr>)),
      be_Close = (\<lambda>ex w. w),
      be_Factory = Some (Some (\<lambda>tool creds w. (Suc w, Inr (Some (example_executor w)))))\<rparr>"

definition example_dep :: SessionDependency where
  "example_dep = NewSessionDependency ''acme'' ''web'' ''fs'' example_tool []"

definition example_grain :: "handle \<Rightarrow> sessionGrain" where
  "example_grain n =
     \<lparr>gr_streams = 0, gr_tenantID = ''acme'', gr_clientID = ''web'', gr_toolID = ''fs'', gr_tool = example_tool,
      gr_executor = Some (example_executor n), gr_credentials = []\<rparr>"

lemmas example_session =
  example_dep_def example_grain_def example_executor_def flaky_backend_def NewSessionDependency_def

section \<open>Answers\<close>

text \<open>What the session answers for the outcome of an attempt, \<open>None\<close> for a panic, and the
  calls that are attempts.\<close>

definition session_answer :: "Invocation \<Rightarrow> duration \<Rightarrow> go_result option \<Rightarrow> SessionInvokeResult option" where
  "session_answer ivk elapsed outcome = map_option (\<lambda>x. SessionInvokeResult (settle_result ivk elapsed x) None) outcome"

fun begins_call :: "backend_call \<Rightarrow> bool" where
  "begins_call (CallClose _) \<longleftrightarrow> False"
| "begins_call (CallCreate _) \<longleftrightarrow> False"
| "begins_call _ \<longleftrightarrow> True"

section \<open>Properties\<close>

text \<open>C8: A session leaks no executor and closes none twice. Over the life of a session, from its
  activation through any messages and stream ends to its deactivation, every executor that
  was made for it is closed exactly once; until the deactivation the one the session holds
  is the only one that is not closed; and no call, read or stream is begun on an executor
  after it was closed.\<close>

theorem session_closes_each_executor_once:
  "let (s, g, ms, err) = OnActivate (logged be) up deps newSessionGrain (w, []);
       (s', g') = foldl (grain_step (logged be)) (s, g) es;
       l = snd (fst (OnDeactivate (logged be) up' g' s')) in
   open_executors (snd s') = Some (case gr_executor g' of None \<Rightarrow> {#} | Some ex \<Rightarrow> {#ex#}) \<and>
   open_executors l = Some {#} \<and> mset (closed_in l) = mset (created_in l)"
proof -
  obtain w1 l1 g ms err where a: "OnActivate (logged be) up deps newSessionGrain (w, []) = ((w1, l1), g, ms, err)"
    by (metis surj_pair)
  obtain w2 l2 g2 where r: "foldl (grain_step (logged be)) ((w1, l1), g) es = ((w2, l2), g2)"
    by (metis surj_pair)
  have "accounted ((w1, l1), g)"
    using OnActivate_accounted [OF a] by (simp add: accounted_def)
  from grain.run_keeps [OF this, of be es] have held: "open_executors l2 = Some (held g2)"
    by (simp add: r accounted_def)
  note none = OnDeactivate_accounted [OF held, of be up' w2]
  from none open_executors_balance [OF none] held show ?thesis
    unfolding a r by (simp add: r Let_def)
qed

text \<open>C15: A synchronous invocation attempts the call once on the session's executor. When that fails,
  with an error or a transport failure, and the factory makes a fresh executor for the
  session, the session makes one executor and closes the failed one, takes the fresh one,
  attempts the call exactly once more, there, with the same time limit, and answers with
  the outcome of this second attempt. In every other case there is no second attempt, and
  it answers with the outcome of the first.\<close>

theorem session_recovers_once:
  assumes "inv_ToolID ivk = gr_toolID g" and "gr_executor g = Some ex"
    and "dispatch be (requestTimeout g) (Some ex) ivk w = (w1, first)"
    and "handleSessionInvoke (logged be) up d1 d2 (Some ivk) g (w, l) = ((w', l'), g', r, ms)"
  shows "\<exists>recovery retry. l' = l @ attempt ivk (Some ex) @ recovery @ retry \<and>
    (case (failed_attempt first, fresh_executor be g w1) of
       (True, Some fresh) \<Rightarrow>
         mset recovery = {#CallCreate fresh, CallClose ex#} \<and> gr_executor g' = fresh \<and> retry = attempt ivk fresh \<and>
         (\<exists>w2 second. dispatch be (requestTimeout g) fresh ivk w2 = (w', second) \<and> r = session_answer ivk d2 second)
     | _ \<Rightarrow> retry = [] \<and> \<not> (\<exists>c \<in> set recovery. begins_call c) \<and> r = session_answer ivk d1 first)"
proof -
  let ?l1 = "l @ attempt ivk (Some ex)"
  have d: "dispatch (logged be) (requestTimeout g) (Some ex) ivk (w, l) = ((w1, ?l1), first)"
    using assms(3) by (simp add: dispatch_logged_eq)
  have e: "\<exists>out. executeOnce (logged be) d1 d2 ex ivk g (w, l) = ((w', l'), g', out) \<and>
      r = map_option (\<lambda>x. SessionInvokeResult x None) out"
    using assms(1,2,4) by (auto simp: handleSessionInvoke_def split: option.splits prod.splits)
  show ?thesis
  proof (cases "failed_attempt first")
    case False
    with e executeOnce_clean [OF d False, of d1 d2] show ?thesis
      by (intro exI [of _ "[]"]) (auto simp: session_answer_def option.map_comp comp_def)
  next
    case True
    obtain w2 l2 g2 where t: "tryRecoverExecutor (logged be) g (w1, ?l1) = ((w2, l2), g2, fresh_executor be g w1 \<noteq> None)"
      and rec: "case fresh_executor be g w1 of None \<Rightarrow> g2 = g \<and> (l2 = ?l1 \<or> l2 = ?l1 @ [CallCreate None])
        | Some e \<Rightarrow> gr_executor g2 = e \<and> l2 = ?l1 @ [CallCreate e, CallClose ex]"
      by (rule tryRecover_fresh [OF assms(2), of be w1 ?l1])
    note once = executeOnce_failed [OF d True t, of d1 d2]
    show ?thesis
    proof (cases "fresh_executor be g w1")
      case None
      with e once rec True show ?thesis
        by (auto simp: session_answer_def option.map_comp comp_def)
    next
      case (Some fresh)
      obtain w3 second where d': "dispatch be (requestTimeout g) fresh ivk w2 = (w3, second)" by (metis surj_pair)
      with Some e once rec True show ?thesis
        by (intro exI [of _ "[CallCreate fresh, CallClose ex]"] exI [of _ "attempt ivk fresh"])
          (auto simp: session_answer_def dispatch_logged_eq option.map_comp comp_def)
    qed
  qed
qed

theorem session_recovers_once_witness:
  "\<exists>recovery. snd (fst (handleSessionInvoke (logged flaky_backend) True 5 6 (Some (example_invocation ''acme'' ''web'' ''fs''))
     (example_grain 0) (7, []))) = CallExecute (example_executor 0) # recovery @ [CallExecute (example_executor 7)] \<and>
   mset recovery = {#CallCreate (Some (example_executor 7)), CallClose (example_executor 0)#}"
proof -
  let ?i = "example_invocation ''acme'' ''web'' ''fs''" and ?g = "example_grain 0"
  obtain w' l' g' r ms where h: "handleSessionInvoke (logged flaky_backend) True 5 6 (Some ?i) ?g (7, []) =
      ((w', l'), g', r, ms)" by (metis surj_pair)
  obtain w1 first where d: "dispatch flaky_backend (requestTimeout ?g) (Some (example_executor 0)) ?i 7 = (w1, first)" by (metis surj_pair)
  then have "failed_attempt first" "w1 = 7"
    by (auto simp: dispatch_def flaky_backend_def example_executor_def example_invocation_def MethodToolsCall_def
        MethodResourcesRead_def failed_attempt_def isTransportFailure_def NewRuntimeError_def)
  moreover have "fresh_executor flaky_backend ?g 7 = Some (Some (example_executor 7))"
    by (simp add: fresh_executor_def flaky_backend_def)
  moreover have "attempt ?i (Some ex) = [CallExecute ex]" for ex
    by (simp add: attempt_def example_invocation_def MethodToolsCall_def MethodResourcesRead_def)
  moreover have "inv_ToolID ?i = gr_toolID ?g" "gr_executor ?g = Some (example_executor 0)"
    by (simp_all add: example_grain_def example_invocation_def)
  ultimately show ?thesis
    using session_recovers_once [OF _ _ d h] unfolding h by auto
qed

text \<open>C21: While its supervisor runs, an invocation that was executed is reported to it
  exactly once, as a success exactly when the caller is told of a success; an
  invocation for another tool is refused and not reported.\<close>

theorem session_reports_outcome:
  assumes "handleSessionInvoke be True d1 d2 (Some ivk) g w = (w', g', Some (SessionInvokeResult r err), ms)"
  shows "(err = None \<longleftrightarrow> inv_ToolID ivk = gr_toolID g) \<and>
    ms = (if inv_ToolID ivk \<noteq> gr_toolID g then []
          else [if good_result r then ReportSuccess (gr_toolID g) else ReportFailure (gr_toolID g)])"
proof (cases "gr_executor g")
  case None
  with assms show ?thesis
    by (auto simp: handleSessionInvoke_def report_up Let_def split: if_splits)
next
  case (Some ex)
  with assms show ?thesis
    using executeOnce_tool [of be d1 d2 ex ivk g w]
    by (auto simp: handleSessionInvoke_def report_up split: if_splits prod.splits option.splits)
qed

theorem session_reports_outcome_witness:
  "snd (snd (snd (handleSessionInvoke flaky_backend True 5 6 (Some (example_invocation ''acme'' ''web'' ''fs''))
     (example_grain 0) 7))) = [ReportSuccess ''fs'']"
proof -
  let ?i = "example_invocation ''acme'' ''web'' ''fs''"
  obtain w' g' where h: "handleSessionInvoke flaky_backend True 5 6 (Some ?i) (example_grain 0) 7 =
      (w', g', Some (SessionInvokeResult (Some \<lparr>exec_Status = ExecutionStatusSuccess, exec_Output = None,
        exec_Err = None, exec_Duration = 1, exec_Correlation = inv_Correlation ?i\<rparr>) None), [ReportSuccess ''fs''])"
    by (simp add: handleSessionInvoke_def executeOnce_def dispatch_def tryRecoverExecutor_def
        example_session example_invocation_def MethodToolsCall_def MethodResourcesRead_def isTransportFailure_def
        settle_result_def reportOutcomeToSupervisor_def NewRuntimeError_def Let_def)
  show ?thesis
    using session_reports_outcome [OF h] unfolding h by simp
qed

text \<open>C38: A forwarded stream hands the caller a prefix of the source's progress events, in
  order, ending at the first event the caller does not take in time; a caller that
  takes every event gets all of them and the final result; in either case exactly
  one outcome is reported, a success only for a complete stream that succeeded.\<close>

theorem session_stream_forwarding:
  "let (g', sent, final, ms) = forwardStream True accepts ready source g;
       complete = (length (str_progress source) \<le> length (takeWhile id accepts)) in
   sent = take (length (takeWhile id accepts)) (str_progress source) \<and>
   final \<in> (if complete then {str_final source} else {None, str_final source}) \<and>
   ms = [if complete \<and> good_result (str_final source) then ReportSuccess (gr_toolID g)
         else ReportFailure (gr_toolID g)] \<and>
   gr_streams g' = gr_streams g - 1"
  using forwardProgress_prefix [of "str_progress source" accepts]
  by (auto simp: forwardStream_def Let_def report_up split: prod.splits)

text \<open>Recovery does not wait for streams: a synchronous call that fails at the
  transport closes the executor a stream of the same session is still reading from.\<close>

theorem session_recovery_closes_streaming_executor:
  "let i = example_invocation ''acme'' ''web'' ''fs'';
       (s, g, ms, err) = OnActivate (logged flaky_backend) True [Some example_dep] newSessionGrain (0, []);
       (s', g') = foldl (grain_step (logged flaky_backend)) (s, g)
          [GMessage True 1 1 (SessionInvokeStream (Some i)), GMessage True 1 1 (SessionInvoke (Some i))] in
   err = None \<and> gr_streams g' = 1 \<and>
   snd s' = [CallCreate (Some (example_executor 0)), CallStream (example_executor 0),
             CallExecute (example_executor 0), CallCreate (Some (example_executor 1)),
             CallClose (example_executor 0), CallExecute (example_executor 1)]"
  by (simp add: OnActivate_def findSessionDependency_def createExecutor_def newSessionGrain_def
      handleSessionInvokeStream_def handleSessionInvoke_def executeOnce_def dispatch_def tryRecoverExecutor_def
      logged_def example_session example_invocation_def MethodToolsCall_def MethodResourcesRead_def
      isTransportFailure_def IsZero_def NewRuntimeError_def Let_def)

end
