(* ===== verification/Registrar.thy ===== *)
theory Registrar
  imports Tool_Supervisor
begin

text \<open>
  The registrar actor (internal/runtime/actor/registrar.go) and its tool catalog
  (registrar_catalog.go). The catalog is the registrar's replaceable storage
  layer, so its contract is a locale. The tool configuration extension, which the
  registrar shares with the supervisors, is part of its state.

  \<open>reg_env\<close> holds the answers of the actor system to one message: the result of
  spawning, which supervisors run, their replies, and the backend metadata
  fetchers (extension absent, fetcher nil, or a fetcher).
\<close>

section \<open>Tool catalog\<close>

record toolCatalogEntry =
  tce_Tool :: Tool
  tce_Schemas :: "ToolSchema list"
  tce_Resources :: "ResourceSchema list"
  tce_ResourceTemplates :: "ResourceTemplateSchema list"

type_synonym toolCatalog = "(ToolID, toolCatalogEntry) gomap"

definition newToolCatalog :: toolCatalog where
  "newToolCatalog = []"

definition catalog_Has :: "ToolID \<Rightarrow> toolCatalog \<Rightarrow> bool" where
  "catalog_Has toolID c \<longleftrightarrow> gm_get c toolID \<noteq> None"

definition catalog_Get :: "ToolID \<Rightarrow> toolCatalog \<Rightarrow> Tool option" where
  "catalog_Get toolID c = map_option tce_Tool (gm_get c toolID)"

definition with_metadata :: "toolCatalogEntry \<Rightarrow> Tool" where
  "with_metadata e = (tce_Tool e)\<lparr>tool_Schemas := tce_Schemas e, tool_Resources := tce_Resources e,
     tool_ResourceTemplates := tce_ResourceTemplates e\<rparr>"

definition catalog_GetWithMetadata :: "ToolID \<Rightarrow> toolCatalog \<Rightarrow> Tool option" where
  "catalog_GetWithMetadata toolID c = map_option with_metadata (gm_get c toolID)"

definition catalog_Put :: "Tool \<Rightarrow> toolCatalog \<Rightarrow> toolCatalog" where
  "catalog_Put tool c =
     gm_put (tool_ID tool) \<lparr>tce_Tool = tool, tce_Schemas = [], tce_Resources = [], tce_ResourceTemplates = []\<rparr> c"

definition catalog_UpdateTool :: "Tool \<Rightarrow> toolCatalog \<Rightarrow> toolCatalog \<times> bool" where
  "catalog_UpdateTool tool c =
     (case gm_get c (tool_ID tool) of
        None \<Rightarrow> (c, False)
      | Some e \<Rightarrow> (gm_put (tool_ID tool) (e\<lparr>tce_Tool := tool\<rparr>) c, True))"

definition catalog_Remove :: "ToolID \<Rightarrow> toolCatalog \<Rightarrow> toolCatalog \<times> bool" where
  "catalog_Remove toolID c =
     (case gm_get c toolID of None \<Rightarrow> (c, False) | Some e \<Rightarrow> (gm_del toolID c, True))"

definition catalog_SetSchemas :: "ToolID \<Rightarrow> ToolSchema list \<Rightarrow> toolCatalog \<Rightarrow> toolCatalog" where
  "catalog_SetSchemas toolID schemas c =
     (case gm_get c toolID of None \<Rightarrow> c | Some e \<Rightarrow> gm_put toolID (e\<lparr>tce_Schemas := schemas\<rparr>) c)"

definition catalog_SetResources ::
  "ToolID \<Rightarrow> ResourceSchema list \<Rightarrow> ResourceTemplateSchema list \<Rightarrow> toolCatalog \<Rightarrow> toolCatalog" where
  "catalog_SetResources toolID resources templates c =
     (case gm_get c toolID of
        None \<Rightarrow> c
      | Some e \<Rightarrow> gm_put toolID (e\<lparr>tce_Resources := resources, tce_ResourceTemplates := templates\<rparr>) c)"

definition catalog_Schemas :: "ToolID \<Rightarrow> toolCatalog \<Rightarrow> ToolSchema list" where
  "catalog_Schemas toolID c = (case gm_get c toolID of None \<Rightarrow> [] | Some e \<Rightarrow> tce_Schemas e)"

definition catalog_Resources :: "ToolID \<Rightarrow> toolCatalog \<Rightarrow> ResourceSchema list" where
  "catalog_Resources toolID c = (case gm_get c toolID of None \<Rightarrow> [] | Some e \<Rightarrow> tce_Resources e)"

definition catalog_ResourceTemplates :: "ToolID \<Rightarrow> toolCatalog \<Rightarrow> ResourceTemplateSchema list" where
  "catalog_ResourceTemplates toolID c = (case gm_get c toolID of None \<Rightarrow> [] | Some e \<Rightarrow> tce_ResourceTemplates e)"

definition catalog_List :: "toolCatalog \<Rightarrow> Tool list" where
  "catalog_List c = map (\<lambda>(_, e). with_metadata e) c"

definition catalog_Len :: "toolCatalog \<Rightarrow> nat" where
  "catalog_Len c = gm_len c"

lemmas catalog_defs =
  catalog_Has_def catalog_Get_def catalog_Put_def catalog_UpdateTool_def catalog_Remove_def
  catalog_SetSchemas_def catalog_SetResources_def catalog_Schemas_def newToolCatalog_def

text \<open>What the registrar relies on.\<close>

locale catalog_contract =
  fixes new :: "'c"
    and cget :: "ToolID \<Rightarrow> 'c \<Rightarrow> Tool option"
    and cput :: "Tool \<Rightarrow> 'c \<Rightarrow> 'c"
    and cupdate :: "Tool \<Rightarrow> 'c \<Rightarrow> 'c \<times> bool"
    and cremove :: "ToolID \<Rightarrow> 'c \<Rightarrow> 'c \<times> bool"
    and cset :: "ToolID \<Rightarrow> ToolSchema list \<Rightarrow> 'c \<Rightarrow> 'c"
    and cschemas :: "ToolID \<Rightarrow> 'c \<Rightarrow> ToolSchema list"
  assumes get_new: "cget k new = None"
    and get_put: "cget k (cput t c) = (if k = tool_ID t then Some t else cget k c)"
    and get_update: "cget k (fst (cupdate t c)) =
      (if k = tool_ID t \<and> cget k c \<noteq> None then Some t else cget k c)"
    and get_remove: "cget k (fst (cremove k' c)) = (if k = k' then None else cget k c)"
    and get_set: "cget k (cset k' s c) = cget k c"
    and schemas_put: "cschemas (tool_ID t) (cput t c) = []"
    and schemas_set: "cget k c \<noteq> None \<Longrightarrow> cschemas k (cset k s c) = s"
    and schemas_update: "cschemas k (fst (cupdate t c)) = cschemas k c"
begin

lemma update_known: "cget (tool_ID t) c \<noteq> None \<Longrightarrow>
    cget k (fst (cupdate t c)) = (if k = tool_ID t then Some t else cget k c)"
  by (auto simp: get_update)

lemma reregistered_schemas_fresh: "cschemas (tool_ID t) (cset (tool_ID t) s (cput t c)) = s"
  by (rule schemas_set) (simp add: get_put)

end

interpretation cat: catalog_contract newToolCatalog catalog_Get catalog_Put catalog_UpdateTool
  catalog_Remove catalog_SetSchemas catalog_Schemas
  by unfold_locales (auto simp: catalog_defs gomap_simps split: option.splits)

lemma catalog_Get_SetResources [simp]: "catalog_Get k (catalog_SetResources k' r s c) = catalog_Get k c"
  by (auto simp: catalog_defs gomap_simps split: option.splits)

lemma catalog_Has_iff: "catalog_Has k c \<longleftrightarrow> catalog_Get k c \<noteq> None"
  by (simp add: catalog_defs)

lemmas catalog_gets =
  cat.get_new cat.get_put cat.get_update cat.get_remove cat.get_set

lemma catalog_List_get:
  assumes "gm_ok c"
  shows "t \<in> set (catalog_List c) \<longleftrightarrow> (\<exists>k. catalog_GetWithMetadata k c = Some t)"
proof -
  have "t \<in> set (catalog_List c) \<longleftrightarrow> (\<exists>k e. (k, e) \<in> set c \<and> t = with_metadata e)"
    by (auto simp: catalog_List_def)
  also have "\<dots> \<longleftrightarrow> (\<exists>k. catalog_GetWithMetadata k c = Some t)"
    unfolding gm_in_iff [OF assms] by (auto simp: catalog_GetWithMetadata_def)
  finally show ?thesis .
qed

section \<open>Registrar state and messages\<close>

record registrar =
  rg_catalog :: toolCatalog
  rg_supervisors :: "(ToolID, handle) gomap"
  rg_ext :: "ToolConfigExtension option"

record reg_env =
  re_Spawn :: "string \<Rightarrow> handle option"
  re_IsRunning :: "handle \<Rightarrow> bool"
  re_Ask :: "handle \<Rightarrow> sup_msg \<Rightarrow> go_error + sup_reply"
  re_FetchSchemas :: "(Tool \<Rightarrow> go_error + ToolSchema list) option option"
  re_FetchResources :: "(Tool \<Rightarrow> go_error + (ResourceSchema list \<times> ResourceTemplateSchema list)) option option"

datatype reg_msg =
    RegisterTool Tool
  | UpdateTool Tool
  | DisableTool ToolID
  | EnableTool ToolID
  | RemoveTool ToolID
  | QueryTool ToolID
  | UpdateToolHealth ToolID ToolState
  | BootstrapTools "Tool list"
  | GetSupervisor ToolID
  | ListTools
  | CountSessionsForTenant TenantID
  | RegGetToolStatus ToolID
  | RegResetCircuit ToolID
  | RegDrainTool ToolID
  | ListAllSessions
  | GetToolSchema ToolID

datatype reg_reply =
    RegisterToolResult "go_error option"
  | UpdateToolResult "go_error option"
  | DisableToolResult "go_error option"
  | EnableToolResult "go_error option"
  | RemoveToolResult "go_error option"
  | QueryToolResult "Tool option" bool "go_error option"
  | UpdateToolHealthResult "go_error option"
  | GetSupervisorResult "handle option" bool "go_error option"
  | ListToolsResult "Tool list"
  | CountSessionsForTenantResult int
  | RegGetToolStatusResult "ToolStatus option" "go_error option"
  | RegResetCircuitResult "go_error option"
  | RegDrainToolResult "go_error option"
  | ListAllSessionsResult "SessionInfo list"
  | GetToolSchemaResult "ToolSchema list" "go_error option"

text \<open>Messages told to supervisors and supervisors stopped, in order.\<close>

record reg_out =
  ro_tells :: "(handle \<times> sup_msg) list"
  ro_stops :: "handle list"
  ro_reply :: "reg_reply option"

abbreviation respond :: "reg_reply \<Rightarrow> reg_out" where
  "respond r \<equiv> \<lparr>ro_tells = [], ro_stops = [], ro_reply = Some r\<rparr>"

definition registrar_PreStart :: "ToolConfigExtension option \<Rightarrow> registrar" where
  "registrar_PreStart ext = \<lparr>rg_catalog = newToolCatalog, rg_supervisors = [], rg_ext = ext\<rparr>"

section \<open>Supervisors of the registrar\<close>

definition spawnSupervisor :: "reg_env \<Rightarrow> Tool \<Rightarrow> registrar \<Rightarrow> registrar \<times> handle option" where
  "spawnSupervisor env tool x =
     (x\<lparr>rg_ext := map_option (ext_Register tool) (rg_ext x)\<rparr>, re_Spawn env (ToolSupervisorName (tool_ID tool)))"

definition stopSupervisorIfExists :: "ToolID \<Rightarrow> registrar \<Rightarrow> registrar \<times> handle list" where
  "stopSupervisorIfExists toolID x =
     (let (x, stops) = (case gm_get (rg_supervisors x) toolID of
            None \<Rightarrow> (x, [])
          | Some pid \<Rightarrow> (x\<lparr>rg_supervisors := gm_del toolID (rg_supervisors x)\<rparr>, [pid]))
      in (x\<lparr>rg_ext := map_option (ext_Remove toolID) (rg_ext x)\<rparr>, stops))"

definition updateToolExtension :: "Tool \<Rightarrow> registrar \<Rightarrow> registrar" where
  "updateToolExtension tool x = x\<lparr>rg_ext := map_option (ext_Register tool) (rg_ext x)\<rparr>"

definition reg_notifySupervisor :: "reg_env \<Rightarrow> ToolID \<Rightarrow> registrar \<Rightarrow> (handle \<times> sup_msg) list" where
  "reg_notifySupervisor env toolID x =
     (case gm_get (rg_supervisors x) toolID of
        None \<Rightarrow> []
      | Some pid \<Rightarrow> if re_IsRunning env pid then [(pid, RefreshToolConfig toolID)] else [])"

definition runningSupervisors :: "reg_env \<Rightarrow> registrar \<Rightarrow> handle list" where
  "runningSupervisors env x = filter (re_IsRunning env) (map snd (rg_supervisors x))"

definition fetchAndCacheSchemas :: "reg_env \<Rightarrow> Tool \<Rightarrow> registrar \<Rightarrow> registrar" where
  "fetchAndCacheSchemas env tool x =
     (let x = x\<lparr>rg_catalog := catalog_SetSchemas (tool_ID tool) [] (rg_catalog x)\<rparr>
      in case re_FetchSchemas env of
           None \<Rightarrow> x
         | Some None \<Rightarrow> x
         | Some (Some fetch) \<Rightarrow>
             (case fetch tool of
                Inl err \<Rightarrow> x
              | Inr schemas \<Rightarrow> x\<lparr>rg_catalog := catalog_SetSchemas (tool_ID tool) schemas (rg_catalog x)\<rparr>))"

definition fetchAndCacheResources :: "reg_env \<Rightarrow> Tool \<Rightarrow> registrar \<Rightarrow> registrar" where
  "fetchAndCacheResources env tool x =
     (let x = x\<lparr>rg_catalog := catalog_SetResources (tool_ID tool) [] [] (rg_catalog x)\<rparr>
      in case re_FetchResources env of
           None \<Rightarrow> x
         | Some None \<Rightarrow> x
         | Some (Some fetch) \<Rightarrow>
             (case fetch tool of
                Inl err \<Rightarrow> x
              | Inr (resources, templates) \<Rightarrow>
                  x\<lparr>rg_catalog := catalog_SetResources (tool_ID tool) resources templates (rg_catalog x)\<rparr>))"

section \<open>Handlers\<close>

text \<open>The steps \<open>RegisterTool\<close> and \<open>BootstrapTools\<close> share once a tool is accepted.\<close>

definition install_tool :: "reg_env \<Rightarrow> Tool \<Rightarrow> registrar \<Rightarrow> registrar \<times> handle list" where
  "install_tool env tool x =
     (let (x, stops) = stopSupervisorIfExists (tool_ID tool) x;
          x = x\<lparr>rg_catalog := catalog_Put tool (rg_catalog x)\<rparr>;
          x = fetchAndCacheSchemas env tool x;
          x = fetchAndCacheResources env tool x;
          (x, pid) = spawnSupervisor env tool x
      in case pid of
           None \<Rightarrow> (x, stops)
         | Some p \<Rightarrow> (x\<lparr>rg_supervisors := gm_put (tool_ID tool) p (rg_supervisors x)\<rparr>, stops))"

definition handleRegisterTool :: "reg_env \<Rightarrow> Tool \<Rightarrow> registrar \<Rightarrow> registrar \<times> reg_out" where
  "handleRegisterTool env tool x =
     (case ValidateTool tool of
        Some err \<Rightarrow> (x, respond (RegisterToolResult (Some err)))
      | None \<Rightarrow>
          (let tool = (case catalog_Get (tool_ID tool) (rg_catalog x) of
                 None \<Rightarrow> tool
               | Some existing \<Rightarrow>
                   if tool_State existing = ToolStateDisabled then tool\<lparr>tool_State := ToolStateDisabled\<rparr> else tool);
               (x, stops) = install_tool env tool x
           in (x, (respond (RegisterToolResult None))\<lparr>ro_stops := stops\<rparr>)))"

definition handleUpdateTool :: "reg_env \<Rightarrow> Tool \<Rightarrow> registrar \<Rightarrow> registrar \<times> reg_out" where
  "handleUpdateTool env tool x =
     (case catalog_Get (tool_ID tool) (rg_catalog x) of
        None \<Rightarrow> (x, respond (UpdateToolResult (Some ErrToolNotFound)))
      | Some existing \<Rightarrow>
          (let updated = tool\<lparr>tool_ID := tool_ID existing, tool_Transport := tool_Transport existing,
                              tool_Stdio := tool_Stdio existing, tool_HTTP := tool_HTTP existing\<rparr>
           in case ValidateTool updated of
                Some err \<Rightarrow> (x, respond (UpdateToolResult (Some err)))
              | None \<Rightarrow>
                  (let updated = updated\<lparr>tool_State := tool_State existing\<rparr>;
                       x = x\<lparr>rg_catalog := fst (catalog_UpdateTool updated (rg_catalog x))\<rparr>;
                       x = updateToolExtension updated x
                   in (x, (respond (UpdateToolResult None))
                         \<lparr>ro_tells := reg_notifySupervisor env (tool_ID updated) x\<rparr>))))"

definition set_tool_state :: "reg_env \<Rightarrow> ToolID \<Rightarrow> ToolState \<Rightarrow> Tool \<Rightarrow> registrar \<Rightarrow> registrar \<times> (handle \<times> sup_msg) list" where
  "set_tool_state env toolID st existing x =
     (let existing = existing\<lparr>tool_State := st\<rparr>;
          x = x\<lparr>rg_catalog := fst (catalog_UpdateTool existing (rg_catalog x))\<rparr>;
          x = updateToolExtension existing x
      in (x, reg_notifySupervisor env toolID x))"

definition handleDisableTool :: "reg_env \<Rightarrow> ToolID \<Rightarrow> registrar \<Rightarrow> registrar \<times> reg_out" where
  "handleDisableTool env toolID x =
     (case catalog_Get toolID (rg_catalog x) of
        None \<Rightarrow> (x, respond (DisableToolResult (Some ErrToolNotFound)))
      | Some existing \<Rightarrow>
          (let (x, tells) = set_tool_state env toolID ToolStateDisabled existing x
           in (x, (respond (DisableToolResult None))\<lparr>ro_tells := tells\<rparr>)))"

definition handleEnableTool :: "reg_env \<Rightarrow> ToolID \<Rightarrow> registrar \<Rightarrow> registrar \<times> reg_out" where
  "handleEnableTool env toolID x =
     (case catalog_Get toolID (rg_catalog x) of
        None \<Rightarrow> (x, respond (EnableToolResult (Some ErrToolNotFound)))
      | Some existing \<Rightarrow>
          (let (x, tells) = set_tool_state env toolID ToolStateEnabled existing x
           in (x, (respond (EnableToolResult None))\<lparr>ro_tells := tells\<rparr>)))"

definition handleRemoveTool :: "ToolID \<Rightarrow> registrar \<Rightarrow> registrar \<times> reg_out" where
  "handleRemoveTool toolID x =
     (if \<not> catalog_Has toolID (rg_catalog x) then (x, respond (RemoveToolResult (Some ErrToolNotFound)))
      else
        (let (x, stops) = stopSupervisorIfExists toolID x;
             x = x\<lparr>rg_catalog := fst (catalog_Remove toolID (rg_catalog x)),
                   rg_supervisors := gm_del toolID (rg_supervisors x)\<rparr>
         in (x, (respond (RemoveToolResult None))\<lparr>ro_stops := stops\<rparr>)))"

definition handleQueryTool :: "ToolID \<Rightarrow> registrar \<Rightarrow> reg_reply" where
  "handleQueryTool toolID x =
     (case catalog_Get toolID (rg_catalog x) of
        None \<Rightarrow> QueryToolResult None False (Some ErrToolNotFound)
      | Some tool \<Rightarrow> QueryToolResult (Some tool) True None)"

definition handleUpdateToolHealth :: "ToolID \<Rightarrow> ToolState \<Rightarrow> registrar \<Rightarrow> registrar \<times> reg_out" where
  "handleUpdateToolHealth toolID st x =
     (case catalog_Get toolID (rg_catalog x) of
        None \<Rightarrow> (x, respond (UpdateToolHealthResult (Some ErrToolNotFound)))
      | Some existing \<Rightarrow>
          (x\<lparr>rg_catalog := fst (catalog_UpdateTool (existing\<lparr>tool_State := st\<rparr>) (rg_catalog x))\<rparr>,
           respond (UpdateToolHealthResult None)))"

fun handleBootstrapTools :: "reg_env \<Rightarrow> Tool list \<Rightarrow> registrar \<Rightarrow> registrar \<times> handle list" where
  "handleBootstrapTools env [] x = (x, [])"
| "handleBootstrapTools env (tool # tools) x =
     (if ValidateTool tool \<noteq> None then handleBootstrapTools env tools x
      else
        (let (x, stops) = install_tool env tool x;
             (x, stops') = handleBootstrapTools env tools x
         in (x, stops @ stops')))"

definition handleGetSupervisor :: "ToolID \<Rightarrow> registrar \<Rightarrow> reg_reply" where
  "handleGetSupervisor toolID x =
     (case gm_get (rg_supervisors x) toolID of
        None \<Rightarrow> GetSupervisorResult None False (Some ErrToolNotFound)
      | Some pid \<Rightarrow> GetSupervisorResult (Some pid) True None)"

definition reg_handleCountSessionsForTenant :: "reg_env \<Rightarrow> TenantID \<Rightarrow> registrar \<Rightarrow> reg_reply" where
  "reg_handleCountSessionsForTenant env tenantID x =
     CountSessionsForTenantResult
       (sum_list (map (\<lambda>pid. case re_Ask env pid (SupervisorCountSessionsForTenant tenantID) of
            Inr (SupervisorCountSessionsForTenantResult count) \<Rightarrow> count
          | _ \<Rightarrow> 0) (runningSupervisors env x)))"

text \<open>The three relays to a supervisor share their guards.\<close>

definition relay :: "reg_env \<Rightarrow> ToolID \<Rightarrow> sup_msg \<Rightarrow> registrar \<Rightarrow> go_error + sup_reply" where
  "relay env toolID msg x =
     (if \<not> catalog_Has toolID (rg_catalog x) then Inl ErrToolNotFound
      else
        (let unavailable = Inl (rt_error ErrCodeToolUnavailable ''tool supervisor is not running'')
         in case gm_get (rg_supervisors x) toolID of
              None \<Rightarrow> unavailable
            | Some pid \<Rightarrow>
                if \<not> re_IsRunning env pid then unavailable
                else (case re_Ask env pid msg of
                        Inl err \<Rightarrow> Inl (rt_wrap ErrCodeInternal ''supervisor ask failed'' err)
                      | Inr resp \<Rightarrow> Inr resp)))"

definition reg_handleGetToolStatus :: "reg_env \<Rightarrow> ToolID \<Rightarrow> registrar \<Rightarrow> reg_reply" where
  "reg_handleGetToolStatus env toolID x =
     (case relay env toolID (GetToolStatus toolID) x of
        Inl err \<Rightarrow> RegGetToolStatusResult None (Some err)
      | Inr (GetToolStatusResult st err) \<Rightarrow>
          RegGetToolStatusResult (map_option (\<lambda>s. s\<lparr>st_Schemas := catalog_Schemas toolID (rg_catalog x)\<rparr>) st) err
      | Inr _ \<Rightarrow> RegGetToolStatusResult None (Some (rt_error ErrCodeInternal ''unexpected response type'')))"

definition reg_handleResetCircuit :: "reg_env \<Rightarrow> ToolID \<Rightarrow> registrar \<Rightarrow> reg_reply" where
  "reg_handleResetCircuit env toolID x =
     (case relay env toolID (ResetCircuit toolID) x of
        Inl err \<Rightarrow> RegResetCircuitResult (Some err)
      | Inr (ResetCircuitResult err) \<Rightarrow> RegResetCircuitResult err
      | Inr _ \<Rightarrow> RegResetCircuitResult (Some (rt_error ErrCodeInternal ''unexpected response type'')))"

definition reg_handleDrainTool :: "reg_env \<Rightarrow> ToolID \<Rightarrow> registrar \<Rightarrow> reg_reply" where
  "reg_handleDrainTool env toolID x =
     (case relay env toolID (DrainTool toolID) x of
        Inl err \<Rightarrow> RegDrainToolResult (Some err)
      | Inr (DrainToolResult err) \<Rightarrow> RegDrainToolResult err
      | Inr _ \<Rightarrow> RegDrainToolResult (Some (rt_error ErrCodeInternal ''unexpected response type'')))"

definition handleListAllSessions :: "reg_env \<Rightarrow> registrar \<Rightarrow> reg_reply" where
  "handleListAllSessions env x =
     ListAllSessionsResult
       (concat (map (\<lambda>pid. case re_Ask env pid ListSupervisorSessions of
            Inr (ListSupervisorSessionsResult sessions) \<Rightarrow> sessions
          | _ \<Rightarrow> []) (runningSupervisors env x)))"

definition handleGetToolSchema :: "ToolID \<Rightarrow> registrar \<Rightarrow> reg_reply" where
  "handleGetToolSchema toolID x =
     (if \<not> catalog_Has toolID (rg_catalog x) then GetToolSchemaResult [] (Some ErrToolNotFound)
      else GetToolSchemaResult (catalog_Schemas toolID (rg_catalog x)) None)"

fun registrar_Receive :: "reg_env \<Rightarrow> registrar \<Rightarrow> reg_msg \<Rightarrow> registrar \<times> reg_out" where
  "registrar_Receive env x (RegisterTool tool) = handleRegisterTool env tool x"
| "registrar_Receive env x (UpdateTool tool) = handleUpdateTool env tool x"
| "registrar_Receive env x (DisableTool u) = handleDisableTool env u x"
| "registrar_Receive env x (EnableTool u) = handleEnableTool env u x"
| "registrar_Receive env x (RemoveTool u) = handleRemoveTool u x"
| "registrar_Receive env x (QueryTool u) = (x, respond (handleQueryTool u x))"
| "registrar_Receive env x (UpdateToolHealth u st) = handleUpdateToolHealth u st x"
| "registrar_Receive env x (BootstrapTools tools) =
     (let (x, stops) = handleBootstrapTools env tools x
      in (x, \<lparr>ro_tells = [], ro_stops = stops, ro_reply = None\<rparr>))"
| "registrar_Receive env x (GetSupervisor u) = (x, respond (handleGetSupervisor u x))"
| "registrar_Receive env x ListTools = (x, respond (ListToolsResult (catalog_List (rg_catalog x))))"
| "registrar_Receive env x (CountSessionsForTenant t) = (x, respond (reg_handleCountSessionsForTenant env t x))"
| "registrar_Receive env x (RegGetToolStatus u) = (x, respond (reg_handleGetToolStatus env u x))"
| "registrar_Receive env x (RegResetCircuit u) = (x, respond (reg_handleResetCircuit env u x))"
| "registrar_Receive env x (RegDrainTool u) = (x, respond (reg_handleDrainTool env u x))"
| "registrar_Receive env x ListAllSessions = (x, respond (handleListAllSessions env x))"
| "registrar_Receive env x (GetToolSchema u) = (x, respond (handleGetToolSchema u x))"


section \<open>Effects of the handlers\<close>

abbreviation reg_step :: "registrar \<Rightarrow> reg_env \<times> reg_msg \<Rightarrow> registrar" where
  "reg_step x e \<equiv> fst (registrar_Receive (fst e) x (snd e))"

abbreviation tool_of :: "registrar \<Rightarrow> ToolID \<Rightarrow> Tool option" where
  "tool_of x k \<equiv> catalog_Get k (rg_catalog x)"

lemma fetch_frame [simp]:
  "tool_of (fetchAndCacheSchemas env t x) k = tool_of x k"
  "rg_supervisors (fetchAndCacheSchemas env t x) = rg_supervisors x"
  "rg_ext (fetchAndCacheSchemas env t x) = rg_ext x"
  "tool_of (fetchAndCacheResources env t x) k = tool_of x k"
  "rg_supervisors (fetchAndCacheResources env t x) = rg_supervisors x"
  "rg_ext (fetchAndCacheResources env t x) = rg_ext x"
  by (auto simp: fetchAndCacheSchemas_def fetchAndCacheResources_def cat.get_set Let_def
      split: option.splits sum.splits)

lemma stop_frame [simp]:
  "rg_catalog (fst (stopSupervisorIfExists u x)) = rg_catalog x"
  "gm_get (rg_supervisors (fst (stopSupervisorIfExists u x))) k =
     (if k = u then None else gm_get (rg_supervisors x) k)"
  "rg_ext (fst (stopSupervisorIfExists u x)) = map_option (ext_Remove u) (rg_ext x)"
  by (auto simp: stopSupervisorIfExists_def gomap_simps split: option.split)

lemma install_tool_frame:
  "tool_of (fst (install_tool env t x)) k = (if k = tool_ID t then Some t else tool_of x k)"
  "gm_get (rg_supervisors (fst (install_tool env t x))) k =
     (if k = tool_ID t then re_Spawn env (ToolSupervisorName (tool_ID t)) else gm_get (rg_supervisors x) k)"
  "rg_ext (fst (install_tool env t x)) = map_option (\<lambda>e. ext_Register t (ext_Remove (tool_ID t) e)) (rg_ext x)"
  by (simp_all add: install_tool_def spawnSupervisor_def Let_def case_prod_unfold cat.get_put gomap_simps
      option.map_comp comp_def split: option.split)

lemma catalog_ok_ops [simp]:
  "gm_ok c \<Longrightarrow> gm_ok (catalog_Put t c)"
  "gm_ok c \<Longrightarrow> gm_ok (catalog_SetSchemas k s c)"
  "gm_ok c \<Longrightarrow> gm_ok (catalog_SetResources k r ts c)"
  "gm_ok c \<Longrightarrow> gm_ok (fst (catalog_UpdateTool t c))"
  "gm_ok c \<Longrightarrow> gm_ok (fst (catalog_Remove k c))"
  by (simp_all add: catalog_defs split: option.split)

lemma fetch_ok [simp]:
  "gm_ok (rg_catalog x) \<Longrightarrow> gm_ok (rg_catalog (fetchAndCacheSchemas env t x))"
  "gm_ok (rg_catalog x) \<Longrightarrow> gm_ok (rg_catalog (fetchAndCacheResources env t x))"
  by (auto simp: fetchAndCacheSchemas_def fetchAndCacheResources_def Let_def split: option.split sum.split)

lemma stop_ok [simp]:
  "gm_ok (rg_supervisors x) \<Longrightarrow> gm_ok (rg_supervisors (fst (stopSupervisorIfExists u x)))"
  by (simp add: stopSupervisorIfExists_def split: option.split)

lemma install_tool_ok:
  "gm_ok (rg_catalog x) \<Longrightarrow> gm_ok (rg_catalog (fst (install_tool env t x)))"
  "gm_ok (rg_supervisors x) \<Longrightarrow> gm_ok (rg_supervisors (fst (install_tool env t x)))"
  by (simp_all add: install_tool_def spawnSupervisor_def Let_def case_prod_unfold split: option.split)

text \<open>Replacing the definition of a known tool in catalog and extension.\<close>

definition store_tool :: "Tool \<Rightarrow> registrar \<Rightarrow> registrar" where
  "store_tool t x = updateToolExtension t (x\<lparr>rg_catalog := fst (catalog_UpdateTool t (rg_catalog x))\<rparr>)"

lemma store_tool_frame [simp]:
  "rg_supervisors (store_tool t x) = rg_supervisors x"
  "rg_ext (store_tool t x) = map_option (ext_Register t) (rg_ext x)"
  "rg_catalog (store_tool t x) = fst (catalog_UpdateTool t (rg_catalog x))"
  by (simp_all add: store_tool_def updateToolExtension_def)

definition updated_tool :: "Tool \<Rightarrow> Tool \<Rightarrow> Tool" where
  "updated_tool existing tool =
     tool\<lparr>tool_ID := tool_ID existing, tool_Transport := tool_Transport existing,
          tool_Stdio := tool_Stdio existing, tool_HTTP := tool_HTTP existing\<rparr>"

lemma handleUpdateTool_eq:
  "fst (handleUpdateTool env tool x) =
     (case tool_of x (tool_ID tool) of
        None \<Rightarrow> x
      | Some ex \<Rightarrow> if ValidateTool (updated_tool ex tool) = None
                   then store_tool ((updated_tool ex tool)\<lparr>tool_State := tool_State ex\<rparr>) x else x)"
  by (simp add: handleUpdateTool_def updated_tool_def store_tool_def Let_def split: option.split)

lemma set_state_eq:
  "fst (handleDisableTool env u x) =
     (case tool_of x u of None \<Rightarrow> x | Some ex \<Rightarrow> store_tool (ex\<lparr>tool_State := ToolStateDisabled\<rparr>) x)"
  "fst (handleEnableTool env u x) =
     (case tool_of x u of None \<Rightarrow> x | Some ex \<Rightarrow> store_tool (ex\<lparr>tool_State := ToolStateEnabled\<rparr>) x)"
  by (simp_all add: handleDisableTool_def handleEnableTool_def set_tool_state_def store_tool_def Let_def
      split: option.split)

lemma handleUpdateToolHealth_eq:
  "fst (handleUpdateToolHealth u st x) =
     (case tool_of x u of None \<Rightarrow> x
      | Some ex \<Rightarrow> x\<lparr>rg_catalog := fst (catalog_UpdateTool (ex\<lparr>tool_State := st\<rparr>) (rg_catalog x))\<rparr>)"
  by (simp add: handleUpdateToolHealth_def split: option.split)

lemma handleRemoveTool_frame:
  assumes "tool_of x u \<noteq> None"
  shows "tool_of (fst (handleRemoveTool u x)) k = (if k = u then None else tool_of x k)"
    "gm_get (rg_supervisors (fst (handleRemoveTool u x))) k = (if k = u then None else gm_get (rg_supervisors x) k)"
    "rg_ext (fst (handleRemoveTool u x)) = map_option (ext_Remove u) (rg_ext x)"
  using assms
  by (simp_all add: handleRemoveTool_def catalog_Has_iff Let_def case_prod_unfold cat.get_remove gomap_simps)

lemma handleRemoveTool_none: "tool_of x u = None \<Longrightarrow> fst (handleRemoveTool u x) = x"
  by (simp add: handleRemoveTool_def catalog_Has_iff)

lemma handleRemoveTool_ok:
  "gm_ok (rg_catalog x) \<Longrightarrow> gm_ok (rg_catalog (fst (handleRemoveTool u x)))"
  "gm_ok (rg_supervisors x) \<Longrightarrow> gm_ok (rg_supervisors (fst (handleRemoveTool u x)))"
  by (simp_all add: handleRemoveTool_def Let_def case_prod_unfold)

definition kept_state :: "Tool option \<Rightarrow> Tool \<Rightarrow> Tool" where
  "kept_state old tool =
     (case old of
        None \<Rightarrow> tool
      | Some ex \<Rightarrow> if tool_State ex = ToolStateDisabled then tool\<lparr>tool_State := ToolStateDisabled\<rparr> else tool)"

lemma handleRegisterTool_eq:
  "fst (handleRegisterTool env tool x) =
     (if ValidateTool tool = None then fst (install_tool env (kept_state (tool_of x (tool_ID tool)) tool) x) else x)"
  by (simp add: handleRegisterTool_def kept_state_def Let_def case_prod_unfold split: option.split)

section \<open>Invariant\<close>

text \<open>
  Catalogued tools are valid and filed under their identifier, supervisors exist
  only for catalogued tools, and the extension the supervisors read holds the
  same tools, each the same up to its state (health updates change only the catalog).
\<close>

definition same_tool :: "Tool \<Rightarrow> Tool \<Rightarrow> bool" where
  "same_tool t t' \<longleftrightarrow> t\<lparr>tool_State := ToolStateEnabled\<rparr> = t'\<lparr>tool_State := ToolStateEnabled\<rparr>"

definition reg_inv :: "registrar \<Rightarrow> bool" where
  "reg_inv x \<longleftrightarrow>
     gm_ok (rg_catalog x) \<and> gm_ok (rg_supervisors x) \<and>
     (\<forall>k t. tool_of x k = Some t \<longrightarrow> tool_ID t = k \<and> ValidateTool t = None) \<and>
     (\<forall>k. tool_of x k = None \<longrightarrow> gm_get (rg_supervisors x) k = None) \<and>
     (case rg_ext x of
        None \<Rightarrow> True
      | Some e \<Rightarrow> ext_inv e \<and> (\<forall>k. rel_option same_tool (tool_of x k) (ext_Get k e)))"

lemma same_tool_simps [simp]:
  "same_tool t t" "same_tool (t\<lparr>tool_State := s\<rparr>) t' \<longleftrightarrow> same_tool t t'"
  by (simp_all add: same_tool_def)

lemma ValidateTool_state [simp]: "ValidateTool (t\<lparr>tool_State := s\<rparr>) = ValidateTool t"
  by (cases "tool_Transport t") (simp_all add: ValidateTool_def validateGRPCTool_def Let_def)

lemma kept_state_simps [simp]:
  "tool_ID (kept_state o' t) = tool_ID t" "ValidateTool (kept_state o' t) = ValidateTool t"
  by (simp_all add: kept_state_def split: option.split)

lemma reg_inv_install [keeps_inv]:
  "reg_inv x \<Longrightarrow> ValidateTool t = None \<Longrightarrow> reg_inv (fst (install_tool env t x))"
  by (auto simp: reg_inv_def install_tool_frame install_tool_ok split: option.splits if_splits)

lemma reg_inv_store [keeps_inv]:
  "reg_inv x \<Longrightarrow> tool_of x (tool_ID t) \<noteq> None \<Longrightarrow> ValidateTool t = None \<Longrightarrow> reg_inv (store_tool t x)"
  by (auto simp: reg_inv_def cat.update_known split: option.splits if_splits)

lemma rel_same_tool_state [simp]:
  "rel_option same_tool (Some (t\<lparr>tool_State := s\<rparr>)) e \<longleftrightarrow> rel_option same_tool (Some t) e"
  by (cases e) simp_all

lemma reg_inv_health [keeps_inv]:
  "reg_inv x \<Longrightarrow> reg_inv (fst (handleUpdateToolHealth u st x))"
  by (auto simp: reg_inv_def handleUpdateToolHealth_eq cat.get_update split: option.splits if_splits) metis

lemma reg_inv_remove [keeps_inv]: "reg_inv x \<Longrightarrow> reg_inv (fst (handleRemoveTool u x))"
  by (cases "tool_of x u = None")
    (auto simp: reg_inv_def handleRemoveTool_frame handleRemoveTool_none handleRemoveTool_ok
      split: option.splits if_splits)

lemma reg_inv_bootstrap [keeps_inv]: "reg_inv x \<Longrightarrow> reg_inv (fst (handleBootstrapTools env ts x))"
  by (induction ts arbitrary: x) (simp_all add: Let_def case_prod_unfold reg_inv_install)


interpretation reg: actor_inv reg_step reg_inv
proof unfold_locales
  fix x and e :: "reg_env \<times> reg_msg"
  assume inv: "reg_inv x"
  obtain env msg where e: "e = (env, msg)" by (cases e)
  have known: "tool_ID t = k \<and> ValidateTool t = None" if "tool_of x k = Some t" for k t
    using inv that by (simp add: reg_inv_def)
  have up: "tool_ID (updated_tool ex t) = tool_ID ex" for ex t
    by (simp add: updated_tool_def)
  show "reg_inv (reg_step x e)"
    using inv unfolding e
    by (cases msg) (auto simp: handleRegisterTool_eq handleUpdateTool_eq set_state_eq up known case_prod_unfold
        Let_def keeps_inv split: option.splits)
qed

lemma reg_inv_start [simp]: "reg_inv (registrar_PreStart None)" "reg_inv (registrar_PreStart (Some []))"
  by (simp_all add: reg_inv_def registrar_PreStart_def newToolCatalog_def catalog_Get_def ext_Get_def)

section \<open>The registry as a finite map\<close>

text \<open>What each message does to the registered tools, as an update of a map.\<close>

definition spec_set :: "(ToolID \<Rightarrow> Tool option) \<Rightarrow> ToolID \<Rightarrow> ToolState \<Rightarrow> (ToolID \<Rightarrow> Tool option)" where
  "spec_set m u st = (case m u of None \<Rightarrow> m | Some t \<Rightarrow> m(u \<mapsto> t\<lparr>tool_State := st\<rparr>))"

fun reg_spec :: "(ToolID \<Rightarrow> Tool option) \<Rightarrow> reg_msg \<Rightarrow> (ToolID \<Rightarrow> Tool option)" where
  "reg_spec m (RegisterTool t) =
     (if ValidateTool t = None then m(tool_ID t \<mapsto> kept_state (m (tool_ID t)) t) else m)"
| "reg_spec m (UpdateTool t) =
     (case m (tool_ID t) of
        None \<Rightarrow> m
      | Some ex \<Rightarrow> if ValidateTool (updated_tool ex t) = None
                   then m(tool_ID t \<mapsto> (updated_tool ex t)\<lparr>tool_State := tool_State ex\<rparr>) else m)"
| "reg_spec m (DisableTool u) = spec_set m u ToolStateDisabled"
| "reg_spec m (EnableTool u) = spec_set m u ToolStateEnabled"
| "reg_spec m (RemoveTool u) = m(u := None)"
| "reg_spec m (UpdateToolHealth u st) = spec_set m u st"
| "reg_spec m (BootstrapTools ts) =
     foldl (\<lambda>m t. if ValidateTool t = None then m(tool_ID t \<mapsto> t) else m) m ts"
| "reg_spec m _ = m"

lemma bootstrap_refines:
  "tool_of (fst (handleBootstrapTools env ts x)) =
     foldl (\<lambda>m t. if ValidateTool t = None then m(tool_ID t \<mapsto> t) else m) (tool_of x) ts"
proof (induction ts arbitrary: x)
  case Nil
  then show ?case by simp
next
  case (Cons t ts)
  have "tool_of (fst (install_tool env t x)) = (tool_of x)(tool_ID t \<mapsto> t)"
    by (auto simp: install_tool_frame)
  with Cons show ?case by (simp add: Let_def case_prod_unfold)
qed

lemma store_refines:
  "tool_of x (tool_ID t) \<noteq> None \<Longrightarrow> tool_of (store_tool t x) = (tool_of x)(tool_ID t \<mapsto> t)"
  by (auto simp: cat.update_known)

lemma health_refines: "reg_inv x \<Longrightarrow> tool_of (fst (handleUpdateToolHealth u st x)) = spec_set (tool_of x) u st"
  by (auto simp: handleUpdateToolHealth_eq spec_set_def cat.get_update reg_inv_def split: option.splits)

lemma reg_step_refines:
  assumes "reg_inv x"
  shows "tool_of (reg_step x (env, msg)) = reg_spec (tool_of x) msg"
proof -
  have known: "tool_ID t = k" if "tool_of x k = Some t" for k t
    using assms that by (simp add: reg_inv_def)
  have up: "tool_ID (updated_tool ex t) = tool_ID ex" for ex t
    by (simp add: updated_tool_def)
  have remove: "tool_of (fst (handleRemoveTool u x)) = (tool_of x)(u := None)" for u
    by (cases "tool_of x u = None") (auto simp: handleRemoveTool_none handleRemoveTool_frame)
  have install: "tool_of (fst (install_tool env t x)) = (tool_of x)(tool_ID t \<mapsto> t)" for t
    by (auto simp: install_tool_frame)
  have store: "tool_of (store_tool t x) = (tool_of x)(k \<mapsto> t)" if "tool_of x k \<noteq> None" "tool_ID t = k" for t k
    using that store_refines by auto
  show ?thesis
    by (cases msg) (auto simp: handleRegisterTool_eq handleUpdateTool_eq set_state_eq remove install up known store
        bootstrap_refines health_refines [OF assms] case_prod_unfold Let_def spec_set_def
        simp del: store_tool_frame(3) split: option.splits)
qed

text \<open>
  The map as the comments of the messages describe it (internal/runtime/registry_messages.go,
  registrar.go). They disagree with each other or with the code on two points, so the map
  is specified for messages that avoid them: the state a tool is registered in, when the
  definition names another than enabled, and what an update does with transport settings.
\<close>

definition same_transport :: "Tool \<Rightarrow> Tool \<Rightarrow> bool" where
  "same_transport ex t \<longleftrightarrow> tool_Transport t = tool_Transport ex \<and> tool_Stdio t = tool_Stdio ex \<and>
     tool_HTTP t = tool_HTTP ex \<and> tool_GRPC t = tool_GRPC ex"

fun undisputed :: "(ToolID \<Rightarrow> Tool option) \<Rightarrow> reg_msg \<Rightarrow> bool" where
  "undisputed m (RegisterTool t) \<longleftrightarrow> tool_State t = ToolStateEnabled"
| "undisputed m (UpdateTool t) \<longleftrightarrow> (case m (tool_ID t) of None \<Rightarrow> True | Some ex \<Rightarrow> same_transport ex t)"
| "undisputed m _ \<longleftrightarrow> True"

fun registry_spec :: "(ToolID \<Rightarrow> Tool option) \<Rightarrow> reg_msg \<Rightarrow> (ToolID \<Rightarrow> Tool option)" where
  "registry_spec m (RegisterTool t) =
     (if ValidateTool t \<noteq> None then m
      else m(tool_ID t \<mapsto> t\<lparr>tool_State :=
        (case m (tool_ID t) of
           None \<Rightarrow> ToolStateEnabled
         | Some ex \<Rightarrow> if tool_State ex = ToolStateDisabled then ToolStateDisabled else ToolStateEnabled)\<rparr>))"
| "registry_spec m (UpdateTool t) =
     (case m (tool_ID t) of
        None \<Rightarrow> m
      | Some ex \<Rightarrow> if ValidateTool t \<noteq> None then m else m(tool_ID t \<mapsto> t\<lparr>tool_State := tool_State ex\<rparr>))"
| "registry_spec m (DisableTool u) = spec_set m u ToolStateDisabled"
| "registry_spec m (EnableTool u) = spec_set m u ToolStateEnabled"
| "registry_spec m (RemoveTool u) = m(u := None)"
| "registry_spec m (UpdateToolHealth u st) = spec_set m u st"
| "registry_spec m (BootstrapTools ts) =
     foldl (\<lambda>m t. if ValidateTool t = None then m(tool_ID t \<mapsto> t) else m) m ts"
| "registry_spec m _ = m"

fun undisputed_run :: "(ToolID \<Rightarrow> Tool option) \<Rightarrow> reg_msg list \<Rightarrow> bool" where
  "undisputed_run m [] \<longleftrightarrow> True"
| "undisputed_run m (msg # msgs) \<longleftrightarrow> undisputed m msg \<and> undisputed_run (registry_spec m msg) msgs"

lemma undisputed_spec:
  assumes "\<And>k t. m k = Some t \<Longrightarrow> tool_ID t = k" and "undisputed m msg"
  shows "reg_spec m msg = registry_spec m msg"
proof (cases msg)
  case (RegisterTool t)
  with assms(2) have "t\<lparr>tool_State := ToolStateEnabled\<rparr> = t" by (cases t) simp
  with RegisterTool show ?thesis by (auto simp: kept_state_def split: option.split)
next
  case (UpdateTool t)
  show ?thesis
  proof (cases "m (tool_ID t)")
    case (Some ex)
    with assms UpdateTool have "updated_tool ex t = t"
      by (cases t) (auto simp: updated_tool_def same_transport_def)
    with UpdateTool Some show ?thesis by simp
  qed (simp add: UpdateTool)
qed simp_all

lemma registry_run_refines:
  "reg_inv x \<Longrightarrow> undisputed_run (tool_of x) (map snd es) \<Longrightarrow>
     tool_of (foldl reg_step x es) = foldl registry_spec (tool_of x) (map snd es)"
proof (induction es arbitrary: x)
  case (Cons e es)
  obtain env msg where e: "e = (env, msg)" by (cases e)
  have "tool_of (reg_step x e) = registry_spec (tool_of x) msg"
    using reg_step_refines [OF Cons.prems(1), of env msg] undisputed_spec [of "tool_of x" msg] Cons.prems
    by (auto simp: e reg_inv_def)
  with Cons.IH [OF reg.step_keeps [OF Cons.prems(1), of e]] Cons.prems(2) show ?case by (simp add: e)
qed simp


section \<open>Schemas and supervisors\<close>

lemma schemas_frame [simp]: "catalog_Schemas k (catalog_SetResources k' r ts c) = catalog_Schemas k c"
  by (auto simp: catalog_defs gomap_simps split: option.splits)

definition fetched_schemas :: "reg_env \<Rightarrow> Tool \<Rightarrow> ToolSchema list" where
  "fetched_schemas env t =
     (case re_FetchSchemas env of Some (Some fetch) \<Rightarrow> (case fetch t of Inr s \<Rightarrow> s | Inl _ \<Rightarrow> []) | _ \<Rightarrow> [])"

lemma fetchResources_schemas [simp]:
  "catalog_Schemas k (rg_catalog (fetchAndCacheResources env t x)) = catalog_Schemas k (rg_catalog x)"
  by (auto simp: fetchAndCacheResources_def Let_def split: option.splits sum.splits)

lemma fetchSchemas_schemas:
  "tool_of x (tool_ID t) \<noteq> None \<Longrightarrow>
     catalog_Schemas (tool_ID t) (rg_catalog (fetchAndCacheSchemas env t x)) = fetched_schemas env t"
  by (auto simp: fetchAndCacheSchemas_def fetched_schemas_def Let_def cat.schemas_set cat.get_set
      split: option.splits sum.splits)

lemma install_tool_schemas:
  "catalog_Schemas (tool_ID t) (rg_catalog (fst (install_tool env t x))) = fetched_schemas env t"
  by (simp add: install_tool_def spawnSupervisor_def Let_def case_prod_unfold fetchSchemas_schemas cat.get_put
      split: option.split)

text \<open>A refresh from the extension gives a supervisor the definition filed there.\<close>

lemma refresh_installs:
  assumes "ctx_toolExt ctx = Some e" and "ext_Get u e = Some t"
  shows "sv_tool (sup_step s (ctx, RefreshToolConfig u)) = t"
    and "tool_State t = ToolStateEnabled \<Longrightarrow> \<not> sv_draining (sup_step s (ctx, RefreshToolConfig u))"
  using assms by (simp_all add: handleRefreshToolConfig_def Let_def)

lemma set_state_tells:
  assumes "tool_of x u = Some t" and "gm_get (rg_supervisors x) u = Some pid" and "re_IsRunning env pid"
  shows "ro_tells (snd (handleDisableTool env u x)) = [(pid, RefreshToolConfig u)]"
    "ro_tells (snd (handleEnableTool env u x)) = [(pid, RefreshToolConfig u)]"
  using assms
  by (simp_all add: handleDisableTool_def handleEnableTool_def set_tool_state_def reg_notifySupervisor_def
      updateToolExtension_def Let_def)

section \<open>Properties\<close>

text \<open>C10: Starting empty, the registrar implements the map from identifiers to tools that the
  comments of its messages describe, for messages on which they leave no choice: a tool is
  registered with its state set to enabled, and an update carries the transport settings
  the tool has. After any such messages the registrar's invariant holds (valid tools under
  their own identifiers, supervisors only for registered tools, an extension that agrees
  with the catalog up to the state), and a query answers with the tool of that map: the
  last valid definition registered or applied by an update, enabled unless the tool had
  been disabled before or its state was set since, and nothing once it is removed.\<close>

theorem registrar_refines_registry:
  assumes "undisputed_run (\<lambda>_. None) (map snd es)"
  shows "let x = foldl reg_step (registrar_PreStart (Some [])) es in
   reg_inv x \<and>
   handleQueryTool k x =
     (case foldl registry_spec (\<lambda>_. None) (map snd es) k of
        None \<Rightarrow> QueryToolResult None False (Some ErrToolNotFound)
      | Some t \<Rightarrow> QueryToolResult (Some t) True None)"
proof -
  have start: "tool_of (registrar_PreStart (Some [])) = (\<lambda>_. None)"
    by (simp add: registrar_PreStart_def newToolCatalog_def catalog_Get_def)
  note refines = registry_run_refines [OF reg_inv_start(2), unfolded start, OF assms]
  show ?thesis
    unfolding Let_def handleQueryTool_def refines [symmetric] by (simp add: reg.run_keeps)
qed

theorem registrar_refines_registry_witness:
  "\<forall>env :: reg_env. handleQueryTool ''fs'' (foldl reg_step (registrar_PreStart (Some []))
     [(env, RegisterTool example_tool), (env, DisableTool ''fs''),
      (env, RegisterTool (example_tool\<lparr>tool_MaxSessionsPerTool := 3\<rparr>)), (env, UpdateTool (example_tool\<lparr>tool_MaxSessionsPerTool := 5\<rparr>))]) =
     QueryToolResult (Some (example_tool\<lparr>tool_State := ToolStateDisabled, tool_MaxSessionsPerTool := 5\<rparr>)) True None"
proof
  fix env :: reg_env
  define es where "es = [(env, RegisterTool example_tool), (env, DisableTool ''fs''),
      (env, RegisterTool (example_tool\<lparr>tool_MaxSessionsPerTool := 3\<rparr>)), (env, UpdateTool (example_tool\<lparr>tool_MaxSessionsPerTool := 5\<rparr>))]"
  have valid: "ValidateTool (example_tool\<lparr>tool_MaxSessionsPerTool := n\<rparr>) = None" "ValidateTool example_tool = None" for n
    by (simp_all add: ValidateTool_None_iff transport_ok_def example_tool_def)
  have id: "tool_ID example_tool = ''fs''" "tool_State example_tool = ToolStateEnabled" by (simp_all add: example_tool_def)
  have "undisputed_run (\<lambda>_. None) (map snd es)"
    by (simp add: es_def valid id spec_set_def same_transport_def)
  moreover have "foldl registry_spec (\<lambda>_. None) (map snd es) ''fs'' =
      Some (example_tool\<lparr>tool_State := ToolStateDisabled, tool_MaxSessionsPerTool := 5\<rparr>)"
    by (simp add: es_def valid id spec_set_def)
  ultimately have "handleQueryTool ''fs'' (foldl reg_step (registrar_PreStart (Some [])) es) =
     QueryToolResult (Some (example_tool\<lparr>tool_State := ToolStateDisabled, tool_MaxSessionsPerTool := 5\<rparr>)) True None"
    using registrar_refines_registry [of es "''fs''"] by (simp add: Let_def)
  then show "handleQueryTool ''fs'' (foldl reg_step (registrar_PreStart (Some []))
     [(env, RegisterTool example_tool), (env, DisableTool ''fs''),
      (env, RegisterTool (example_tool\<lparr>tool_MaxSessionsPerTool := 3\<rparr>)), (env, UpdateTool (example_tool\<lparr>tool_MaxSessionsPerTool := 5\<rparr>))]) =
     QueryToolResult (Some (example_tool\<lparr>tool_State := ToolStateDisabled, tool_MaxSessionsPerTool := 5\<rparr>)) True None"
    unfolding es_def .
qed

text \<open>Disabling a tool takes effect at its supervisor: once the refresh the registrar
  sends has been processed, after whatever was queued before it, every request for
  work is refused until the next refresh.\<close>

theorem disable_reaches_supervisor:
  assumes "reg_inv x" and "tool_of x u = Some t" and "rg_ext x = Some e"
    and "gm_get (rg_supervisors x) u = Some pid" and "re_IsRunning env pid"
    and "ctx_toolExt ctx = rg_ext (fst (handleDisableTool env u x))"
    and "\<forall>ev \<in> set later. \<not> config_msg ev"
  shows "ro_tells (snd (handleDisableTool env u x)) = [(pid, RefreshToolConfig u)] \<and>
    \<not> sup_accepts ctx' u
        (sup_run s (queued @ map (\<lambda>(_, m). (ctx, m)) (ro_tells (snd (handleDisableTool env u x))) @ later))"
proof -
  have tells: "ro_tells (snd (handleDisableTool env u x)) = [(pid, RefreshToolConfig u)]"
    by (rule set_state_tells(1) [OF assms(2,4,5)])
  have "tool_ID t = u"
    using assms(1,2) by (simp add: reg_inv_def)
  then have ext: "ctx_toolExt ctx = Some (ext_Register (t\<lparr>tool_State := ToolStateDisabled\<rparr>) e)"
      "ext_Get u (ext_Register (t\<lparr>tool_State := ToolStateDisabled\<rparr>) e) = Some (t\<lparr>tool_State := ToolStateDisabled\<rparr>)"
    using assms(2,3,6) by (simp_all add: set_state_eq)
  have "sv_tool (sup_run (sup_step (sup_run s queued) (ctx, RefreshToolConfig u)) later) =
      t\<lparr>tool_State := ToolStateDisabled\<rparr>"
    using sup_tool.run_frame [OF _ assms(7)] refresh_installs(1) [OF ext] by simp
  then show ?thesis
    unfolding tells by (simp add: sup_accepts_iff)
qed

definition example_registrar :: registrar where
  "example_registrar =
     \<lparr>rg_catalog = [(''fs'', \<lparr>tce_Tool = example_tool, tce_Schemas = [], tce_Resources = [], tce_ResourceTemplates = []\<rparr>)],
      rg_supervisors = [(''fs'', 7)], rg_ext = Some [(''fs'', example_tool)]\<rparr>"

definition example_reg_env :: reg_env where
  "example_reg_env =
     \<lparr>re_Spawn = (\<lambda>_. Some 8), re_IsRunning = (\<lambda>_. True),
      re_Ask = (\<lambda>_ _. Inr (SupervisorCountSessionsForTenantResult 2)),
      re_FetchSchemas = Some (Some (\<lambda>_. Inl (PlainErr ''unreachable''))), re_FetchResources = None\<rparr>"

lemma example_registrar_inv [simp]: "reg_inv example_registrar"
proof -
  have "ValidateTool example_tool = None"
    by (simp add: ValidateTool_None_iff transport_ok_def example_tool_def)
  then show ?thesis
    by (simp add: reg_inv_def example_registrar_def gm_ok_def catalog_Get_def ext_inv_def ext_Get_def)
qed

lemma example_registrar_simps [simp]:
  "tool_of example_registrar ''fs'' = Some example_tool" "rg_ext example_registrar = Some [(''fs'', example_tool)]"
  "rg_supervisors example_registrar = [(''fs'', 7)]"
  by (simp_all add: example_registrar_def catalog_Get_def)

lemma example_reg_env_running [simp]: "re_IsRunning example_reg_env pid"
  by (simp add: example_reg_env_def)

theorem disable_reaches_supervisor_witness:
  "\<not> sup_accepts (example_ctx 9 example_tool) ''fs''
     (sup_run (start_supervisor (example_ctx 0 example_tool))
       [(example_ctx 1 example_tool, ReportSuccess ''fs''),
        ((example_ctx 2 example_tool)
           \<lparr>ctx_toolExt := rg_ext (fst (handleDisableTool example_reg_env ''fs'' example_registrar))\<rparr>,
         RefreshToolConfig ''fs''),
        (example_ctx 3 example_tool, ReportSuccess ''fs'')])"
proof -
  let ?x = "fst (handleDisableTool example_reg_env ''fs'' example_registrar)"
  let ?ctx = "(example_ctx 2 example_tool)\<lparr>ctx_toolExt := rg_ext ?x\<rparr>"
  have d: "ro_tells (snd (handleDisableTool example_reg_env ''fs'' example_registrar)) = [(7, RefreshToolConfig ''fs'')] \<and>
    \<not> sup_accepts (example_ctx 9 example_tool) ''fs''
        (sup_run (start_supervisor (example_ctx 0 example_tool)) ([(example_ctx 1 example_tool, ReportSuccess ''fs'')]
          @ map (\<lambda>(_, m). (?ctx, m)) (ro_tells (snd (handleDisableTool example_reg_env ''fs'' example_registrar)))
          @ [(example_ctx 3 example_tool, ReportSuccess ''fs'')]))"
    by (rule disable_reaches_supervisor [OF example_registrar_inv]) simp_all
  show ?thesis
    using d [THEN conjunct2, unfolded d [THEN conjunct1]] by (simp only: append.simps list.map prod.case) simp
qed

text \<open>Registering a tool again replaces its definition but keeps it disabled if it was
  disabled, in the catalog and in the extension, stops the old supervisor, and
  leaves exactly the schemas just fetched (none if the fetch failed).\<close>

theorem reregister_keeps_disabled:
  assumes "tool_of x (tool_ID t) = Some old" and "tool_State old = ToolStateDisabled"
    and "ValidateTool t = None" and "rg_ext x = Some e"
    and "gm_get (rg_supervisors x) (tool_ID t) = Some pid"
    and "registrar_Receive env x (RegisterTool t) = (x', out)"
  shows "tool_of x' (tool_ID t) = Some (t\<lparr>tool_State := ToolStateDisabled\<rparr>) \<and>
    map_option (ext_Get (tool_ID t)) (rg_ext x') = Some (Some (t\<lparr>tool_State := ToolStateDisabled\<rparr>)) \<and>
    ro_stops out = [pid] \<and>
    handleGetToolSchema (tool_ID t) x' =
      GetToolSchemaResult (fetched_schemas env (t\<lparr>tool_State := ToolStateDisabled\<rparr>)) None"
proof -
  let ?t = "t\<lparr>tool_State := ToolStateDisabled\<rparr>"
  have x': "x' = fst (install_tool env ?t x)"
    using assms(1-3,6) handleRegisterTool_eq [of env t x] by (simp add: kept_state_def)
  have "snd (install_tool env ?t x) = [pid]"
    using assms(5) by (simp add: install_tool_def spawnSupervisor_def stopSupervisorIfExists_def Let_def
        case_prod_unfold split: option.split)
  then have "ro_stops out = [pid]"
    using assms(1-3,6) by (auto simp: handleRegisterTool_def case_prod_unfold Let_def)
  then show ?thesis
    using assms(4) install_tool_schemas [of ?t env x]
    by (simp add: x' install_tool_frame catalog_Has_iff handleGetToolSchema_def)
qed

theorem reregister_keeps_disabled_witness:
  "let x = fst (handleDisableTool example_reg_env ''fs'' example_registrar) in
   tool_of (reg_step x (example_reg_env, RegisterTool example_tool)) ''fs'' =
     Some (example_tool\<lparr>tool_State := ToolStateDisabled\<rparr>)"
proof -
  let ?x = "fst (handleDisableTool example_reg_env ''fs'' example_registrar)"
  obtain x' out where r: "registrar_Receive example_reg_env ?x (RegisterTool example_tool) = (x', out)"
    by (metis surj_pair)
  have "ValidateTool example_tool = None"
    by (simp add: ValidateTool_None_iff transport_ok_def example_tool_def)
  moreover have "tool_of ?x ''fs'' = Some (example_tool\<lparr>tool_State := ToolStateDisabled\<rparr>)"
    by (simp add: set_state_eq cat.get_update)
  ultimately show ?thesis
    using reregister_keeps_disabled [OF _ _ _ _ _ r, of "example_tool\<lparr>tool_State := ToolStateDisabled\<rparr>"] r
    by (simp add: set_state_eq)
qed

text \<open>The session count of a tenant used for its concurrency quota is the sum over
  the running supervisors that answer of the sessions each has registered for the
  tenant; a supervisor that does not answer contributes nothing.\<close>

theorem registrar_count_sums_supervisors:
  assumes "\<forall>pid \<in> set (runningSupervisors env x).
    sup_inv (tid pid) (state pid) \<and>
    re_Ask env pid (SupervisorCountSessionsForTenant t) =
      (if answers pid then Inr (handleCountSessionsForTenant t (state pid)) else Inl (err pid))"
  shows "reg_handleCountSessionsForTenant env t x = CountSessionsForTenantResult
    (\<Sum>pid \<leftarrow> runningSupervisors env x.
       if answers pid then int (card {c. (t, c) \<in> registered (state pid)}) else 0)"
proof -
  have "(case re_Ask env pid (SupervisorCountSessionsForTenant t) of
           Inr (SupervisorCountSessionsForTenantResult count) \<Rightarrow> count | _ \<Rightarrow> 0) =
      (if answers pid then int (card {c. (t, c) \<in> registered (state pid)}) else 0)"
    if "pid \<in> set (runningSupervisors env x)" for pid
    using assms that count_reply [of "tid pid" "state pid" t] by auto
  then show ?thesis
    unfolding reg_handleCountSessionsForTenant_def by (simp cong: map_cong)
qed

theorem registrar_count_sums_supervisors_witness:
  "reg_handleCountSessionsForTenant
     (example_reg_env\<lparr>re_Ask := \<lambda>_ _. Inr (handleCountSessionsForTenant ''acme''
        (handleSessionActivated ''acme'' ''web'' ''fs'' (start_supervisor (example_ctx 0 example_tool))))\<rparr>)
     ''acme'' example_registrar = CountSessionsForTenantResult 1"
proof -
  let ?s = "handleSessionActivated ''acme'' ''web'' ''fs'' (start_supervisor (example_ctx 0 example_tool))"
  let ?env = "example_reg_env\<lparr>re_Ask := \<lambda>_ _. Inr (handleCountSessionsForTenant ''acme'' ?s)\<rparr>"
  note st = started [OF example_started [of example_tool 0], simplified]
  have inv: "sup_inv ''fs'' ?s"
    using sup_inv_sessions(1) [OF st(1)] by simp
  have "registered ?s = {(''acme'', ''web'')}"
    using st(2,3) by (simp add: registered_def handleSessionActivated_def)
  then have "{c. (''acme'', c) \<in> registered ?s} = {''web''}" by simp
  with inv show ?thesis
    using registrar_count_sums_supervisors [of ?env example_registrar "\<lambda>_. ''fs''" "\<lambda>_. ?s" "''acme''" "\<lambda>_. True"]
    by (simp add: runningSupervisors_def example_reg_env_def)
qed

end
