(* ===== verification/Router.thy ===== *)
theory Router
  imports Session_Grain Registrar Policy Credential_Broker
begin

text \<open>
  The router actor (internal/runtime/actor/router.go, router_pipeline.go): every
  invocation passes tool lookup, policy, supervisor lookup, admission, credentials
  and session resolution before it is executed by the session grain; every outcome
  is audited.

  The actors the router asks are an argument: \<open>system\<close> holds, for each of them, the
  reply to a message together with the new state \<open>'w\<close> of the system. An ask that
  times out or cannot be delivered is \<open>Inl\<close>; a reply of a type the router does not
  expect is another constructor of the reply type, or \<open>None\<close>.
\<close>

section \<open>The actors the router asks\<close>

record 'w system =
  sys_Registrar :: "reg_msg \<Rightarrow> 'w \<Rightarrow> 'w \<times> (go_error + reg_reply)"
  sys_Policy :: "Input \<Rightarrow> 'w \<Rightarrow> 'w \<times> (go_error + Result option)"
  sys_Broker :: "TenantID \<Rightarrow> ToolID \<Rightarrow> 'w \<Rightarrow> 'w \<times> (go_error + ResolveResult option)"
  sys_Supervisor :: "handle \<Rightarrow> sup_msg \<Rightarrow> 'w \<Rightarrow> 'w \<times> (go_error + sup_reply)"
  sys_Grain :: "string \<Rightarrow> duration \<Rightarrow> grain_msg \<Rightarrow> 'w \<Rightarrow> 'w \<times> (go_error + grain_reply)"
  sys_registrarUp :: "'w \<Rightarrow> bool"
  sys_policyUp :: "'w \<Rightarrow> bool"
  sys_brokerUp :: "'w \<Rightarrow> bool"
  sys_journalUp :: "'w \<Rightarrow> bool"
  sys_supervisorUp :: "handle \<Rightarrow> 'w \<Rightarrow> bool"

record router =
  ro_hasConcurrencyQuotas :: bool
  ro_requestTimeout :: duration

definition hasConcurrencyQuotas :: "Config \<Rightarrow> bool" where
  "hasConcurrencyQuotas config =
     list_ex (\<lambda>t. quota_ConcurrentSessions (tenant_Quotas t) > 0) (cfg_Tenants config)"

definition router_PreStart :: "Config \<Rightarrow> router" where
  "router_PreStart config =
     \<lparr>ro_hasConcurrencyQuotas = hasConcurrencyQuotas config,
      ro_requestTimeout = (if rt_RequestTimeout (cfg_Runtime config) = 0 then DefaultRequestTimeout
                           else rt_RequestTimeout (cfg_Runtime config))\<rparr>"

datatype RouteResult = RouteResult "ExecutionResult option" "go_error option"
datatype RouteStreamResult = RouteStreamResult "stream_source option" "ExecutionResult option" "go_error option"

definition defaultCheckAcceptWorkReason :: string where
  "defaultCheckAcceptWorkReason = ''circuit open or tool unavailable''"

definition routeOutcomeInvalid :: string where "routeOutcomeInvalid = ''invalid''"
definition routeOutcomeError :: string where "routeOutcomeError = ''error''"
definition routeOutcomeUnavailable :: string where "routeOutcomeUnavailable = ''unavailable''"
definition routeOutcomeCredentialUnavail :: string where "routeOutcomeCredentialUnavail = ''credential_unavailable''"
definition routeOutcomeSessionError :: string where "routeOutcomeSessionError = ''session_error''"
definition routeOutcomeExecutionError :: string where "routeOutcomeExecutionError = ''execution_error''"
definition routeOutcomeInvocationStreaming :: string where "routeOutcomeInvocationStreaming = ''streaming''"
definition routeDefaultTenantID :: TenantID where "routeDefaultTenantID = ''default''"
definition routeDefaultClientID :: ClientID where "routeDefaultClientID = ''default''"

lemmas route_constants =
  routeOutcomeInvalid_def routeOutcomeError_def routeOutcomeUnavailable_def routeOutcomeCredentialUnavail_def
  routeOutcomeSessionError_def routeOutcomeExecutionError_def routeOutcomeInvocationStreaming_def
  routeDefaultTenantID_def routeDefaultClientID_def

record routeContext =
  rc_Invocation :: Invocation
  rc_Tool :: Tool
  rc_TenantID :: TenantID
  rc_ClientID :: ClientID
  rc_Supervisor :: handle
  rc_Session :: string

record routeFailure =
  rf_Err :: go_error
  rf_Code :: ErrorCode
  rf_Outcome :: string
  rf_EventType :: AuditEventType

section \<open>Error mapping and audit events\<close>

definition errorCodeFrom :: "go_error \<Rightarrow> ErrorCode \<Rightarrow> ErrorCode" where
  "errorCodeFrom err fallback = (case as_runtime_error err of Some re \<Rightarrow> Code re | None \<Rightarrow> fallback)"

definition outcomeFromError :: "go_error \<Rightarrow> string" where
  "outcomeFromError err =
     (case as_runtime_error err of
        Some re \<Rightarrow>
          (if Code re = ErrCodePolicyDenied then ''deny''
           else if Code re = ErrCodeRateLimited \<or> Code re = ErrCodeQuotaExceeded
              \<or> Code re = ErrCodeConcurrencyLimitReached then ''throttle''
           else ''error'')
      | None \<Rightarrow> ''error'')"

definition invocationEvent ::
  "time \<Rightarrow> Invocation \<Rightarrow> AuditEventType \<Rightarrow> string \<Rightarrow> string \<Rightarrow> string \<Rightarrow> AuditEvent" where
  "invocationEvent now ivk evType outcome errorCode message =
     \<lparr>audit_Type = evType, audit_Timestamp = now,
      audit_TenantID = corr_TenantID (inv_Correlation ivk), audit_ClientID = corr_ClientID (inv_Correlation ivk),
      audit_ToolID = inv_ToolID ivk, audit_RequestID = corr_RequestID (inv_Correlation ivk),
      audit_TraceID = corr_TraceID (inv_Correlation ivk), audit_Outcome = outcome,
      audit_ErrorCode = errorCode, audit_Message = message, audit_Metadata = []\<rparr>"

definition recordAuditEvent :: "'w system \<Rightarrow> 'w \<Rightarrow> AuditEvent \<Rightarrow> AuditEvent list" where
  "recordAuditEvent sys w event = (if sys_journalUp sys w then [event] else [])"

definition emitRouteFailure :: "'w system \<Rightarrow> time \<Rightarrow> 'w \<Rightarrow> Invocation \<Rightarrow> routeFailure \<Rightarrow> AuditEvent list" where
  "emitRouteFailure sys now w ivk failure =
     recordAuditEvent sys w (invocationEvent now ivk (rf_EventType failure) (rf_Outcome failure)
       (error_code_string (rf_Code failure)) (error_text (rf_Err failure)))"

definition emitValidationFailure :: "'w system \<Rightarrow> time \<Rightarrow> 'w \<Rightarrow> Invocation \<Rightarrow> go_error \<Rightarrow> AuditEvent list" where
  "emitValidationFailure sys now w ivk err =
     recordAuditEvent sys w (invocationEvent now ivk AuditEventTypeInvocationFailed routeOutcomeInvalid
       (error_code_string ErrCodeInvalidRequest) (error_text err))"

definition emitExecutionFailure :: "'w system \<Rightarrow> time \<Rightarrow> 'w \<Rightarrow> Invocation \<Rightarrow> go_error \<Rightarrow> AuditEvent list" where
  "emitExecutionFailure sys now w ivk err =
     recordAuditEvent sys w (invocationEvent now ivk AuditEventTypeInvocationFailed routeOutcomeExecutionError
       (error_code_string (errorCodeFrom err ErrCodeInternal)) (error_text err))"

definition emitInvocationComplete :: "'w system \<Rightarrow> time \<Rightarrow> 'w \<Rightarrow> Invocation \<Rightarrow> string \<Rightarrow> AuditEvent list" where
  "emitInvocationComplete sys now w ivk outcome =
     recordAuditEvent sys w (invocationEvent now ivk AuditEventTypeInvocationComplete outcome '''' '''')"

lemmas emit_defs =
  emitRouteFailure_def emitValidationFailure_def emitExecutionFailure_def emitInvocationComplete_def
  recordAuditEvent_def

section \<open>Pipeline stages\<close>

definition validateInvocation :: "Invocation option \<Rightarrow> go_error option" where
  "validateInvocation msg =
     (case msg of
        None \<Rightarrow> Some (rt_error ErrCodeInvalidRequest ''invocation is required'')
      | Some ivk \<Rightarrow> if IsZero (inv_ToolID ivk) then Some (rt_error ErrCodeInvalidRequest ''tool ID is required'')
                    else None)"

definition validateInvokeStream :: "Invocation option \<Rightarrow> go_error option" where
  "validateInvokeStream msg =
     (case msg of
        None \<Rightarrow> Some (rt_error ErrCodeInvalidRequest ''invocation is required'')
      | Some ivk \<Rightarrow> if IsZero (inv_ToolID ivk) then Some (rt_error ErrCodeInvalidRequest ''tool ID is required'')
                    else None)"

definition resolveIdentity :: "Invocation \<Rightarrow> TenantID \<times> ClientID" where
  "resolveIdentity ivk =
     (if IsZero (corr_TenantID (inv_Correlation ivk)) then routeDefaultTenantID else corr_TenantID (inv_Correlation ivk),
      if IsZero (corr_ClientID (inv_Correlation ivk)) then routeDefaultClientID else corr_ClientID (inv_Correlation ivk))"

definition lookupTool :: "'w system \<Rightarrow> ToolID \<Rightarrow> 'w \<Rightarrow> 'w \<times> (go_error + Tool)" where
  "lookupTool sys toolID w =
     (case sys_Registrar sys (QueryTool toolID) w of
        (w, Inl err) \<Rightarrow> (w, Inl (rt_wrap ErrCodeInternal ''registry query failed'' err))
      | (w, Inr (QueryToolResult (Some tool) found e)) \<Rightarrow> if found then (w, Inr tool) else (w, Inl ErrToolNotFound)
      | (w, Inr _) \<Rightarrow> (w, Inl ErrToolNotFound))"

definition active_sessions :: "'w system \<Rightarrow> router \<Rightarrow> TenantID \<Rightarrow> 'w \<Rightarrow> 'w \<times> int" where
  "active_sessions sys x tenantID w =
     (if ro_hasConcurrencyQuotas x \<and> sys_registrarUp sys w
      then (case sys_Registrar sys (CountSessionsForTenant tenantID) w of
              (w, Inr (CountSessionsForTenantResult cnt)) \<Rightarrow> (w, cnt)
            | (w, _) \<Rightarrow> (w, 0))
      else (w, 0))"

definition evaluatePolicy ::
  "'w system \<Rightarrow> router \<Rightarrow> Invocation \<Rightarrow> Tool \<Rightarrow> TenantID \<Rightarrow> ClientID \<Rightarrow> 'w \<Rightarrow> 'w \<times> go_error option" where
  "evaluatePolicy sys x ivk tool tenantID clientID w =
     (if \<not> sys_policyUp sys w then (w, None)
      else
        (let (w, activeSessions) = active_sessions sys x tenantID w;
             inp = \<lparr>in_Invocation = Some ivk, in_Tool = tool, in_TenantID = tenantID, in_ClientID = clientID,
                    in_TenantConfig = None, in_ActiveSessionCount = activeSessions,
                    in_RequestsInCurrentMinute = 0, in_Scopes = inv_Scopes ivk\<rparr>
         in case sys_Policy sys inp w of
              (w, Inl err) \<Rightarrow> (w, Some (rt_wrap ErrCodeInternal ''policy evaluation failed'' err))
            | (w, Inr None) \<Rightarrow> (w, Some (rt_error ErrCodeInternal ''invalid policy response type''))
            | (w, Inr (Some result)) \<Rightarrow>
                if \<not> Allowed result
                then (w, Some (case res_Err result of
                             Some err \<Rightarrow> err
                           | None \<Rightarrow> rt_error ErrCodePolicyDenied ''policy evaluation failed''))
                else (w, None)))"

definition lookupSupervisor :: "'w system \<Rightarrow> ToolID \<Rightarrow> 'w \<Rightarrow> 'w \<times> (go_error + handle)" where
  "lookupSupervisor sys toolID w =
     (case sys_Registrar sys (GetSupervisor toolID) w of
        (w, Inl err) \<Rightarrow> (w, Inl (rt_wrap ErrCodeInternal ''supervisor lookup failed'' err))
      | (w, Inr (GetSupervisorResult (Some pid) found e)) \<Rightarrow>
          if \<not> found then (w, Inl ErrToolNotFound)
          else if \<not> sys_supervisorUp sys pid w
          then (w, Inl (rt_error ErrCodeToolUnavailable ''supervisor not available''))
          else (w, Inr pid)
      | (w, Inr _) \<Rightarrow> (w, Inl ErrToolNotFound))"

definition accept_rejected :: "Tool \<Rightarrow> (string \<times> int) option \<Rightarrow> go_error" where
  "accept_rejected tool acceptResult =
     (let reason = (case acceptResult of
            Some (r, n) \<Rightarrow> if r \<noteq> '''' then r else defaultCheckAcceptWorkReason
          | None \<Rightarrow> defaultCheckAcceptWorkReason)
      in if tool_State tool = ToolStateDisabled then rt_error ErrCodeToolDisabled reason
         else if tool_MaxSessionsPerTool tool > 0 \<and>
            (case acceptResult of Some (r, n) \<Rightarrow> n \<ge> tool_MaxSessionsPerTool tool | None \<Rightarrow> False)
         then rt_error ErrCodeConcurrencyLimitReached reason
         else rt_error ErrCodeToolUnavailable reason)"

definition checkAcceptWork :: "'w system \<Rightarrow> handle \<Rightarrow> ToolID \<Rightarrow> Tool \<Rightarrow> 'w \<Rightarrow> 'w \<times> go_error option" where
  "checkAcceptWork sys pid toolID tool w =
     (case sys_Supervisor sys pid (CanAcceptWork toolID) w of
        (w, Inl err) \<Rightarrow> (w, Some (rt_wrap ErrCodeInternal ''availability check failed'' err))
      | (w, Inr (CanAcceptWorkResult accept reason n)) \<Rightarrow>
          if accept then (w, None) else (w, Some (accept_rejected tool (Some (reason, n))))
      | (w, Inr _) \<Rightarrow> (w, Some (accept_rejected tool None)))"

definition resolveCredentials ::
  "'w system \<Rightarrow> Invocation \<Rightarrow> Tool \<Rightarrow> TenantID \<Rightarrow> 'w \<Rightarrow> 'w \<times> (go_error + Invocation)" where
  "resolveCredentials sys ivk tool tenantID w =
     (if tool_CredentialPolicy tool \<noteq> CredentialPolicyRequired then (w, Inr ivk)
      else if \<not> sys_brokerUp sys w
      then (w, Inl (rt_error ErrCodeCredentialUnavailable ''credential broker not available''))
      else
        (case sys_Broker sys tenantID (inv_ToolID ivk) w of
           (w, Inl err) \<Rightarrow> (w, Inl (rt_wrap ErrCodeInternal ''credential resolution failed'' err))
         | (w, Inr None) \<Rightarrow> (w, Inl (rt_error ErrCodeCredentialUnavailable ''credentials not resolved''))
         | (w, Inr (Some result)) \<Rightarrow>
             if \<not> Resolved result
             then (w, Inl (case rr_Err result of
                         Some err \<Rightarrow> err
                       | None \<Rightarrow> rt_error ErrCodeCredentialUnavailable ''credentials not resolved''))
             else (w, Inr (ivk\<lparr>inv_Credentials := rr_values result\<rparr>))))"

definition resolveSession ::
  "'w system \<Rightarrow> handle \<Rightarrow> TenantID \<Rightarrow> ClientID \<Rightarrow> ToolID \<Rightarrow> strmap \<Rightarrow> 'w \<Rightarrow> 'w \<times> (go_error + string)" where
  "resolveSession sys pid tenantID clientID toolID creds w =
     (case sys_Supervisor sys pid (GetOrCreateSession tenantID clientID toolID creds) w of
        (w, Inl err) \<Rightarrow> (w, Inl (rt_wrap ErrCodeInternal ''session resolution failed'' err))
      | (w, Inr (GetOrCreateSessionResult session found err)) \<Rightarrow>
          (case (session, found) of
             (Some identity, True) \<Rightarrow> (w, Inr identity)
           | _ \<Rightarrow> (w, Inl (case err of
                       Some e \<Rightarrow> rt_wrap ErrCodeInternal ''session not available'' e
                     | None \<Rightarrow> rt_error ErrCodeInternal ''session not available'')))
      | (w, Inr _) \<Rightarrow> (w, Inl (rt_error ErrCodeInternal ''session not available'')))"

definition runPreExecutionPipeline ::
  "'w system \<Rightarrow> router \<Rightarrow> Invocation \<Rightarrow> TenantID \<Rightarrow> ClientID \<Rightarrow> 'w \<Rightarrow> 'w \<times> (routeFailure + routeContext)" where
  "runPreExecutionPipeline sys x ivk tenantID clientID w =
     (case lookupTool sys (inv_ToolID ivk) w of
        (w, Inl err) \<Rightarrow> (w, Inl \<lparr>rf_Err = err, rf_Code = ErrCodeToolNotFound, rf_Outcome = routeOutcomeError,
                            rf_EventType = AuditEventTypeInvocationFailed\<rparr>)
      | (w, Inr tool) \<Rightarrow>
     (case evaluatePolicy sys x ivk tool tenantID clientID w of
        (w, Some err) \<Rightarrow> (w, Inl \<lparr>rf_Err = err, rf_Code = errorCodeFrom err ErrCodePolicyDenied,
                            rf_Outcome = outcomeFromError err, rf_EventType = AuditEventTypePolicyDecision\<rparr>)
      | (w, None) \<Rightarrow>
     (case lookupSupervisor sys (inv_ToolID ivk) w of
        (w, Inl err) \<Rightarrow> (w, Inl \<lparr>rf_Err = err, rf_Code = ErrCodeInternal, rf_Outcome = routeOutcomeError,
                            rf_EventType = AuditEventTypeInvocationFailed\<rparr>)
      | (w, Inr pid) \<Rightarrow>
     (case checkAcceptWork sys pid (inv_ToolID ivk) tool w of
        (w, Some err) \<Rightarrow> (w, Inl \<lparr>rf_Err = err, rf_Code = errorCodeFrom err ErrCodeToolUnavailable,
                            rf_Outcome = routeOutcomeUnavailable, rf_EventType = AuditEventTypeInvocationFailed\<rparr>)
      | (w, None) \<Rightarrow>
     (case resolveCredentials sys ivk tool tenantID w of
        (w, Inl err) \<Rightarrow> (w, Inl \<lparr>rf_Err = err, rf_Code = ErrCodeCredentialUnavailable,
                            rf_Outcome = routeOutcomeCredentialUnavail, rf_EventType = AuditEventTypeInvocationFailed\<rparr>)
      | (w, Inr ivk') \<Rightarrow>
     (case resolveSession sys pid tenantID clientID (inv_ToolID ivk) (inv_Credentials ivk') w of
        (w, Inl err) \<Rightarrow> (w, Inl \<lparr>rf_Err = err, rf_Code = ErrCodeInternal, rf_Outcome = routeOutcomeSessionError,
                            rf_EventType = AuditEventTypeInvocationFailed\<rparr>)
      | (w, Inr session) \<Rightarrow>
          (w, Inr \<lparr>rc_Invocation = ivk', rc_Tool = tool, rc_TenantID = tenantID, rc_ClientID = clientID,
                   rc_Supervisor = pid, rc_Session = session\<rparr>)))))))"

section \<open>Execution\<close>

definition exec_timeout :: "Tool \<Rightarrow> duration" where
  "exec_timeout tool = (if tool_RequestTimeout tool = 0 then DefaultRequestTimeout else tool_RequestTimeout tool)"

definition session_error :: "string \<Rightarrow> go_error \<Rightarrow> go_error" where
  "session_error message err =
     (case as_runtime_error err of Some _ \<Rightarrow> err | None \<Rightarrow> rt_wrap ErrCodeInternal message err)"

definition executeInvocation ::
  "'w system \<Rightarrow> string \<Rightarrow> Invocation \<Rightarrow> Tool \<Rightarrow> 'w \<Rightarrow> 'w \<times> (go_error + ExecutionResult option)" where
  "executeInvocation sys identity ivk tool w =
     (case sys_Grain sys identity (exec_timeout tool) (SessionInvoke (Some ivk)) w of
        (w, Inl err) \<Rightarrow> (w, Inl (rt_wrap ErrCodeInternal ''invocation failed'' err))
      | (w, Inr (InvokeReply (SessionInvokeResult result None))) \<Rightarrow> (w, Inr result)
      | (w, Inr (InvokeReply (SessionInvokeResult result (Some err)))) \<Rightarrow> (w, Inl (session_error ''session error'' err))
      | (w, Inr _) \<Rightarrow> (w, Inl (rt_error ErrCodeInternal ''invalid session response'')))"

definition executeInvocationStream ::
  "'w system \<Rightarrow> string \<Rightarrow> Invocation \<Rightarrow> Tool \<Rightarrow> 'w \<Rightarrow>
     'w \<times> (go_error + (stream_source option \<times> ExecutionResult option))" where
  "executeInvocationStream sys identity ivk tool w =
     (case sys_Grain sys identity (exec_timeout tool) (SessionInvokeStream (Some ivk)) w of
        (w, Inl err) \<Rightarrow> (w, Inl (rt_wrap ErrCodeInternal ''stream invocation failed'' err))
      | (w, Inr (StreamReply (SessionInvokeStreamResult sr result None))) \<Rightarrow> (w, Inr (sr, result))
      | (w, Inr (StreamReply (SessionInvokeStreamResult sr result (Some err)))) \<Rightarrow>
          (w, Inl (session_error ''session stream error'' err))
      | (w, Inr _) \<Rightarrow> (w, Inl (rt_error ErrCodeInternal ''invalid session stream response'')))"

text \<open>
  The handlers return the response (\<open>None\<close> when the handler panics: reading the
  status of a nil result) and the audit events told to the journal.
\<close>

definition handleRouteInvocation ::
  "'w system \<Rightarrow> router \<Rightarrow> time \<Rightarrow> Invocation option \<Rightarrow> 'w \<Rightarrow> 'w \<times> RouteResult option \<times> AuditEvent list" where
  "handleRouteInvocation sys x now msg w =
     (case (validateInvocation msg, msg) of
        (Some err, Some ivk) \<Rightarrow> (w, Some (RouteResult None (Some err)), emitValidationFailure sys now w ivk err)
      | (err, None) \<Rightarrow> (w, Some (RouteResult None err), [])
      | (None, Some ivk) \<Rightarrow>
          (let (tenantID, clientID) = resolveIdentity ivk
           in case runPreExecutionPipeline sys x ivk tenantID clientID w of
                (w, Inl failure) \<Rightarrow>
                  (w, Some (RouteResult None (Some (rf_Err failure))), emitRouteFailure sys now w ivk failure)
              | (w, Inr rctx) \<Rightarrow>
                  (case executeInvocation sys (rc_Session rctx) (rc_Invocation rctx) (rc_Tool rctx) w of
                     (w, Inl err) \<Rightarrow> (w, Some (RouteResult None (Some err)), emitExecutionFailure sys now w ivk err)
                   | (w, Inr None) \<Rightarrow> (w, None, [])
                   | (w, Inr (Some result)) \<Rightarrow>
                       (w, Some (RouteResult (Some result) None),
                        emitInvocationComplete sys now w ivk (execution_status_string (exec_Status result))))))"

definition handleRouteInvokeStream ::
  "'w system \<Rightarrow> router \<Rightarrow> time \<Rightarrow> Invocation option \<Rightarrow> 'w \<Rightarrow> 'w \<times> RouteStreamResult \<times> AuditEvent list" where
  "handleRouteInvokeStream sys x now msg w =
     (case (validateInvokeStream msg, msg) of
        (Some err, Some ivk) \<Rightarrow> (w, RouteStreamResult None None (Some err), emitValidationFailure sys now w ivk err)
      | (err, None) \<Rightarrow> (w, RouteStreamResult None None err, [])
      | (None, Some ivk) \<Rightarrow>
          (let (tenantID, clientID) = resolveIdentity ivk
           in case runPreExecutionPipeline sys x ivk tenantID clientID w of
                (w, Inl failure) \<Rightarrow>
                  (w, RouteStreamResult None None (Some (rf_Err failure)), emitRouteFailure sys now w ivk failure)
              | (w, Inr rctx) \<Rightarrow>
                  (case executeInvocationStream sys (rc_Session rctx) (rc_Invocation rctx) (rc_Tool rctx) w of
                     (w, Inl err) \<Rightarrow> (w, RouteStreamResult None None (Some err), emitExecutionFailure sys now w ivk err)
                   | (w, Inr (sr, result)) \<Rightarrow>
                       (w, RouteStreamResult sr result None,
                        emitInvocationComplete sys now w ivk routeOutcomeInvocationStreaming))))"


section \<open>Traces of the router's questions\<close>

datatype interaction =
    AskRegistrar reg_msg "go_error + reg_reply"
  | AskPolicy Input "go_error + Result option"
  | AskBroker TenantID ToolID "go_error + ResolveResult option"
  | AskSupervisor handle sup_msg "go_error + sup_reply"
  | AskGrain string duration grain_msg "go_error + grain_reply"

text \<open>A system that records every question with its answer.\<close>

definition traced :: "'w system \<Rightarrow> ('w \<times> interaction list) system" where
  "traced sys =
     \<lparr>sys_Registrar = (\<lambda>m (w, l). let (w, r) = sys_Registrar sys m w in ((w, l @ [AskRegistrar m r]), r)),
      sys_Policy = (\<lambda>i (w, l). let (w, r) = sys_Policy sys i w in ((w, l @ [AskPolicy i r]), r)),
      sys_Broker = (\<lambda>t u (w, l). let (w, r) = sys_Broker sys t u w in ((w, l @ [AskBroker t u r]), r)),
      sys_Supervisor = (\<lambda>p m (w, l). let (w, r) = sys_Supervisor sys p m w in ((w, l @ [AskSupervisor p m r]), r)),
      sys_Grain = (\<lambda>n d m (w, l). let (w, r) = sys_Grain sys n d m w in ((w, l @ [AskGrain n d m r]), r)),
      sys_registrarUp = (\<lambda>(w, l). sys_registrarUp sys w),
      sys_policyUp = (\<lambda>(w, l). sys_policyUp sys w),
      sys_brokerUp = (\<lambda>(w, l). sys_brokerUp sys w),
      sys_journalUp = (\<lambda>(w, l). sys_journalUp sys w),
      sys_supervisorUp = (\<lambda>p (w, l). sys_supervisorUp sys p w)\<rparr>"

lemma traced_simps [simp]:
  "sys_Registrar (traced sys) m (w, l) =
     ((fst (sys_Registrar sys m w), l @ [AskRegistrar m (snd (sys_Registrar sys m w))]), snd (sys_Registrar sys m w))"
  "sys_Policy (traced sys) i (w, l) =
     ((fst (sys_Policy sys i w), l @ [AskPolicy i (snd (sys_Policy sys i w))]), snd (sys_Policy sys i w))"
  "sys_Broker (traced sys) t u (w, l) =
     ((fst (sys_Broker sys t u w), l @ [AskBroker t u (snd (sys_Broker sys t u w))]), snd (sys_Broker sys t u w))"
  "sys_Supervisor (traced sys) p sm (w, l) =
     ((fst (sys_Supervisor sys p sm w), l @ [AskSupervisor p sm (snd (sys_Supervisor sys p sm w))]),
      snd (sys_Supervisor sys p sm w))"
  "sys_Grain (traced sys) n d gm (w, l) =
     ((fst (sys_Grain sys n d gm w), l @ [AskGrain n d gm (snd (sys_Grain sys n d gm w))]), snd (sys_Grain sys n d gm w))"
  "sys_registrarUp (traced sys) (w, l) = sys_registrarUp sys w"
  "sys_policyUp (traced sys) (w, l) = sys_policyUp sys w"
  "sys_brokerUp (traced sys) (w, l) = sys_brokerUp sys w"
  "sys_journalUp (traced sys) (w, l) = sys_journalUp sys w"
  "sys_supervisorUp (traced sys) p (w, l) = sys_supervisorUp sys p w"
  by (simp_all add: traced_def case_prod_unfold Let_def)

fun is_grain_ask :: "interaction \<Rightarrow> bool" where
  "is_grain_ask (AskGrain _ _ _ _) \<longleftrightarrow> True"
| "is_grain_ask _ \<longleftrightarrow> False"

abbreviation no_grain :: "interaction list \<Rightarrow> bool" where
  "no_grain l \<equiv> \<forall>i \<in> set l. \<not> is_grain_ask i"

text \<open>The stages of the pipeline on a traced system.\<close>

lemma lookupTool_traced:
  assumes "lookupTool (traced sys) u (w, l) = ((w', l'), r)"
  shows "\<exists>rep. l' = l @ [AskRegistrar (QueryTool u) rep] \<and>
    (\<forall>tool. r = Inr tool \<longrightarrow> (\<exists>e. rep = Inr (QueryToolResult (Some tool) True e)))"
  using assms
  by (auto simp: lookupTool_def split: sum.splits reg_reply.splits option.splits if_splits)

lemma evaluatePolicy_traced:
  assumes "evaluatePolicy (traced sys) x ivk tool t c (w, l) = ((w', l'), r)" and "\<forall>w. sys_policyUp sys w"
  shows "\<exists>pre inp rep. l' = l @ pre @ [AskPolicy inp rep] \<and> no_grain pre \<and>
    (r = None \<longrightarrow> (\<exists>res. rep = Inr (Some res) \<and> Allowed res) \<and>
       in_Tool inp = tool \<and> in_TenantID inp = t \<and> in_ClientID inp = c \<and> in_Invocation inp = Some ivk \<and>
       in_Scopes inp = inv_Scopes ivk)"
proof -
  obtain w1 l1 n where a: "active_sessions (traced sys) x t (w, l) = ((w1, l1), n)"
    by (metis surj_pair)
  then have "\<exists>pre. l1 = l @ pre \<and> no_grain pre"
    by (auto simp: active_sessions_def split: sum.splits reg_reply.splits if_splits)
  with assms a show ?thesis
    by (auto simp: evaluatePolicy_def Let_def split: sum.splits option.splits if_splits) metis
qed

lemma lookupSupervisor_traced:
  assumes "lookupSupervisor (traced sys) u (w, l) = ((w', l'), r)"
  shows "\<exists>rep. l' = l @ [AskRegistrar (GetSupervisor u) rep] \<and>
    (\<forall>pid. r = Inr pid \<longrightarrow> (\<exists>e. rep = Inr (GetSupervisorResult (Some pid) True e)))"
  using assms
  by (auto simp: lookupSupervisor_def split: sum.splits reg_reply.splits option.splits if_splits)

lemma checkAcceptWork_traced:
  assumes "checkAcceptWork (traced sys) pid u tool (w, l) = ((w', l'), r)"
  shows "\<exists>rep. l' = l @ [AskSupervisor pid (CanAcceptWork u) rep] \<and>
    (r = None \<longrightarrow> (\<exists>s n. rep = Inr (CanAcceptWorkResult True s n)))"
  using assms
  by (auto simp: checkAcceptWork_def split: sum.splits sup_reply.splits if_splits)

definition credentials_checked :: "interaction list \<Rightarrow> Invocation \<Rightarrow> Tool \<Rightarrow> TenantID \<Rightarrow> Invocation \<Rightarrow> bool" where
  "credentials_checked l ivk tool t ivk' \<longleftrightarrow>
     (if tool_CredentialPolicy tool = CredentialPolicyRequired
      then \<exists>rr. AskBroker t (inv_ToolID ivk) (Inr (Some rr)) \<in> set l \<and> Resolved rr \<and>
             ivk' = ivk\<lparr>inv_Credentials := rr_values rr\<rparr>
      else ivk' = ivk)"

lemma resolveCredentials_traced:
  assumes "resolveCredentials (traced sys) ivk tool t (w, l) = ((w', l'), r)"
  shows "\<exists>pre. l' = l @ pre \<and> no_grain pre \<and> (\<forall>ivk'. r = Inr ivk' \<longrightarrow> credentials_checked pre ivk tool t ivk')"
  using assms
  by (auto simp: resolveCredentials_def credentials_checked_def split: sum.splits option.splits if_splits)

lemma resolveSession_traced:
  assumes "resolveSession (traced sys) pid t c u creds (w, l) = ((w', l'), r)"
  shows "\<exists>rep. l' = l @ [AskSupervisor pid (GetOrCreateSession t c u creds) rep] \<and>
    (\<forall>s. r = Inr s \<longrightarrow> (\<exists>e. rep = Inr (GetOrCreateSessionResult (Some s) True e)))"
  using assms
  by (auto simp: resolveSession_def split: sum.splits sup_reply.splits option.splits bool.splits)


text \<open>What the questions asked must have been answered before an invocation is executed.\<close>

definition admission :: "interaction list \<Rightarrow> Invocation \<Rightarrow> TenantID \<Rightarrow> ClientID \<Rightarrow> routeContext \<Rightarrow> bool" where
  "admission l ivk t c rc \<longleftrightarrow>
     rc_TenantID rc = t \<and> rc_ClientID rc = c \<and>
     (\<exists>e. AskRegistrar (QueryTool (inv_ToolID ivk)) (Inr (QueryToolResult (Some (rc_Tool rc)) True e)) \<in> set l) \<and>
     (\<exists>inp res. AskPolicy inp (Inr (Some res)) \<in> set l \<and> Allowed res \<and> in_Tool inp = rc_Tool rc \<and>
        in_TenantID inp = t \<and> in_ClientID inp = c \<and> in_Invocation inp = Some ivk \<and> in_Scopes inp = inv_Scopes ivk) \<and>
     (\<exists>e. AskRegistrar (GetSupervisor (inv_ToolID ivk))
        (Inr (GetSupervisorResult (Some (rc_Supervisor rc)) True e)) \<in> set l) \<and>
     (\<exists>s n. AskSupervisor (rc_Supervisor rc) (CanAcceptWork (inv_ToolID ivk))
        (Inr (CanAcceptWorkResult True s n)) \<in> set l) \<and>
     credentials_checked l ivk (rc_Tool rc) t (rc_Invocation rc) \<and>
     (\<exists>e. AskSupervisor (rc_Supervisor rc)
        (GetOrCreateSession t c (inv_ToolID ivk) (inv_Credentials (rc_Invocation rc)))
        (Inr (GetOrCreateSessionResult (Some (rc_Session rc)) True e)) \<in> set l)"

lemma credentials_checked_mono: "credentials_checked l i tool t i' \<Longrightarrow> set l \<subseteq> set l' \<Longrightarrow> credentials_checked l' i tool t i'"
  by (auto simp: credentials_checked_def split: if_splits)

lemma admissionI:
  assumes "AskRegistrar (QueryTool (inv_ToolID ivk)) (Inr (QueryToolResult (Some tool) True e1)) \<in> set l"
    and "AskPolicy inp (Inr (Some res)) \<in> set l" "Allowed res" "in_Tool inp = tool" "in_TenantID inp = t"
      "in_ClientID inp = c" "in_Invocation inp = Some ivk" "in_Scopes inp = inv_Scopes ivk"
    and "AskRegistrar (GetSupervisor (inv_ToolID ivk)) (Inr (GetSupervisorResult (Some pid) True e3)) \<in> set l"
    and "AskSupervisor pid (CanAcceptWork (inv_ToolID ivk)) (Inr (CanAcceptWorkResult True s n)) \<in> set l"
    and "credentials_checked l ivk tool t ivk'"
    and "AskSupervisor pid (GetOrCreateSession t c (inv_ToolID ivk) (inv_Credentials ivk'))
        (Inr (GetOrCreateSessionResult (Some sess) True e6)) \<in> set l"
  shows "admission l ivk t c \<lparr>rc_Invocation = ivk', rc_Tool = tool, rc_TenantID = t, rc_ClientID = c,
      rc_Supervisor = pid, rc_Session = sess\<rparr>"
  unfolding admission_def routeContext.select_convs using assms by blast

text \<open>A failing stage ends the pipeline where it stands.\<close>

lemma pipeline_stops:
  "lookupTool sys (inv_ToolID ivk) w = (w1, Inl e) \<Longrightarrow>
     fst (runPreExecutionPipeline sys x ivk t c w) = w1 \<and> isl (snd (runPreExecutionPipeline sys x ivk t c w))"
  "lookupTool sys (inv_ToolID ivk) w = (w1, Inr tool) \<Longrightarrow> evaluatePolicy sys x ivk tool t c w1 = (w2, Some e) \<Longrightarrow>
     fst (runPreExecutionPipeline sys x ivk t c w) = w2 \<and> isl (snd (runPreExecutionPipeline sys x ivk t c w))"
  "lookupTool sys (inv_ToolID ivk) w = (w1, Inr tool) \<Longrightarrow> evaluatePolicy sys x ivk tool t c w1 = (w2, None) \<Longrightarrow>
   lookupSupervisor sys (inv_ToolID ivk) w2 = (w3, Inl e) \<Longrightarrow>
     fst (runPreExecutionPipeline sys x ivk t c w) = w3 \<and> isl (snd (runPreExecutionPipeline sys x ivk t c w))"
  by (simp_all add: runPreExecutionPipeline_def)

lemma pipeline_continues:
  assumes "lookupTool sys (inv_ToolID ivk) w = (w1, Inr tool)"
    and "evaluatePolicy sys x ivk tool t c w1 = (w2, None)"
    and "lookupSupervisor sys (inv_ToolID ivk) w2 = (w3, Inr pid)"
    and "checkAcceptWork sys pid (inv_ToolID ivk) tool w3 = (w4, a)"
  shows "case a of
      Some e \<Rightarrow> fst (runPreExecutionPipeline sys x ivk t c w) = w4 \<and> isl (snd (runPreExecutionPipeline sys x ivk t c w))
    | None \<Rightarrow> (case resolveCredentials sys ivk tool t w4 of
        (w5, Inl e) \<Rightarrow> fst (runPreExecutionPipeline sys x ivk t c w) = w5 \<and> isl (snd (runPreExecutionPipeline sys x ivk t c w))
      | (w5, Inr ivk') \<Rightarrow> (case resolveSession sys pid t c (inv_ToolID ivk) (inv_Credentials ivk') w5 of
          (w6, Inl e) \<Rightarrow> fst (runPreExecutionPipeline sys x ivk t c w) = w6 \<and> isl (snd (runPreExecutionPipeline sys x ivk t c w))
        | (w6, Inr s) \<Rightarrow> runPreExecutionPipeline sys x ivk t c w =
            (w6, Inr \<lparr>rc_Invocation = ivk', rc_Tool = tool, rc_TenantID = t, rc_ClientID = c,
                      rc_Supervisor = pid, rc_Session = s\<rparr>)))"
  using assms by (simp add: runPreExecutionPipeline_def split: option.split prod.split sum.split)

lemma pipeline_back:
  assumes s1: "lookupTool (traced sys) (inv_ToolID ivk) (w, l) = ((w1, l1), Inr tool)"
    and s2: "evaluatePolicy (traced sys) x ivk tool t c (w1, l1) = ((w2, l2), None)"
    and s3: "lookupSupervisor (traced sys) (inv_ToolID ivk) (w2, l2) = ((w3, l3), Inr pid)"
    and up: "\<forall>w. sys_policyUp sys w"
    and run: "runPreExecutionPipeline (traced sys) x ivk t c (w, l) = ((w', l'), r)"
  shows "\<exists>pre. l' = l @ pre \<and> no_grain pre \<and> (\<forall>rc. r = Inr rc \<longrightarrow> admission pre ivk t c rc)"
proof -
  obtain pre inp res p3 e1 e3 where l3: "l3 = l @ AskRegistrar (QueryTool (inv_ToolID ivk)) (Inr (QueryToolResult (Some tool) True e1))
        # pre @ [AskPolicy inp (Inr (Some res)), AskRegistrar (GetSupervisor (inv_ToolID ivk)) (Inr (GetSupervisorResult (Some pid) True e3))]"
    and pre: "no_grain pre" "Allowed res" "in_Tool inp = tool" "in_TenantID inp = t" "in_ClientID inp = c" "in_Invocation inp = Some ivk"
      "in_Scopes inp = inv_Scopes ivk"
    using lookupTool_traced [OF s1] evaluatePolicy_traced [OF s2 up] lookupSupervisor_traced [OF s3] by auto
  obtain w4 l4 a where s4: "checkAcceptWork (traced sys) pid (inv_ToolID ivk) tool (w3, l3) = ((w4, l4), a)"
    by (metis surj_pair)
  obtain rep4 where l4: "l4 = l3 @ [AskSupervisor pid (CanAcceptWork (inv_ToolID ivk)) rep4]"
      "a = None \<longrightarrow> (\<exists>s n. rep4 = Inr (CanAcceptWorkResult True s n))"
    using checkAcceptWork_traced [OF s4] by blast
  obtain w5 l5 b where s5: "resolveCredentials (traced sys) ivk tool t (w4, l4) = ((w5, l5), b)"
    by (metis surj_pair)
  obtain p5 where l5: "l5 = l4 @ p5" "no_grain p5" "\<forall>ivk'. b = Inr ivk' \<longrightarrow> credentials_checked p5 ivk tool t ivk'"
    using resolveCredentials_traced [OF s5] by blast
  note cont = pipeline_continues [OF s1 s2 s3 s4, unfolded run s5]
  show ?thesis
  proof (cases "\<exists>ivk'. a = None \<and> b = Inr ivk'")
    case False
    then have "(l' = l4 \<or> l' = l5) \<and> isl r"
      using cont by (auto split: option.splits sum.splits)
    with l3 l4 l5 pre(1) show ?thesis by auto
  next
    case True
    then obtain ivk' where ok: "a = None" "b = Inr ivk'" by blast
    obtain w6 l6 d where s6: "resolveSession (traced sys) pid t c (inv_ToolID ivk) (inv_Credentials ivk') (w5, l5) = ((w6, l6), d)"
      by (metis surj_pair)
    obtain rep6 where l6: "l6 = l5 @ [AskSupervisor pid (GetOrCreateSession t c (inv_ToolID ivk) (inv_Credentials ivk')) rep6]"
        "\<forall>s. d = Inr s \<longrightarrow> (\<exists>e. rep6 = Inr (GetOrCreateSessionResult (Some s) True e))"
      using resolveSession_traced [OF s6] by blast
    have "l' = l6" and rc: "\<forall>rc. r = Inr rc \<longrightarrow> (\<exists>s. d = Inr s \<and> rc = \<lparr>rc_Invocation = ivk', rc_Tool = tool,
        rc_TenantID = t, rc_ClientID = c, rc_Supervisor = pid, rc_Session = s\<rparr>)"
      using cont ok s6 by (auto split: sum.splits)
    define p where pdef:
      "p = AskRegistrar (QueryTool (inv_ToolID ivk)) (Inr (QueryToolResult (Some tool) True e1)) # pre
          @ [AskPolicy inp (Inr (Some res)), AskRegistrar (GetSupervisor (inv_ToolID ivk)) (Inr (GetSupervisorResult (Some pid) True e3)),
             AskSupervisor pid (CanAcceptWork (inv_ToolID ivk)) rep4] @ p5
          @ [AskSupervisor pid (GetOrCreateSession t c (inv_ToolID ivk) (inv_Credentials ivk')) rep6]"
    have p: "l' = l @ p" "no_grain p" "set p5 \<subseteq> set p"
      using \<open>l' = l6\<close> l3 l4(1) l5(1,2) l6(1) pre(1) by (auto simp: pdef)
    have "admission p ivk t c rc" if res: "r = Inr rc" for rc
    proof -
      obtain s where s: "d = Inr s" and eq: "rc = \<lparr>rc_Invocation = ivk', rc_Tool = tool, rc_TenantID = t, rc_ClientID = c,
          rc_Supervisor = pid, rc_Session = s\<rparr>"
        using rc res by blast
      obtain s' n where eq4: "rep4 = Inr (CanAcceptWorkResult True s' n)"
        using l4(2) ok(1) by blast
      obtain e6 where eq6: "rep6 = Inr (GetOrCreateSessionResult (Some s) True e6)"
        using l6(2) s by blast
      show ?thesis
        unfolding eq
        by (rule admissionI [where inp = inp and res = res and ?e1.0 = e1 and ?e3.0 = e3 and s = s' and n = n and ?e6.0 = e6])
          (use pdef eq4 eq6 pre credentials_checked_mono l5(3) ok(2) p(3) in auto)
    qed
    with p(1,2) show ?thesis by blast
  qed
qed


lemma pipeline_traced:
  assumes up: "\<forall>w. sys_policyUp sys w"
    and run: "runPreExecutionPipeline (traced sys) x ivk t c (w, l) = ((w', l'), r)"
  shows "\<exists>pre. l' = l @ pre \<and> no_grain pre \<and> (\<forall>rc. r = Inr rc \<longrightarrow> admission pre ivk t c rc)"
proof -
  obtain w1 l1 a where s1: "lookupTool (traced sys) (inv_ToolID ivk) (w, l) = ((w1, l1), a)"
    by (metis surj_pair)
  show ?thesis
  proof (cases a)
    case (Inl e)
    with pipeline_stops(1) [of "traced sys" ivk "(w, l)" _ e x t c] s1 run lookupTool_traced [OF s1]
    show ?thesis by auto
  next
    case (Inr tool)
    note s1 = s1 [unfolded Inr]
    obtain w2 l2 b where s2: "evaluatePolicy (traced sys) x ivk tool t c (w1, l1) = ((w2, l2), b)"
      by (metis surj_pair)
    show ?thesis
    proof (cases b)
      case (Some e)
      with pipeline_stops(2) [OF s1, of x t c _ e] s2 run lookupTool_traced [OF s1] evaluatePolicy_traced [OF s2 up]
      show ?thesis by auto
    next
      case None
      note s2 = s2 [unfolded None]
      obtain w3 l3 d where s3: "lookupSupervisor (traced sys) (inv_ToolID ivk) (w2, l2) = ((w3, l3), d)"
        by (metis surj_pair)
      show ?thesis
      proof (cases d)
        case (Inl e)
        with pipeline_stops(3) [OF s1 s2, of _ e] s3 run lookupTool_traced [OF s1] evaluatePolicy_traced [OF s2 up]
          lookupSupervisor_traced [OF s3]
        show ?thesis by auto
      next
        case (Inr pid)
        with pipeline_back [OF s1 s2 _ up run] s3 show ?thesis by blast
      qed
    qed
  qed
qed

lemma route_traced:
  assumes "\<forall>w. sys_policyUp sys w"
    and "handleRouteInvocation (traced sys) x now (Some ivk) (w, []) = ((w', l), r, evs)"
  shows "no_grain l \<or>
    (\<exists>pre rc rep. l = pre @ [AskGrain (rc_Session rc) (exec_timeout (rc_Tool rc)) (SessionInvoke (Some (rc_Invocation rc))) rep] \<and>
       no_grain pre \<and> admission pre ivk (fst (resolveIdentity ivk)) (snd (resolveIdentity ivk)) rc)"
proof (cases "validateInvocation (Some ivk)")
  case (Some err)
  with assms(2) show ?thesis by (simp add: handleRouteInvocation_def)
next
  case None
  obtain t c where id: "resolveIdentity ivk = (t, c)" by (metis surj_pair)
  obtain w1 l1 p where run: "runPreExecutionPipeline (traced sys) x ivk t c (w, []) = ((w1, l1), p)"
    by (metis surj_pair)
  note pre = pipeline_traced [OF assms(1) run]
  show ?thesis
  proof (cases p)
    case (Inl f)
    with assms(2) None run pre id show ?thesis
      by (simp add: handleRouteInvocation_def)
  next
    case (Inr rc)
    obtain w2 l2 q where ex: "executeInvocation (traced sys) (rc_Session rc) (rc_Invocation rc) (rc_Tool rc) (w1, l1) =
        ((w2, l2), q)" by (metis surj_pair)
    have "l = l2"
      using assms(2) None run Inr ex id
      by (simp add: handleRouteInvocation_def split: sum.splits option.splits)
    moreover have "\<exists>rep. l2 = l1 @ [AskGrain (rc_Session rc) (exec_timeout (rc_Tool rc)) (SessionInvoke (Some (rc_Invocation rc))) rep]"
      using ex by (auto simp: executeInvocation_def split: sum.splits grain_reply.splits SessionInvokeResult.splits option.splits)
    ultimately show ?thesis
      using pre Inr id by auto
  qed
qed


section \<open>A concrete system\<close>

definition example_result :: "Invocation \<Rightarrow> ExecutionResult" where
  "example_result ivk = \<lparr>exec_Status = ExecutionStatusSuccess, exec_Output = Some [], exec_Err = None,
     exec_Duration = 1, exec_Correlation = inv_Correlation ivk\<rparr>"

text \<open>A system that knows one tool, allows every request and executes it.\<close>

definition example_system :: "Tool \<Rightarrow> unit system" where
  "example_system tool =
     \<lparr>sys_Registrar = (\<lambda>m w. (w, Inr (case m of
          QueryTool u \<Rightarrow> QueryToolResult (Some tool) True None
        | GetSupervisor u \<Rightarrow> GetSupervisorResult (Some 7) True None
        | _ \<Rightarrow> CountSessionsForTenantResult 0))),
      sys_Policy = (\<lambda>i w. (w, Inr (Some allow_result))),
      sys_Broker = (\<lambda>t u w. (w, Inr (Some \<lparr>rr_Credentials =
          Some \<lparr>cred_TenantID = t, cred_ToolID = u, cred_Values = [(''token'', ''s3cret'')]\<rparr>, rr_Err = None\<rparr>))),
      sys_Supervisor = (\<lambda>p m w. (w, Inr (case m of
          CanAcceptWork u \<Rightarrow> CanAcceptWorkResult True '''' 0
        | GetOrCreateSession t c u creds \<Rightarrow> GetOrCreateSessionResult (Some (SessionName t c u)) True None
        | _ \<Rightarrow> DrainToolResult None))),
      sys_Grain = (\<lambda>n d m w. (w, case m of
          SessionInvoke (Some i) \<Rightarrow> Inr (InvokeReply (SessionInvokeResult (Some (example_result i)) None))
        | _ \<Rightarrow> Inl (PlainErr ''unsupported''))),
      sys_registrarUp = (\<lambda>_. True), sys_policyUp = (\<lambda>_. True), sys_brokerUp = (\<lambda>_. True),
      sys_journalUp = (\<lambda>_. True), sys_supervisorUp = (\<lambda>_ _. True)\<rparr>"

lemmas route_defs =
  handleRouteInvocation_def handleRouteInvokeStream_def validateInvocation_def validateInvokeStream_def
  resolveIdentity_def runPreExecutionPipeline_def lookupTool_def evaluatePolicy_def active_sessions_def
  lookupSupervisor_def checkAcceptWork_def resolveCredentials_def resolveSession_def executeInvocation_def
  executeInvocationStream_def IsZero_def

section \<open>The audit trail of a route\<close>

text \<open>An event that closes an invocation, and the identifiers an event of it carries.\<close>

definition closing_event :: "AuditEvent \<Rightarrow> bool" where
  "closing_event ev \<longleftrightarrow> audit_Type ev \<in> {AuditEventTypeInvocationComplete, AuditEventTypeInvocationFailed} \<or>
     audit_Type ev = AuditEventTypePolicyDecision \<and> audit_Outcome ev \<noteq> ''allow''"

definition correlated :: "Invocation \<Rightarrow> AuditEvent \<Rightarrow> bool" where
  "correlated ivk ev \<longleftrightarrow> audit_ToolID ev = inv_ToolID ivk \<and>
     \<lparr>corr_TenantID = audit_TenantID ev, corr_ClientID = audit_ClientID ev, corr_RequestID = audit_RequestID ev,
      corr_TraceID = audit_TraceID ev\<rparr> = inv_Correlation ivk"

lemmas event_defs = closing_event_def correlated_def invocationEvent_def

lemma refusal_outcome: "outcomeFromError err \<noteq> ''allow''"
  by (simp add: outcomeFromError_def split: option.split)

lemma pipeline_failure_event:
  assumes "runPreExecutionPipeline sys x ivk t c w = (w', Inl f)"
  shows "rf_EventType f = AuditEventTypeInvocationFailed \<or>
    rf_EventType f = AuditEventTypePolicyDecision \<and> rf_Outcome f \<noteq> ''allow'' \<and>
    (\<exists>tool w1 w2. lookupTool sys (inv_ToolID ivk) w = (w1, Inr tool) \<and>
       evaluatePolicy sys x ivk tool t c w1 = (w2, Some (rf_Err f)))"
  using assms
  by (auto simp: runPreExecutionPipeline_def refusal_outcome split: prod.splits sum.splits option.splits)

section \<open>Properties\<close>

text \<open>C6: While the policy actor runs, the session is asked to execute an invocation at
  most once, as the last question of the route, and only after the registrar has
  returned the tool and its supervisor, the policy actor has allowed the request of
  this tenant and client for this tool, the supervisor has accepted the work and
  resolved the session, and, where the tool requires credentials, the broker has
  resolved those that are passed on.\<close>

theorem route_executes_only_if_admitted:
  assumes "\<forall>w. sys_policyUp sys w"
    and "handleRouteInvocation (traced sys) x now (Some ivk) (w, []) = ((w', l), r, evs)"
    and "AskGrain name d m rep \<in> set l"
  shows "\<exists>pre rc. l = pre @ [AskGrain name d m rep] \<and> (\<forall>i \<in> set pre. \<not> is_grain_ask i) \<and>
    name = rc_Session rc \<and> m = SessionInvoke (Some (rc_Invocation rc)) \<and>
    admission pre ivk (fst (resolveIdentity ivk)) (snd (resolveIdentity ivk)) rc"
proof -
  from route_traced [OF assms(1,2)] assms(3)
  obtain pre rc rep' where l: "l = pre @ [AskGrain (rc_Session rc) (exec_timeout (rc_Tool rc)) (SessionInvoke (Some (rc_Invocation rc))) rep']"
    "no_grain pre" "admission pre ivk (fst (resolveIdentity ivk)) (snd (resolveIdentity ivk)) rc"
    by fastforce
  with assms(3) have "name = rc_Session rc" "d = exec_timeout (rc_Tool rc)"
      "m = SessionInvoke (Some (rc_Invocation rc))" "rep = rep'"
    by fastforce+
  with l show ?thesis by blast
qed

theorem route_executes_only_if_admitted_witness:
  "let ivk = example_invocation ''acme'' ''web'' ''fs'';
       tool = example_tool\<lparr>tool_CredentialPolicy := CredentialPolicyRequired\<rparr>;
       l = snd (fst (handleRouteInvocation (traced (example_system tool))
             \<lparr>ro_hasConcurrencyQuotas = False, ro_requestTimeout = second\<rparr> 0 (Some ivk) ((), []))) in
   length l = 7 \<and> (\<exists>pre rc. admission pre ivk ''acme'' ''web'' rc \<and>
     rc_Invocation rc = ivk\<lparr>inv_Credentials := [(''token'', ''s3cret'')]\<rparr>)"
proof -
  let ?tool = "example_tool\<lparr>tool_CredentialPolicy := CredentialPolicyRequired\<rparr>"
  let ?ivk = "example_invocation ''acme'' ''web'' ''fs''" and ?sys = "example_system ?tool"
  let ?x = "\<lparr>ro_hasConcurrencyQuotas = False, ro_requestTimeout = second\<rparr>"
  let ?ivk' = "?ivk\<lparr>inv_Credentials := [(''token'', ''s3cret'')]\<rparr>"
  obtain w' l r evs where h: "handleRouteInvocation (traced ?sys) ?x 0 (Some ?ivk) ((), []) = ((w', l), r, evs)"
    by (metis surj_pair)
  have l: "length l = 7" "AskGrain (SessionName ''acme'' ''web'' ''fs'') DefaultRequestTimeout (SessionInvoke (Some ?ivk'))
      (Inr (InvokeReply (SessionInvokeResult (Some (example_result ?ivk')) None))) \<in> set l"
    using h by (auto simp: route_defs example_system_def example_invocation_def exec_timeout_def example_tool_def
        Allowed_def Resolved_def rr_values_def Let_def)
  have "\<forall>w. sys_policyUp ?sys w" by (simp add: example_system_def)
  from route_executes_only_if_admitted [OF this h l(2)] obtain pre rc where
    "rc_Invocation rc = ?ivk'" "admission pre ?ivk (fst (resolveIdentity ?ivk)) (snd (resolveIdentity ?ivk)) rc"
    by auto
  moreover have "resolveIdentity ?ivk = (''acme'', ''web'')"
    by (simp add: resolveIdentity_def example_invocation_def IsZero_def)
  ultimately show ?thesis
    unfolding Let_def h using l(1) by auto
qed

text \<open>C16: While the journal runs, a routed invocation that is answered is closed by exactly one
  audit event: a completion, a failure, or a policy decision other than an admission. Every
  event of the route carries the tool and the tenant, client, request and trace identifiers
  of the invocation. The closing event has the status of the returned result as its
  outcome, and is a completion when that is success; or it has the text of the returned
  error, and is a policy decision only when the policy stage refused.\<close>

theorem route_outcome_audited_once:
  assumes "\<forall>w. sys_journalUp sys w"
    and "handleRouteInvocation sys x now (Some ivk) w = (w', Some (RouteResult res err), evs)"
  shows "\<exists>ev. filter closing_event evs = [ev] \<and> (\<forall>e \<in> set evs. correlated ivk e) \<and>
    (case err of
       None \<Rightarrow> \<exists>r. res = Some r \<and> audit_Outcome ev = execution_status_string (exec_Status r) \<and>
         (exec_Status r = ExecutionStatusSuccess \<longrightarrow> audit_Type ev = AuditEventTypeInvocationComplete)
     | Some e \<Rightarrow> res = None \<and> audit_Message ev = error_text e \<and>
         (audit_Type ev = AuditEventTypeInvocationFailed \<or>
          audit_Type ev = AuditEventTypePolicyDecision \<and>
            (\<exists>tool w1 w2. lookupTool sys (inv_ToolID ivk) w = (w1, Inr tool) \<and>
              evaluatePolicy sys x ivk tool (fst (resolveIdentity ivk)) (snd (resolveIdentity ivk)) w1 = (w2, Some e))))"
proof (cases "validateInvocation (Some ivk)")
  case (Some e)
  with assms show ?thesis
    by (cases err) (auto simp: handleRouteInvocation_def emit_defs event_defs)
next
  case None
  obtain t c where id: "resolveIdentity ivk = (t, c)" by (metis surj_pair)
  obtain w1 p where run: "runPreExecutionPipeline sys x ivk t c w = (w1, p)" by (metis surj_pair)
  show ?thesis
  proof (cases p)
    case (Inl f)
    with assms None id run have "evs = [invocationEvent now ivk (rf_EventType f) (rf_Outcome f)
        (error_code_string (rf_Code f)) (error_text (rf_Err f))]" "res = None" "err = Some (rf_Err f)"
      by (simp_all add: handleRouteInvocation_def emit_defs)
    with pipeline_failure_event [OF run [unfolded Inl]] id show ?thesis by (auto simp: event_defs)
  next
    case (Inr rc)
    with assms None id run show ?thesis
      by (cases err) (auto simp: handleRouteInvocation_def emit_defs event_defs split: prod.splits sum.splits option.splits)
  qed
qed

theorem route_outcome_audited_once_witness:
  "\<exists>ev. filter closing_event (snd (snd (handleRouteInvocation (example_system example_tool)
     \<lparr>ro_hasConcurrencyQuotas = False, ro_requestTimeout = second\<rparr> 0
     (Some (example_invocation ''acme'' ''web'' ''fs'')) ()))) = [ev] \<and> audit_Outcome ev = ''success''"
proof -
  let ?ivk = "example_invocation ''acme'' ''web'' ''fs''"
  obtain w' evs where h: "handleRouteInvocation (example_system example_tool)
     \<lparr>ro_hasConcurrencyQuotas = False, ro_requestTimeout = second\<rparr> 0 (Some ?ivk) () =
     (w', Some (RouteResult (Some (example_result ?ivk)) None), evs)"
    by (simp add: route_defs example_system_def example_invocation_def example_tool_def Allowed_def Let_def)
  have "\<forall>w. sys_journalUp (example_system example_tool) w" by (simp add: example_system_def)
  from route_outcome_audited_once [OF this h] show ?thesis
    unfolding h by (auto simp: example_result_def)
qed

text \<open>Every routed invocation is answered, except when the session reports neither a
  result nor an error: then the router reads the status of a nil result, and
  neither an answer nor an audit event is produced.\<close>

theorem route_unanswered_iff_nil_result:
  "snd (handleRouteInvocation sys x now msg w) = (None, []) \<longleftrightarrow>
     (\<exists>ivk w1 w2 rc. msg = Some ivk \<and> \<not> IsZero (inv_ToolID ivk) \<and>
        runPreExecutionPipeline sys x ivk (fst (resolveIdentity ivk)) (snd (resolveIdentity ivk)) w = (w1, Inr rc) \<and>
        sys_Grain sys (rc_Session rc) (exec_timeout (rc_Tool rc)) (SessionInvoke (Some (rc_Invocation rc))) w1 =
          (w2, Inr (InvokeReply (SessionInvokeResult None None))))"
proof (cases msg)
  case None
  then show ?thesis by (simp add: handleRouteInvocation_def validateInvocation_def)
next
  case (Some ivk)
  obtain t c where id: "resolveIdentity ivk = (t, c)" by (metis surj_pair)
  obtain w1 p where run: "runPreExecutionPipeline sys x ivk t c w = (w1, p)" by (metis surj_pair)
  show ?thesis
    using Some id run
    by (cases p) (auto simp: handleRouteInvocation_def validateInvocation_def executeInvocation_def
        split: option.splits sum.splits prod.splits grain_reply.splits SessionInvokeResult.splits)
qed

end
