(* ===== verification/Health.thy ===== *)
theory Health
  imports Router
begin

text \<open>
  The health checker (internal/runtime/actor/health.go): it probes the supervisor
  of every tool that is not disabled with \<open>CanAcceptWork\<close>, maps the reply to a tool
  state, and tells the registrar and the journal about changes. It asks the same
  actors as the router, so it is stated over the same \<open>system\<close>.
\<close>

section \<open>State and probes\<close>

definition minProbeAskTimeout :: duration where
  "minProbeAskTimeout = 100 * millisecond"

record healthChecker =
  hc_interval :: duration
  hc_probeTimeout :: duration

definition health_PreStart :: "Config \<Rightarrow> healthChecker" where
  "health_PreStart config =
     \<lparr>hc_interval = hp_Interval (cfg_HealthProbe config),
      hc_probeTimeout = (if hp_Timeout (cfg_HealthProbe config) = 0 then DefaultHealthProbeTimeout
                         else hp_Timeout (cfg_HealthProbe config))\<rparr>"

text \<open>The part of \<open>probeTool\<close> that reads the supervisor's reply.\<close>

definition state_of_reply :: "Tool \<Rightarrow> bool \<Rightarrow> string \<Rightarrow> ToolState" where
  "state_of_reply tool accept reason =
     (if accept then ToolStateEnabled
      else
        (let reason = ToLower reason
         in if Contains reason ''circuit'' \<or> Contains reason ''open'' then ToolStateUnavailable
            else if Contains reason ''half-open'' \<or> Contains reason ''degraded'' then ToolStateDegraded
            else tool_State tool))"

definition probeTool :: "'w system \<Rightarrow> Tool \<Rightarrow> 'w \<Rightarrow> 'w \<times> ToolState" where
  "probeTool sys tool w =
     (case sys_Registrar sys (GetSupervisor (tool_ID tool)) w of
        (w, Inl err) \<Rightarrow> (w, ToolStateUnavailable)
      | (w, Inr (GetSupervisorResult (Some pid) found e)) \<Rightarrow>
          if \<not> found then (w, ToolStateUnavailable)
          else if \<not> sys_supervisorUp sys pid w then (w, ToolStateUnavailable)
          else
            (case sys_Supervisor sys pid (CanAcceptWork (tool_ID tool)) w of
               (w, Inl err) \<Rightarrow> (w, ToolStateUnavailable)
             | (w, Inr (CanAcceptWorkResult accept reason n)) \<Rightarrow> (w, state_of_reply tool accept reason)
             | (w, Inr _) \<Rightarrow> (w, ToolStateUnavailable))
      | (w, Inr _) \<Rightarrow> (w, ToolStateUnavailable))"

definition recordHealthTransition :: "'w system \<Rightarrow> time \<Rightarrow> 'w \<Rightarrow> string \<Rightarrow> string \<Rightarrow> string \<Rightarrow> AuditEvent list" where
  "recordHealthTransition sys now w toolID fromState toState =
     (if sys_journalUp sys w then [HealthTransitionAuditEvent now toolID fromState toState] else [])"

text \<open>The loop over the listed tools: updates told to the registrar and audit events.\<close>

fun probe_loop :: "'w system \<Rightarrow> time \<Rightarrow> Tool list \<Rightarrow> 'w \<Rightarrow> 'w \<times> reg_msg list \<times> AuditEvent list" where
  "probe_loop sys now [] w = (w, [], [])"
| "probe_loop sys now (tool # tools) w =
     (if tool_State tool = ToolStateDisabled then probe_loop sys now tools w
      else
        (let (w, state) = probeTool sys tool w;
             tells = (if state \<noteq> tool_State tool then [UpdateToolHealth (tool_ID tool) state] else []);
             evs = (if state \<noteq> tool_State tool
                    then recordHealthTransition sys now w (tool_ID tool) (tool_state_string (tool_State tool))
                           (tool_state_string state)
                    else []);
             (w, tells', evs') = probe_loop sys now tools w
         in (w, tells @ tells', evs @ evs')))"

definition runProbes :: "'w system \<Rightarrow> time \<Rightarrow> 'w \<Rightarrow> 'w \<times> reg_msg list \<times> AuditEvent list" where
  "runProbes sys now w =
     (if \<not> sys_registrarUp sys w then (w, [], [])
      else (case sys_Registrar sys ListTools w of
              (w, Inr (ListToolsResult tools)) \<Rightarrow> probe_loop sys now tools w
            | (w, _) \<Rightarrow> (w, [], [])))"

text \<open>Every path through \<open>runProbes\<close> ends with \<open>scheduleNext\<close>: the delay, if one is scheduled.\<close>

definition scheduleNext :: "healthChecker \<Rightarrow> duration option" where
  "scheduleNext x = (if hc_interval x \<le> 0 then None else Some (hc_interval x))"

section \<open>Probe results\<close>

lemma reasons_probed:
  "state_of_reply tool False canAcceptReasonCircuitOpen = ToolStateUnavailable"
  "state_of_reply tool False canAcceptReasonHalfOpenLimit = ToolStateUnavailable"
  "state_of_reply tool False canAcceptReasonToolDraining = tool_State tool"
  "state_of_reply tool False canAcceptReasonToolDisabled = tool_State tool"
  "state_of_reply tool False canAcceptReasonToolMismatch = tool_State tool"
  "state_of_reply tool False canAcceptReasonBackpressureCap = tool_State tool"
  by (code_simp)+

lemma Contains_append: "Contains (a @ b @ c) b"
proof (induction a)
  case Nil
  have "take (length b) (b @ c) = b" by simp
  then show ?case by (cases "b @ c") auto
qed auto

lemma Contains_split: "Contains s sub \<Longrightarrow> \<exists>a c. s = a @ sub @ c"
proof (induction s)
  case Nil
  then show ?case by simp
next
  case (Cons x s)
  show ?case
  proof (cases "take (length sub) (x # s) = sub")
    case True
    then have "x # s = [] @ sub @ drop (length sub) (x # s)"
      by (metis append_Nil append_take_drop_id)
    then show ?thesis by blast
  next
    case False
    with Cons obtain a c where "s = a @ sub @ c" by auto
    then have "x # s = (x # a) @ sub @ c" by simp
    then show ?thesis by blast
  qed
qed

lemma Contains_sub: "Contains s (a @ b) \<Longrightarrow> Contains s b"
  using Contains_split [of s "a @ b"] Contains_append [of _ b] by (metis append.assoc)

lemma half_open_contains_open: "Contains s ''half-open'' \<Longrightarrow> Contains s ''open''"
  using Contains_sub [of s "''half-''" "''open''"] by simp

definition update_facts :: "reg_msg \<Rightarrow> ToolID \<times> string" where
  "update_facts m = (case m of UpdateToolHealth u st \<Rightarrow> (u, tool_state_string st) | _ \<Rightarrow> ('''', ''''))"

definition due_update :: "Tool list \<Rightarrow> reg_msg \<Rightarrow> bool" where
  "due_update tools m \<longleftrightarrow>
     (\<exists>t \<in> set tools. tool_State t \<noteq> ToolStateDisabled \<and>
        (\<exists>st. st \<noteq> tool_State t \<and> m = UpdateToolHealth (tool_ID t) st))"

lemma due_update_Cons: "due_update ts m \<Longrightarrow> due_update (t # ts) m"
  by (auto simp: due_update_def)

lemma probe_loop_reports:
  assumes "\<forall>w. sys_journalUp sys w" and "probe_loop sys now tools w = (w', tells, evs)"
  shows "map (\<lambda>e. (audit_ToolID e, audit_Outcome e)) evs = map update_facts tells \<and>
    (\<forall>e \<in> set evs. audit_Type e = AuditEventTypeHealthTransition) \<and> (\<forall>m \<in> set tells. due_update tools m)"
  using assms(2)
proof (induction tools arbitrary: w w' tells evs)
  case Nil
  then show ?case by simp
next
  case (Cons t ts)
  show ?case
  proof (cases "tool_State t = ToolStateDisabled")
    case True
    with Cons show ?thesis by (fastforce simp: due_update_Cons)
  next
    case False
    obtain w1 st where p: "probeTool sys t w = (w1, st)" by (metis surj_pair)
    obtain w2 tells' evs' where r: "probe_loop sys now ts w1 = (w2, tells', evs')" by (metis surj_pair)
    have new: "due_update (t # ts) (UpdateToolHealth (tool_ID t) st)" if "st \<noteq> tool_State t"
      using False that by (auto simp: due_update_def)
    show ?thesis
      using Cons.IH [OF r] Cons.prems False p r assms(1) new
      by (auto simp: recordHealthTransition_def HealthTransitionAuditEvent_def update_facts_def due_update_Cons Let_def
          split: if_splits)
  qed
qed

section \<open>Properties\<close>

text \<open>A probe that reaches the supervisor reports the tool enabled exactly when the
  supervisor accepts work, unavailable when its circuit breaker refuses (also in
  the half-open state), and leaves the state unchanged when the tool is draining,
  disabled or at its session limit.\<close>

theorem probe_reflects_supervisor:
  assumes "sys_Registrar sys (GetSupervisor (tool_ID tool)) w = (w1, Inr (GetSupervisorResult (Some pid) True e))"
    and "sys_supervisorUp sys pid w1"
    and "sys_Supervisor sys pid (CanAcceptWork (tool_ID tool)) w1 = (w2, Inr rep)"
    and "so_reply (snd (handleCanAcceptWork ctx (tool_ID tool) s)) = Some rep"
  shows "snd (probeTool sys tool w) =
    (if sup_accepts ctx (tool_ID tool) s then ToolStateEnabled
     else if tool_ID tool = tool_ID (sv_tool s) \<and> tool_State (sv_tool s) \<noteq> ToolStateDisabled \<and> \<not> sv_draining s \<and>
        fst (snd (Acquire (ctx_now ctx) (sv_circuit s))) \<noteq> CircuitAcquireAccepted then ToolStateUnavailable
     else tool_State tool)"
proof -
  obtain c out tr where acq: "Acquire (ctx_now ctx) (sv_circuit s) = (c, out, tr)" by (metis surj_pair)
  have "\<exists>a r n. rep = CanAcceptWorkResult a r n"
    using assms(4) acq by (auto simp: handleCanAcceptWork_def Let_def split: CircuitAcquireOutcome.splits if_splits)
  then obtain a r n where rep: "rep = CanAcceptWorkResult a r n" by blast
  have "snd (probeTool sys tool w) = state_of_reply tool a r"
    using assms(1-3) rep by (simp add: probeTool_def)
  moreover have "a = sup_accepts ctx (tool_ID tool) s"
    using assms(4) rep by (simp add: sup_accepts_def)
  ultimately show ?thesis
    using assms(4) rep acq reasons_probed [of tool]
    by (auto simp: handleCanAcceptWork_def state_of_reply_def [of _ True] Let_def
        split: CircuitAcquireOutcome.splits if_splits)
qed

text \<open>A system with one supervisor, whose state is the world.\<close>

definition supervised_system :: "(time \<Rightarrow> receive_ctx) \<Rightarrow> Tool \<Rightarrow> toolSupervisor system" where
  "supervised_system ctx tool =
     \<lparr>sys_Registrar = (\<lambda>m w. (w, Inr (case m of
          ListTools \<Rightarrow> ListToolsResult [tool]
        | _ \<Rightarrow> GetSupervisorResult (Some 7) True None))),
      sys_Policy = (\<lambda>i w. (w, Inr (Some allow_result))),
      sys_Broker = (\<lambda>t u w. (w, Inr None)),
      sys_Supervisor = (\<lambda>p m w.
         let (_, w', out) = supervisor_Receive no_engine (ctx 0) w m () in
         (w', case so_reply out of Some r \<Rightarrow> Inr r | None \<Rightarrow> Inl (PlainErr ''no reply''))),
      sys_Grain = (\<lambda>n d m w. (w, Inl (PlainErr ''no grain''))),
      sys_registrarUp = (\<lambda>_. True), sys_policyUp = (\<lambda>_. True), sys_brokerUp = (\<lambda>_. True),
      sys_journalUp = (\<lambda>_. True), sys_supervisorUp = (\<lambda>_ _. True)\<rparr>"

lemma example_supervisor:
  "start_supervisor (example_ctx 0 example_tool) = \<lparr>sv_tool = example_tool,
      sv_circuit = NewCircuitBreaker \<lparr>FailureThreshold = 1, OpenDuration = 10, HalfOpenMaxRequests = 1\<rparr>,
      sv_journal = True, sv_draining = False, sv_sessions = []\<rparr>"
  by (simp add: handlePostStart_def example_ctx_def ext_Get_def supervisor_PreStart_def Let_def)

theorem probe_reflects_supervisor_witness:
  "snd (probeTool (supervised_system (\<lambda>t. example_ctx t example_tool) example_tool) example_tool
     (start_supervisor (example_ctx 0 example_tool))) = ToolStateEnabled"
proof -
  let ?s = "start_supervisor (example_ctx 0 example_tool)"
  let ?sys = "supervised_system (\<lambda>t. example_ctx t example_tool) example_tool"
  obtain x' out where h: "handleCanAcceptWork (example_ctx 0 example_tool) ''fs'' ?s = (x', out)" by (metis surj_pair)
  have acc: "sup_accepts (example_ctx 0 example_tool) ''fs'' ?s"
    unfolding example_supervisor by (simp add: sup_accepts_iff NewCircuitBreaker_def circuit_defs example_tool_def)
  then obtain rep where rep: "so_reply out = Some rep"
    using h by (auto simp: sup_accepts_def split: option.splits)
  show ?thesis
    using probe_reflects_supervisor [of ?sys example_tool ?s ?s 7 None x' rep "example_ctx 0 example_tool" ?s] acc h rep
    by (simp add: supervised_system_def)
qed

text \<open>A probe round tells the registrar only about tools that are not disabled and
  whose probed state differs from the listed one, and records exactly one health
  event, with the tool and its new state, for each of these updates, in order.\<close>

theorem probes_report_changes:
  assumes "\<forall>w. sys_journalUp sys w" and "sys_Registrar sys ListTools w = (w1, Inr (ListToolsResult tools))"
    and "runProbes sys now w = (w', tells, evs)"
  shows "map (\<lambda>e. (audit_ToolID e, audit_Outcome e)) evs = map update_facts tells \<and>
    (\<forall>e \<in> set evs. audit_Type e = AuditEventTypeHealthTransition) \<and>
    (\<forall>m \<in> set tells. due_update tools m)"
proof (cases "sys_registrarUp sys w")
  case True
  with assms(2,3) have "probe_loop sys now tools w1 = (w', tells, evs)"
    by (simp add: runProbes_def)
  with probe_loop_reports [OF assms(1)] show ?thesis by blast
next
  case False
  with assms(3) show ?thesis by (simp add: runProbes_def)
qed

theorem probes_report_changes_witness:
  "let tool = example_tool\<lparr>tool_State := ToolStateDegraded\<rparr>;
       r = runProbes (supervised_system (\<lambda>t. example_ctx t example_tool) tool) 5
             (start_supervisor (example_ctx 0 example_tool)) in
   fst (snd r) = [UpdateToolHealth ''fs'' ToolStateEnabled] \<and>
   map (\<lambda>e. (audit_ToolID e, audit_Outcome e)) (snd (snd r)) = [(''fs'', ''enabled'')]"
proof -
  let ?tool = "example_tool\<lparr>tool_State := ToolStateDegraded\<rparr>"
  let ?s = "start_supervisor (example_ctx 0 example_tool)"
  let ?sys = "supervised_system (\<lambda>t. example_ctx t example_tool) ?tool"
  obtain w' tells evs where r: "runProbes ?sys 5 ?s = (w', tells, evs)" by (metis surj_pair)
  have tells: "tells = [UpdateToolHealth ''fs'' ToolStateEnabled]"
    using r unfolding example_supervisor
    by (simp add: runProbes_def supervised_system_def probeTool_def handleCanAcceptWork_def circuit_defs
        NewCircuitBreaker_def state_of_reply_def example_tool_def Let_def)
  have "\<forall>w. sys_journalUp ?sys w" "sys_Registrar ?sys ListTools ?s = (?s, Inr (ListToolsResult [?tool]))"
    by (simp_all add: supervised_system_def)
  from probes_report_changes [OF this r] show ?thesis
    unfolding Let_def r tells by (simp add: update_facts_def)
qed

text \<open>A health probe of a tool whose breaker has been open long enough takes a
  half-open slot and never reports an outcome: with one slot, the supervisor then
  refuses all work until an outcome is reported or the breaker is reset.\<close>

theorem health_probe_blocks_recovery:
  assumes "sup_inv u s" and "tool_State (sv_tool s) \<noteq> ToolStateDisabled" and "\<not> sv_draining s"
    and "cb_state (sv_circuit s) = CircuitOpen"
    and "cb_openedAt (sv_circuit s) + OpenDuration (cb_config (sv_circuit s)) \<le> ctx_now (ctx 0)"
    and "HalfOpenMaxRequests (cb_config (sv_circuit s)) = 1"
    and "tool_ID tool = u"
    and "\<forall>e \<in> set es. \<not> outcome_msg e"
  shows "\<not> sup_accepts ctx' u (sup_run (fst (probeTool (supervised_system ctx tool) tool s)) es)"
proof -
  have step: "fst (probeTool (supervised_system ctx tool) tool s) = fst (handleCanAcceptWork (ctx 0) u s)"
    using assms(7)
    by (auto simp: probeTool_def supervised_system_def split: option.split prod.split sup_reply.split)
  have "exhausted (sv_circuit (fst (handleCanAcceptWork (ctx 0) u s)))"
    using assms(1-6) by (simp add: handleCanAcceptWork_state sup_inv_def exhausted_def circuit_defs Let_def)
  then have "exhausted (sv_circuit (sup_run (fst (handleCanAcceptWork (ctx 0) u s)) es))"
    by (rule wedged.legal_run_keeps [OF _ assms(8)])
  then show ?thesis
    unfolding step by (rule wedged_rejects)
qed

lemma sup_legal_report: "sup_legal u (ctx, ReportFailure v)"
  by simp

theorem health_probe_blocks_recovery_witness:
  "let s = sup_step (start_supervisor (example_ctx 0 example_tool)) (example_ctx 0 example_tool, ReportFailure ''fs'');
       sys = supervised_system (\<lambda>_. example_ctx 10 example_tool) example_tool in
   snd (probeTool sys example_tool s) = ToolStateEnabled \<and>
   \<not> sup_accepts (example_ctx 1000000 example_tool) ''fs'' (sup_run (fst (probeTool sys example_tool s)) [])"
proof -
  let ?init = "start_supervisor (example_ctx 0 example_tool)"
  let ?s = "sup_step ?init (example_ctx 0 example_tool, ReportFailure ''fs'')"
  have s: "?s = \<lparr>sv_tool = example_tool,
      sv_circuit = \<lparr>cb_config = \<lparr>FailureThreshold = 1, OpenDuration = 10, HalfOpenMaxRequests = 1\<rparr>,
        cb_state = CircuitOpen, cb_failureCount = 1, cb_openedAt = 0, cb_halfOpenInFlight = 0\<rparr>,
      sv_journal = True, sv_draining = False, sv_sessions = []\<rparr>"
    unfolding example_supervisor by (simp add: report_state NewCircuitBreaker_def sanitizeCircuitConfig_def circuit_defs
        example_ctx_def Let_def)
  have "sup_inv ''fs'' ?init"
    using started(1) [OF example_started [of example_tool 0]] by simp
  then have inv: "sup_inv ''fs'' ?s"
    by (rule sup.legal_step_keeps [of "''fs''"]) (rule sup_legal_report)
  have "snd (probeTool (supervised_system (\<lambda>_. example_ctx 10 example_tool) example_tool) example_tool ?s) = ToolStateEnabled"
    unfolding s by (simp add: probeTool_def supervised_system_def handleCanAcceptWork_def circuit_defs
        state_of_reply_def example_ctx_def example_tool_def Let_def)
  moreover have "\<not> sup_accepts (example_ctx 1000000 example_tool) ''fs''
      (sup_run (fst (probeTool (supervised_system (\<lambda>_. example_ctx 10 example_tool) example_tool) example_tool ?s)) [])"
    by (rule health_probe_blocks_recovery [OF inv]) (unfold s, simp_all add: example_ctx_def)
  ultimately show ?thesis by (simp only: Let_def) blast
qed

end
