(* ===== verification/Egress.thy ===== *)
theory Egress
  imports Session_Grain
begin

text \<open>
  The egress layer for the tool protocol: the conversions between the runtime's
  invocations and the protocol (internal/egress/mcpconv), the executors for the
  stdio and HTTP transports, and the process environment of a stdio tool.

  The protocol client (go-sdk) is not part of the repository: its operations are
  the fields of a record. A call returns either an error or a result, as its
  interface documents.
\<close>

section \<open>Keys and content (methods.go)\<close>

definition ParamKeyName :: string where "ParamKeyName = ''name''"
definition ParamKeyArguments :: string where "ParamKeyArguments = ''arguments''"
definition ParamKeyURI :: string where "ParamKeyURI = ''uri''"
definition OutputKeyContent :: string where "OutputKeyContent = ''content''"
definition OutputKeyContents :: string where "OutputKeyContents = ''contents''"
definition OutputKeyStructuredContent :: string where "OutputKeyStructuredContent = ''structuredContent''"
definition ContentKeyType :: string where "ContentKeyType = ''type''"
definition ContentKeyText :: string where "ContentKeyText = ''text''"
definition ContentKeyURI :: string where "ContentKeyURI = ''uri''"
definition ContentKeyMIMEType :: string where "ContentKeyMIMEType = ''mimeType''"
definition ContentKeyBlob :: string where "ContentKeyBlob = ''blob''"
definition ContentKeyData :: string where "ContentKeyData = ''data''"
definition ContentKeyName :: string where "ContentKeyName = ''name''"
definition ContentTypeText :: string where "ContentTypeText = ''text''"
definition ContentTypeImage :: string where "ContentTypeImage = ''image''"
definition ContentTypeAudio :: string where "ContentTypeAudio = ''audio''"
definition ContentTypeResource :: string where "ContentTypeResource = ''resource''"
definition ContentTypeResourceLink :: string where "ContentTypeResourceLink = ''resource_link''"
definition ContentTypeUnknown :: string where "ContentTypeUnknown = ''unknown''"

lemmas key_defs =
  ParamKeyName_def ParamKeyArguments_def ParamKeyURI_def OutputKeyContent_def OutputKeyContents_def
  OutputKeyStructuredContent_def ContentKeyType_def ContentKeyText_def ContentKeyURI_def
  ContentKeyMIMEType_def ContentKeyBlob_def ContentKeyData_def ContentKeyName_def ContentTypeText_def
  ContentTypeImage_def ContentTypeAudio_def ContentTypeResource_def ContentTypeResourceLink_def
  ContentTypeUnknown_def

text \<open>The protocol's results, as far as the code reads them. Byte strings are strings.\<close>

record ResourceContents =
  rsc_URI :: string
  rsc_MIMEType :: string
  rsc_Text :: string
  rsc_Blob :: string

datatype content =
    TextContent string
  | ImageContent string string
  | AudioContent string string
  | EmbeddedResource "ResourceContents option"
  | ResourceLink string string string
  | OtherContent

record CallToolResult =
  ctr_Content :: "content list"
  ctr_StructuredContent :: any
  ctr_IsError :: bool

type_synonym ReadResourceResult = "ResourceContents option list"

section \<open>Conversions (mcpconv.go)\<close>

text \<open>The type assertion \<open>v.(string)\<close> whose second result is ignored: the zero string otherwise.\<close>

fun as_string :: "any option \<Rightarrow> string" where
  "as_string (Some (AString s)) = s"
| "as_string _ = ''''"

definition any_of :: "any option \<Rightarrow> any" where
  "any_of v = (case v of None \<Rightarrow> ANil | Some a \<Rightarrow> a)"

text \<open>\<open>base64.StdEncoding.EncodeToString\<close>.\<close>

definition base64_char :: "nat \<Rightarrow> char" where
  "base64_char n =
     (if n < 26 then char_of (n + 65) else if n < 52 then char_of (n + 71)
      else if n < 62 then char_of (n - 4) else if n = 62 then CHR ''+'' else CHR ''/'')"

definition base64_quad :: "nat \<Rightarrow> string" where
  "base64_quad v = map (\<lambda>s. base64_char (v div 2 ^ s mod 64)) [18, 12, 6, 0]"

fun EncodeToString :: "string \<Rightarrow> string" where
  "EncodeToString [] = []"
| "EncodeToString [a] = take 2 (base64_quad (of_char a * 65536)) @ ''==''"
| "EncodeToString [a, b] = take 3 (base64_quad (of_char a * 65536 + of_char b * 256)) @ ''=''"
| "EncodeToString (a # b # c # s) =
     base64_quad (of_char a * 65536 + of_char b * 256 + of_char c) @ EncodeToString s"

definition ParamsFromInvocation :: "Invocation option \<Rightarrow> string \<times> any" where
  "ParamsFromInvocation ivk =
     (case ivk of
        None \<Rightarrow> ('''', ANil)
      | Some ivk \<Rightarrow>
          (case inv_Params ivk of
             None \<Rightarrow> ('''', ANil)
           | Some params \<Rightarrow>
               (let name = as_string (gm_get params ParamKeyName);
                    name = (if name = '''' then inv_ToolID ivk else name)
                in (name, any_of (gm_get params ParamKeyArguments)))))"

definition ResourceParamsFromInvocation :: "Invocation option \<Rightarrow> string" where
  "ResourceParamsFromInvocation ivk =
     (case ivk of
        None \<Rightarrow> ''''
      | Some ivk \<Rightarrow> (case inv_Params ivk of None \<Rightarrow> '''' | Some params \<Rightarrow> as_string (gm_get params ParamKeyURI)))"

definition content_item :: "content \<Rightarrow> anymap" where
  "content_item item =
     (case item of
        TextContent text \<Rightarrow>
          [(ContentKeyType, AString ContentTypeText), (ContentKeyText, AString text)]
      | ImageContent dat mime \<Rightarrow>
          [(ContentKeyType, AString ContentTypeImage), (ContentKeyData, AString (EncodeToString dat)),
           (ContentKeyMIMEType, AString mime)]
      | AudioContent dat mime \<Rightarrow>
          [(ContentKeyType, AString ContentTypeAudio), (ContentKeyData, AString (EncodeToString dat)),
           (ContentKeyMIMEType, AString mime)]
      | EmbeddedResource resource \<Rightarrow>
          (ContentKeyType, AString ContentTypeResource) #
          (case resource of
             None \<Rightarrow> []
           | Some r \<Rightarrow>
               (ContentKeyURI, AString (rsc_URI r)) #
               (if rsc_MIMEType r \<noteq> '''' then [(ContentKeyMIMEType, AString (rsc_MIMEType r))] else []) @
               (if rsc_Text r \<noteq> '''' then [(ContentKeyText, AString (rsc_Text r))] else []))
      | ResourceLink uri name mime \<Rightarrow>
          [(ContentKeyType, AString ContentTypeResourceLink), (ContentKeyURI, AString uri),
           (ContentKeyName, AString name)] @
          (if mime \<noteq> '''' then [(ContentKeyMIMEType, AString mime)] else [])
      | OtherContent \<Rightarrow> [(ContentKeyType, AString ContentTypeUnknown)])"

definition contentToSlice :: "content list \<Rightarrow> anymap list" where
  "contentToSlice c = map content_item c"

definition CallResultToOutput :: "CallToolResult option \<Rightarrow> anymap option" where
  "CallResultToOutput res =
     (case res of
        None \<Rightarrow> None
      | Some r \<Rightarrow>
          Some ((if ctr_Content r \<noteq> [] then [(OutputKeyContent, AMapSlice (contentToSlice (ctr_Content r)))] else []) @
                (if ctr_StructuredContent r \<noteq> ANil
                 then [(OutputKeyStructuredContent, ctr_StructuredContent r)] else [])))"

definition fallbackToolErrorMessage :: string where
  "fallbackToolErrorMessage = ''tool error''"

definition ContentErrorText :: "CallToolResult option \<Rightarrow> string" where
  "ContentErrorText res =
     (case res of
        None \<Rightarrow> fallbackToolErrorMessage
      | Some r \<Rightarrow>
          (case ctr_Content r of
             TextContent text # _ \<Rightarrow> text
           | _ \<Rightarrow> fallbackToolErrorMessage))"

definition resource_item :: "ResourceContents \<Rightarrow> anymap" where
  "resource_item c =
     (ContentKeyURI, AString (rsc_URI c)) #
     (if rsc_MIMEType c \<noteq> '''' then [(ContentKeyMIMEType, AString (rsc_MIMEType c))] else []) @
     (if rsc_Text c \<noteq> '''' then [(ContentKeyText, AString (rsc_Text c))] else []) @
     (if rsc_Blob c \<noteq> '''' then [(ContentKeyBlob, ABytes (rsc_Blob c))] else [])"

definition ReadResourceResultToOutput :: "ReadResourceResult option \<Rightarrow> anymap option" where
  "ReadResourceResultToOutput res =
     (case res of
        None \<Rightarrow> None
      | Some contents \<Rightarrow>
          Some (if contents \<noteq> []
                then [(OutputKeyContents, AMapSlice (map resource_item (List.map_filter id contents)))]
                else []))"

section \<open>The HTTP client of a tool\<close>

text \<open>
  A transport of the HTTP library with its TLS settings, the instrumented wrapper of one,
  or one of another kind. The first argument stands for the other settings of a transport, which a
  clone keeps.
\<close>

datatype transport_settings = DefaultSettings | ZeroSettings | CustomSettings handle

datatype RoundTripper =
    http_Transport transport_settings "tls_Config option"
  | otel_Transport RoundTripper
  | other_RoundTripper handle

abbreviation DefaultTransport :: RoundTripper where
  "DefaultTransport \<equiv> http_Transport DefaultSettings None"

record http_Client =
  hc_Transport :: "RoundTripper option"

definition buildHTTPClient :: "pki \<Rightarrow> HTTPTransportConfig \<Rightarrow> http_Client option \<Rightarrow> go_error + http_Client" where
  "buildHTTPClient pk cfg fallback =
     (if http_TLS cfg = None then
        Inr (case fallback of Some c \<Rightarrow> c | None \<Rightarrow> \<lparr>hc_Transport = None\<rparr>)
      else
        (case BuildClientTLSConfig pk (http_TLS cfg) of
           Inl err \<Rightarrow> Inl err
         | Inr tlsCfg \<Rightarrow>
             (let base = (case Option.bind fallback hc_Transport of None \<Rightarrow> DefaultTransport | Some t \<Rightarrow> t)
              in case base of
                   http_Transport settings _ \<Rightarrow> Inr \<lparr>hc_Transport = Some (http_Transport settings tlsCfg)\<rparr>
                 | _ \<Rightarrow> Inr \<lparr>hc_Transport = Some (http_Transport ZeroSettings tlsCfg)\<rparr>)))"

definition wrapTransport :: "bool \<Rightarrow> RoundTripper \<Rightarrow> RoundTripper" where
  "wrapTransport tracing base = (if \<not> tracing then base else otel_Transport base)"

text \<open>What the MCP client library connects with.\<close>

record StreamableClientTransport =
  ct_Endpoint :: string
  ct_HTTPClient :: http_Client
  ct_MaxRetries :: int
  ct_OAuthHandler :: "handle option"

definition instrumented :: "bool \<Rightarrow> http_Client \<Rightarrow> http_Client" where
  "instrumented tracing c =
     c\<lparr>hc_Transport := Some (wrapTransport tracing
       (case hc_Transport c of None \<Rightarrow> DefaultTransport | Some t \<Rightarrow> t))\<rparr>"

section \<open>The clients the executors call\<close>

text \<open>
  \<open>'n\<close> is the state of the outside world (processes, connections, peers).
  Sessions are handles. The duration is the time-out of the request's context; \<open>cl_ctxErr\<close> tells whether that
  context is done. \<open>cl_httpClient\<close> is the client the factories were made with; the
  gateway makes them without one.
\<close>

record 'n clients =
  cl_Connect_stdio :: "string \<Rightarrow> string list \<Rightarrow> string \<Rightarrow> string list \<Rightarrow> duration \<Rightarrow> 'n \<Rightarrow> 'n \<times> (go_error + handle)"
  cl_Connect_http :: "StreamableClientTransport \<Rightarrow> duration \<Rightarrow> 'n \<Rightarrow> 'n \<times> (go_error + handle)"
  cl_Environ :: "string list"
  cl_CallTool :: "handle \<Rightarrow> duration \<Rightarrow> string \<Rightarrow> any \<Rightarrow> 'n \<Rightarrow> 'n \<times> (go_error + CallToolResult)"
  cl_ReadResource :: "handle \<Rightarrow> duration \<Rightarrow> string \<Rightarrow> 'n \<Rightarrow> 'n \<times> (go_error + ReadResourceResult)"
  cl_Close :: "handle \<Rightarrow> 'n \<Rightarrow> 'n \<times> go_error option"
  cl_ctxErr :: "duration \<Rightarrow> 'n \<Rightarrow> bool"
  cl_pki :: "'n \<Rightarrow> pki"
  cl_tracing :: "'n \<Rightarrow> bool"
  cl_httpClient :: "http_Client option"

definition failed_result :: "Invocation \<Rightarrow> ExecutionStatus \<Rightarrow> RuntimeError \<Rightarrow> ExecutionResult" where
  "failed_result ivk status err =
     \<lparr>exec_Status = status, exec_Output = None, exec_Err = Some err, exec_Duration = 0,
      exec_Correlation = inv_Correlation ivk\<rparr>"

text \<open>The reply to an error of a call: a time-out when the context is done, a transport failure otherwise.\<close>

definition call_error :: "Invocation \<Rightarrow> bool \<Rightarrow> string \<Rightarrow> string \<Rightarrow> go_error \<Rightarrow> ExecutionResult" where
  "call_error ivk ctxDone timedOut failed err =
     (if ctxDone
      then failed_result ivk ExecutionStatusTimeout (WrapRuntimeError ErrCodeInvocationTimeout timedOut (Some err))
      else failed_result ivk ExecutionStatusFailure (WrapRuntimeError ErrCodeTransportFailure failed (Some err)))"

section \<open>The stdio executor\<close>

text \<open>
  \<open>cx_sess\<close> is the protocol session, nil once the executor is closed; \<open>cx_closed\<close> the
  \<open>sync.Once\<close> of \<open>Close\<close>.
\<close>

record sdk_executor =
  cx_sess :: "handle option"
  cx_closed :: bool
  cx_closeErr :: "go_error option"

definition StdioExecutor_Execute ::
  "'n clients \<Rightarrow> sdk_executor \<Rightarrow> duration \<Rightarrow> Invocation \<Rightarrow> 'n \<Rightarrow> 'n \<times> go_result" where
  "StdioExecutor_Execute cl e ctx ivk n =
     (case cx_sess e of
        None \<Rightarrow> (n, Some (failed_result ivk ExecutionStatusFailure
                  (NewRuntimeError ErrCodeTransportFailure ''session not connected'')), None)
      | Some sess \<Rightarrow>
          (let (name, args) = ParamsFromInvocation (Some ivk)
           in case cl_CallTool cl sess ctx name args n of
                (n, Inl err) \<Rightarrow>
                  (n, Some (call_error ivk (cl_ctxErr cl ctx n) ''invocation timed out'' ''call failed'' err), None)
              | (n, Inr res) \<Rightarrow>
                  (n, Some \<lparr>exec_Status = (if ctr_IsError res then ExecutionStatusFailure else ExecutionStatusSuccess),
                     exec_Output = CallResultToOutput (Some res),
                     exec_Err = (if ctr_IsError res
                       then Some (NewRuntimeError ErrCodeInternal (ContentErrorText (Some res))) else None),
                     exec_Duration = 0, exec_Correlation = inv_Correlation ivk\<rparr>, None)))"

definition StdioExecutor_ReadResource ::
  "'n clients \<Rightarrow> sdk_executor \<Rightarrow> duration \<Rightarrow> Invocation \<Rightarrow> 'n \<Rightarrow> 'n \<times> go_result" where
  "StdioExecutor_ReadResource cl e ctx ivk n =
     (case cx_sess e of
        None \<Rightarrow> (n, Some (failed_result ivk ExecutionStatusFailure
                  (NewRuntimeError ErrCodeTransportFailure ''session not connected'')), None)
      | Some sess \<Rightarrow>
          (let uri = ResourceParamsFromInvocation (Some ivk)
           in if uri = '''' then
                (n, Some (failed_result ivk ExecutionStatusFailure
                  (NewRuntimeError ErrCodeInvalidRequest ''resource URI is required'')), None)
              else
                (case cl_ReadResource cl sess ctx uri n of
                   (n, Inl err) \<Rightarrow>
                     (n, Some (call_error ivk (cl_ctxErr cl ctx n) ''resource read timed out'' ''resource read failed'' err), None)
                 | (n, Inr res) \<Rightarrow>
                     (n, Some \<lparr>exec_Status = ExecutionStatusSuccess, exec_Output = ReadResourceResultToOutput (Some res),
                        exec_Err = None, exec_Duration = 0, exec_Correlation = inv_Correlation ivk\<rparr>, None))))"

definition StdioExecutor_Close :: "'n clients \<Rightarrow> sdk_executor \<Rightarrow> 'n \<Rightarrow> 'n \<times> sdk_executor \<times> go_error option" where
  "StdioExecutor_Close cl e n =
     (if cx_closed e then (n, e, cx_closeErr e)
      else
        (let (n, e) = (case cx_sess e of
               None \<Rightarrow> (n, e)
             | Some sess \<Rightarrow>
                 (let (n, err) = cl_Close cl sess n in (n, e\<lparr>cx_closeErr := err, cx_sess := None\<rparr>)));
             e = e\<lparr>cx_closed := True\<rparr>
         in (n, e, cx_closeErr e)))"

text \<open>
  \<open>envSlice\<close> overlays the environment of the gateway process with the tool's
  variables: an entry of the gateway is split at its first \<open>=\<close>; one without \<open>=\<close> is
  dropped when there is something to overlay.
\<close>

definition env_key :: "string \<Rightarrow> string option" where
  "env_key e = (if CHR ''='' \<in> set e then Some (takeWhile (\<lambda>c. c \<noteq> CHR ''='') e) else None)"

definition env_overlay :: "strmap \<Rightarrow> string \<Rightarrow> string list" where
  "env_overlay extra e =
     (case env_key e of
        None \<Rightarrow> []
      | Some key \<Rightarrow> (case gm_get extra key of Some v \<Rightarrow> [key @ ''='' @ v] | None \<Rightarrow> [e]))"

definition envSlice :: "string list \<Rightarrow> strmap \<Rightarrow> string list" where
  "envSlice base extra =
     (if length extra = 0 then base
      else
        (let used = List.map_filter env_key base
         in concat (map (env_overlay extra) base) @
            map (\<lambda>(k, v). k @ ''='' @ v) (filter (\<lambda>(k, v). k \<notin> set used) extra)))"

definition NewStdioExecutor ::
  "'n clients \<Rightarrow> StdioTransportConfig option \<Rightarrow> duration \<Rightarrow> 'n \<Rightarrow> 'n \<times> (go_error + sdk_executor)" where
  "NewStdioExecutor cl cfg startupTimeout n =
     (case cfg of
        None \<Rightarrow> (n, Inl (rt_error ErrCodeInvalidRequest ''stdio config required''))
      | Some c \<Rightarrow>
          if stdio_Command c = '''' then (n, Inl (rt_error ErrCodeInvalidRequest ''stdio config required''))
          else
            (case cl_Connect_stdio cl (stdio_Command c) (stdio_Args c) (stdio_WorkingDirectory c)
                    (envSlice (cl_Environ cl) (stdio_Env c)) startupTimeout n of
               (n, Inl err) \<Rightarrow> (n, Inl (rt_wrap ErrCodeTransportFailure ''stdio connect failed'' err))
             | (n, Inr sess) \<Rightarrow> (n, Inr \<lparr>cx_sess = Some sess, cx_closed = False, cx_closeErr = None\<rparr>)))"

section \<open>The HTTP executor\<close>

definition HTTPExecutor_Execute ::
  "'n clients \<Rightarrow> sdk_executor \<Rightarrow> duration \<Rightarrow> Invocation \<Rightarrow> 'n \<Rightarrow> 'n \<times> go_result" where
  "HTTPExecutor_Execute cl e ctx ivk n =
     (case cx_sess e of
        None \<Rightarrow> (n, Some (failed_result ivk ExecutionStatusFailure
                  (NewRuntimeError ErrCodeTransportFailure ''session not connected'')), None)
      | Some sess \<Rightarrow>
          (let (name, args) = ParamsFromInvocation (Some ivk)
           in case cl_CallTool cl sess ctx name args n of
                (n, Inl err) \<Rightarrow>
                  (n, Some (call_error ivk (cl_ctxErr cl ctx n) ''invocation timed out'' ''call failed'' err), None)
              | (n, Inr res) \<Rightarrow>
                  (n, Some \<lparr>exec_Status = (if ctr_IsError res then ExecutionStatusFailure else ExecutionStatusSuccess),
                     exec_Output = CallResultToOutput (Some res),
                     exec_Err = (if ctr_IsError res
                       then Some (NewRuntimeError ErrCodeInternal (ContentErrorText (Some res))) else None),
                     exec_Duration = 0, exec_Correlation = inv_Correlation ivk\<rparr>, None)))"

definition HTTPExecutor_ReadResource ::
  "'n clients \<Rightarrow> sdk_executor \<Rightarrow> duration \<Rightarrow> Invocation \<Rightarrow> 'n \<Rightarrow> 'n \<times> go_result" where
  "HTTPExecutor_ReadResource cl e ctx ivk n =
     (case cx_sess e of
        None \<Rightarrow> (n, Some (failed_result ivk ExecutionStatusFailure
                  (NewRuntimeError ErrCodeTransportFailure ''session not connected'')), None)
      | Some sess \<Rightarrow>
          (let uri = ResourceParamsFromInvocation (Some ivk)
           in if uri = '''' then
                (n, Some (failed_result ivk ExecutionStatusFailure
                  (NewRuntimeError ErrCodeInvalidRequest ''resource URI is required'')), None)
              else
                (case cl_ReadResource cl sess ctx uri n of
                   (n, Inl err) \<Rightarrow>
                     (n, Some (call_error ivk (cl_ctxErr cl ctx n) ''resource read timed out'' ''resource read failed'' err), None)
                 | (n, Inr res) \<Rightarrow>
                     (n, Some \<lparr>exec_Status = ExecutionStatusSuccess, exec_Output = ReadResourceResultToOutput (Some res),
                        exec_Err = None, exec_Duration = 0, exec_Correlation = inv_Correlation ivk\<rparr>, None))))"

definition HTTPExecutor_ExecuteStream ::
  "'n clients \<Rightarrow> sdk_executor \<Rightarrow> duration \<Rightarrow> Invocation \<Rightarrow> 'n \<Rightarrow> 'n \<times> stream_source" where
  "HTTPExecutor_ExecuteStream cl e ctx ivk n =
     (let (n, result, err) = HTTPExecutor_Execute cl e ctx ivk n;
          result = (case result of
              None \<Rightarrow> failed_result ivk ExecutionStatusFailure (NewRuntimeError ErrCodeInternal ''nil result from execute'')
            | Some r \<Rightarrow> r)
      in (n, \<lparr>str_progress = [], str_final = Some result\<rparr>))"

definition HTTPExecutor_Close :: "'n clients \<Rightarrow> sdk_executor \<Rightarrow> 'n \<Rightarrow> 'n \<times> sdk_executor \<times> go_error option" where
  "HTTPExecutor_Close cl e n =
     (if cx_closed e then (n, e, cx_closeErr e)
      else
        (let (n, e) = (case cx_sess e of
               None \<Rightarrow> (n, e)
             | Some sess \<Rightarrow>
                 (let (n, err) = cl_Close cl sess n in (n, e\<lparr>cx_closeErr := err, cx_sess := None\<rparr>)));
             e = e\<lparr>cx_closed := True\<rparr>
         in (n, e, cx_closeErr e)))"

text \<open>The TLS bundle of a tool is loaded before the endpoint is connected to.\<close>

definition NewHTTPExecutor ::
  "'n clients \<Rightarrow> HTTPTransportConfig option \<Rightarrow> duration \<Rightarrow> 'n \<Rightarrow> 'n \<times> (go_error + sdk_executor)" where
  "NewHTTPExecutor cl cfg startupTimeout n =
     (case cfg of
        None \<Rightarrow> (n, Inl (rt_error ErrCodeInvalidRequest ''http config required''))
      | Some c \<Rightarrow>
          if http_URL c = '''' then (n, Inl (rt_error ErrCodeInvalidRequest ''http config required''))
          else
            (case buildHTTPClient (cl_pki cl n) c (cl_httpClient cl) of
               Inl err \<Rightarrow> (n, Inl err)
             | Inr httpClient \<Rightarrow>
                 (case cl_Connect_http cl
                     \<lparr>ct_Endpoint = http_URL c, ct_HTTPClient = instrumented (cl_tracing cl n) httpClient,
                      ct_MaxRetries = 2, ct_OAuthHandler = http_OAuthHandler c\<rparr> startupTimeout n of
                    (n, Inl err) \<Rightarrow> (n, Inl (rt_wrap ErrCodeTransportFailure ''http connect failed'' err))
                  | (n, Inr sess) \<Rightarrow> (n, Inr \<lparr>cx_sess = Some sess, cx_closed = False, cx_closeErr = None\<rparr>))))"

section \<open>The environment of a stdio tool\<close>

text \<open>What a process finds in its environment: the value of the last entry for a name.\<close>

definition env_val :: "string \<Rightarrow> string" where
  "env_val e = tl (dropWhile (\<lambda>c. c \<noteq> CHR ''='') e)"

definition env_lookup :: "string list \<Rightarrow> string \<Rightarrow> string option" where
  "env_lookup env k = (let es = filter (\<lambda>e. env_key e = Some k) env in if es = [] then None else Some (env_val (last es)))"

lemma env_entry:
  assumes "CHR ''='' \<notin> set k"
  shows "env_key (k @ ''='' @ v) = Some k" "env_val (k @ ''='' @ v) = v"
proof -
  have "\<forall>c \<in> set k. c \<noteq> CHR ''=''" using assms by metis
  then show "env_key (k @ ''='' @ v) = Some k" "env_val (k @ ''='' @ v) = v"
    by (simp_all add: env_key_def env_val_def takeWhile_append2 dropWhile_append2)
qed

text \<open>The environment of a stdio tool is that of the gateway overlaid with the tool's
  variables: a variable the tool configures has the configured value, every other
  one the value it has for the gateway.\<close>

theorem tool_environment_overlays:
  assumes "gm_ok extra" and "\<forall>p \<in> set extra. CHR ''='' \<notin> set (fst p)"
  shows "env_lookup (envSlice base extra) k =
    (case gm_get extra k of Some v \<Rightarrow> Some v | None \<Rightarrow> env_lookup base k)"
proof (cases "gm_get extra k")
  case None
  let ?P = "\<lambda>e. env_key e = Some k"
  have clean: "CHR ''='' \<notin> set k'" "k' \<noteq> k" if "gm_get extra k' = Some v" for k' v
    using that assms(2) None map_of_SomeD [OF that] by auto
  have "filter ?P (env_overlay extra e) = filter ?P [e]" for e
    using None env_entry(1) clean by (auto simp: env_overlay_def split: option.split)
  then have "filter ?P (concat (map (env_overlay extra) base)) = filter ?P base"
    by (induction base) auto
  moreover have "filter ?P (map (\<lambda>(k, v). k @ ''='' @ v) (filter (\<lambda>(k, v). k \<notin> U) extra)) = []" for U
    using clean env_entry(1) assms(1) by (fastforce simp: filter_empty_conv gm_in_iff)
  ultimately show ?thesis
    using None by (simp add: envSlice_def env_lookup_def Let_def del: filter_map)
next
  case (Some v)
  let ?P = "\<lambda>e. env_key e = Some k" and ?used = "set (List.map_filter env_key base)"
  have k: "CHR ''='' \<notin> set k" and ne: "extra \<noteq> []"
    using map_of_SomeD [OF Some] assms(2) by auto
  have clean: "CHR ''='' \<notin> set k'" if "gm_get extra k' = Some v'" for k' v'
    using assms(2) map_of_SomeD [OF that] by auto
  have vals: "env_val e = v" if "e \<in> set (filter ?P (envSlice base extra))" for e
    using that ne Some clean env_entry assms(1)
    by (fastforce simp: envSlice_def env_overlay_def gm_in_iff Let_def split: option.splits)
  have "filter ?P (envSlice base extra) \<noteq> []"
  proof (cases "k \<in> ?used")
    case True
    then obtain e where "e \<in> set base" "env_key e = Some k" by (auto simp: List.map_filter_def)
    with Some ne have "k @ ''='' @ v \<in> set (envSlice base extra)"
      by (force simp: envSlice_def env_overlay_def Let_def)
    with env_entry(1) [OF k] show ?thesis by (auto simp: filter_empty_conv)
  next
    case False
    with Some ne have "k @ ''='' @ v \<in> set (envSlice base extra)"
      using map_of_SomeD [OF Some] by (force simp: envSlice_def Let_def)
    with env_entry(1) [OF k] show ?thesis by (auto simp: filter_empty_conv)
  qed
  with vals [OF last_in_set] Some show ?thesis by (simp add: env_lookup_def Let_def)
qed

theorem tool_environment_overlays_witness:
  "env_lookup (envSlice [''HOME=/root'', ''KEY=old=er'', ''junk''] [(''KEY'', ''new''), (''X'', ''1'')]) ''KEY'' = Some ''new'' \<and>
   env_lookup (envSlice [''HOME=/root'', ''KEY=old=er'', ''junk''] [(''KEY'', ''new''), (''X'', ''1'')]) ''HOME'' = Some ''/root''"
  using tool_environment_overlays [of "[(''KEY'', ''new''), (''X'', ''1'')]" "[''HOME=/root'', ''KEY=old=er'', ''junk'']"]
  by (simp add: gm_ok_def env_lookup_def env_key_def env_val_def)

end
