(* ===== verification/Grpc_Descriptors.thy ===== *)
theory Grpc_Descriptors
  imports Mcp_Types
begin

text \<open>
  Descriptors of gRPC tools: fetching a service's file descriptors with all their
  imports over server reflection (internal/egress/grpc/descriptor.go) and deriving a
  JSON schema from a message descriptor, which may refer to itself
  (internal/egress/grpc/schema.go).

  The protobuf library is a parameter: decoding of a file descriptor, and the
  registry built from a set of files. The reflection peer is a pair of functions on
  a world \<open>'n\<close>. The context of a fetch has a deadline: \<open>budget\<close> is the number of further
  requests that are sent before it passes, so every statement holds for every
  deadline.
\<close>

section \<open>File descriptors over reflection\<close>

record FileDescriptorProto =
  fdp_Name :: string
  fdp_Dependency :: "string list"
  fdp_Contents :: string

datatype reflection_request = FileContainingSymbol string | FileByFilename string

datatype reflection_response =
    FileDescriptorResponse "string list"
  | ErrorResponse string
  | OtherResponse

text \<open>\<open>io.EOF\<close>, compared by identity.\<close>

definition io_EOF :: go_error where "io_EOF = PlainErr ''EOF''"

record 'n reflection =
  rf_Send :: "reflection_request \<Rightarrow> 'n \<Rightarrow> 'n \<times> go_error option"
  rf_Recv :: "'n \<Rightarrow> 'n \<times> (go_error + reflection_response)"
  rf_Unmarshal :: "string \<Rightarrow> go_error + FileDescriptorProto"
  rf_ctxErr :: go_error

text \<open>\<open>fmt.Errorf\<close> with a message and \<open>: %w\<close>.\<close>

definition wrap_err :: "string \<Rightarrow> go_error \<Rightarrow> go_error" where
  "wrap_err msg e = WrapErr (msg @ '': '' @ error_text e) e"

text \<open>The files of a reply are added unless a file of that name is known.\<close>

fun add_files ::
  "'n reflection \<Rightarrow> string \<Rightarrow> string list \<Rightarrow> string set \<Rightarrow> FileDescriptorProto list \<Rightarrow>
     go_error + string set \<times> FileDescriptorProto list" where
  "add_files rf name [] known files = Inr (known, files)"
| "add_files rf name (raw # raws) known files =
     (case rf_Unmarshal rf raw of
        Inl err \<Rightarrow> Inl (wrap_err (''unmarshal reflected dependency '' @ quoted name) err)
      | Inr fdp \<Rightarrow>
          if fdp_Name fdp \<in> known then add_files rf name raws known files
          else add_files rf name raws (insert (fdp_Name fdp) known) (files @ [fdp]))"

definition missing_deps :: "string set \<Rightarrow> FileDescriptorProto list \<Rightarrow> string list" where
  "missing_deps known files = filter (\<lambda>dep. dep \<notin> known) (concat (map fdp_Dependency files))"

text \<open>One exchange: ask for a file by name and add what the peer returns.\<close>

definition request_file ::
  "'n reflection \<Rightarrow> string \<Rightarrow> string set \<Rightarrow> FileDescriptorProto list \<Rightarrow> 'n \<Rightarrow>
     'n \<times> (go_error + string set \<times> FileDescriptorProto list)" where
  "request_file rf name known files n =
     (case rf_Send rf (FileByFilename name) n of
        (n, Some err) \<Rightarrow> (n, Inl (wrap_err (''send reflection request for '' @ quoted name) err))
      | (n, None) \<Rightarrow>
          (case rf_Recv rf n of
             (n, Inl err) \<Rightarrow>
               (n, Inl (if err = io_EOF
                        then PlainErr (''reflection stream closed while resolving '' @ quoted name)
                        else wrap_err (''recv reflection response for '' @ quoted name) err))
           | (n, Inr (FileDescriptorResponse raws)) \<Rightarrow> (n, add_files rf name raws known files)
           | (n, Inr (ErrorResponse m)) \<Rightarrow>
               (n, Inl (PlainErr (''reflection error for '' @ quoted name @ '': '' @ m)))
           | (n, Inr OtherResponse) \<Rightarrow>
               (n, Inl (PlainErr (''unexpected reflection response for '' @ quoted name)))))"

text \<open>The inner loop over the missing names; the result carries the budget that is left.\<close>

fun request_missing ::
  "'n reflection \<Rightarrow> nat \<Rightarrow> string list \<Rightarrow> string set \<Rightarrow> FileDescriptorProto list \<Rightarrow> 'n \<Rightarrow>
     nat \<times> 'n \<times> (go_error + string set \<times> FileDescriptorProto list)" where
  "request_missing rf budget [] known files n = (budget, n, Inr (known, files))"
| "request_missing rf 0 (name # names) known files n =
     (0, n, Inl (wrap_err ''context cancelled during dependency resolution'' (rf_ctxErr rf)))"
| "request_missing rf (Suc budget) (name # names) known files n =
     (case request_file rf name known files n of
        (n, Inl err) \<Rightarrow> (budget, n, Inl err)
      | (n, Inr (known, files)) \<Rightarrow> request_missing rf budget names known files n)"

lemma request_missing_budget:
  "request_missing rf budget names known files n = (budget', n', r) \<Longrightarrow>
     budget' \<le> budget \<and> (r = Inr kf \<longrightarrow> names \<noteq> [] \<longrightarrow> budget' < budget)"
proof (induction rf budget names known files n arbitrary: budget' n' r rule: request_missing.induct)
  case (3 rf budget name names known files n)
  then show ?case
    by (cases "names = []") (fastforce split: prod.splits sum.splits)+
qed auto

text \<open>
  The outer loop. Each round asks for at least one file, so the budget of the
  context decreases.
\<close>

function fetch_rounds ::
  "'n reflection \<Rightarrow> nat \<Rightarrow> string set \<Rightarrow> FileDescriptorProto list \<Rightarrow> 'n \<Rightarrow>
     'n \<times> (go_error + FileDescriptorProto list)" where
  "fetch_rounds rf budget known files n =
     (let missing = missing_deps known files
      in if missing = [] then (n, Inr files)
         else
           (case request_missing rf budget missing known files n of
              (budget', n, Inl err) \<Rightarrow> (n, Inl err)
            | (budget', n, Inr (known, files)) \<Rightarrow> fetch_rounds rf budget' known files n))"
  by auto

termination fetch_rounds
  by (relation "measure (\<lambda>(rf, budget, _). budget)") (auto dest!: sym [THEN request_missing_budget])

declare fetch_rounds.simps [simp del]

definition fetchDependencies ::
  "'n reflection \<Rightarrow> nat \<Rightarrow> FileDescriptorProto list \<Rightarrow> 'n \<Rightarrow> 'n \<times> (go_error + FileDescriptorProto list)" where
  "fetchDependencies rf budget files n = fetch_rounds rf budget (fdp_Name ` set files) files n"

fun unmarshal_files :: "'n reflection \<Rightarrow> string list \<Rightarrow> go_error + FileDescriptorProto list" where
  "unmarshal_files rf [] = Inr []"
| "unmarshal_files rf (raw # raws) =
     (case rf_Unmarshal rf raw of
        Inl err \<Rightarrow> Inl (wrap_err ''unmarshal reflected file descriptor'' err)
      | Inr fdp \<Rightarrow> (case unmarshal_files rf raws of Inl err \<Rightarrow> Inl err | Inr fs \<Rightarrow> Inr (fdp # fs)))"

text \<open>Reading a descriptor set from a file.\<close>

definition LoadDescriptorSet ::
  "(string \<Rightarrow> go_error + string) \<Rightarrow> (string \<Rightarrow> go_error + FileDescriptorProto list) \<Rightarrow> string \<Rightarrow> go_error + FileDescriptorProto list" where
  "LoadDescriptorSet readFile unmarshal path =
     (case readFile path of
        Inl err \<Rightarrow> Inl (wrap_err (''read descriptor set '' @ quoted path) err)
      | Inr data \<Rightarrow>
          (case unmarshal data of
             Inl err \<Rightarrow> Inl (wrap_err (''unmarshal descriptor set '' @ quoted path) err)
           | Inr fds \<Rightarrow> Inr fds))"

definition FetchDescriptorSetViaReflection ::
  "('n \<Rightarrow> 'n \<times> (go_error + 'n reflection)) \<Rightarrow> nat \<Rightarrow> string \<Rightarrow> 'n \<Rightarrow> 'n \<times> (go_error + FileDescriptorProto list)" where
  "FetchDescriptorSetViaReflection openStream budget service n =
     (case openStream n of
        (n, Inl err) \<Rightarrow> (n, Inl (wrap_err ''open reflection stream'' err))
      | (n, Inr rf) \<Rightarrow>
     (case rf_Send rf (FileContainingSymbol service) n of
        (n, Some err) \<Rightarrow> (n, Inl (wrap_err ''send reflection request'' err))
      | (n, None) \<Rightarrow>
     (case rf_Recv rf n of
        (n, Inl err) \<Rightarrow> (n, Inl (wrap_err ''recv reflection response'' err))
      | (n, Inr (ErrorResponse m)) \<Rightarrow> (n, Inl (PlainErr (''reflection error: '' @ m)))
      | (n, Inr OtherResponse) \<Rightarrow>
          (n, Inl (PlainErr (''unexpected reflection response for service '' @ quoted service)))
      | (n, Inr (FileDescriptorResponse raws)) \<Rightarrow>
     (case unmarshal_files rf raws of
        Inl err \<Rightarrow> (n, Inl err)
      | Inr files \<Rightarrow> fetchDependencies rf budget files n))))"

section \<open>Message descriptors and their JSON schema\<close>

datatype Kind =
    BoolKind | EnumKind
  | Int32Kind | Sint32Kind | Uint32Kind | Fixed32Kind | Sfixed32Kind
  | Int64Kind | Sint64Kind | Uint64Kind | Fixed64Kind | Sfixed64Kind
  | FloatKind | DoubleKind | StringKind | BytesKind | MessageKind | GroupKind

text \<open>
  A field names the message it holds, for kinds that hold one; a map field has the
  kind and message of its values. A message descriptor is a full name within the
  table of all messages of its files.
\<close>

record FieldDescriptor =
  fd_JSONName :: string
  fd_Kind :: Kind
  fd_Message :: string
  fd_IsList :: bool
  fd_IsMap :: bool
  fd_MapValue :: "Kind \<times> string"

type_synonym messages = "(string, FieldDescriptor list) gomap"

record MessageDescriptor =
  msg_FullName :: string
  msg_Table :: messages

record MethodDescriptor =
  md_Name :: string
  md_Input :: MessageDescriptor
  md_Output :: MessageDescriptor
  md_LeadingComments :: string

type_synonym ServiceDescriptor = "MethodDescriptor list"

fun protoKindToJSONType :: "Kind \<Rightarrow> string" where
  "protoKindToJSONType BoolKind = ''boolean''"
| "protoKindToJSONType Int32Kind = ''integer''"
| "protoKindToJSONType Sint32Kind = ''integer''"
| "protoKindToJSONType Uint32Kind = ''integer''"
| "protoKindToJSONType Fixed32Kind = ''integer''"
| "protoKindToJSONType Sfixed32Kind = ''integer''"
| "protoKindToJSONType FloatKind = ''number''"
| "protoKindToJSONType DoubleKind = ''number''"
| "protoKindToJSONType _ = ''string''"

text \<open>\<open>message\<close> is the conversion of a message, called for fields that hold one.\<close>

definition scalarOrMessageSchema :: "(string \<Rightarrow> anymap) \<Rightarrow> Kind \<times> string \<Rightarrow> anymap" where
  "scalarOrMessageSchema message fd =
     (if fst fd = MessageKind \<or> fst fd = GroupKind then message (snd fd)
      else [(''type'', AString (protoKindToJSONType (fst fd)))])"

definition fieldToSchemaProperty :: "(string \<Rightarrow> anymap) \<Rightarrow> FieldDescriptor \<Rightarrow> anymap" where
  "fieldToSchemaProperty message fd =
     (if fd_IsList fd then
        [(''type'', AString ''array''), (''items'', AMap (scalarOrMessageSchema message (fd_Kind fd, fd_Message fd)))]
      else if fd_IsMap fd then
        [(''type'', AString ''object''), (''additionalProperties'', AMap (scalarOrMessageSchema message (fd_MapValue fd)))]
      else scalarOrMessageSchema message (fd_Kind fd, fd_Message fd))"

definition message_fields :: "messages \<Rightarrow> string \<Rightarrow> FieldDescriptor list" where
  "message_fields tbl name = (case gm_get tbl name of None \<Rightarrow> [] | Some fs \<Rightarrow> fs)"

text \<open>
  The visited set holds the messages on the path from the root: an entry is set on
  entry and deleted on return. The recursion ends because the path never repeats a
  message of the table.
\<close>

function messageToJSONSchemaWithVisited :: "messages \<Rightarrow> string set \<Rightarrow> string \<Rightarrow> anymap" where
  "messageToJSONSchemaWithVisited tbl visited name =
     (if name \<in> visited then [(''type'', AString ''object'')]
      else
        [(''type'', AString ''object''),
         (''properties'', AMap (foldl (\<lambda>properties fd.
            gm_put (fd_JSONName fd)
              (AMap (fieldToSchemaProperty (messageToJSONSchemaWithVisited tbl (insert name visited)) fd)) properties)
            [] (message_fields tbl name)))])"
  by auto

definition unvisited :: "messages \<Rightarrow> string set \<Rightarrow> nat" where
  "unvisited tbl visited = card (fst ` set tbl - visited)"

lemma unvisited_insert:
  "name \<notin> visited \<Longrightarrow> fd \<in> set (message_fields tbl name) \<Longrightarrow> unvisited tbl (insert name visited) < unvisited tbl visited"
  unfolding unvisited_def
proof (rule psubset_card_mono)
  assume "name \<notin> visited" and "fd \<in> set (message_fields tbl name)"
  then have "name \<in> fst ` set tbl - visited"
    using map_of_eq_None_iff [of tbl name] by (cases "gm_get tbl name") (simp_all add: message_fields_def)
  then show "fst ` set tbl - insert name visited \<subset> fst ` set tbl - visited"
    by blast
qed simp

termination messageToJSONSchemaWithVisited
  by (relation "measure (\<lambda>(tbl, visited, _). unvisited tbl visited)") (auto intro: unvisited_insert)

declare messageToJSONSchemaWithVisited.simps [simp del]

definition messageToJSONSchema :: "MessageDescriptor \<Rightarrow> anymap" where
  "messageToJSONSchema msgDesc = messageToJSONSchemaWithVisited (msg_Table msgDesc) {} (msg_FullName msgDesc)"

definition extractDescription :: "MethodDescriptor \<Rightarrow> string" where
  "extractDescription md = (if md_LeadingComments md \<noteq> '''' then md_LeadingComments md else '''')"

definition methodToSchema :: "(anymap \<Rightarrow> go_error + string) \<Rightarrow> MethodDescriptor \<Rightarrow> go_error + ToolSchema" where
  "methodToSchema marshal md =
     (case marshal (messageToJSONSchema (md_Input md)) of
        Inl err \<Rightarrow> Inl (wrap_err (''marshal schema for method '' @ quoted (md_Name md)) err)
      | Inr raw \<Rightarrow> Inr \<lparr>schema_Name = md_Name md, schema_Description = extractDescription md,
                       schema_InputSchema = Some raw\<rparr>)"

section \<open>Services\<close>

text \<open>The registry of the protobuf library: what a name denotes in a set of files.\<close>

datatype Descriptor = ServiceDesc ServiceDescriptor | OtherDesc

type_synonym proto_files = "FileDescriptorProto list \<Rightarrow> go_error + (string \<Rightarrow> go_error + Descriptor)"

definition ResolveService :: "proto_files \<Rightarrow> FileDescriptorProto list \<Rightarrow> string \<Rightarrow> go_error + ServiceDescriptor" where
  "ResolveService newFiles fds service =
     (case newFiles fds of
        Inl err \<Rightarrow> Inl (wrap_err ''build file registry'' err)
      | Inr findByName \<Rightarrow>
          (case findByName service of
             Inl err \<Rightarrow> Inl (wrap_err (''service '' @ quoted service @ '' not found in descriptor set'') err)
           | Inr OtherDesc \<Rightarrow> Inl (PlainErr (quoted service @ '' is not a service descriptor''))
           | Inr (ServiceDesc sd) \<Rightarrow> Inr sd))"

definition ByName :: "ServiceDescriptor \<Rightarrow> string \<Rightarrow> MethodDescriptor option" where
  "ByName sd name = find (\<lambda>md. md_Name md = name) sd"

definition ResolveMethod ::
  "proto_files \<Rightarrow> FileDescriptorProto list \<Rightarrow> string \<Rightarrow> string \<Rightarrow> go_error + MessageDescriptor \<times> MessageDescriptor" where
  "ResolveMethod newFiles fds service method =
     (case ResolveService newFiles fds service of
        Inl err \<Rightarrow> Inl err
      | Inr sd \<Rightarrow>
          (case ByName sd method of
             None \<Rightarrow> Inl (PlainErr (''method '' @ quoted method @ '' not found in service '' @ quoted service))
           | Some md \<Rightarrow> Inr (md_Input md, md_Output md)))"

fun methods_schemas :: "(anymap \<Rightarrow> go_error + string) \<Rightarrow> MethodDescriptor list \<Rightarrow> go_error + ToolSchema list" where
  "methods_schemas marshal [] = Inr []"
| "methods_schemas marshal (md # mds) =
     (case methodToSchema marshal md of
        Inl err \<Rightarrow> Inl err
      | Inr s \<Rightarrow> (case methods_schemas marshal mds of Inl err \<Rightarrow> Inl err | Inr ss \<Rightarrow> Inr (s # ss)))"

section \<open>Fetching all imports\<close>

text \<open>
  A peer serves a set of file names when it answers a request for each of them with
  files of the set that include it and import only files of the set.
\<close>

definition serves :: "'n reflection \<Rightarrow> string set \<Rightarrow> bool" where
  "serves rf U \<longleftrightarrow>
     (\<forall>f \<in> U. \<forall>n. \<exists>n1 n2 raws fdps.
        rf_Send rf (FileByFilename f) n = (n1, None) \<and>
        rf_Recv rf n1 = (n2, Inr (FileDescriptorResponse raws)) \<and>
        map (rf_Unmarshal rf) raws = map Inr fdps \<and> f \<in> fdp_Name ` set fdps \<and>
        (\<forall>fd \<in> set fdps. fdp_Name fd \<in> U \<and> set (fdp_Dependency fd) \<subseteq> U))"

definition imports_in :: "FileDescriptorProto list \<Rightarrow> string set \<Rightarrow> bool" where
  "imports_in files U \<longleftrightarrow> (\<forall>f \<in> set files. set (fdp_Dependency f) \<subseteq> U)"

lemma missing_deps_iff:
  "set (missing_deps known files) = (\<Union>f \<in> set files. set (fdp_Dependency f)) - known"
  by (auto simp: missing_deps_def)

lemma no_missing_deps: "missing_deps known files = [] \<longleftrightarrow> imports_in files known"
  by (auto simp: missing_deps_def imports_in_def filter_empty_conv)

lemma add_files_ok:
  "map (rf_Unmarshal rf) raws = map Inr fdps \<Longrightarrow>
     \<exists>new. add_files rf name raws (fdp_Name ` set files) files =
         Inr (fdp_Name ` set (files @ new), files @ new) \<and>
       set new \<subseteq> set fdps \<and> fdp_Name ` set fdps \<subseteq> fdp_Name ` set (files @ new)"
proof (induction raws arbitrary: fdps files)
  case (Cons raw raws)
  then obtain fdp fdps' where fdps: "fdps = fdp # fdps'" "rf_Unmarshal rf raw = Inr fdp"
    and rest: "map (rf_Unmarshal rf) raws = map Inr fdps'"
    by (cases fdps) auto
  show ?case
  proof (cases "fdp_Name fdp \<in> fdp_Name ` set files")
    case True
    with Cons.IH [OF rest, of files] fdps show ?thesis by auto
  next
    case False
    with Cons.IH [OF rest, of "files @ [fdp]"] fdps show ?thesis by auto
  qed
qed simp

lemma request_file_ok:
  assumes "serves rf U" and "name \<in> U"
  shows "\<exists>n' new. request_file rf name (fdp_Name ` set files) files n =
      (n', Inr (fdp_Name ` set (files @ new), files @ new)) \<and>
    name \<in> fdp_Name ` set (files @ new) \<and> fdp_Name ` set new \<subseteq> U \<and> imports_in new U"
proof -
  obtain n1 n2 raws fdps where "rf_Send rf (FileByFilename name) n = (n1, None)"
      "rf_Recv rf n1 = (n2, Inr (FileDescriptorResponse raws))"
    and u: "map (rf_Unmarshal rf) raws = map Inr fdps" "name \<in> fdp_Name ` set fdps"
      "\<forall>fd \<in> set fdps. fdp_Name fd \<in> U \<and> set (fdp_Dependency fd) \<subseteq> U"
    using assms unfolding serves_def by blast
  moreover obtain new where "add_files rf name raws (fdp_Name ` set files) files =
      Inr (fdp_Name ` set (files @ new), files @ new)" "set new \<subseteq> set fdps"
      "fdp_Name ` set fdps \<subseteq> fdp_Name ` set (files @ new)"
    using add_files_ok [OF u(1)] by blast
  ultimately have "request_file rf name (fdp_Name ` set files) files n =
      (n2, Inr (fdp_Name ` set (files @ new), files @ new))"
    by (simp add: request_file_def)
  moreover have "fdp_Name ` set new \<subseteq> U \<and> imports_in new U"
    using u(3) \<open>set new \<subseteq> set fdps\<close> by (auto simp: imports_in_def)
  moreover have "name \<in> fdp_Name ` set (files @ new)"
    using u(2) \<open>fdp_Name ` set fdps \<subseteq> fdp_Name ` set (files @ new)\<close> by blast
  ultimately show ?thesis by blast
qed

lemma request_missing_ok:
  assumes "serves rf U"
  shows "set names \<subseteq> U \<Longrightarrow>
     \<exists>n' new. (\<forall>budget \<ge> length names. request_missing rf budget names (fdp_Name ` set files) files n =
        (budget - length names, n', Inr (fdp_Name ` set (files @ new), files @ new))) \<and>
       set names \<subseteq> fdp_Name ` set (files @ new) \<and> fdp_Name ` set new \<subseteq> U \<and> imports_in new U"
proof (induction names arbitrary: files n)
  case Nil
  then show ?case by (intro exI [of _ n] exI [of _ "[]"]) (simp add: imports_in_def)
next
  case (Cons name names)
  then obtain n1 new1 where 1: "request_file rf name (fdp_Name ` set files) files n =
      (n1, Inr (fdp_Name ` set (files @ new1), files @ new1))"
    "name \<in> fdp_Name ` set (files @ new1)" "fdp_Name ` set new1 \<subseteq> U" "imports_in new1 U"
    using request_file_ok [OF assms] by (metis list.set_intros(1) subsetD)
  from Cons obtain n2 new2 where 2: "\<forall>budget \<ge> length names.
      request_missing rf budget names (fdp_Name ` set (files @ new1)) (files @ new1) n1 =
        (budget - length names, n2, Inr (fdp_Name ` set ((files @ new1) @ new2), (files @ new1) @ new2))"
    "set names \<subseteq> fdp_Name ` set ((files @ new1) @ new2)" "fdp_Name ` set new2 \<subseteq> U" "imports_in new2 U"
    by (metis insert_subset list.simps(15))
  have "\<forall>budget \<ge> length (name # names). request_missing rf budget (name # names) (fdp_Name ` set files) files n =
      (budget - length (name # names), n2, Inr (fdp_Name ` set (files @ new1 @ new2), files @ new1 @ new2))"
  proof (intro allI impI)
    fix budget
    assume "length (name # names) \<le> budget"
    then obtain b where "budget = Suc b" "length names \<le> b" by (cases budget) auto
    with 1(1) 2(1) show "request_missing rf budget (name # names) (fdp_Name ` set files) files n =
      (budget - length (name # names), n2, Inr (fdp_Name ` set (files @ new1 @ new2), files @ new1 @ new2))"
      by simp
  qed
  with 1(2-4) 2(2-4) show ?case
    by (intro exI [of _ n2] exI [of _ "new1 @ new2"]) (auto simp: imports_in_def)
qed

lemma fetch_rounds_complete:
  assumes "serves rf U" and "finite U"
  shows "imports_in files U \<Longrightarrow>
    \<exists>B n' new. (\<forall>budget \<ge> B. fetch_rounds rf budget (fdp_Name ` set files) files n = (n', Inr (files @ new))) \<and>
      imports_in (files @ new) (fdp_Name ` set (files @ new))"
proof (induction "card (U - fdp_Name ` set files)" arbitrary: files n rule: less_induct)
  case less
  let ?known = "fdp_Name ` set files"
  let ?missing = "missing_deps ?known files"
  show ?case
  proof (cases "?missing = []")
    case True
    then show ?thesis
      by (intro exI [of _ 0] exI [of _ n] exI [of _ "[]"]) (simp add: fetch_rounds.simps no_missing_deps)
  next
    case False
    have "set ?missing \<subseteq> U"
      using less.prems by (auto simp: missing_deps_iff imports_in_def)
    then obtain n1 new where 1: "\<forall>budget \<ge> length ?missing. request_missing rf budget ?missing ?known files n =
        (budget - length ?missing, n1, Inr (fdp_Name ` set (files @ new), files @ new))"
      "set ?missing \<subseteq> fdp_Name ` set (files @ new)" "imports_in new U"
      using request_missing_ok [OF assms(1)] by blast
    obtain m where m: "m \<in> set ?missing" using False by (meson last_in_set)
    have "m \<in> U" "m \<notin> ?known" "m \<in> fdp_Name ` set (files @ new)"
      using m \<open>set ?missing \<subseteq> U\<close> 1(2) missing_deps_iff [of ?known files] by blast+
    then have "U - fdp_Name ` set (files @ new) \<subset> U - ?known"
      by auto
    then have "card (U - fdp_Name ` set (files @ new)) < card (U - ?known)"
      using assms(2) by (simp add: psubset_card_mono)
    moreover have "imports_in (files @ new) U"
      using less.prems 1(3) by (auto simp: imports_in_def)
    ultimately obtain B n2 new2 where 2: "\<forall>budget \<ge> B.
        fetch_rounds rf budget (fdp_Name ` set (files @ new)) (files @ new) n1 = (n2, Inr ((files @ new) @ new2))"
      "imports_in ((files @ new) @ new2) (fdp_Name ` set ((files @ new) @ new2))"
      using less.hyps by meson
    have "\<forall>budget \<ge> B + length ?missing. fetch_rounds rf budget ?known files n = (n2, Inr (files @ new @ new2))"
      using 1(1) 2(1) False by (subst fetch_rounds.simps) simp
    with 2(2) show ?thesis
      by (intro exI [of _ "B + length ?missing"] exI [of _ n2] exI [of _ "new @ new2"]) simp
  qed
qed

section \<open>Schemas of messages that do not refer to themselves\<close>

text \<open>The expansion without a visited set, down to a given depth.\<close>

fun expandMessage :: "messages \<Rightarrow> nat \<Rightarrow> string \<Rightarrow> anymap" where
  "expandMessage tbl 0 name = [(''type'', AString ''object'')]"
| "expandMessage tbl (Suc k) name =
     [(''type'', AString ''object''),
      (''properties'', AMap (foldl (\<lambda>properties fd.
         gm_put (fd_JSONName fd) (AMap (fieldToSchemaProperty (expandMessage tbl k) fd)) properties)
         [] (message_fields tbl name)))]"

text \<open>The messages a field holds, and which message holds which.\<close>

definition held_messages :: "FieldDescriptor \<Rightarrow> string set" where
  "held_messages fd = (let v = (if \<not> fd_IsList fd \<and> fd_IsMap fd then fd_MapValue fd else (fd_Kind fd, fd_Message fd))
              in if fst v = MessageKind \<or> fst v = GroupKind then {snd v} else {})"

definition holds_message :: "messages \<Rightarrow> (string \<times> string) set" where
  "holds_message tbl = {(name, m). \<exists>fd \<in> set (message_fields tbl name). m \<in> held_messages fd}"

lemma fieldToSchemaProperty_cong:
  "(\<And>m. m \<in> held_messages fd \<Longrightarrow> f m = g m) \<Longrightarrow> fieldToSchemaProperty f fd = fieldToSchemaProperty g fd"
  by (auto simp: fieldToSchemaProperty_def scalarOrMessageSchema_def held_messages_def split: if_splits)

text \<open>On the way down from a root that leads to no cycle, the messages visited lead to the
  present one, so that none of them is met again.\<close>

lemma schema_eq_expansion:
  assumes "\<forall>m. (root, m) \<in> (holds_message tbl)\<^sup>* \<longrightarrow> (m, m) \<notin> (holds_message tbl)\<^sup>+"
  shows "(root, name) \<in> (holds_message tbl)\<^sup>* \<Longrightarrow> \<forall>v \<in> visited. (v, name) \<in> (holds_message tbl)\<^sup>+ \<Longrightarrow>
    unvisited tbl visited < k \<Longrightarrow> messageToJSONSchemaWithVisited tbl visited name = expandMessage tbl k name"
proof (induction k arbitrary: visited name)
  case (Suc k)
  have new: "name \<notin> visited" using Suc.prems(1,2) assms by blast
  have field: "fieldToSchemaProperty (messageToJSONSchemaWithVisited tbl (insert name visited)) fd =
      fieldToSchemaProperty (expandMessage tbl k) fd" if fd: "fd \<in> set (message_fields tbl name)" for fd
  proof (rule fieldToSchemaProperty_cong)
    fix m
    assume "m \<in> held_messages fd"
    with fd have "(name, m) \<in> holds_message tbl" by (auto simp: holds_message_def)
    with Suc.prems unvisited_insert [OF new fd]
    show "messageToJSONSchemaWithVisited tbl (insert name visited) m = expandMessage tbl k m"
      by (intro Suc.IH) (auto intro: rtrancl_into_rtrancl trancl_into_trancl)
  qed
  from new show ?case
    by (subst messageToJSONSchemaWithVisited.simps) (simp add: field cong: foldl_cong)
qed simp

lemma unvisited_le: "unvisited tbl {} \<le> length tbl"
  unfolding unvisited_def using card_length [of "map fst tbl"] by simp

text \<open>Nesting depth of a dynamic value.\<close>

fun any_depth :: "any \<Rightarrow> nat" where
  "any_depth (AMap m) = Suc (Max (insert 0 ((\<lambda>p. any_depth (snd p)) ` set m)))"
| "any_depth (ASlice xs) = Suc (Max (insert 0 (any_depth ` set xs)))"
| "any_depth (AMapSlice ms) = Suc (Suc (Max (insert 0 (\<Union>m \<in> set ms. (\<lambda>p. any_depth (snd p)) ` set m))))"
| "any_depth _ = 0"

lemma map_depth: "any_depth (AMap m) \<le> Suc d \<longleftrightarrow> (\<forall>p \<in> set m. any_depth (snd p) \<le> d)"
  by simp

lemma any_depth_put:
  "any_depth (AMap m) \<le> Suc d \<Longrightarrow> any_depth v \<le> d \<Longrightarrow> any_depth (AMap (gm_put k v m)) \<le> Suc d"
  unfolding map_depth by (induction m) auto

lemma any_depth_foldl_put:
  "\<forall>x \<in> set xs. any_depth (v x) \<le> d \<Longrightarrow> any_depth (AMap m) \<le> Suc d \<Longrightarrow>
     any_depth (AMap (foldl (\<lambda>m x. gm_put (k x) (v x) m) m xs)) \<le> Suc d"
proof (induction xs arbitrary: m)
  case (Cons x xs)
  then show ?case
    using any_depth_put [of m d "v x" "k x"] by simp
qed simp

lemma field_depth:
  assumes "\<And>m. any_depth (AMap (f m)) \<le> Suc d"
  shows "any_depth (AMap (fieldToSchemaProperty f fd)) \<le> Suc (Suc d)"
proof -
  have s: "any_depth (AMap (scalarOrMessageSchema f x)) \<le> Suc d" for x
    using assms by (simp add: scalarOrMessageSchema_def)
  have "any_depth (AMap [(''type'', AString t), (k, AMap (scalarOrMessageSchema f x))]) \<le> Suc (Suc d)" for t k x
    unfolding map_depth using s [of x] by (simp del: any_depth.simps(1))
  then show ?thesis
    unfolding fieldToSchemaProperty_def using le_SucI [OF s] by (simp del: any_depth.simps(1))
qed

lemma schema_depth:
  "any_depth (AMap (messageToJSONSchemaWithVisited tbl visited name)) \<le> 3 * unvisited tbl visited + 2"
proof (induction tbl visited name rule: messageToJSONSchemaWithVisited.induct)
  case (1 tbl visited name)
  show ?case
  proof (cases "name \<in> visited")
    case True
    then show ?thesis by (subst messageToJSONSchemaWithVisited.simps) simp
  next
    case False
    let ?f = "messageToJSONSchemaWithVisited tbl (insert name visited)"
    let ?u = "unvisited tbl visited"
    have "\<forall>fd \<in> set (message_fields tbl name). any_depth (AMap (fieldToSchemaProperty ?f fd)) \<le> 3 * ?u"
    proof
      fix fd
      assume fd: "fd \<in> set (message_fields tbl name)"
      let ?u' = "unvisited tbl (insert name visited)"
      have "any_depth (AMap (?f m)) \<le> Suc (3 * ?u' + 1)" for m
        using 1 [OF False fd] by simp
      then have "any_depth (AMap (fieldToSchemaProperty ?f fd)) \<le> Suc (Suc (3 * ?u' + 1))"
        by (rule field_depth)
      with unvisited_insert [OF False fd]
      show "any_depth (AMap (fieldToSchemaProperty ?f fd)) \<le> 3 * ?u" by linarith
    qed
    from any_depth_foldl_put [OF this, of "[]" fd_JSONName] False
    show ?thesis
      by (subst messageToJSONSchemaWithVisited.simps) simp
  qed
qed

section \<open>Properties\<close>

text \<open>C25: When the reflection peer serves a finite set of files that contains the imports of
  the service's own files, fetching ends before every deadline that leaves enough
  requests, keeps the files it started with, and returns a set of files that imports
  nothing outside itself.\<close>

theorem reflection_fetches_all_imports:
  assumes "serves rf U" and "finite U" and "imports_in files U"
  shows "\<exists>B n' new. (\<forall>budget \<ge> B. fetchDependencies rf budget files n = (n', Inr (files @ new))) \<and>
    imports_in (files @ new) (fdp_Name ` set (files @ new))"
  unfolding fetchDependencies_def by (rule fetch_rounds_complete [OF assms])

definition example_reflection :: "string reflection" where
  "example_reflection =
     \<lparr>rf_Send = (\<lambda>req n. ((case req of FileByFilename f \<Rightarrow> f | FileContainingSymbol s \<Rightarrow> s), None)),
      rf_Recv = (\<lambda>n. (n, Inr (FileDescriptorResponse [n]))),
      rf_Unmarshal = (\<lambda>raw. Inr \<lparr>fdp_Name = raw,
         fdp_Dependency = (if raw = ''a'' then [''b'', ''c''] else if raw = ''b'' then [''c'', ''d''] else []),
         fdp_Contents = raw\<rparr>),
      rf_ctxErr = PlainErr ''context deadline exceeded''\<rparr>"

theorem reflection_fetches_all_imports_witness:
  "\<exists>B n' new. (\<forall>budget \<ge> B. fetchDependencies example_reflection budget
      [\<lparr>fdp_Name = ''a'', fdp_Dependency = [''b'', ''c''], fdp_Contents = ''a''\<rparr>] ''a'' =
        (n', Inr (\<lparr>fdp_Name = ''a'', fdp_Dependency = [''b'', ''c''], fdp_Contents = ''a''\<rparr> # new))) \<and>
    ''d'' \<in> fdp_Name ` set new"
proof -
  have "serves example_reflection {''a'', ''b'', ''c'', ''d''}"
    by (auto simp: serves_def example_reflection_def Cons_eq_map_conv)
  from reflection_fetches_all_imports [OF this, of "[\<lparr>fdp_Name = ''a'', fdp_Dependency = [''b'', ''c''], fdp_Contents = ''a''\<rparr>]" "''a''"]
  obtain B n' new where r: "\<forall>budget \<ge> B. fetchDependencies example_reflection budget
      [\<lparr>fdp_Name = ''a'', fdp_Dependency = [''b'', ''c''], fdp_Contents = ''a''\<rparr>] ''a'' =
        (n', Inr (\<lparr>fdp_Name = ''a'', fdp_Dependency = [''b'', ''c''], fdp_Contents = ''a''\<rparr> # new))"
    by (auto simp: imports_in_def)
  have "fetchDependencies example_reflection (Suc (Suc (Suc (Suc B))))
      [\<lparr>fdp_Name = ''a'', fdp_Dependency = [''b'', ''c''], fdp_Contents = ''a''\<rparr>] ''a'' =
    (''d'', Inr (\<lparr>fdp_Name = ''a'', fdp_Dependency = [''b'', ''c''], fdp_Contents = ''a''\<rparr> #
      [\<lparr>fdp_Name = ''b'', fdp_Dependency = [''c'', ''d''], fdp_Contents = ''b''\<rparr>,
       \<lparr>fdp_Name = ''c'', fdp_Dependency = [], fdp_Contents = ''c''\<rparr>,
       \<lparr>fdp_Name = ''d'', fdp_Dependency = [], fdp_Contents = ''d''\<rparr>]))"
    by (simp add: fetchDependencies_def fetch_rounds.simps missing_deps_def request_file_def example_reflection_def)
  with r have "''d'' \<in> fdp_Name ` set new" by auto
  with r show ?thesis by blast
qed

text \<open>A reflection peer that answers every request with an empty list of files keeps the
  fetch busy until its deadline passes: with an import that is not yet known, no
  number of requests ends it, and the fetch reports the expired context.\<close>

theorem reflection_empty_replies_spin:
  assumes "\<forall>name n. \<exists>n1 n2. rf_Send rf (FileByFilename name) n = (n1, None) \<and>
      rf_Recv rf n1 = (n2, Inr (FileDescriptorResponse []))"
    and "\<not> imports_in files (fdp_Name ` set files)"
  shows "\<exists>n'. fetchDependencies rf budget files n =
    (n', Inl (wrap_err ''context cancelled during dependency resolution'' (rf_ctxErr rf)))"
proof -
  let ?err = "wrap_err ''context cancelled during dependency resolution'' (rf_ctxErr rf)"
  have same: "\<exists>n'. request_file rf name known files n = (n', Inr (known, files))" for name known n
  proof -
    obtain n1 n2 where "rf_Send rf (FileByFilename name) n = (n1, None)"
        "rf_Recv rf n1 = (n2, Inr (FileDescriptorResponse []))" using assms(1) by blast
    then show ?thesis by (simp add: request_file_def)
  qed
  have req: "\<exists>n'. request_missing rf budget names known files n =
      (budget - length names, n', if length names \<le> budget then Inr (known, files) else Inl ?err)"
    for names known budget n
  proof (induction names arbitrary: budget n)
    case (Cons name names)
    show ?case
    proof (cases budget)
      case (Suc b)
      obtain n1 where "request_file rf name known files n = (n1, Inr (known, files))" using same by blast
      with Cons.IH [of b n1] Suc show ?thesis by auto
    qed simp
  qed simp
  have "\<exists>n'. fetch_rounds rf budget (fdp_Name ` set files) files n = (n', Inl ?err)"
  proof (induction budget arbitrary: n rule: less_induct)
    case (less budget)
    let ?missing = "missing_deps (fdp_Name ` set files) files"
    have ne: "?missing \<noteq> []" using assms(2) by (simp add: no_missing_deps)
    obtain n1 where "request_missing rf budget ?missing (fdp_Name ` set files) files n =
        (budget - length ?missing, n1, if length ?missing \<le> budget then Inr (fdp_Name ` set files, files) else Inl ?err)"
      using req by blast
    moreover from ne have "0 < length ?missing" by blast
    then have "length ?missing \<le> budget \<Longrightarrow> budget - length ?missing < budget" by linarith
    ultimately show ?case using ne less.IH [of "budget - length ?missing" n1]
      by (cases "length ?missing \<le> budget"; subst fetch_rounds.simps) (auto simp: Let_def)
  qed
  then show ?thesis by (simp only: fetchDependencies_def)
qed

theorem reflection_empty_replies_spin_witness:
  "\<exists>n'. fetchDependencies (example_reflection\<lparr>rf_Recv := \<lambda>n. (n, Inr (FileDescriptorResponse []))\<rparr>) 1000000
     [\<lparr>fdp_Name = ''a'', fdp_Dependency = [''b''], fdp_Contents = ''a''\<rparr>] ''a'' =
     (n', Inl (wrap_err ''context cancelled during dependency resolution'' (PlainErr ''context deadline exceeded'')))"
proof -
  let ?rf = "example_reflection\<lparr>rf_Recv := \<lambda>n. (n, Inr (FileDescriptorResponse []))\<rparr>"
  let ?files = "[\<lparr>fdp_Name = ''a'', fdp_Dependency = [''b''], fdp_Contents = ''a''\<rparr>]"
  have "\<forall>name n. \<exists>n1 n2. rf_Send ?rf (FileByFilename name) n = (n1, None) \<and>
      rf_Recv ?rf n1 = (n2, Inr (FileDescriptorResponse []))"
    by (simp add: example_reflection_def)
  moreover have "\<not> imports_in ?files (fdp_Name ` set ?files)"
    by (simp add: imports_in_def)
  ultimately have spin: "\<exists>n'. fetchDependencies ?rf 1000000 ?files ''a'' =
      (n', Inl (wrap_err ''context cancelled during dependency resolution'' (rf_ctxErr ?rf)))"
    by (rule reflection_empty_replies_spin)
  have "rf_ctxErr ?rf = PlainErr ''context deadline exceeded''"
    by (simp add: example_reflection_def)
  from spin [unfolded this] show ?thesis .
qed

text \<open>C26: The schema of a message from which no cycle of messages is reached through fields,
  elements of lists and values of maps is its complete expansion: the cycle detection cuts
  nothing off, also for messages that are reached on several paths, and whatever cycles
  there are among the other messages. The expansion is the one to any depth beyond the
  number of messages.\<close>

theorem json_schema_is_expansion:
  assumes "\<forall>m. (msg_FullName msgDesc, m) \<in> (holds_message (msg_Table msgDesc))\<^sup>* \<longrightarrow>
      (m, m) \<notin> (holds_message (msg_Table msgDesc))\<^sup>+"
    and "length (msg_Table msgDesc) < k"
  shows "messageToJSONSchema msgDesc = expandMessage (msg_Table msgDesc) k (msg_FullName msgDesc)"
  unfolding messageToJSONSchema_def
  by (rule schema_eq_expansion [OF assms(1)]) (use assms(2) unvisited_le [of "msg_Table msgDesc"] in auto)

definition message_field :: "string \<Rightarrow> string \<Rightarrow> FieldDescriptor" where
  "message_field name msg = \<lparr>fd_JSONName = name, fd_Kind = MessageKind, fd_Message = msg, fd_IsList = False,
     fd_IsMap = False, fd_MapValue = (StringKind, '''')\<rparr>"

definition scalar_field :: "string \<Rightarrow> Kind \<Rightarrow> FieldDescriptor" where
  "scalar_field name k = \<lparr>fd_JSONName = name, fd_Kind = k, fd_Message = '''', fd_IsList = False,
     fd_IsMap = False, fd_MapValue = (StringKind, '''')\<rparr>"

definition order_messages :: messages where
  "order_messages = [(''Order'', [message_field ''from'' ''Addr'', message_field ''to'' ''Addr'']),
     (''Addr'', [scalar_field ''zip'' Int32Kind]), (''Tree'', [message_field ''left'' ''Tree''])]"

theorem json_schema_is_expansion_witness:
  "messageToJSONSchema \<lparr>msg_FullName = ''Order'', msg_Table = order_messages\<rparr> =
   (let addr = [(''type'', AString ''object''), (''properties'', AMap [(''zip'', AMap [(''type'', AString ''integer'')])])]
    in [(''type'', AString ''object''), (''properties'', AMap [(''from'', AMap addr), (''to'', AMap addr)])])"
proof -
  have fields: "message_fields order_messages name =
      (if name = ''Order'' then [message_field ''from'' ''Addr'', message_field ''to'' ''Addr'']
       else if name = ''Addr'' then [scalar_field ''zip'' Int32Kind]
       else if name = ''Tree'' then [message_field ''left'' ''Tree''] else [])" for name
    by (simp add: message_fields_def order_messages_def)
  have held: "held_messages (message_field f m) = {m}" "held_messages (scalar_field f Int32Kind) = {}" for f m
    by (simp_all add: held_messages_def message_field_def scalar_field_def)
  have "(name, m) \<in> holds_message order_messages \<longleftrightarrow> (name, m) \<in> {(''Order'', ''Addr''), (''Tree'', ''Tree'')}" for name m
    unfolding holds_message_def mem_Collect_eq prod.case fields
    by (cases "name = ''Order''"; cases "name = ''Addr''"; cases "name = ''Tree''") (auto simp: held)
  then have h: "holds_message order_messages = {(''Order'', ''Addr''), (''Tree'', ''Tree'')}"
    by (intro set_eqI) (simp only: split_paired_all)
  then have t: "(holds_message order_messages)\<^sup>+ = {(''Order'', ''Addr''), (''Tree'', ''Tree'')}"
    unfolding h by (intro trancl_id) (auto simp: trans_def)
  then have "\<forall>m. (''Order'', m) \<in> (holds_message order_messages)\<^sup>* \<longrightarrow> (m, m) \<notin> (holds_message order_messages)\<^sup>+"
    by (auto simp: rtrancl_eq_or_trancl)
  with json_schema_is_expansion [of "\<lparr>msg_FullName = ''Order'', msg_Table = order_messages\<rparr>" "Suc (Suc (Suc (Suc 0)))"]
  show ?thesis
    by (simp add: order_messages_def message_fields_def message_field_def scalar_field_def fieldToSchemaProperty_def
        scalarOrMessageSchema_def Let_def)
qed

text \<open>The schema of every message is finite, also when messages refer to themselves or to
  each other: its nesting is at most three levels for each message of the table and
  two more.\<close>

theorem json_schema_depth_bounded:
  "any_depth (AMap (messageToJSONSchema msgDesc)) \<le> 3 * length (msg_Table msgDesc) + 2"
  using schema_depth [of "msg_Table msgDesc" "{}" "msg_FullName msgDesc"] unvisited_le [of "msg_Table msgDesc"]
  unfolding messageToJSONSchema_def by linarith

end
