(* ===== verification/Grpc_Executor.thy ===== *)
theory Grpc_Executor
  imports Egress Grpc_Descriptors
begin

text \<open>
  The executor for gRPC tools (internal/egress/grpc/executor.go): dialling and
  resolving descriptors, unary and streaming calls with dynamic messages, closing;
  and the discovery of a service's schemas (internal/egress/grpc/schema.go).

  The gRPC and protobuf libraries are the fields of a record over a world \<open>'n\<close>;
  connections, streams and messages are handles. \<open>gl_budget\<close> is the number of
  reflection requests that fit before the start-up deadline.
\<close>

section \<open>The libraries\<close>

datatype conn_state = Idle | Connecting | Ready | TransientFailure | Shutdown

text \<open>The only dial option set is the transport security.\<close>

datatype TransportCredentials = NewTLS tls_Config | InsecureCredentials

record 'n grpc_lib =
  gl_pki :: "'n \<Rightarrow> pki"
  gl_NewClient :: "string \<Rightarrow> TransportCredentials \<Rightarrow> 'n \<Rightarrow> 'n \<times> (go_error + handle)"
  gl_Close :: "handle \<Rightarrow> 'n \<Rightarrow> 'n \<times> go_error option"
  gl_States :: "handle \<Rightarrow> duration \<Rightarrow> 'n \<Rightarrow> 'n \<times> conn_state list \<times> go_error"
  gl_ReadFile :: "string \<Rightarrow> go_error + string"
  gl_UnmarshalSet :: "string \<Rightarrow> go_error + FileDescriptorProto list"
  gl_OpenReflection :: "handle \<Rightarrow> 'n \<Rightarrow> 'n \<times> (go_error + 'n reflection)"
  gl_budget :: "duration \<Rightarrow> nat"
  gl_NewFiles :: proto_files
  gl_Marshal :: "any \<Rightarrow> go_error + string"
  gl_protoUnmarshal :: "MessageDescriptor \<Rightarrow> string \<Rightarrow> go_error + handle"
  gl_protoNew :: "MessageDescriptor \<Rightarrow> handle"
  gl_protoMarshal :: "handle \<Rightarrow> go_error + string"
  gl_ctxErr :: "duration \<Rightarrow> 'n \<Rightarrow> bool"
  gl_Invoke :: "handle \<Rightarrow> duration \<Rightarrow> strmap \<Rightarrow> string \<Rightarrow> handle \<Rightarrow> MessageDescriptor \<Rightarrow> 'n \<Rightarrow> 'n \<times> (go_error + handle)"
  gl_NewStream :: "handle \<Rightarrow> duration \<Rightarrow> strmap \<Rightarrow> string \<Rightarrow> 'n \<Rightarrow> 'n \<times> (go_error + handle)"
  gl_SendMsg :: "handle \<Rightarrow> handle \<Rightarrow> 'n \<Rightarrow> 'n \<times> go_error option"
  gl_CloseSend :: "handle \<Rightarrow> 'n \<Rightarrow> 'n \<times> go_error option"
  gl_Recv :: "handle \<Rightarrow> MessageDescriptor \<Rightarrow> 'n \<Rightarrow> 'n \<times> handle list \<times> go_error option"

text \<open>
  \<open>gl_States\<close> lists the states the connection goes through until the deadline, which
  passes after the last one; \<open>gl_Recv\<close> lists the messages of a stream and the error
  that ended it, if it was not \<open>io.EOF\<close>.
\<close>

section \<open>Set-up\<close>

record GRPCExecutor =
  gx_conn :: "handle option"
  gx_service :: string
  gx_method :: string
  gx_md :: strmap
  gx_serviceDesc :: "ServiceDescriptor option"
  gx_inputDesc :: "MessageDescriptor option"
  gx_outputDesc :: "MessageDescriptor option"
  gx_closed :: bool
  gx_closeErr :: "go_error option"

definition buildDialOptions :: "pki \<Rightarrow> GRPCTransportConfig \<Rightarrow> go_error + TransportCredentials" where
  "buildDialOptions pk cfg =
     (if grpc_TLS cfg \<noteq> None then
        (case BuildClientTLSConfig pk (grpc_TLS cfg) of
           Inl err \<Rightarrow> Inl (rt_wrap ErrCodeTransportFailure ''build grpc TLS config'' err)
         | Inr (Some tlsCfg) \<Rightarrow> Inr (NewTLS tlsCfg)
         | Inr None \<Rightarrow> Inr InsecureCredentials)
      else Inr InsecureCredentials)"

definition loadDescriptors ::
  "'n grpc_lib \<Rightarrow> duration \<Rightarrow> handle \<Rightarrow> GRPCTransportConfig \<Rightarrow> 'n \<Rightarrow> 'n \<times> (go_error + FileDescriptorProto list)" where
  "loadDescriptors gl ctx conn cfg n =
     (if grpc_DescriptorSet cfg \<noteq> '''' then
        (case LoadDescriptorSet (gl_ReadFile gl) (gl_UnmarshalSet gl) (grpc_DescriptorSet cfg) of
           Inl err \<Rightarrow> (n, Inl (rt_wrap ErrCodeTransportFailure ''load descriptor set'' err))
         | Inr fds \<Rightarrow> (n, Inr fds))
      else
        (case FetchDescriptorSetViaReflection (gl_OpenReflection gl conn) (gl_budget gl ctx) (grpc_Service cfg) n of
           (n, Inl err) \<Rightarrow> (n, Inl (rt_wrap ErrCodeTransportFailure ''fetch descriptors via reflection'' err))
         | (n, Inr fds) \<Rightarrow> (n, Inr fds)))"

text \<open>\<open>metadata.MD.Set\<close> folds the key to lower case.\<close>

definition buildMetadata :: "strmap \<Rightarrow> strmap" where
  "buildMetadata m = (if length m = 0 then [] else foldl (\<lambda>md (k, v). gm_put (ToLower k) v md) [] m)"

definition NewGRPCExecutor ::
  "'n grpc_lib \<Rightarrow> GRPCTransportConfig option \<Rightarrow> duration \<Rightarrow> 'n \<Rightarrow> 'n \<times> (go_error + GRPCExecutor)" where
  "NewGRPCExecutor gl config startupTimeout n =
     (case config of
        None \<Rightarrow> (n, Inl (rt_error ErrCodeInvalidRequest ''grpc config required''))
      | Some cfg \<Rightarrow>
     if grpc_Target cfg = '''' then (n, Inl (rt_error ErrCodeInvalidRequest ''grpc target required''))
     else
     (case buildDialOptions (gl_pki gl n) cfg of
        Inl err \<Rightarrow> (n, Inl err)
      | Inr dialOpts \<Rightarrow>
     (case gl_NewClient gl (grpc_Target cfg) dialOpts n of
        (n, Inl err) \<Rightarrow> (n, Inl (rt_wrap ErrCodeTransportFailure ''grpc dial failed'' err))
      | (n, Inr conn) \<Rightarrow>
     (case loadDescriptors gl startupTimeout conn cfg n of
        (n, Inl err) \<Rightarrow> (fst (gl_Close gl conn n), Inl err)
      | (n, Inr fds) \<Rightarrow>
          (let exec = \<lparr>gx_conn = Some conn, gx_service = grpc_Service cfg, gx_method = grpc_Method cfg,
                 gx_md = buildMetadata (grpc_Metadata cfg), gx_serviceDesc = None, gx_inputDesc = None,
                 gx_outputDesc = None, gx_closed = False, gx_closeErr = None\<rparr>
           in if grpc_Method cfg \<noteq> '''' then
                (case ResolveMethod (gl_NewFiles gl) fds (grpc_Service cfg) (grpc_Method cfg) of
                   Inl err \<Rightarrow> (fst (gl_Close gl conn n),
                     Inl (rt_wrap ErrCodeTransportFailure ''resolve grpc method failed'' err))
                 | Inr (inputDesc, outputDesc) \<Rightarrow>
                     (n, Inr (exec\<lparr>gx_inputDesc := Some inputDesc, gx_outputDesc := Some outputDesc\<rparr>)))
              else
                (case ResolveService (gl_NewFiles gl) fds (grpc_Service cfg) of
                   Inl err \<Rightarrow> (fst (gl_Close gl conn n),
                     Inl (rt_wrap ErrCodeTransportFailure ''resolve grpc service failed'' err))
                 | Inr sd \<Rightarrow> (n, Inr (exec\<lparr>gx_serviceDesc := Some sd\<rparr>))))))))"

section \<open>Calls\<close>

definition resolveDescriptors :: "GRPCExecutor \<Rightarrow> string \<Rightarrow> go_error + MessageDescriptor \<times> MessageDescriptor" where
  "resolveDescriptors e methodName =
     (case (gx_inputDesc e, gx_outputDesc e) of
        (Some i, Some o') \<Rightarrow> Inr (i, o')
      | _ \<Rightarrow>
          (case gx_serviceDesc e of
             None \<Rightarrow> Inl (PlainErr ''no service descriptor available'')
           | Some sd \<Rightarrow>
               (case ByName sd methodName of
                  None \<Rightarrow> Inl (PlainErr (''method '' @ quoted methodName @ '' not found in service '' @ quoted (gx_service e)))
                | Some md \<Rightarrow> Inr (md_Input md, md_Output md))))"

definition paramsFromInvocation :: "Invocation option \<Rightarrow> string \<times> any" where
  "paramsFromInvocation ivk =
     (case ivk of
        None \<Rightarrow> ('''', ANil)
      | Some ivk \<Rightarrow>
          (case inv_Params ivk of
             None \<Rightarrow> ('''', ANil)
           | Some params \<Rightarrow>
               (let name = as_string (gm_get params ''name'');
                    name = (if name = '''' then inv_ToolID ivk else name)
                in (name, any_of (gm_get params ''arguments'')))))"

definition buildRequest :: "'n grpc_lib \<Rightarrow> MessageDescriptor \<Rightarrow> any \<Rightarrow> go_error + handle" where
  "buildRequest gl inputDesc args =
     (if args = ANil then Inr (gl_protoNew gl inputDesc)
      else
        (case gl_Marshal gl args of
           Inl err \<Rightarrow> Inl (wrap_err ''marshal arguments to JSON'' err)
         | Inr jsonBytes \<Rightarrow>
             (case gl_protoUnmarshal gl inputDesc jsonBytes of
                Inl err \<Rightarrow> Inl (wrap_err ''unmarshal JSON to protobuf'' err)
              | Inr msg \<Rightarrow> Inr msg)))"

definition textContentOutput :: "string \<Rightarrow> anymap" where
  "textContentOutput text =
     [(''content'', AMapSlice [[(''type'', AString ''text''), (''text'', AString text)]])]"

definition responseToOutput :: "'n grpc_lib \<Rightarrow> handle \<Rightarrow> go_error + anymap" where
  "responseToOutput gl msg =
     (case gl_protoMarshal gl msg of
        Inl err \<Rightarrow> Inl (wrap_err ''marshal response to JSON'' err)
      | Inr jsonBytes \<Rightarrow> Inr (textContentOutput jsonBytes))"

definition fullMethod :: "GRPCExecutor \<Rightarrow> string \<Rightarrow> string" where
  "fullMethod e methodName = ''/'' @ gx_service e @ ''/'' @ methodName"

definition success_result :: "Invocation \<Rightarrow> anymap \<Rightarrow> ExecutionResult" where
  "success_result ivk output =
     \<lparr>exec_Status = ExecutionStatusSuccess, exec_Output = Some output, exec_Err = None, exec_Duration = 0,
      exec_Correlation = inv_Correlation ivk\<rparr>"

abbreviation wrapped_failure :: "Invocation \<Rightarrow> ErrorCode \<Rightarrow> string \<Rightarrow> go_error \<Rightarrow> ExecutionResult" where
  "wrapped_failure ivk code msg err \<equiv>
     failed_result ivk ExecutionStatusFailure (WrapRuntimeError code msg (Some err))"

definition GRPCExecutor_Execute ::
  "'n grpc_lib \<Rightarrow> GRPCExecutor \<Rightarrow> duration \<Rightarrow> Invocation \<Rightarrow> 'n \<Rightarrow> 'n \<times> go_result" where
  "GRPCExecutor_Execute gl e ctx ivk n =
     (case gx_conn e of
        None \<Rightarrow> (n, Some (failed_result ivk ExecutionStatusFailure
                  (NewRuntimeError ErrCodeTransportFailure ''connection not established'')), None)
      | Some conn \<Rightarrow>
     (let (methodName, args) = paramsFromInvocation (Some ivk) in
     (case resolveDescriptors e methodName of
        Inl err \<Rightarrow> (n, Some (wrapped_failure ivk ErrCodeTransportFailure ''resolve method descriptors'' err), None)
      | Inr (inputDesc, outputDesc) \<Rightarrow>
     (case buildRequest gl inputDesc args of
        Inl err \<Rightarrow> (n, Some (wrapped_failure ivk ErrCodeInvalidRequest ''build grpc request'' err), None)
      | Inr reqMsg \<Rightarrow>
     (case gl_Invoke gl conn ctx (gx_md e) (fullMethod e methodName) reqMsg outputDesc n of
        (n, Inl err) \<Rightarrow>
          (n, Some (call_error ivk (gl_ctxErr gl ctx n) ''invocation timed out'' ''grpc call failed'' err), None)
      | (n, Inr respMsg) \<Rightarrow>
     (case responseToOutput gl respMsg of
        Inl err \<Rightarrow> (n, Some (wrapped_failure ivk ErrCodeInternal ''marshal grpc response'' err), None)
      | Inr output \<Rightarrow> (n, Some (success_result ivk output), None)))))))"

text \<open>The receive loop: every message is a progress event, the last one is also the output.\<close>

fun recv_loop ::
  "'n grpc_lib \<Rightarrow> Invocation \<Rightarrow> bool \<Rightarrow> go_error option \<Rightarrow> handle list \<Rightarrow> anymap \<Rightarrow> string list \<times> ExecutionResult" where
  "recv_loop gl ivk ctxDone None [] lastOutput = ([], success_result ivk lastOutput)"
| "recv_loop gl ivk ctxDone (Some err) [] lastOutput =
     ([], call_error ivk ctxDone ''stream timed out'' ''stream recv failed'' err)"
| "recv_loop gl ivk ctxDone end (msg # msgs) lastOutput =
     (case gl_protoMarshal gl msg of
        Inl err \<Rightarrow> ([], wrapped_failure ivk ErrCodeInternal ''marshal stream response'' err)
      | Inr jsonBytes \<Rightarrow>
          (let (progress, final) = recv_loop gl ivk ctxDone end msgs (textContentOutput jsonBytes)
           in (jsonBytes # progress, final)))"

definition GRPCExecutor_ExecuteStream ::
  "'n grpc_lib \<Rightarrow> GRPCExecutor \<Rightarrow> duration \<Rightarrow> Invocation \<Rightarrow> 'n \<Rightarrow> 'n \<times> stream_source" where
  "GRPCExecutor_ExecuteStream gl e ctx ivk n =
     (let final = (\<lambda>r. \<lparr>str_progress = [], str_final = Some r\<rparr>) in
     (case gx_conn e of
        None \<Rightarrow> (n, final (failed_result ivk ExecutionStatusFailure
                  (NewRuntimeError ErrCodeTransportFailure ''connection not established'')))
      | Some conn \<Rightarrow>
     (let (methodName, args) = paramsFromInvocation (Some ivk) in
     (case resolveDescriptors e methodName of
        Inl err \<Rightarrow> (n, final (wrapped_failure ivk ErrCodeTransportFailure ''resolve method descriptors'' err))
      | Inr (inputDesc, outputDesc) \<Rightarrow>
     (case buildRequest gl inputDesc args of
        Inl err \<Rightarrow> (n, final (wrapped_failure ivk ErrCodeInvalidRequest ''build grpc request'' err))
      | Inr reqMsg \<Rightarrow>
     (case gl_NewStream gl conn ctx (gx_md e) (fullMethod e methodName) n of
        (n, Inl err) \<Rightarrow> (n, final (wrapped_failure ivk ErrCodeTransportFailure ''open grpc stream'' err))
      | (n, Inr stream) \<Rightarrow>
     (case gl_SendMsg gl stream reqMsg n of
        (n, Some err) \<Rightarrow> (n, final (wrapped_failure ivk ErrCodeTransportFailure ''send grpc request'' err))
      | (n, None) \<Rightarrow>
     (case gl_CloseSend gl stream n of
        (n, Some err) \<Rightarrow> (n, final (wrapped_failure ivk ErrCodeTransportFailure ''close send'' err))
      | (n, None) \<Rightarrow>
     (let (n, msgs, end) = gl_Recv gl stream outputDesc n;
          (progress, result) = recv_loop gl ivk (gl_ctxErr gl ctx n) end msgs (textContentOutput '''')
      in (n, \<lparr>str_progress = progress, str_final = Some result\<rparr>))))))))))"

definition GRPCExecutor_Close :: "'n grpc_lib \<Rightarrow> GRPCExecutor \<Rightarrow> 'n \<Rightarrow> 'n \<times> GRPCExecutor \<times> go_error option" where
  "GRPCExecutor_Close gl e n =
     (if gx_closed e then (n, e, gx_closeErr e)
      else
        (let (n, e) = (case gx_conn e of
               None \<Rightarrow> (n, e)
             | Some conn \<Rightarrow> (let (n, err) = gl_Close gl conn n in (n, e\<lparr>gx_closeErr := err\<rparr>)));
             e = e\<lparr>gx_closed := True\<rparr>
         in (n, e, gx_closeErr e)))"

section \<open>Schema discovery\<close>

text \<open>Waiting for the connection: the states in turn, until one decides or the deadline passes.\<close>

fun await_ready :: "conn_state list \<Rightarrow> go_error \<Rightarrow> go_error option" where
  "await_ready [] ctxErr = Some (rt_wrap ErrCodeTransportFailure ''grpc backend unreachable (timeout)'' ctxErr)"
| "await_ready (Ready # states) ctxErr = None"
| "await_ready (TransientFailure # states) ctxErr =
     Some (rt_error ErrCodeTransportFailure ''grpc backend unreachable: state=TRANSIENT_FAILURE'')"
| "await_ready (Shutdown # states) ctxErr =
     Some (rt_error ErrCodeTransportFailure ''grpc backend unreachable: state=SHUTDOWN'')"
| "await_ready (Idle # states) ctxErr = await_ready states ctxErr"
| "await_ready (Connecting # states) ctxErr = await_ready states ctxErr"

definition schema_methods ::
  "'n grpc_lib \<Rightarrow> GRPCTransportConfig \<Rightarrow> ServiceDescriptor \<Rightarrow> go_error + ToolSchema list" where
  "schema_methods gl cfg sd =
     (if grpc_Method cfg \<noteq> '''' then
        (case ByName sd (grpc_Method cfg) of
           None \<Rightarrow> Inl (rt_error ErrCodeTransportFailure
             (''method '' @ quoted (grpc_Method cfg) @ '' not found in service '' @ quoted (grpc_Service cfg)))
         | Some md \<Rightarrow>
             (case methodToSchema (gl_Marshal gl \<circ> AMap) md of Inl err \<Rightarrow> Inl err | Inr s \<Rightarrow> Inr [s]))
      else methods_schemas (gl_Marshal gl \<circ> AMap) sd)"

definition GRPC_FetchSchemas ::
  "'n grpc_lib \<Rightarrow> GRPCTransportConfig option \<Rightarrow> duration \<Rightarrow> 'n \<Rightarrow> 'n \<times> (go_error + ToolSchema list)" where
  "GRPC_FetchSchemas gl config startupTimeout n =
     (case config of
        None \<Rightarrow> (n, Inl (rt_error ErrCodeInvalidRequest ''grpc config required''))
      | Some cfg \<Rightarrow>
     (case buildDialOptions (gl_pki gl n) cfg of
        Inl err \<Rightarrow> (n, Inl err)
      | Inr dialOpts \<Rightarrow>
     (case gl_NewClient gl (grpc_Target cfg) dialOpts n of
        (n, Inl err) \<Rightarrow> (n, Inl (rt_wrap ErrCodeTransportFailure ''grpc schema dial failed'' err))
      | (n, Inr conn) \<Rightarrow>
     (let (n, r) =
       (let (n, states, ctxErr) = gl_States gl conn startupTimeout n in
       (case await_ready states ctxErr of
          Some err \<Rightarrow> (n, Inl err)
        | None \<Rightarrow>
       (case (if grpc_Reflection cfg
              then (case FetchDescriptorSetViaReflection (gl_OpenReflection gl conn) (gl_budget gl startupTimeout)
                           (grpc_Service cfg) n of
                      (n, Inl err) \<Rightarrow> (n, Inl (rt_wrap ErrCodeTransportFailure ''fetch descriptors via reflection'' err))
                    | (n, Inr fds) \<Rightarrow> (n, Inr fds))
              else (case LoadDescriptorSet (gl_ReadFile gl) (gl_UnmarshalSet gl) (grpc_DescriptorSet cfg) of
                      Inl err \<Rightarrow> (n, Inl (rt_wrap ErrCodeTransportFailure ''load descriptor set'' err))
                    | Inr fds \<Rightarrow> (n, Inr fds))) of
          (n, Inl err) \<Rightarrow> (n, Inl err)
        | (n, Inr fds) \<Rightarrow>
       (case ResolveService (gl_NewFiles gl) fds (grpc_Service cfg) of
          Inl err \<Rightarrow> (n, Inl (rt_wrap ErrCodeTransportFailure ''resolve service for schema'' err))
        | Inr sd \<Rightarrow> (n, schema_methods gl cfg sd)))))
      in (fst (gl_Close gl conn n), r)))))"

end
