(* ===== verification/Egress_Backend.thy ===== *)
theory Egress_Backend
  imports Grpc_Executor
begin

text \<open>
  The executor factory (internal/egress/factory.go and the factories of the three
  transports) and the backend it gives the session grain: a table of the
  executors created so far, over the outside world of the clients.

  The contract \<open>answering_backend\<close> states what a session needs to answer every
  invocation: an executor in use never returns without a result, and a tool that
  got an executor once gets one again. The bundled executors are shown to keep it.
\<close>

section \<open>Factories\<close>

datatype egress_executor = StdioExec sdk_executor | HTTPExec sdk_executor | GRPCExec GRPCExecutor

definition startup_timeout :: "duration \<Rightarrow> duration" where
  "startup_timeout t = (if t \<le> 0 then DefaultStartupTimeout else t)"

definition StdioExecutorFactory_Create ::
  "'n clients \<Rightarrow> duration \<Rightarrow> Tool \<Rightarrow> 'n \<Rightarrow> 'n \<times> (go_error + egress_executor option)" where
  "StdioExecutorFactory_Create cl startupTimeout tool n =
     (if tool_Transport tool \<noteq> TransportStdio \<or> tool_Stdio tool = None then (n, Inr None)
      else
        (case NewStdioExecutor cl (tool_Stdio tool) startupTimeout n of
           (n, Inl err) \<Rightarrow> (n, Inl err)
         | (n, Inr e) \<Rightarrow> (n, Inr (Some (StdioExec e)))))"

definition HTTPExecutorFactory_Create ::
  "'n clients \<Rightarrow> duration \<Rightarrow> Tool \<Rightarrow> 'n \<Rightarrow> 'n \<times> (go_error + egress_executor option)" where
  "HTTPExecutorFactory_Create cl startupTimeout tool n =
     (if tool_Transport tool \<noteq> TransportHTTP \<or> tool_HTTP tool = None then (n, Inr None)
      else
        (case NewHTTPExecutor cl (tool_HTTP tool) startupTimeout n of
           (n, Inl err) \<Rightarrow> (n, Inl err)
         | (n, Inr e) \<Rightarrow> (n, Inr (Some (HTTPExec e)))))"

definition GRPCExecutorFactory_Create ::
  "'n grpc_lib \<Rightarrow> duration \<Rightarrow> Tool \<Rightarrow> 'n \<Rightarrow> 'n \<times> (go_error + egress_executor option)" where
  "GRPCExecutorFactory_Create gl startupTimeout tool n =
     (if tool_Transport tool \<noteq> TransportGRPC \<or> tool_GRPC tool = None then (n, Inr None)
      else
        (case NewGRPCExecutor gl (tool_GRPC tool) startupTimeout n of
           (n, Inl err) \<Rightarrow> (n, Inl err)
         | (n, Inr e) \<Rightarrow> (n, Inr (Some (GRPCExec e)))))"

text \<open>
  The three factories are made with the same start-up time-out, which is replaced
  by the default when it is not positive. Credentials are not passed on.
\<close>

definition CompositeExecutorFactory_Create ::
  "'n clients \<Rightarrow> 'n grpc_lib \<Rightarrow> duration \<Rightarrow> Tool \<Rightarrow> strmap \<Rightarrow> 'n \<Rightarrow> 'n \<times> (go_error + egress_executor option)" where
  "CompositeExecutorFactory_Create cl gl startupTimeout tool creds n =
     (case tool_Transport tool of
        TransportStdio \<Rightarrow> StdioExecutorFactory_Create cl (startup_timeout startupTimeout) tool n
      | TransportHTTP \<Rightarrow> HTTPExecutorFactory_Create cl (startup_timeout startupTimeout) tool n
      | TransportGRPC \<Rightarrow> GRPCExecutorFactory_Create gl (startup_timeout startupTimeout) tool n
      | _ \<Rightarrow> (n, Inr None))"

section \<open>The backend of the session grain\<close>

record 'n egress =
  eg_execs :: "(handle, egress_executor) gomap"
  eg_net :: 'n

text \<open>Which optional interfaces an executor implements, found by type assertion.\<close>

fun capabilities :: "handle \<Rightarrow> egress_executor \<Rightarrow> executor" where
  "capabilities h (StdioExec e) = \<lparr>ex_id = h, ex_resource = True, ex_stream = False\<rparr>"
| "capabilities h (HTTPExec e) = \<lparr>ex_id = h, ex_resource = True, ex_stream = True\<rparr>"
| "capabilities h (GRPCExec e) = \<lparr>ex_id = h, ex_resource = False, ex_stream = True\<rparr>"

fun run_Execute :: "'n clients \<Rightarrow> 'n grpc_lib \<Rightarrow> egress_executor \<Rightarrow> duration \<Rightarrow> Invocation \<Rightarrow> 'n \<Rightarrow> 'n \<times> go_result" where
  "run_Execute cl gl (StdioExec e) = StdioExecutor_Execute cl e"
| "run_Execute cl gl (HTTPExec e) = HTTPExecutor_Execute cl e"
| "run_Execute cl gl (GRPCExec e) = GRPCExecutor_Execute gl e"

text \<open>Only called for an executor that implements the interface.\<close>

fun run_ReadResource :: "'n clients \<Rightarrow> egress_executor \<Rightarrow> duration \<Rightarrow> Invocation \<Rightarrow> 'n \<Rightarrow> 'n \<times> go_result" where
  "run_ReadResource cl (StdioExec e) ctx ivk n = StdioExecutor_ReadResource cl e ctx ivk n"
| "run_ReadResource cl (HTTPExec e) ctx ivk n = HTTPExecutor_ReadResource cl e ctx ivk n"
| "run_ReadResource cl (GRPCExec e) ctx ivk n = (n, None, None)"

fun run_ExecuteStream ::
  "'n clients \<Rightarrow> 'n grpc_lib \<Rightarrow> egress_executor \<Rightarrow> duration \<Rightarrow> Invocation \<Rightarrow> 'n \<Rightarrow> 'n \<times> stream_source" where
  "run_ExecuteStream cl gl (HTTPExec e) ctx ivk n = HTTPExecutor_ExecuteStream cl e ctx ivk n"
| "run_ExecuteStream cl gl (GRPCExec e) ctx ivk n = GRPCExecutor_ExecuteStream gl e ctx ivk n"
| "run_ExecuteStream cl gl (StdioExec e) ctx ivk n = (n, \<lparr>str_progress = [], str_final = None\<rparr>)"

fun run_Close :: "'n clients \<Rightarrow> 'n grpc_lib \<Rightarrow> egress_executor \<Rightarrow> 'n \<Rightarrow> 'n \<times> egress_executor" where
  "run_Close cl gl (StdioExec e) n = (let (n, e, _) = StdioExecutor_Close cl e n in (n, StdioExec e))"
| "run_Close cl gl (HTTPExec e) n = (let (n, e, _) = HTTPExecutor_Close cl e n in (n, HTTPExec e))"
| "run_Close cl gl (GRPCExec e) n = (let (n, e, _) = GRPCExecutor_Close gl e n in (n, GRPCExec e))"

text \<open>A call through a reference: a handle that was never given out has no executor.\<close>

definition on_executor :: "'a \<Rightarrow> (egress_executor \<Rightarrow> 'n \<Rightarrow> 'n \<times> 'a) \<Rightarrow> executor \<Rightarrow> 'n egress \<Rightarrow> 'n egress \<times> 'a" where
  "on_executor none f ex w =
     (case gm_get (eg_execs w) (ex_id ex) of
        None \<Rightarrow> (w, none)
      | Some e \<Rightarrow> (let (n, r) = f e (eg_net w) in (w\<lparr>eg_net := n\<rparr>, r)))"

text \<open>A new reference differs from those given out.\<close>

definition fresh_handle :: "(handle, 'e) gomap \<Rightarrow> handle" where
  "fresh_handle m = foldr (\<lambda>p h. max (Suc (fst p)) h) m 0"

definition egress_create ::
  "'n clients \<Rightarrow> 'n grpc_lib \<Rightarrow> duration \<Rightarrow> Tool \<Rightarrow> strmap \<Rightarrow> 'n egress \<Rightarrow> 'n egress \<times> (go_error + executor option)" where
  "egress_create cl gl startupTimeout tool creds w =
     (case CompositeExecutorFactory_Create cl gl startupTimeout tool creds (eg_net w) of
        (n, Inl err) \<Rightarrow> (w\<lparr>eg_net := n\<rparr>, Inl err)
      | (n, Inr None) \<Rightarrow> (w\<lparr>eg_net := n\<rparr>, Inr None)
      | (n, Inr (Some e)) \<Rightarrow>
          (let h = fresh_handle (eg_execs w)
           in (w\<lparr>eg_execs := gm_put h e (eg_execs w), eg_net := n\<rparr>, Inr (Some (capabilities h e)))))"

definition egress_backend :: "'n clients \<Rightarrow> 'n grpc_lib \<Rightarrow> duration \<Rightarrow> 'n egress backend" where
  "egress_backend cl gl startupTimeout =
     \<lparr>be_Execute = (\<lambda>ex ctx ivk. on_executor (None, None) (\<lambda>e. run_Execute cl gl e ctx ivk) ex),
      be_ReadResource = (\<lambda>ex ctx ivk. on_executor (None, None) (\<lambda>e. run_ReadResource cl e ctx ivk) ex),
      be_ExecuteStream = (\<lambda>ex ctx ivk w.
        let (w, src) = on_executor \<lparr>str_progress = [], str_final = None\<rparr> (\<lambda>e. run_ExecuteStream cl gl e ctx ivk) ex w
        in (w, Inr src)),
      be_Close = (\<lambda>ex w.
        case gm_get (eg_execs w) (ex_id ex) of
          None \<Rightarrow> w
        | Some e \<Rightarrow> (let (n, e) = run_Close cl gl e (eg_net w)
                    in w\<lparr>eg_execs := gm_put (ex_id ex) e (eg_execs w), eg_net := n\<rparr>)),
      be_Factory = Some (Some (egress_create cl gl startupTimeout))\<rparr>"

section \<open>The contract\<close>

locale answering_backend =
  fixes be :: "'w backend"
    and live :: "'w \<Rightarrow> executor \<Rightarrow> bool"
    and equipped :: "Tool \<Rightarrow> bool"
    and create :: "Tool \<Rightarrow> strmap \<Rightarrow> 'w \<Rightarrow> 'w \<times> (go_error + executor option)"
  assumes factory: "be_Factory be = Some (Some create)"
    and execute: "live w ex \<Longrightarrow> \<exists>w' r. be_Execute be ex d ivk w = (w', Some r, None) \<and>
      exec_Correlation r = inv_Correlation ivk \<and> (\<forall>ex'. live w ex' \<longrightarrow> live w' ex')"
    and read: "live w ex \<Longrightarrow> ex_resource ex \<Longrightarrow> \<exists>w' r. be_ReadResource be ex d ivk w = (w', Some r, None) \<and>
      exec_Correlation r = inv_Correlation ivk \<and> (\<forall>ex'. live w ex' \<longrightarrow> live w' ex')"
    and stream: "live w ex \<Longrightarrow> ex_stream ex \<Longrightarrow> \<exists>w' src r. be_ExecuteStream be ex d ivk w = (w', Inr src) \<and>
      str_final src = Some r \<and> exec_Correlation r = inv_Correlation ivk \<and> (\<forall>ex'. live w ex' \<longrightarrow> live w' ex')"
    and close: "live w ex \<Longrightarrow> live (be_Close be ex' w) ex"
    and makes: "create tool creds w = (w', r) \<Longrightarrow> (\<forall>ex'. live w ex' \<longrightarrow> live w' ex') \<and>
      (case r of Inl _ \<Rightarrow> True | Inr None \<Rightarrow> \<not> equipped tool | Inr (Some ex) \<Rightarrow> equipped tool \<and> live w' ex)"
begin

definition serving :: "'w \<times> sessionGrain \<Rightarrow> bool" where
  "serving s \<longleftrightarrow> (case gr_executor (snd s) of None \<Rightarrow> True | Some ex \<Rightarrow> live (fst s) ex \<and> equipped (gr_tool (snd s)))"

lemma dispatch_answers:
  assumes "live w ex"
  shows "\<exists>w' r. dispatch be d (Some ex) ivk w = (w', Some (Some r, None)) \<and>
    exec_Correlation r = inv_Correlation ivk \<and> (\<forall>ex'. live w ex' \<longrightarrow> live w' ex')"
proof (cases "inv_Method ivk = MethodResourcesRead")
  case True
  with read [OF assms, of d ivk] show ?thesis
    by (cases "ex_resource ex") (auto simp: dispatch_def executeResourceRead_def)
next
  case False
  with execute [OF assms, of d ivk] show ?thesis
    by (auto simp: dispatch_def)
qed

lemma recover_serves:
  assumes "live w ex" and "equipped (gr_tool g)" and "gr_executor g = Some ex"
  shows "\<exists>w' g' ok ex'. tryRecoverExecutor be g w = (w', g', ok) \<and> gr_executor g' = Some ex' \<and> live w' ex' \<and>
    g' = g\<lparr>gr_executor := Some ex'\<rparr> \<and> (\<not> ok \<longrightarrow> g' = g)"
proof -
  obtain w1 r where c: "create (gr_tool g) (gr_credentials g) w = (w1, r)" by (metis surj_pair)
  have "(\<exists>err. r = Inl err) \<or> (\<exists>ex'. r = Inr (Some ex') \<and> live w1 ex')"
    using makes [OF c] assms(2) by (auto split: sum.splits option.splits)
  moreover have "live w1 ex" using makes [OF c] assms(1) by blast
  moreover have "g\<lparr>gr_executor := Some ex\<rparr> = g" using assms(3) by simp
  ultimately show ?thesis
    using assms(3) by (auto simp: tryRecoverExecutor_def factory c close)
qed

lemma executeOnce_answers:
  assumes "live w ex" and "equipped (gr_tool g)" and "gr_executor g = Some ex"
  shows "\<exists>w' g' r ex'. executeOnce be d1 d2 ex ivk g w = (w', g', Some (Some r)) \<and>
    exec_Correlation r = inv_Correlation ivk \<and> g' = g\<lparr>gr_executor := Some ex'\<rparr> \<and> live w' ex'"
proof -
  have g: "g\<lparr>gr_executor := Some ex\<rparr> = g" using assms(3) by simp
  have settle: "\<exists>r'. settle_result ivk d (Some r, None) = Some r' \<and> exec_Correlation r' = inv_Correlation ivk"
    if "exec_Correlation r = inv_Correlation ivk" for d r
    using that by (simp add: settle_result_def)
  obtain w1 r1 where 1: "dispatch be (requestTimeout g) (Some ex) ivk w = (w1, Some (Some r1, None))"
      "exec_Correlation r1 = inv_Correlation ivk" "live w1 ex"
    using dispatch_answers [OF assms(1)] assms(1) by metis
  obtain w2 g2 ok ex2 where 2: "tryRecoverExecutor be g w1 = (w2, g2, ok)" "gr_executor g2 = Some ex2"
      "live w2 ex2" "g2 = g\<lparr>gr_executor := Some ex2\<rparr>" "\<not> ok \<longrightarrow> g2 = g"
    using recover_serves [OF 1(3) assms(2,3)] by blast
  obtain w3 r3 where 3: "dispatch be (requestTimeout g) (Some ex2) ivk w2 = (w3, Some (Some r3, None))"
      "exec_Correlation r3 = inv_Correlation ivk" "live w3 ex2"
    using dispatch_answers [OF 2(3)] 2(3) by metis
  obtain r1' where r1': "settle_result ivk d1 (Some r1, None) = Some r1'" "exec_Correlation r1' = inv_Correlation ivk"
    using settle [OF 1(2)] by blast
  obtain r3' where r3': "settle_result ivk d2 (Some r3, None) = Some r3'" "exec_Correlation r3' = inv_Correlation ivk"
    using settle [OF 3(2)] by blast
  consider (fine) "\<not> isTransportFailure (Some r1)" | (kept) "isTransportFailure (Some r1)" "\<not> ok"
    | (recovered) "isTransportFailure (Some r1)" ok by blast
  then show ?thesis
  proof cases
    case fine
    then have "executeOnce be d1 d2 ex ivk g w = (w1, g, Some (Some r1'))"
      by (simp add: executeOnce_def 1(1) r1'(1))
    with 1(3) r1'(2) g show ?thesis by metis
  next
    case kept
    then have "executeOnce be d1 d2 ex ivk g w = (w2, g, Some (Some r1'))"
      using 2(5) by (simp add: executeOnce_def 1(1) 2(1) r1'(1))
    with kept 2(2,3,5) assms(3) r1'(2) g show ?thesis by (metis option.inject)
  next
    case recovered
    then have "executeOnce be d1 d2 ex ivk g w = (w3, g2, Some (Some r3'))"
      by (simp add: executeOnce_def 1(1) 2(1,2) 3(1) r3'(1))
    with 2(4) 3(3) r3'(2) show ?thesis by metis
  qed
qed

lemma invoke_answers:
  assumes "serving (w, g)" and "inv_ToolID ivk = gr_toolID g"
  shows "\<exists>w' g' r ms. handleSessionInvoke be up d1 d2 (Some ivk) g w =
      (w', g', Some (SessionInvokeResult (Some r) None), ms) \<and>
    exec_Correlation r = inv_Correlation ivk \<and> serving (w', g')"
proof (cases "gr_executor g")
  case None
  with assms show ?thesis
    by (simp add: handleSessionInvoke_def stub_result_def Let_def)
next
  case (Some ex)
  with assms(1) have "live w ex" "equipped (gr_tool g)" by (simp_all add: serving_def)
  from executeOnce_answers [OF this Some, of d1 d2 ivk] obtain w' g' r ex'
    where "executeOnce be d1 d2 ex ivk g w = (w', g', Some (Some r))"
      "exec_Correlation r = inv_Correlation ivk" "g' = g\<lparr>gr_executor := Some ex'\<rparr>" "live w' ex'" by blast
  with Some assms(2) \<open>equipped (gr_tool g)\<close> show ?thesis
    by (simp add: handleSessionInvoke_def serving_def)
qed

lemma invoke_serves:
  assumes "serving (w, g)" and "handleSessionInvoke be up d1 d2 i g w = (w', g', r, ms)"
  shows "serving (w', g')"
proof (cases "\<exists>ivk. i = Some ivk \<and> inv_ToolID ivk = gr_toolID g")
  case True
  then obtain ivk where "i = Some ivk" "inv_ToolID ivk = gr_toolID g" by blast
  with invoke_answers [OF assms(1), of ivk up d1 d2] assms(2) show ?thesis by auto
next
  case False
  with assms show ?thesis by (auto simp: handleSessionInvoke_def split: option.splits)
qed

lemma invoke_stream_serves:
  assumes "serving (w, g)" and "handleSessionInvokeStream be up d1 i g w = (w', g', r, ms)"
  shows "serving (w', g')"
proof (cases "\<exists>ivk ex. i = Some ivk \<and> inv_ToolID ivk = gr_toolID g \<and> gr_executor g = Some ex")
  case False
  with assms show ?thesis
    by (auto simp: handleSessionInvokeStream_def handleSessionInvokeStreamFallback_def Let_def split: option.splits if_splits)
next
  case True
  then obtain ivk ex where i: "i = Some ivk" "inv_ToolID ivk = gr_toolID g" "gr_executor g = Some ex" by blast
  with assms(1) have l: "live w ex" "equipped (gr_tool g)" by (simp_all add: serving_def)
  have "live w' ex" "g' = g \<or> g' = g\<lparr>gr_streams := gr_streams g + 1\<rparr>"
    using assms(2) i l(1) execute [OF l(1), of "requestTimeout g" ivk] stream [OF l(1), of "requestTimeout g" ivk]
    by (cases "ex_stream ex";
        auto simp: handleSessionInvokeStream_def handleSessionInvokeStreamFallback_def Let_def)+
  with i(3) l(2) show ?thesis by (auto simp: serving_def)
qed

lemma forwardStream_grain: "fst (forwardStream up accepts ready src g) = g\<lparr>gr_streams := gr_streams g - 1\<rparr>"
  by (simp add: forwardStream_def Let_def split: prod.split)

lemma step_serves: "serving s \<Longrightarrow> serving (grain_step be s e)"
proof -
  assume inv: "serving s"
  obtain w g where s: "s = (w, g)" by (metis surj_pair)
  show ?thesis
  proof (cases e)
    case (GMessage up d1 d2 m)
    with inv show ?thesis
      unfolding s by (cases m) (auto split: prod.splits dest: invoke_serves invoke_stream_serves)
  next
    case (GStreamEnd up accepts ready src)
    with inv show ?thesis
      unfolding s by (auto simp: forwardStream_grain serving_def split: option.splits)
  qed
qed

lemma activate_serves:
  assumes "OnActivate be up deps newSessionGrain w = (w', g, ms, err)"
  shows "serving (w', g)"
proof (cases "\<exists>dep. findSessionDependency deps = Some dep \<and> \<not> IsZero (dep_toolID dep)")
  case False
  with assms show ?thesis
    by (auto simp: OnActivate_def newSessionGrain_def serving_def Let_def split: option.splits)
next
  case True
  then obtain dep where dep: "findSessionDependency deps = Some dep" "\<not> IsZero (dep_toolID dep)" by blast
  obtain w1 r where c: "create (dep_tool dep) (dep_credentials dep) w = (w1, r)" by (metis surj_pair)
  show ?thesis
    using assms dep c makes [OF c]
    by (auto simp: OnActivate_def createExecutor_def factory newSessionGrain_def serving_def Let_def
        split: sum.splits option.splits)
qed

end

sublocale answering_backend \<subseteq> served: actor_inv "grain_step be" serving
  by unfold_locales (rule step_serves)

section \<open>The bundled executors keep the contract\<close>

definition egress_live :: "'n egress \<Rightarrow> executor \<Rightarrow> bool" where
  "egress_live w ex \<longleftrightarrow> (\<exists>e. gm_get (eg_execs w) (ex_id ex) = Some e \<and> ex = capabilities (ex_id ex) e)"

definition egress_equipped :: "Tool \<Rightarrow> bool" where
  "egress_equipped tool \<longleftrightarrow>
     (case tool_Transport tool of
        TransportStdio \<Rightarrow> tool_Stdio tool \<noteq> None
      | TransportHTTP \<Rightarrow> tool_HTTP tool \<noteq> None
      | TransportGRPC \<Rightarrow> tool_GRPC tool \<noteq> None
      | _ \<Rightarrow> False)"

lemma capabilities_id [simp]: "ex_id (capabilities h e) = h"
  by (cases e) simp_all

lemma fresh_handle_new [simp]: "gm_get m (fresh_handle m) = None"
proof -
  have "p \<in> set m \<Longrightarrow> fst p < fresh_handle m" for p
    unfolding fresh_handle_def by (induction m) (auto simp: less_max_iff_disj)
  then show ?thesis by (fastforce simp: map_of_eq_None_iff)
qed

lemma sdk_execute_answers:
  "\<exists>n' r. StdioExecutor_Execute cl e ctx ivk n = (n', Some r, None) \<and> exec_Correlation r = inv_Correlation ivk"
  "\<exists>n' r. HTTPExecutor_Execute cl e ctx ivk n = (n', Some r, None) \<and> exec_Correlation r = inv_Correlation ivk"
  "\<exists>n' r. StdioExecutor_ReadResource cl e ctx ivk n = (n', Some r, None) \<and> exec_Correlation r = inv_Correlation ivk"
  "\<exists>n' r. HTTPExecutor_ReadResource cl e ctx ivk n = (n', Some r, None) \<and> exec_Correlation r = inv_Correlation ivk"
  by (auto simp: StdioExecutor_Execute_def HTTPExecutor_Execute_def StdioExecutor_ReadResource_def
      HTTPExecutor_ReadResource_def failed_result_def call_error_def Let_def
      split: option.split prod.split sum.split)

lemma grpc_execute_answers:
  "\<exists>n' r. GRPCExecutor_Execute gl e ctx ivk n = (n', Some r, None) \<and> exec_Correlation r = inv_Correlation ivk"
  by (auto simp: GRPCExecutor_Execute_def failed_result_def call_error_def success_result_def Let_def
      split: option.split prod.split sum.split)

lemma recv_loop_corr: "exec_Correlation (snd (recv_loop gl ivk ctxDone end msgs out)) = inv_Correlation ivk"
  by (induction gl ivk ctxDone "end" msgs out rule: recv_loop.induct)
    (auto simp: success_result_def call_error_def failed_result_def split: sum.split prod.split)

lemma recv_loop_correlation: "recv_loop gl ivk ctxDone end msgs out = (p, r) \<Longrightarrow> exec_Correlation r = inv_Correlation ivk"
  using recv_loop_corr [of gl ivk ctxDone "end" msgs out] by simp

lemma http_stream_answers:
  "\<exists>r. str_final (snd (HTTPExecutor_ExecuteStream cl e ctx ivk n)) = Some r \<and> exec_Correlation r = inv_Correlation ivk"
  using sdk_execute_answers(2) [of cl e ctx ivk n] by (auto simp: HTTPExecutor_ExecuteStream_def)

lemma grpc_stream_answers:
  "\<exists>r. str_final (snd (GRPCExecutor_ExecuteStream gl e ctx ivk n)) = Some r \<and> exec_Correlation r = inv_Correlation ivk"
  by (auto simp: GRPCExecutor_ExecuteStream_def failed_result_def Let_def recv_loop_correlation
      split: option.split prod.split sum.split)

lemma run_answers:
  assumes "ex = capabilities h e"
  shows "\<exists>n' r. run_Execute cl gl e ctx ivk n = (n', Some r, None) \<and> exec_Correlation r = inv_Correlation ivk"
    and "ex_resource ex \<Longrightarrow> \<exists>n' r. run_ReadResource cl e ctx ivk n = (n', Some r, None) \<and> exec_Correlation r = inv_Correlation ivk"
    and "ex_stream ex \<Longrightarrow> \<exists>r. str_final (snd (run_ExecuteStream cl gl e ctx ivk n)) = Some r \<and>
      exec_Correlation r = inv_Correlation ivk"
  using assms
  by (cases e; simp add: sdk_execute_answers grpc_execute_answers http_stream_answers grpc_stream_answers)+

lemma run_Close_capabilities: "run_Close cl gl e n = (n', e') \<Longrightarrow> capabilities h e' = capabilities h e"
  by (cases e) (auto split: prod.splits)

lemma egress_live_net [simp]: "egress_live (w\<lparr>eg_net := n\<rparr>) ex = egress_live w ex"
  by (simp add: egress_live_def)

lemma egress_live_put:
  "egress_live w ex \<Longrightarrow> (\<And>e'. gm_get (eg_execs w) h = Some e' \<Longrightarrow> capabilities h e = capabilities h e') \<Longrightarrow>
     egress_live (w\<lparr>eg_execs := gm_put h e (eg_execs w)\<rparr>) ex"
  by (auto simp: egress_live_def gomap_simps)

lemma composite_equipped:
  "CompositeExecutorFactory_Create cl gl t tool creds n = (n', Inr e) \<Longrightarrow> egress_equipped tool \<longleftrightarrow> e \<noteq> None"
  by (cases "tool_Transport tool")
    (auto simp: CompositeExecutorFactory_Create_def StdioExecutorFactory_Create_def HTTPExecutorFactory_Create_def
      GRPCExecutorFactory_Create_def egress_equipped_def split: if_splits prod.splits sum.splits)

interpretation bundled: answering_backend "egress_backend cl gl t" egress_live egress_equipped "egress_create cl gl t"
  for cl :: "'n clients" and gl :: "'n grpc_lib" and t
proof unfold_locales
  fix w :: "'n egress" and ex d ivk
  assume live: "egress_live w ex"
  obtain e where e: "gm_get (eg_execs w) (ex_id ex) = Some e" "ex = capabilities (ex_id ex) e"
    using live unfolding egress_live_def by blast
  obtain n1 r1 where "run_Execute cl gl e d ivk (eg_net w) = (n1, Some r1, None)" "exec_Correlation r1 = inv_Correlation ivk"
    using run_answers(1) [OF e(2), of cl gl d ivk "eg_net w"] by blast
  then show "\<exists>w' r. be_Execute (egress_backend cl gl t) ex d ivk w = (w', Some r, None) \<and>
      exec_Correlation r = inv_Correlation ivk \<and> (\<forall>ex'. egress_live w ex' \<longrightarrow> egress_live w' ex')"
    using e(1) by (simp add: egress_backend_def on_executor_def)
  show "\<exists>w' r. be_ReadResource (egress_backend cl gl t) ex d ivk w = (w', Some r, None) \<and>
      exec_Correlation r = inv_Correlation ivk \<and> (\<forall>ex'. egress_live w ex' \<longrightarrow> egress_live w' ex')" if res: "ex_resource ex"
  proof -
    obtain n2 r2 where "run_ReadResource cl e d ivk (eg_net w) = (n2, Some r2, None)" "exec_Correlation r2 = inv_Correlation ivk"
      using run_answers(2) [OF e(2) res, of cl d ivk "eg_net w"] by blast
    then show ?thesis using e(1) by (simp add: egress_backend_def on_executor_def)
  qed
  show "\<exists>w' src r. be_ExecuteStream (egress_backend cl gl t) ex d ivk w = (w', Inr src) \<and>
      str_final src = Some r \<and> exec_Correlation r = inv_Correlation ivk \<and>
      (\<forall>ex'. egress_live w ex' \<longrightarrow> egress_live w' ex')" if str: "ex_stream ex"
  proof -
    obtain n3 src where "run_ExecuteStream cl gl e d ivk (eg_net w) = (n3, src)" by (metis surj_pair)
    moreover from this obtain r3 where "str_final src = Some r3" "exec_Correlation r3 = inv_Correlation ivk"
      using run_answers(3) [OF e(2) str, of cl gl d ivk "eg_net w"] by auto
    ultimately show ?thesis using e(1) by (simp add: egress_backend_def on_executor_def)
  qed
  show "egress_live (be_Close (egress_backend cl gl t) ex' w) ex" for ex'
    using live by (auto simp: egress_backend_def dest: run_Close_capabilities intro!: egress_live_put
        split: option.split prod.split)
next
  fix tool creds and w w' :: "'n egress" and r
  assume c: "egress_create cl gl t tool creds w = (w', r)"
  then show "(\<forall>ex'. egress_live w ex' \<longrightarrow> egress_live w' ex') \<and>
      (case r of Inl _ \<Rightarrow> True | Inr None \<Rightarrow> \<not> egress_equipped tool
       | Inr (Some ex) \<Rightarrow> egress_equipped tool \<and> egress_live w' ex)"
    by (auto simp: egress_create_def Let_def composite_equipped egress_live_def gomap_simps
        split: prod.splits sum.splits option.splits)
qed (simp add: egress_backend_def)

section \<open>Properties\<close>

text \<open>C27: A session on the bundled executors always answers: after activation and any
  sequence of messages and stream ends, an invocation of the session's tool gets a
  result, never an error or nothing, and the result carries the invocation's
  correlation data.\<close>

theorem bundled_session_always_answers:
  assumes "OnActivate (egress_backend cl gl t) up deps newSessionGrain w = (w1, g1, ms, err)"
    and "foldl (grain_step (egress_backend cl gl t)) (w1, g1) es = (w2, g2)"
    and "inv_ToolID ivk = gr_toolID g2"
  shows "\<exists>w' g' r ms'. handleSessionInvoke (egress_backend cl gl t) up' d1 d2 (Some ivk) g2 w2 =
      (w', g', Some (SessionInvokeResult (Some r) None), ms') \<and> exec_Correlation r = inv_Correlation ivk"
proof -
  have "bundled.serving (w2, g2)"
    using bundled.served.run_keeps [OF bundled.activate_serves [OF assms(1)], where es = es and cl = cl and gl = gl and t = t] assms(2) by simp
  from bundled.invoke_answers [OF this assms(3)] show ?thesis by blast
qed

definition example_clients :: "unit clients" where
  "example_clients =
     \<lparr>cl_Connect_stdio = (\<lambda>_ _ _ _ _ n. (n, Inr 1)), cl_Connect_http = (\<lambda>_ _ n. (n, Inr 1)), cl_Environ = [],
      cl_CallTool = (\<lambda>_ _ name _ n. (n, Inr \<lparr>ctr_Content = [TextContent name], ctr_StructuredContent = ANil, ctr_IsError = False\<rparr>)),
      cl_ReadResource = (\<lambda>_ _ uri n. (n, Inr [])), cl_Close = (\<lambda>_ n. (n, None)), cl_ctxErr = (\<lambda>_ _. False),
      cl_pki = (\<lambda>_. no_pki), cl_tracing = (\<lambda>_. False), cl_httpClient = None\<rparr>"

definition example_dependency :: SessionDependency where
  "example_dependency = NewSessionDependency ''acme'' ''web'' ''fs'' example_tool []"

theorem bundled_session_always_answers_witness:
  "\<forall>gl :: unit grpc_lib. \<exists>w' g' r ms. handleSessionInvoke (egress_backend example_clients gl 0) True 1 2
       (Some (example_invocation ''acme'' ''web'' ''fs''))
       (newSessionGrain\<lparr>gr_tenantID := ''acme'', gr_clientID := ''web'', gr_toolID := ''fs'', gr_tool := example_tool,
          gr_executor := Some \<lparr>ex_id = 0, ex_resource = True, ex_stream = True\<rparr>\<rparr>)
       \<lparr>eg_execs = [(0, HTTPExec \<lparr>cx_sess = Some 1, cx_closed = False, cx_closeErr = None\<rparr>)], eg_net = ()\<rparr> =
     (w', g', Some (SessionInvokeResult (Some r) None), ms) \<and>
     exec_Correlation r = inv_Correlation (example_invocation ''acme'' ''web'' ''fs'')"
proof
  fix gl :: "unit grpc_lib"
  let ?be = "egress_backend example_clients gl 0"
  let ?g = "newSessionGrain\<lparr>gr_tenantID := ''acme'', gr_clientID := ''web'', gr_toolID := ''fs'', gr_tool := example_tool,
          gr_executor := Some \<lparr>ex_id = 0, ex_resource = True, ex_stream = True\<rparr>\<rparr>"
  let ?w = "\<lparr>eg_execs = [(0, HTTPExec \<lparr>cx_sess = Some 1, cx_closed = False, cx_closeErr = None\<rparr>)], eg_net = ()\<rparr>"
  obtain ms err where "OnActivate ?be True [Some example_dependency] newSessionGrain \<lparr>eg_execs = [], eg_net = ()\<rparr> = (?w, ?g, ms, err)"
    by (simp add: OnActivate_def findSessionDependency_def example_dependency_def NewSessionDependency_def IsZero_def
        createExecutor_def egress_backend_def egress_create_def CompositeExecutorFactory_Create_def example_tool_def
        HTTPExecutorFactory_Create_def NewHTTPExecutor_def buildHTTPClient_def example_clients_def fresh_handle_def newSessionGrain_def)
  from bundled_session_always_answers [OF this, of "[]" ?w ?g "example_invocation ''acme'' ''web'' ''fs''" True 1 2]
  show "\<exists>w' g' r ms. handleSessionInvoke ?be True 1 2 (Some (example_invocation ''acme'' ''web'' ''fs'')) ?g ?w =
     (w', g', Some (SessionInvokeResult (Some r) None), ms) \<and>
     exec_Correlation r = inv_Correlation (example_invocation ''acme'' ''web'' ''fs'')"
    by (simp add: example_invocation_def)
qed

text \<open>The credentials the broker resolves have no effect on a bundled backend: neither the
  executor that is made for a session nor any call it makes depends on them.\<close>

theorem bundled_executors_ignore_credentials:
  "CompositeExecutorFactory_Create cl gl t tool creds n = CompositeExecutorFactory_Create cl gl t tool creds' n \<and>
   run_Execute cl gl e ctx (ivk\<lparr>inv_Credentials := c\<rparr>) n = run_Execute cl gl e ctx ivk n \<and>
   run_ReadResource cl e ctx (ivk\<lparr>inv_Credentials := c\<rparr>) n = run_ReadResource cl e ctx ivk n \<and>
   run_ExecuteStream cl gl e ctx (ivk\<lparr>inv_Credentials := c\<rparr>) n = run_ExecuteStream cl gl e ctx ivk n"
proof -
  have params: "ParamsFromInvocation (Some (ivk\<lparr>inv_Credentials := c\<rparr>)) = ParamsFromInvocation (Some ivk)"
      "ResourceParamsFromInvocation (Some (ivk\<lparr>inv_Credentials := c\<rparr>)) = ResourceParamsFromInvocation (Some ivk)"
      "paramsFromInvocation (Some (ivk\<lparr>inv_Credentials := c\<rparr>)) = paramsFromInvocation (Some ivk)"
    by (simp_all add: ParamsFromInvocation_def ResourceParamsFromInvocation_def paramsFromInvocation_def Let_def split: option.split)
  have results: "failed_result (ivk\<lparr>inv_Credentials := c\<rparr>) = failed_result ivk"
      "call_error (ivk\<lparr>inv_Credentials := c\<rparr>) = call_error ivk"
      "success_result (ivk\<lparr>inv_Credentials := c\<rparr>) = success_result ivk"
    by (auto simp: failed_result_def call_error_def success_result_def fun_eq_iff)
  have "recv_loop gl (ivk\<lparr>inv_Credentials := c\<rparr>) d fin msgs out = recv_loop gl ivk d fin msgs out" for d fin msgs out
    by (induction gl ivk d fin msgs out rule: recv_loop.induct)
      (simp_all add: failed_result_def call_error_def success_result_def split: sum.split)
  with params results show ?thesis
    by (cases e) (simp_all add: CompositeExecutorFactory_Create_def StdioExecutor_Execute_def HTTPExecutor_Execute_def
        GRPCExecutor_Execute_def StdioExecutor_ReadResource_def HTTPExecutor_ReadResource_def
        HTTPExecutor_ExecuteStream_def GRPCExecutor_ExecuteStream_def Let_def split: option.split prod.split sum.split)
qed

text \<open>A streaming gRPC call whose messages all encode delivers every message as a progress
  event, in the order received, and succeeds with the last of them as its output,
  unless the stream ended with an error: then the result is a time-out when the
  request's context is done and a transport failure otherwise.\<close>

theorem grpc_stream_delivers_in_order:
  assumes "gx_conn e = Some conn" and "resolveDescriptors e (fst (paramsFromInvocation (Some ivk))) = Inr (i, out)"
    and "buildRequest gl i (snd (paramsFromInvocation (Some ivk))) = Inr req"
    and "gl_NewStream gl conn ctx (gx_md e) (fullMethod e (fst (paramsFromInvocation (Some ivk)))) n = (n1, Inr stream)"
    and "gl_SendMsg gl stream req n1 = (n2, None)" and "gl_CloseSend gl stream n2 = (n3, None)"
    and "gl_Recv gl stream out n3 = (n4, msgs, err)"
    and "map (gl_protoMarshal gl) msgs = map Inr texts"
  shows "\<exists>r. GRPCExecutor_ExecuteStream gl e ctx ivk n = (n4, \<lparr>str_progress = texts, str_final = Some r\<rparr>) \<and>
    (case err of
       None \<Rightarrow> exec_Status r = ExecutionStatusSuccess \<and>
         exec_Output r = Some (textContentOutput (if texts = [] then '''' else last texts))
     | Some _ \<Rightarrow> exec_Output r = None \<and>
         exec_Status r = (if gl_ctxErr gl ctx n4 then ExecutionStatusTimeout else ExecutionStatusFailure))"
proof -
  have loop: "\<exists>r. recv_loop gl ivk d err msgs (textContentOutput t) = (texts, r) \<and>
      (case err of
         None \<Rightarrow> exec_Status r = ExecutionStatusSuccess \<and>
           exec_Output r = Some (textContentOutput (if texts = [] then t else last texts))
       | Some _ \<Rightarrow> exec_Output r = None \<and>
           exec_Status r = (if d then ExecutionStatusTimeout else ExecutionStatusFailure))" for d t
    using assms(8)
  proof (induction msgs arbitrary: texts t)
    case Nil
    then show ?case
      by (cases err) (simp_all add: success_result_def call_error_def failed_result_def)
  next
    case (Cons msg msgs)
    then obtain t' texts' where "texts = t' # texts'" "gl_protoMarshal gl msg = Inr t'"
        "map (gl_protoMarshal gl) msgs = map Inr texts'" by (cases texts) auto
    with Cons.IH [of texts' t'] show ?case by (auto split: option.splits)
  qed
  obtain m args where p: "paramsFromInvocation (Some ivk) = (m, args)" by (metis surj_pair)
  obtain r where r: "recv_loop gl ivk (gl_ctxErr gl ctx n4) err msgs (textContentOutput '''') = (texts, r)"
      "case err of
         None \<Rightarrow> exec_Status r = ExecutionStatusSuccess \<and>
           exec_Output r = Some (textContentOutput (if texts = [] then '''' else last texts))
       | Some _ \<Rightarrow> exec_Output r = None \<and>
           exec_Status r = (if gl_ctxErr gl ctx n4 then ExecutionStatusTimeout else ExecutionStatusFailure)"
    using loop by blast
  with assms(1-7) p have "GRPCExecutor_ExecuteStream gl e ctx ivk n = (n4, \<lparr>str_progress = texts, str_final = Some r\<rparr>)"
    by (simp add: GRPCExecutor_ExecuteStream_def)
  with r(2) show ?thesis by blast
qed

definition example_service :: ServiceDescriptor where
  "example_service = [\<lparr>md_Name = ''Watch'', md_Input = \<lparr>msg_FullName = ''Req'', msg_Table = []\<rparr>,
     md_Output = \<lparr>msg_FullName = ''Ev'', msg_Table = []\<rparr>, md_LeadingComments = ''''\<rparr>]"

definition example_grpc :: "handle list \<Rightarrow> go_error option \<Rightarrow> unit grpc_lib" where
  "example_grpc msgs err =
     \<lparr>gl_pki = (\<lambda>_. no_pki), gl_NewClient = (\<lambda>_ _ n. (n, Inr 1)), gl_Close = (\<lambda>_ n. (n, None)),
      gl_States = (\<lambda>_ _ n. (n, [Ready], PlainErr ''deadline'')), gl_ReadFile = (\<lambda>_. Inr []), gl_UnmarshalSet = (\<lambda>_. Inr []),
      gl_OpenReflection = (\<lambda>_ n. (n, Inl (PlainErr ''unimplemented''))), gl_budget = (\<lambda>_. 10),
      gl_NewFiles = (\<lambda>_. Inr (\<lambda>_. Inr (ServiceDesc example_service))), gl_Marshal = (\<lambda>_. Inr ''{}''),
      gl_protoUnmarshal = (\<lambda>_ _. Inr 7), gl_protoNew = (\<lambda>_. 7), gl_protoMarshal = (\<lambda>m. Inr (replicate m CHR ''e'')),
      gl_ctxErr = (\<lambda>_ _. False), gl_Invoke = (\<lambda>_ _ _ _ _ _ n. (n, Inr 3)), gl_NewStream = (\<lambda>_ _ _ _ n. (n, Inr 5)),
      gl_SendMsg = (\<lambda>_ _ n. (n, None)), gl_CloseSend = (\<lambda>_ n. (n, None)), gl_Recv = (\<lambda>_ _ n. (n, msgs, err))\<rparr>"

theorem grpc_stream_delivers_in_order_witness:
  "\<exists>r. GRPCExecutor_ExecuteStream (example_grpc [1, 2] None)
      \<lparr>gx_conn = Some 1, gx_service = ''S'', gx_method = '''', gx_md = [], gx_serviceDesc = Some example_service,
       gx_inputDesc = None, gx_outputDesc = None, gx_closed = False, gx_closeErr = None\<rparr> 0
      ((example_invocation ''acme'' ''web'' ''fs'')\<lparr>inv_Params := Some [(''name'', AString ''Watch'')]\<rparr>) () =
     ((), \<lparr>str_progress = [''e'', ''ee''], str_final = Some r\<rparr>) \<and>
     exec_Output r = Some (textContentOutput ''ee'')"
proof -
  let ?gl = "example_grpc [1, 2] None"
  let ?e = "\<lparr>gx_conn = Some 1, gx_service = ''S'', gx_method = '''', gx_md = [], gx_serviceDesc = Some example_service,
       gx_inputDesc = None, gx_outputDesc = None, gx_closed = False, gx_closeErr = None\<rparr>"
  let ?ivk = "(example_invocation ''acme'' ''web'' ''fs'')\<lparr>inv_Params := Some [(''name'', AString ''Watch'')]\<rparr>"
  have p: "paramsFromInvocation (Some ?ivk) = (''Watch'', ANil)"
    by (simp add: paramsFromInvocation_def any_of_def)
  have "\<exists>r. GRPCExecutor_ExecuteStream ?gl ?e 0 ?ivk () = ((), \<lparr>str_progress = [''e'', ''ee''], str_final = Some r\<rparr>) \<and>
      (case (None :: go_error option) of
         None \<Rightarrow> exec_Status r = ExecutionStatusSuccess \<and>
           exec_Output r = Some (textContentOutput (if [''e'', ''ee''] = [] then '''' else last [''e'', ''ee'']))
       | Some _ \<Rightarrow> exec_Output r = None \<and>
           exec_Status r = (if gl_ctxErr ?gl 0 () then ExecutionStatusTimeout else ExecutionStatusFailure))"
    by (rule grpc_stream_delivers_in_order [where conn = 1 and msgs = "[1, 2]" and ?n1.0 = "()" and ?n2.0 = "()" and ?n3.0 = "()"
          and i = "md_Input (hd example_service)" and out = "md_Output (hd example_service)" and req = 7 and stream = 5])
      (unfold p, simp_all add: resolveDescriptors_def ByName_def example_service_def buildRequest_def example_grpc_def
        numeral_2_eq_2)
  then show ?thesis by auto
qed

section \<open>Transport security\<close>

text \<open>The TLS settings a transport dials with.\<close>

fun dialled_tls :: "RoundTripper \<Rightarrow> tls_Config option" where
  "dialled_tls (http_Transport _ cfg) = cfg"
| "dialled_tls (otel_Transport t) = dialled_tls t"
| "dialled_tls (other_RoundTripper _) = None"

lemma wrapTransport_tls [simp]: "dialled_tls (wrapTransport tracing t) = dialled_tls t"
  by (simp add: wrapTransport_def)

lemma buildHTTPClient_tls:
  assumes "buildHTTPClient pk c fallback = Inr hc" and "http_TLS c = Some s"
  shows "\<exists>cfg t. hc_Transport (instrumented tracing hc) = Some t \<and> dialled_tls t = Some cfg \<and> client_config_for pk s cfg"
  using assms client_config_sound [of pk s]
  by (auto simp: buildHTTPClient_def instrumented_def Let_def split: sum.splits RoundTripper.splits)

lemma buildHTTPClient_refuses:
  assumes "\<nexists>cfg. client_config_for pk s cfg" and "http_TLS c = Some s"
  shows "\<exists>err. buildHTTPClient pk c fallback = Inl err"
  using assms client_config_sound [of pk s]
  by (auto simp: buildHTTPClient_def split: sum.splits)

lemma buildDialOptions_tls:
  assumes "buildDialOptions pk g = Inr opts" and "grpc_TLS g = Some s"
  shows "\<exists>cfg. opts = NewTLS cfg \<and> client_config_for pk s cfg"
  using assms client_config_sound [of pk s]
  by (auto simp: buildDialOptions_def split: sum.splits option.splits)

lemma buildDialOptions_refuses:
  assumes "\<nexists>cfg. client_config_for pk s cfg" and "grpc_TLS g = Some s"
  shows "\<exists>err. buildDialOptions pk g = Inl err"
  using assms client_config_sound [of pk s]
  by (auto simp: buildDialOptions_def split: sum.splits option.splits)

text \<open>C33: A tool with TLS settings is reached under them or not at all: an HTTP executor is made only
  by connecting to the tool's URL with a configuration that honours the settings, a
  gRPC executor only by dialling its target with one, and when the settings cannot be
  honoured, no connection is attempted.\<close>

theorem tool_connections_honour_tls:
  assumes "http_TLS c = Some s" and "grpc_TLS g = Some s"
  shows "(NewHTTPExecutor cl (Some c) timeout n = (n', Inr ex) \<longrightarrow>
      (\<exists>tr t cfg sess. cl_Connect_http cl tr timeout n = (n', Inr sess) \<and> ct_Endpoint tr = http_URL c \<and>
         hc_Transport (ct_HTTPClient tr) = Some t \<and> dialled_tls t = Some cfg \<and> client_config_for (cl_pki cl n) s cfg)) \<and>
    ((\<nexists>cfg. client_config_for (cl_pki cl n) s cfg) \<longrightarrow> (\<exists>err. NewHTTPExecutor cl (Some c) timeout n = (n, Inl err))) \<and>
    (NewGRPCExecutor gl (Some g) timeout n = (n'', Inr gx) \<longrightarrow>
      (\<exists>cfg conn n1. gl_NewClient gl (grpc_Target g) (NewTLS cfg) n = (n1, Inr conn) \<and> client_config_for (gl_pki gl n) s cfg)) \<and>
    ((\<nexists>cfg. client_config_for (gl_pki gl n) s cfg) \<longrightarrow> (\<exists>err. NewGRPCExecutor gl (Some g) timeout n = (n, Inl err)))"
proof (intro conjI impI)
  assume "NewHTTPExecutor cl (Some c) timeout n = (n', Inr ex)"
  then show "\<exists>tr t cfg sess. cl_Connect_http cl tr timeout n = (n', Inr sess) \<and> ct_Endpoint tr = http_URL c \<and>
         hc_Transport (ct_HTTPClient tr) = Some t \<and> dialled_tls t = Some cfg \<and> client_config_for (cl_pki cl n) s cfg"
    using assms(1) buildHTTPClient_tls [of "cl_pki cl n" c "cl_httpClient cl" _ s "cl_tracing cl n"]
    by (fastforce simp: NewHTTPExecutor_def split: if_splits sum.splits prod.splits)
next
  assume "\<nexists>cfg. client_config_for (cl_pki cl n) s cfg"
  from buildHTTPClient_refuses [OF this assms(1), of "cl_httpClient cl"] show "\<exists>err. NewHTTPExecutor cl (Some c) timeout n = (n, Inl err)"
    by (auto simp: NewHTTPExecutor_def)
next
  assume "NewGRPCExecutor gl (Some g) timeout n = (n'', Inr gx)"
  then obtain opts n1 conn where "buildDialOptions (gl_pki gl n) g = Inr opts"
      "gl_NewClient gl (grpc_Target g) opts n = (n1, Inr conn)"
    by (auto simp: NewGRPCExecutor_def split: if_splits sum.splits prod.splits)
  with buildDialOptions_tls assms(2)
  show "\<exists>cfg conn n1. gl_NewClient gl (grpc_Target g) (NewTLS cfg) n = (n1, Inr conn) \<and> client_config_for (gl_pki gl n) s cfg"
    by blast
next
  assume "\<nexists>cfg. client_config_for (gl_pki gl n) s cfg"
  from buildDialOptions_refuses [OF this assms(2)] show "\<exists>err. NewGRPCExecutor gl (Some g) timeout n = (n, Inl err)"
    by (auto simp: NewGRPCExecutor_def)
qed

text \<open>The settings name a CA file that does not exist.\<close>

definition example_tls :: TLSClientConfig where
  "example_tls = \<lparr>tls_CACertFile = ''ca.pem'', tls_ClientCertFile = '''', tls_ClientKeyFile = '''', tls_InsecureSkipVerify = False\<rparr>"

theorem tool_connections_honour_tls_witness:
  "\<exists>err. NewHTTPExecutor example_clients
     (Some \<lparr>http_URL = ''https://fs'', http_TLS = Some example_tls, http_OAuthHandler = None\<rparr>) second () = ((), Inl err)"
proof -
  have "\<nexists>cfg. client_config_for (cl_pki example_clients ()) example_tls cfg"
    by (simp add: client_config_for_def trusts_file_def example_clients_def example_tls_def no_pki_def)
  with tool_connections_honour_tls
    [of "\<lparr>http_URL = ''https://fs'', http_TLS = Some example_tls, http_OAuthHandler = None\<rparr>" example_tls
        "\<lparr>grpc_Target = ''t'', grpc_Service = ''s'', grpc_Method = '''', grpc_DescriptorSet = '''', grpc_Reflection = True,
          grpc_TLS = Some example_tls, grpc_Metadata = []\<rparr>" example_clients second "()"]
  show ?thesis by simp
qed

end
