(* ===== verification/Schema_Fetch.thy ===== *)
theory Schema_Fetch
  imports Egress_Backend
begin

text \<open>
  Discovery of a tool's schemas and resources: the conversion of the protocol's
  lists (internal/egress/schemaconv), the fetchers for the stdio and HTTP
  transports, which open a session, list and close it again, and the composite
  fetchers that pick one by transport (internal/egress/schema.go, resource.go).
\<close>

section \<open>Conversion (schemaconv)\<close>

text \<open>An input schema is nil, raw JSON, or another value that has to be encoded.\<close>

datatype input_schema = NoSchema | RawSchema string | SchemaValue any

record sdk_tool =
  st_Name :: string
  st_Description :: string
  st_InputSchema :: input_schema

fun MarshalInputSchema :: "(any \<Rightarrow> go_error + string) \<Rightarrow> input_schema \<Rightarrow> string option" where
  "MarshalInputSchema marshal NoSchema = None"
| "MarshalInputSchema marshal (RawSchema raw) = Some raw"
| "MarshalInputSchema marshal (SchemaValue v) = (case marshal v of Inl err \<Rightarrow> None | Inr data \<Rightarrow> Some data)"

definition SDKToolsToSchemas :: "(any \<Rightarrow> go_error + string) \<Rightarrow> sdk_tool option list \<Rightarrow> ToolSchema list" where
  "SDKToolsToSchemas marshal tools =
     map (\<lambda>t. \<lparr>schema_Name = st_Name t, schema_Description = st_Description t,
                schema_InputSchema = MarshalInputSchema marshal (st_InputSchema t)\<rparr>)
       (List.map_filter id tools)"

text \<open>The protocol's resources and templates carry the same four strings.\<close>

type_synonym sdk_resource = "string \<times> string \<times> string \<times> string"

definition SDKResourcesToSchemas :: "sdk_resource option list \<Rightarrow> ResourceSchema list" where
  "SDKResourcesToSchemas resources =
     map (\<lambda>(uri, name, description, mime).
       \<lparr>res_URI = uri, res_Name = name, res_Description = description, res_MIMEType = mime\<rparr>)
       (List.map_filter id resources)"

definition SDKResourceTemplatesToSchemas :: "sdk_resource option list \<Rightarrow> ResourceTemplateSchema list" where
  "SDKResourceTemplatesToSchemas templates =
     map (\<lambda>(uri, name, description, mime).
       \<lparr>tmpl_URITemplate = uri, tmpl_Name = name, tmpl_Description = description, tmpl_MIMEType = mime\<rparr>)
       (List.map_filter id templates)"

section \<open>Fetchers\<close>

record 'n discovery_clients = "'n clients" +
  cl_ListTools :: "handle \<Rightarrow> duration \<Rightarrow> 'n \<Rightarrow> 'n \<times> (go_error + sdk_tool option list)"
  cl_ListResources :: "handle \<Rightarrow> duration \<Rightarrow> 'n \<Rightarrow> 'n \<times> (go_error + sdk_resource option list)"
  cl_ListResourceTemplates :: "handle \<Rightarrow> duration \<Rightarrow> 'n \<Rightarrow> 'n \<times> (go_error + sdk_resource option list)"
  cl_MarshalSchema :: "any \<Rightarrow> go_error + string"

definition Stdio_FetchSchemas ::
  "'n discovery_clients \<Rightarrow> StdioTransportConfig option \<Rightarrow> duration \<Rightarrow> 'n \<Rightarrow> 'n \<times> (go_error + ToolSchema list)" where
  "Stdio_FetchSchemas cl cfg startupTimeout n =
     (case cfg of
        None \<Rightarrow> (n, Inl (rt_error ErrCodeInvalidRequest ''stdio config required''))
      | Some c \<Rightarrow>
     if stdio_Command c = '''' then (n, Inl (rt_error ErrCodeInvalidRequest ''stdio config required''))
     else
     (case cl_Connect_stdio cl (stdio_Command c) (stdio_Args c) (stdio_WorkingDirectory c)
             (envSlice (cl_Environ cl) (stdio_Env c)) startupTimeout n of
        (n, Inl err) \<Rightarrow> (n, Inl (rt_wrap ErrCodeTransportFailure ''stdio schema connect failed'' err))
      | (n, Inr sess) \<Rightarrow>
          (let (n, r) = (case cl_ListTools cl sess startupTimeout n of
                 (n, Inl err) \<Rightarrow> (n, Inl (rt_wrap ErrCodeTransportFailure ''stdio list tools failed'' err))
               | (n, Inr tools) \<Rightarrow> (n, Inr (SDKToolsToSchemas (cl_MarshalSchema cl) tools)))
           in (fst (cl_Close cl sess n), r))))"

definition HTTP_FetchSchemas ::
  "'n discovery_clients \<Rightarrow> HTTPTransportConfig option \<Rightarrow> duration \<Rightarrow> 'n \<Rightarrow> 'n \<times> (go_error + ToolSchema list)" where
  "HTTP_FetchSchemas cl cfg startupTimeout n =
     (case cfg of
        None \<Rightarrow> (n, Inl (rt_error ErrCodeInvalidRequest ''http config required''))
      | Some c \<Rightarrow>
     if http_URL c = '''' then (n, Inl (rt_error ErrCodeInvalidRequest ''http config required''))
     else
     (case buildHTTPClient (cl_pki cl n) c (cl_httpClient cl) of
        Inl err \<Rightarrow> (n, Inl err)
      | Inr httpClient \<Rightarrow>
     (case cl_Connect_http cl
         \<lparr>ct_Endpoint = http_URL c, ct_HTTPClient = instrumented (cl_tracing cl n) httpClient,
          ct_MaxRetries = 0, ct_OAuthHandler = None\<rparr> startupTimeout n of
        (n, Inl err) \<Rightarrow> (n, Inl (rt_wrap ErrCodeTransportFailure ''http schema connect failed'' err))
      | (n, Inr sess) \<Rightarrow>
          (let (n, r) = (case cl_ListTools cl sess startupTimeout n of
                 (n, Inl err) \<Rightarrow> (n, Inl (rt_wrap ErrCodeTransportFailure ''http list tools failed'' err))
               | (n, Inr tools) \<Rightarrow> (n, Inr (SDKToolsToSchemas (cl_MarshalSchema cl) tools)))
           in (fst (cl_Close cl sess n), r)))))"

text \<open>A server without resources answers with an error, which counts as no resources.\<close>

definition list_resources ::
  "'n discovery_clients \<Rightarrow> handle \<Rightarrow> duration \<Rightarrow> 'n \<Rightarrow> 'n \<times> ResourceSchema list \<times> ResourceTemplateSchema list" where
  "list_resources cl sess ctx n =
     (let (n, res) = cl_ListResources cl sess ctx n;
          resources = (case res of Inl err \<Rightarrow> [] | Inr rs \<Rightarrow> SDKResourcesToSchemas rs);
          (n, tmpl) = cl_ListResourceTemplates cl sess ctx n;
          templates = (case tmpl of Inl err \<Rightarrow> [] | Inr ts \<Rightarrow> SDKResourceTemplatesToSchemas ts)
      in (n, resources, templates))"

definition Stdio_FetchResources ::
  "'n discovery_clients \<Rightarrow> StdioTransportConfig option \<Rightarrow> duration \<Rightarrow> 'n \<Rightarrow>
     'n \<times> (go_error + ResourceSchema list \<times> ResourceTemplateSchema list)" where
  "Stdio_FetchResources cl cfg startupTimeout n =
     (case cfg of
        None \<Rightarrow> (n, Inl (rt_error ErrCodeInvalidRequest ''stdio config required''))
      | Some c \<Rightarrow>
     if stdio_Command c = '''' then (n, Inl (rt_error ErrCodeInvalidRequest ''stdio config required''))
     else
     (case cl_Connect_stdio cl (stdio_Command c) (stdio_Args c) (stdio_WorkingDirectory c)
             (envSlice (cl_Environ cl) (stdio_Env c)) startupTimeout n of
        (n, Inl err) \<Rightarrow> (n, Inl (rt_wrap ErrCodeTransportFailure ''stdio resource connect failed'' err))
      | (n, Inr sess) \<Rightarrow>
          (let (n, rs, ts) = list_resources cl sess startupTimeout n in (fst (cl_Close cl sess n), Inr (rs, ts)))))"

definition HTTP_FetchResources ::
  "'n discovery_clients \<Rightarrow> HTTPTransportConfig option \<Rightarrow> duration \<Rightarrow> 'n \<Rightarrow>
     'n \<times> (go_error + ResourceSchema list \<times> ResourceTemplateSchema list)" where
  "HTTP_FetchResources cl cfg startupTimeout n =
     (case cfg of
        None \<Rightarrow> (n, Inl (rt_error ErrCodeInvalidRequest ''http config required''))
      | Some c \<Rightarrow>
     if http_URL c = '''' then (n, Inl (rt_error ErrCodeInvalidRequest ''http config required''))
     else
     (case buildHTTPClient (cl_pki cl n) c (cl_httpClient cl) of
        Inl err \<Rightarrow> (n, Inl err)
      | Inr httpClient \<Rightarrow>
     (case cl_Connect_http cl
         \<lparr>ct_Endpoint = http_URL c, ct_HTTPClient = instrumented (cl_tracing cl n) httpClient,
          ct_MaxRetries = 0, ct_OAuthHandler = None\<rparr> startupTimeout n of
        (n, Inl err) \<Rightarrow> (n, Inl (rt_wrap ErrCodeTransportFailure ''http resource connect failed'' err))
      | (n, Inr sess) \<Rightarrow>
          (let (n, rs, ts) = list_resources cl sess startupTimeout n in (fst (cl_Close cl sess n), Inr (rs, ts))))))"

definition GRPC_FetchResources ::
  "GRPCTransportConfig option \<Rightarrow> duration \<Rightarrow> go_error + ResourceSchema list \<times> ResourceTemplateSchema list" where
  "GRPC_FetchResources cfg startupTimeout = Inr ([], [])"

fun transport_string :: "TransportType \<Rightarrow> string" where
  "transport_string TransportStdio = ''stdio''"
| "transport_string TransportHTTP = ''http''"
| "transport_string TransportGRPC = ''grpc''"
| "transport_string (TransportOther s) = s"

definition CompositeSchemaFetcher_FetchSchemas ::
  "'n discovery_clients \<Rightarrow> 'n grpc_lib \<Rightarrow> duration \<Rightarrow> Tool \<Rightarrow> 'n \<Rightarrow> 'n \<times> (go_error + ToolSchema list)" where
  "CompositeSchemaFetcher_FetchSchemas cl gl startupTimeout tool n =
     (let timeout = startup_timeout startupTimeout
      in case tool_Transport tool of
           TransportStdio \<Rightarrow> Stdio_FetchSchemas cl (tool_Stdio tool) timeout n
         | TransportHTTP \<Rightarrow> HTTP_FetchSchemas cl (tool_HTTP tool) timeout n
         | TransportGRPC \<Rightarrow> GRPC_FetchSchemas gl (tool_GRPC tool) timeout n
         | _ \<Rightarrow> (n, Inl (PlainErr (''unsupported transport type '' @ quoted (transport_string (tool_Transport tool)) @
                  '' for schema fetch''))))"

definition CompositeResourceFetcher_FetchResources ::
  "'n discovery_clients \<Rightarrow> duration \<Rightarrow> Tool \<Rightarrow> 'n \<Rightarrow> 'n \<times> (go_error + ResourceSchema list \<times> ResourceTemplateSchema list)" where
  "CompositeResourceFetcher_FetchResources cl startupTimeout tool n =
     (let timeout = startup_timeout startupTimeout
      in case tool_Transport tool of
           TransportStdio \<Rightarrow> Stdio_FetchResources cl (tool_Stdio tool) timeout n
         | TransportHTTP \<Rightarrow> HTTP_FetchResources cl (tool_HTTP tool) timeout n
         | TransportGRPC \<Rightarrow> (n, GRPC_FetchResources (tool_GRPC tool) timeout)
         | _ \<Rightarrow> (n, Inl (PlainErr (''unsupported transport type '' @ quoted (transport_string (tool_Transport tool)) @
                  '' for resource fetch''))))"

section \<open>No connection is left open\<close>

text \<open>
  \<open>opens\<close> reads the number of open sessions and connections off the world. The clients
  keep it when connecting adds one on success only, closing takes one away, and
  every other call leaves it.
\<close>

definition counted :: "'n discovery_clients \<Rightarrow> 'n grpc_lib \<Rightarrow> ('n \<Rightarrow> int) \<Rightarrow> bool" where
  "counted cl gl opens \<longleftrightarrow>
     (\<forall>c a d e t n. opens (fst (cl_Connect_stdio cl c a d e t n)) =
        opens n + (case snd (cl_Connect_stdio cl c a d e t n) of Inl _ \<Rightarrow> 0 | Inr _ \<Rightarrow> 1)) \<and>
     (\<forall>c t n. opens (fst (cl_Connect_http cl c t n)) =
        opens n + (case snd (cl_Connect_http cl c t n) of Inl _ \<Rightarrow> 0 | Inr _ \<Rightarrow> 1)) \<and>
     (\<forall>c k n. opens (fst (gl_NewClient gl c k n)) = opens n + (case snd (gl_NewClient gl c k n) of Inl _ \<Rightarrow> 0 | Inr _ \<Rightarrow> 1)) \<and>
     (\<forall>s n. opens (fst (cl_Close cl s n)) = opens n - 1) \<and> (\<forall>s n. opens (fst (gl_Close gl s n)) = opens n - 1) \<and>
     (\<forall>s t n. opens (fst (cl_ListTools cl s t n)) = opens n) \<and>
     (\<forall>s t n. opens (fst (cl_ListResources cl s t n)) = opens n) \<and>
     (\<forall>s t n. opens (fst (cl_ListResourceTemplates cl s t n)) = opens n) \<and>
     (\<forall>s t n. opens (fst (gl_States gl s t n)) = opens n) \<and>
     (\<forall>s n. opens (fst (gl_OpenReflection gl s n)) = opens n) \<and>
     (\<forall>s n rf. snd (gl_OpenReflection gl s n) = Inr rf \<longrightarrow>
        (\<forall>q n. opens (fst (rf_Send rf q n)) = opens n) \<and> (\<forall>n. opens (fst (rf_Recv rf n)) = opens n))"

lemma request_missing_world:
  assumes "\<forall>q n. opens (fst (rf_Send rf q n)) = opens n" and "\<forall>n. opens (fst (rf_Recv rf n)) = opens n"
  shows "opens (fst (snd (request_missing rf budget names known files n))) = opens n"
proof -
  have one: "opens (fst (request_file rf name known files n)) = opens n" for name known files n
    using assms(1) [rule_format, of "FileByFilename name" n] assms(2)
    by (auto simp: request_file_def split: prod.split option.split sum.split reflection_response.split)
       (metis fst_conv)+
  show ?thesis
  proof (induction names arbitrary: budget known files n)
    case (Cons name names)
    obtain n1 r1 where r1: "request_file rf name known files n = (n1, r1)" by (metis surj_pair)
    then have "opens n1 = opens n" using one [of name known files n] by simp
    with r1 Cons.IH show ?case by (cases budget; cases r1) auto
  qed simp
qed

lemma fetch_rounds_world:
  assumes "\<forall>q n. opens (fst (rf_Send rf q n)) = opens n" and "\<forall>n. opens (fst (rf_Recv rf n)) = opens n"
  shows "opens (fst (fetch_rounds rf budget known files n)) = opens n"
proof (induction budget arbitrary: known files n rule: less_induct)
  case (less budget)
  let ?missing = "missing_deps known files"
  obtain b n1 r where req: "request_missing rf budget ?missing known files n = (b, n1, r)" by (metis surj_pair)
  have "opens n1 = opens n"
    using request_missing_world [OF assms, of budget ?missing known files n] req by simp
  moreover have "?missing \<noteq> [] \<Longrightarrow> r = Inr kf \<Longrightarrow> b < budget" for kf
    using request_missing_budget [OF req] by blast
  ultimately show ?case
    using less.IH req by (subst fetch_rounds.simps) (auto simp: Let_def split: sum.split)
qed

lemma reflection_world:
  assumes "\<forall>n. opens (fst (openStream n)) = opens n"
    and "\<forall>n rf. snd (openStream n) = Inr rf \<longrightarrow>
      (\<forall>q n. opens (fst (rf_Send rf q n)) = opens n) \<and> (\<forall>n. opens (fst (rf_Recv rf n)) = opens n)"
  shows "opens (fst (FetchDescriptorSetViaReflection openStream budget service n)) = opens n"
proof -
  obtain n1 r1 where o: "openStream n = (n1, r1)" by (metis surj_pair)
  have n1: "opens n1 = opens n" using assms(1) o by (metis fst_conv)
  show ?thesis
  proof (cases r1)
    case (Inl err)
    with o n1 show ?thesis by (simp add: FetchDescriptorSetViaReflection_def)
  next
    case (Inr rf)
    with o assms(2) have rf: "\<forall>q n. opens (fst (rf_Send rf q n)) = opens n" "\<forall>n. opens (fst (rf_Recv rf n)) = opens n"
      by (metis snd_conv)+
    obtain n2 e2 where s: "rf_Send rf (FileContainingSymbol service) n1 = (n2, e2)" by (metis surj_pair)
    obtain n3 r3 where r: "rf_Recv rf n2 = (n3, r3)" by (metis surj_pair)
    have "opens n2 = opens n" "opens n3 = opens n" using n1 rf s r by (metis fst_conv)+
    with o Inr s r fetch_rounds_world [OF rf] show ?thesis
      by (auto simp: FetchDescriptorSetViaReflection_def fetchDependencies_def
          split: option.split sum.split reflection_response.split)
  qed
qed

lemma counted_steps:
  assumes "counted cl gl opens"
  shows "cl_Connect_stdio cl c a d e t n = (n', Inl err) \<Longrightarrow> opens n' = opens n"
    and "cl_Connect_stdio cl c a d e t n = (n', Inr s) \<Longrightarrow> opens n' = opens n + 1"
    and "cl_Connect_http cl h t n = (n', Inl err) \<Longrightarrow> opens n' = opens n"
    and "cl_Connect_http cl h t n = (n', Inr s) \<Longrightarrow> opens n' = opens n + 1"
    and "gl_NewClient gl g k n = (n', Inl err) \<Longrightarrow> opens n' = opens n"
    and "gl_NewClient gl g k n = (n', Inr s) \<Longrightarrow> opens n' = opens n + 1"
    and "opens (fst (cl_Close cl s n)) = opens n - 1"
    and "opens (fst (gl_Close gl s n)) = opens n - 1"
    and "cl_ListTools cl s t n = (n', tools) \<Longrightarrow> opens n' = opens n"
    and "cl_ListResources cl s t n = (n', rs) \<Longrightarrow> opens n' = opens n"
    and "cl_ListResourceTemplates cl s t n = (n', ts) \<Longrightarrow> opens n' = opens n"
    and "gl_States gl s t n = (n', states) \<Longrightarrow> opens n' = opens n"
    and "FetchDescriptorSetViaReflection (gl_OpenReflection gl s) b v n = (n', fds) \<Longrightarrow> opens n' = opens n"
proof -
  note c = assms [unfolded counted_def]
  from c have "opens (fst (cl_Connect_stdio cl c a d e t n)) =
        opens n + (case snd (cl_Connect_stdio cl c a d e t n) of Inl _ \<Rightarrow> 0 | Inr _ \<Rightarrow> 1)"
    by (elim conjE) blast
  then show "cl_Connect_stdio cl c a d e t n = (n', Inl err) \<Longrightarrow> opens n' = opens n"
    and "cl_Connect_stdio cl c a d e t n = (n', Inr s) \<Longrightarrow> opens n' = opens n + 1" by simp_all
  from c have "opens (fst (cl_Connect_http cl h t n)) =
        opens n + (case snd (cl_Connect_http cl h t n) of Inl _ \<Rightarrow> 0 | Inr _ \<Rightarrow> 1)"
    by (elim conjE) blast
  then show "cl_Connect_http cl h t n = (n', Inl err) \<Longrightarrow> opens n' = opens n"
    and "cl_Connect_http cl h t n = (n', Inr s) \<Longrightarrow> opens n' = opens n + 1" by simp_all
  from c have "opens (fst (gl_NewClient gl g k n)) = opens n + (case snd (gl_NewClient gl g k n) of Inl _ \<Rightarrow> 0 | Inr _ \<Rightarrow> 1)"
    by (elim conjE) blast
  then show "gl_NewClient gl g k n = (n', Inl err) \<Longrightarrow> opens n' = opens n"
    and "gl_NewClient gl g k n = (n', Inr s) \<Longrightarrow> opens n' = opens n + 1" by simp_all
  from c show "opens (fst (cl_Close cl s n)) = opens n - 1" by (elim conjE) blast
  from c show "opens (fst (gl_Close gl s n)) = opens n - 1" by (elim conjE) blast
  from c have "opens (fst (cl_ListTools cl s t n)) = opens n" by (elim conjE) simp
  then show "cl_ListTools cl s t n = (n', tools) \<Longrightarrow> opens n' = opens n" by simp
  from c have "opens (fst (cl_ListResources cl s t n)) = opens n" by (elim conjE) simp
  then show "cl_ListResources cl s t n = (n', rs) \<Longrightarrow> opens n' = opens n" by simp
  from c have "opens (fst (cl_ListResourceTemplates cl s t n)) = opens n" by (elim conjE) simp
  then show "cl_ListResourceTemplates cl s t n = (n', ts) \<Longrightarrow> opens n' = opens n" by simp
  from c have "opens (fst (gl_States gl s t n)) = opens n" by (elim conjE) simp
  then show "gl_States gl s t n = (n', states) \<Longrightarrow> opens n' = opens n" by simp
  have "opens (fst (FetchDescriptorSetViaReflection (gl_OpenReflection gl s) b v n)) = opens n"
    by (rule reflection_world) (use c in \<open>elim conjE, blast\<close>)+
  then show "FetchDescriptorSetViaReflection (gl_OpenReflection gl s) b v n = (n', fds) \<Longrightarrow> opens n' = opens n" by simp
qed

lemma sdk_fetch_counts:
  assumes "counted cl gl opens"
  shows "opens (fst (Stdio_FetchSchemas cl sc t n)) = opens n"
    and "opens (fst (HTTP_FetchSchemas cl hc t n)) = opens n"
    and "opens (fst (Stdio_FetchResources cl sc t n)) = opens n"
    and "opens (fst (HTTP_FetchResources cl hc t n)) = opens n"
  by (auto simp: Stdio_FetchSchemas_def HTTP_FetchSchemas_def Stdio_FetchResources_def HTTP_FetchResources_def
      list_resources_def counted_steps [OF assms] Let_def split: option.split prod.split sum.split
      dest!: counted_steps(1-6,9-11) [OF assms])

lemma grpc_fetch_counts:
  assumes "counted cl gl opens"
  shows "opens (fst (GRPC_FetchSchemas gl gc t n)) = opens n"
  by (auto simp: GRPC_FetchSchemas_def counted_steps(8) [OF assms] Let_def split: option.split prod.split sum.split
      dest!: counted_steps(5,6,12,13) [OF assms])

text \<open>C36: Discovery leaves no session or connection open: for every transport, whatever the
  outcome, the number of open ones after a fetch of schemas or resources is the
  number before.\<close>

theorem discovery_closes_connections:
  assumes "counted cl gl opens"
  shows "opens (fst (CompositeSchemaFetcher_FetchSchemas cl gl t tool n)) = opens n \<and>
    opens (fst (CompositeResourceFetcher_FetchResources cl t tool n)) = opens n"
  using sdk_fetch_counts [OF assms] grpc_fetch_counts [OF assms]
  by (cases "tool_Transport tool")
    (simp_all add: CompositeSchemaFetcher_FetchSchemas_def CompositeResourceFetcher_FetchResources_def Let_def)

definition counting_clients :: "int discovery_clients" where
  "counting_clients =
     \<lparr>cl_Connect_stdio = (\<lambda>_ _ _ _ _ n. (n + 1, Inr 1)), cl_Connect_http = (\<lambda>_ _ n. (n + 1, Inr 1)), cl_Environ = [],
      cl_CallTool = (\<lambda>_ _ _ _ n. (n, Inl io_EOF)), cl_ReadResource = (\<lambda>_ _ _ n. (n, Inl io_EOF)),
      cl_Close = (\<lambda>_ n. (n - 1, None)), cl_ctxErr = (\<lambda>_ _. False), cl_pki = (\<lambda>_. no_pki), cl_tracing = (\<lambda>_. False), cl_httpClient = None,
      cl_ListTools = (\<lambda>_ _ n. (n, Inl io_EOF)), cl_ListResources = (\<lambda>_ _ n. (n, Inl io_EOF)),
      cl_ListResourceTemplates = (\<lambda>_ _ n. (n, Inr [None, Some (''u'', ''n'', ''d'', ''m'')])),
      cl_MarshalSchema = (\<lambda>_. Inl io_EOF)\<rparr>"

definition counting_grpc :: "int grpc_lib" where
  "counting_grpc =
     \<lparr>gl_pki = (\<lambda>_. no_pki), gl_NewClient = (\<lambda>_ _ n. (n + 1, Inr 1)), gl_Close = (\<lambda>_ n. (n - 1, None)),
      gl_States = (\<lambda>_ _ n. (n, [Connecting, TransientFailure], io_EOF)), gl_ReadFile = (\<lambda>_. Inr []), gl_UnmarshalSet = (\<lambda>_. Inl io_EOF),
      gl_OpenReflection = (\<lambda>_ n. (n, Inl io_EOF)), gl_budget = (\<lambda>_. 10),
      gl_NewFiles = (\<lambda>_. Inl io_EOF), gl_Marshal = (\<lambda>_. Inl io_EOF),
      gl_protoUnmarshal = (\<lambda>_ _. Inl io_EOF), gl_protoNew = (\<lambda>_. 7), gl_protoMarshal = (\<lambda>m. Inl io_EOF),
      gl_ctxErr = (\<lambda>_ _. False), gl_Invoke = (\<lambda>_ _ _ _ _ _ n. (n, Inl io_EOF)), gl_NewStream = (\<lambda>_ _ _ _ n. (n, Inl io_EOF)),
      gl_SendMsg = (\<lambda>_ _ n. (n, None)), gl_CloseSend = (\<lambda>_ n. (n, None)), gl_Recv = (\<lambda>_ _ n. (n, [], None))\<rparr>"

theorem discovery_closes_connections_witness:
  "fst (CompositeSchemaFetcher_FetchSchemas counting_clients counting_grpc 0 example_tool 5) = 5 \<and>
   CompositeResourceFetcher_FetchResources counting_clients 0 example_tool 5 =
     (5, Inr ([], [\<lparr>tmpl_URITemplate = ''u'', tmpl_Name = ''n'', tmpl_Description = ''d'', tmpl_MIMEType = ''m''\<rparr>]))"
proof -
  have "counted counting_clients counting_grpc (\<lambda>n. n)"
    unfolding counted_def by (intro conjI) (simp_all add: counting_clients_def counting_grpc_def)
  from discovery_closes_connections [OF this, of 0 example_tool 5] show ?thesis
    by (simp add: CompositeResourceFetcher_FetchResources_def HTTP_FetchResources_def buildHTTPClient_def list_resources_def
        SDKResourceTemplatesToSchemas_def counting_clients_def example_tool_def List.map_filter_def)
qed

end
