(* ===== verification/Ingress.thy ===== *)
theory Ingress
  imports Egress "HOL-Library.Word"
begin

text \<open>
  The ingress layer the HTTP, SSE and WebSocket handlers share
  (internal/ingress/pkg): turning a protocol request into an invocation, turning
  the gateway's result back into a protocol result, request identifiers, the
  catalogue of tools and resources a session is given, and the defaults of
  enterprise authorization; with the identity mapping of mcp/auth.go.

  The gateway is a record of functions over a world \<open>'w\<close>. JSON encoding and decoding
  are arguments.
\<close>

unbundle bit_operations_syntax

record 'w invoker =
  iv_Invoke :: "Invocation \<Rightarrow> 'w \<Rightarrow> 'w \<times> go_result"
  iv_ListTools :: "'w \<Rightarrow> 'w \<times> (go_error + Tool list)"
  iv_InvokeStream :: "Invocation \<Rightarrow> 'w \<Rightarrow> 'w \<times> (go_error + stream_source)"

text \<open>The validated claims of a bearer token.\<close>

record TokenInfo =
  ti_UserID :: string
  ti_Scopes :: "string list"

section \<open>Request identifiers\<close>

definition hex_digit :: "4 word \<Rightarrow> char" where
  "hex_digit d = (if d < 10 then char_of (unat d + 48) else char_of (unat d + 87))"

definition hex_byte :: "8 word \<Rightarrow> string" where
  "hex_byte b = [hex_digit (ucast (drop_bit 4 b)), hex_digit (ucast b)]"

definition be_bytes :: "32 word \<Rightarrow> 8 word list" where
  "be_bytes w = [ucast (drop_bit 24 w), ucast (drop_bit 16 w), ucast (drop_bit 8 w), ucast w]"

text \<open>
  \<open>rnd\<close> is what the random source returned: eight bytes, or nothing when it failed.
  Then the identifier is made of the low 32 bits of the clock and of a counter
  that is shared by all requests.
\<close>

definition NewRequestID :: "8 word list option \<Rightarrow> 64 word \<Rightarrow> 64 word \<Rightarrow> 64 word \<times> RequestID" where
  "NewRequestID rnd unixNano requestIDCounter =
     (case rnd of
        Some b \<Rightarrow> (requestIDCounter, concat (map hex_byte b))
      | None \<Rightarrow>
          (let requestIDCounter = requestIDCounter + 1;
               ts = ucast unixNano :: 32 word;
               seq = ucast requestIDCounter :: 32 word
           in (requestIDCounter, concat (map hex_byte (be_bytes ts @ be_bytes seq)))))"

section \<open>Requests\<close>

text \<open>A request with its parameters; \<open>None\<close> stands for a nil request or nil parameters.\<close>

record CallToolParams =
  ctp_Name :: string
  ctp_Arguments :: string

text \<open>The parts of an invocation that are fixed when it is made: its identifier and arrival time.\<close>

type_synonym stamp = "RequestID \<times> time"

definition new_invocation ::
  "stamp \<Rightarrow> ToolID \<Rightarrow> string \<Rightarrow> anymap \<Rightarrow> TenantID \<Rightarrow> ClientID \<Rightarrow> Invocation" where
  "new_invocation stamp toolID method params tenantID clientID =
     \<lparr>inv_Correlation = \<lparr>corr_TenantID = tenantID, corr_ClientID = clientID, corr_RequestID = fst stamp, corr_TraceID = ''''\<rparr>,
      inv_ToolID = toolID, inv_SessionID = '''', inv_Method = method, inv_Params = Some params,
      inv_Metadata = [], inv_Credentials = [], inv_Scopes = [], inv_ReceivedAt = snd stamp\<rparr>"

definition RequestToInvocation ::
  "(string \<Rightarrow> go_error + anymap) \<Rightarrow> stamp \<Rightarrow> CallToolParams option \<Rightarrow> ToolID \<Rightarrow> TenantID \<Rightarrow> ClientID \<Rightarrow> go_error + Invocation" where
  "RequestToInvocation unmarshal stamp req toolID tenantID clientID =
     (case req of
        None \<Rightarrow> Inl (PlainErr ''invalid tool call request: request and params are required'')
      | Some params \<Rightarrow>
     (case (if length (ctp_Arguments params) > 0 then unmarshal (ctp_Arguments params) else Inr []) of
        Inl err \<Rightarrow> Inl (WrapErr (''invalid tool arguments: '' @ error_text err) err)
      | Inr args \<Rightarrow>
          (let backendName = as_string (gm_get args ParamKeyName);
               (backendName, backendArgs) =
                 (if backendName \<noteq> '''' then (backendName, any_of (gm_get args ParamKeyArguments))
                  else (ctp_Name params, AMap args))
           in Inr (new_invocation stamp toolID MethodToolsCall
                [(ParamKeyName, AString backendName), (ParamKeyArguments, backendArgs)] tenantID clientID))))"

definition with_scopes :: "TokenInfo option \<Rightarrow> Invocation \<Rightarrow> Invocation" where
  "with_scopes info ivk =
     (case info of
        None \<Rightarrow> ivk
      | Some i \<Rightarrow> if length (ti_Scopes i) > 0 then ivk\<lparr>inv_Scopes := ti_Scopes i\<rparr> else ivk)"

section \<open>Results\<close>

text \<open>\<open>SetError\<close> of a protocol result: the text of the error as content, and the error flag.\<close>

definition error_result :: "go_error \<Rightarrow> CallToolResult" where
  "error_result err = \<lparr>ctr_Content = [TextContent (error_text err)], ctr_StructuredContent = ANil, ctr_IsError = True\<rparr>"

text \<open>The items of a content list, from memory or decoded from JSON; other items are dropped.\<close>

fun as_map :: "any \<Rightarrow> anymap option" where
  "as_map (AMap m) = Some m"
| "as_map _ = None"

fun content_maps :: "any \<Rightarrow> anymap list" where
  "content_maps (AMapSlice v) = v"
| "content_maps (ASlice v) = List.map_filter as_map v"
| "content_maps _ = []"

definition text_item :: "anymap \<Rightarrow> content option" where
  "text_item item =
     (if as_string (gm_get item ContentKeyType) = ContentTypeText \<and> as_string (gm_get item ContentKeyText) \<noteq> ''''
      then Some (TextContent (as_string (gm_get item ContentKeyText))) else None)"

definition OutputToCallToolResult :: "(anymap \<Rightarrow> go_error + string) \<Rightarrow> anymap option \<Rightarrow> CallToolResult" where
  "OutputToCallToolResult marshal output =
     (case output of
        None \<Rightarrow> \<lparr>ctr_Content = [], ctr_StructuredContent = ANil, ctr_IsError = False\<rparr>
      | Some out \<Rightarrow>
          (let items = (case gm_get out OutputKeyContent of None \<Rightarrow> [] | Some raw \<Rightarrow> content_maps raw);
               texts = List.map_filter text_item items
           in if texts \<noteq> [] then \<lparr>ctr_Content = texts, ctr_StructuredContent = AMap out, ctr_IsError = False\<rparr>
              else
                (case marshal out of
                   Inl err \<Rightarrow> error_result (WrapErr (''failed to serialize output: '' @ error_text err) err)
                 | Inr data \<Rightarrow> \<lparr>ctr_Content = [TextContent data], ctr_StructuredContent = AMap out, ctr_IsError = False\<rparr>)))"

definition failure_text :: "ExecutionResult \<Rightarrow> string" where
  "failure_text res =
     (case exec_Err res of None \<Rightarrow> execution_status_string (exec_Status res) | Some e \<Rightarrow> error_text (RuntimeErr e))"

definition ExecutionResultToCallToolResult ::
  "(anymap \<Rightarrow> go_error + string) \<Rightarrow> go_result \<Rightarrow> CallToolResult" where
  "ExecutionResultToCallToolResult marshal r =
     (case r of
        (None, Some gwErr) \<Rightarrow> error_result gwErr
      | (None, None) \<Rightarrow> error_result (PlainErr ''empty result from gateway'')
      | (Some res, _) \<Rightarrow>
          if exec_Status res \<noteq> ExecutionStatusSuccess then error_result (PlainErr (failure_text res))
          else OutputToCallToolResult marshal (exec_Output res))"

definition resource_contents :: "anymap \<Rightarrow> ResourceContents" where
  "resource_contents item =
     \<lparr>rsc_URI = as_string (gm_get item ContentKeyURI), rsc_MIMEType = as_string (gm_get item ContentKeyMIMEType),
      rsc_Text = as_string (gm_get item ContentKeyText),
      rsc_Blob = (case gm_get item ContentKeyBlob of Some (ABytes b) \<Rightarrow> b | _ \<Rightarrow> '''')\<rparr>"

definition OutputToReadResourceResult :: "(anymap \<Rightarrow> go_error + string) \<Rightarrow> anymap option \<Rightarrow> ResourceContents list" where
  "OutputToReadResourceResult marshal output =
     (case output of
        None \<Rightarrow> []
      | Some out \<Rightarrow>
          (case gm_get out OutputKeyContents of
             None \<Rightarrow>
               (case marshal out of
                  Inl err \<Rightarrow> []
                | Inr data \<Rightarrow> [\<lparr>rsc_URI = '''', rsc_MIMEType = '''', rsc_Text = data, rsc_Blob = ''''\<rparr>])
           | Some raw \<Rightarrow> map resource_contents (content_maps raw)))"

definition ExecutionResultToReadResourceResult ::
  "(anymap \<Rightarrow> go_error + string) \<Rightarrow> go_result \<Rightarrow> go_error + ResourceContents list" where
  "ExecutionResultToReadResourceResult marshal r =
     (case r of
        (None, Some gwErr) \<Rightarrow> Inl gwErr
      | (None, None) \<Rightarrow> Inl (PlainErr ''empty result from gateway'')
      | (Some res, _) \<Rightarrow>
          if exec_Status res \<noteq> ExecutionStatusSuccess then Inl (PlainErr (failure_text res))
          else Inr (OutputToReadResourceResult marshal (exec_Output res)))"

section \<open>Dispatch\<close>

record json_codec =
  json_Unmarshal :: "string \<Rightarrow> go_error + anymap"
  json_Marshal :: "anymap \<Rightarrow> go_error + string"

definition DispatchToolCall ::
  "json_codec \<Rightarrow> 'w invoker \<Rightarrow> stamp \<Rightarrow> TokenInfo option \<Rightarrow> CallToolParams option \<Rightarrow> ToolID \<Rightarrow> TenantID \<Rightarrow> ClientID \<Rightarrow>
     'w \<Rightarrow> 'w \<times> CallToolResult" where
  "DispatchToolCall js gw stamp info req toolID tenantID clientID w =
     (case RequestToInvocation (json_Unmarshal js) stamp req toolID tenantID clientID of
        Inl err \<Rightarrow> (w, error_result err)
      | Inr ivk \<Rightarrow>
          (let (w, r) = iv_Invoke gw (with_scopes info ivk) w
           in (w, ExecutionResultToCallToolResult (json_Marshal js) r)))"

definition DispatchResourceRead ::
  "json_codec \<Rightarrow> 'w invoker \<Rightarrow> stamp \<Rightarrow> TokenInfo option \<Rightarrow> string option \<Rightarrow> ToolID \<Rightarrow> TenantID \<Rightarrow> ClientID \<Rightarrow>
     'w \<Rightarrow> 'w \<times> (go_error + ResourceContents list)" where
  "DispatchResourceRead js gw stamp info req toolID tenantID clientID w =
     (case req of
        None \<Rightarrow> (w, Inl (PlainErr ''invalid read resource request: request and params are required''))
      | Some uri \<Rightarrow>
          (let ivk = new_invocation stamp toolID MethodResourcesRead [(ParamKeyURI, AString uri)] tenantID clientID;
               (w, r) = iv_Invoke gw (with_scopes info ivk) w
           in (w, ExecutionResultToReadResourceResult (json_Marshal js) r)))"

section \<open>Identity and enterprise authorization\<close>

text \<open>\<open>'r\<close> is a request; \<open>tokenOf\<close> reads the token claims the middleware left in its context.\<close>

type_synonym identity = "go_error + TenantID \<times> ClientID"

definition DefaultIdentityMapper :: "TokenInfo option \<Rightarrow> identity" where
  "DefaultIdentityMapper info =
     Inr (''default'', case info of None \<Rightarrow> ''default'' | Some i \<Rightarrow> if ti_UserID i \<noteq> '''' then ti_UserID i else ''default'')"

definition NewTokenIdentityResolver ::
  "('r \<Rightarrow> TokenInfo option) \<Rightarrow> (TokenInfo option \<Rightarrow> identity) option \<Rightarrow> 'r \<Rightarrow> identity" where
  "NewTokenIdentityResolver tokenOf mapper r =
     (let mapper = (case mapper of None \<Rightarrow> DefaultIdentityMapper | Some m \<Rightarrow> m)
      in case tokenOf r of
           None \<Rightarrow> Inl (rt_error ErrCodeInvalidRequest ''missing bearer token context'')
         | Some info \<Rightarrow> mapper (Some info))"

record EnterpriseAuthConfig =
  ea_TokenVerifier :: "(string \<Rightarrow> go_error + TokenInfo option) option"
  ea_ResourceMetadata :: "string option"
  ea_RequiredScopes :: "string list"
  ea_IdentityMapper :: "(TokenInfo option \<Rightarrow> identity) option"

record 'r IngressConfig =
  ic_IdentityResolver :: "('r \<Rightarrow> identity) option"
  ic_SessionIdleTimeout :: duration
  ic_Stateless :: bool
  ic_EnterpriseAuth :: "EnterpriseAuthConfig option"

definition ResolveAuthDefaults :: "('r \<Rightarrow> TokenInfo option) \<Rightarrow> 'r IngressConfig \<Rightarrow> go_error + 'r IngressConfig" where
  "ResolveAuthDefaults tokenOf cfg =
     (case ic_EnterpriseAuth cfg of
        None \<Rightarrow> Inr cfg
      | Some ea \<Rightarrow>
          if ea_TokenVerifier ea = None then Inl (PlainErr ''enterprise auth: TokenVerifier must not be nil'')
          else
            (case ea_ResourceMetadata ea of
               None \<Rightarrow> Inl (PlainErr ''enterprise auth: ResourceMetadata must not be nil'')
             | Some resource \<Rightarrow>
                 if resource = '''' then Inl (PlainErr ''enterprise auth: ResourceMetadata.Resource must not be empty'')
                 else
                   Inr (case ic_IdentityResolver cfg of
                          None \<Rightarrow> cfg\<lparr>ic_IdentityResolver := Some (NewTokenIdentityResolver tokenOf (ea_IdentityMapper ea))\<rparr>
                        | Some _ \<Rightarrow> cfg)))"

definition ResourceMetadataURL :: "string option \<Rightarrow> string" where
  "ResourceMetadataURL metadata =
     (case metadata of
        None \<Rightarrow> ''''
      | Some resource \<Rightarrow>
          if resource = '''' then ''''
          else (if last resource = CHR ''/'' then butlast resource else resource) @ ''/.well-known/oauth-protected-resource'')"

section \<open>The catalogue of a session\<close>

text \<open>
  A protocol server holds tools by name and resources by address; adding one
  replaces an earlier one of the same name. The target is the gateway tool a call
  is dispatched to.
\<close>

record mounted_tool =
  mt_Description :: string
  mt_InputSchema :: string
  mt_Target :: ToolID

record mounted_resource =
  mr_Name :: string
  mr_Description :: string
  mr_MIMEType :: string
  mr_Target :: ToolID

record mcp_server =
  srv_Tenant :: TenantID
  srv_Client :: ClientID
  srv_Tools :: "(string, mounted_tool) gomap"
  srv_Resources :: "(string, mounted_resource) gomap"
  srv_ResourceTemplates :: "(string, mounted_resource) gomap"

definition OpenObjectSchema :: string where
  "OpenObjectSchema = ''{'' @ quoted ''type'' @ '':'' @ quoted ''object'' @ ''}''"

definition add_tool :: "string \<Rightarrow> mounted_tool \<Rightarrow> mcp_server \<Rightarrow> mcp_server" where
  "add_tool name t srv = srv\<lparr>srv_Tools := gm_put name t (srv_Tools srv)\<rparr>"

definition RegisterTool :: "Tool \<Rightarrow> mcp_server \<Rightarrow> mcp_server" where
  "RegisterTool tool srv =
     (if length (tool_Schemas tool) = 0
      then add_tool (tool_ID tool)
             \<lparr>mt_Description = '''', mt_InputSchema = OpenObjectSchema, mt_Target = tool_ID tool\<rparr> srv
      else foldl (\<lambda>srv schema. add_tool (schema_Name schema)
             \<lparr>mt_Description = schema_Description schema,
              mt_InputSchema = (case schema_InputSchema schema of None \<Rightarrow> OpenObjectSchema | Some s \<Rightarrow> s),
              mt_Target = tool_ID tool\<rparr> srv) srv (tool_Schemas tool))"

definition RegisterResources :: "Tool \<Rightarrow> mcp_server \<Rightarrow> mcp_server" where
  "RegisterResources tool srv =
     (let srv = foldl (\<lambda>srv r. srv\<lparr>srv_Resources := gm_put (res_URI r)
                  \<lparr>mr_Name = res_Name r, mr_Description = res_Description r, mr_MIMEType = res_MIMEType r,
                   mr_Target = tool_ID tool\<rparr> (srv_Resources srv)\<rparr>) srv (tool_Resources tool)
      in foldl (\<lambda>srv t. srv\<lparr>srv_ResourceTemplates := gm_put (tmpl_URITemplate t)
                  \<lparr>mr_Name = tmpl_Name t, mr_Description = tmpl_Description t, mr_MIMEType = tmpl_MIMEType t,
                   mr_Target = tool_ID tool\<rparr> (srv_ResourceTemplates srv)\<rparr>) srv (tool_ResourceTemplates tool))"

definition BuildGetServer :: "'w invoker \<Rightarrow> ('r \<Rightarrow> identity) \<Rightarrow> 'r \<Rightarrow> 'w \<Rightarrow> 'w \<times> mcp_server option" where
  "BuildGetServer gw resolver r w =
     (case resolver r of
        Inl err \<Rightarrow> (w, None)
      | Inr (tenantID, clientID) \<Rightarrow>
          (case iv_ListTools gw w of
             (w, Inl err) \<Rightarrow> (w, None)
           | (w, Inr tools) \<Rightarrow>
               (w, Some (foldl (\<lambda>srv t. RegisterResources t (RegisterTool t srv))
                 \<lparr>srv_Tenant = tenantID, srv_Client = clientID, srv_Tools = [], srv_Resources = [],
                  srv_ResourceTemplates = []\<rparr> tools))))"

section \<open>Round trips through the gateway\<close>

fun nonempty_text :: "content \<Rightarrow> bool" where
  "nonempty_text (TextContent t) \<longleftrightarrow> t \<noteq> ''''"
| "nonempty_text _ \<longleftrightarrow> False"

lemma text_item_content: "text_item (content_item c) = (if nonempty_text c then Some c else None)"
  by (cases c) (auto simp: text_item_def content_item_def key_defs split: option.split)

lemma text_items_contents: "List.map_filter text_item (contentToSlice cs) = filter nonempty_text cs"
proof -
  have "List.map_filter text_item (contentToSlice cs) = List.map_filter (\<lambda>c. if nonempty_text c then Some c else None) cs"
    unfolding contentToSlice_def by (induction cs) (simp_all add: List.map_filter_def text_item_content)
  then show ?thesis by (simp only: map_filter_if)
qed

lemma content_of_output:
  "ctr_Content r \<noteq> [] \<Longrightarrow> CallResultToOutput (Some r) = Some out \<Longrightarrow>
     gm_get out OutputKeyContent = Some (AMapSlice (contentToSlice (ctr_Content r)))"
  by (auto simp: CallResultToOutput_def)

lemma resource_contents_item: "resource_contents (resource_item c) = c"
  by (cases c) (auto simp: resource_contents_def resource_item_def key_defs)

lemma contents_of_output:
  "cs \<noteq> [] \<Longrightarrow> ReadResourceResultToOutput (Some cs) =
     Some [(OutputKeyContents, AMapSlice (map resource_item (List.map_filter id cs)))]"
  by (simp add: ReadResourceResultToOutput_def)

section \<open>Identifiers\<close>

lemma hex_digit_inject: "hex_digit a = hex_digit b \<Longrightarrow> a = b"
proof -
  have lt: "unat (x :: 4 word) < 16" for x
  proof -
    have "unat x < 2 ^ LENGTH(4)" by (rule unsigned_less)
    then show ?thesis by simp
  qed
  have small: "of_char (hex_digit x) = (if x < 10 then unat x + 48 else unat x + 87)" for x
    using lt [of x] by (simp add: hex_digit_def)
  have "unat a = unat b" if "hex_digit a = hex_digit b"
  proof -
    have "(if a < 10 then unat a + 48 else unat a + 87) = (if b < 10 then unat b + 48 else unat b + 87)"
      using that small [of a] small [of b] by simp
    then show ?thesis
      using lt [of a] lt [of b] by (auto simp: word_less_nat_alt split: if_splits)
  qed
  then show "hex_digit a = hex_digit b \<Longrightarrow> a = b" by (simp add: word_unat_eq_iff)
qed

lemma byte_nibbles: "(b :: 8 word) = push_bit 4 (ucast (ucast (drop_bit 4 b) :: 4 word)) OR ucast (ucast b :: 4 word)"
  by (rule bit_word_eqI) (auto simp: bit_simps)

lemma hex_byte_inject: "hex_byte a = hex_byte b \<longleftrightarrow> a = b"
  using byte_nibbles [of a] byte_nibbles [of b] by (auto simp: hex_byte_def dest!: hex_digit_inject)

lemma hex_bytes_inject: "concat (map hex_byte xs) = concat (map hex_byte ys) \<Longrightarrow> xs = ys"
proof (induction xs arbitrary: ys)
  case Nil
  then show ?case by (cases ys) (auto simp: hex_byte_def)
next
  case (Cons x xs)
  then obtain y ys' where ys: "ys = y # ys'" by (cases ys) (auto simp: hex_byte_def)
  have "length (hex_byte x) = length (hex_byte y)" by (simp add: hex_byte_def)
  with Cons.prems ys have "hex_byte x = hex_byte y" "concat (map hex_byte xs) = concat (map hex_byte ys')"
    by simp_all
  with Cons.IH ys show ?case by (simp add: hex_byte_inject)
qed

lemma be_bytes_inject: "be_bytes v = be_bytes w \<Longrightarrow> v = w"
proof -
  have word: "w = push_bit 24 (ucast (ucast (drop_bit 24 w) :: 8 word)) OR push_bit 16 (ucast (ucast (drop_bit 16 w) :: 8 word)) OR
      push_bit 8 (ucast (ucast (drop_bit 8 w) :: 8 word)) OR ucast (ucast w :: 8 word)" for w :: "32 word"
  proof (rule bit_word_eqI)
    fix n
    assume "n < LENGTH(32)"
    then show "bit w n \<longleftrightarrow> bit (push_bit 24 (ucast (ucast (drop_bit 24 w) :: 8 word)) OR push_bit 16 (ucast (ucast (drop_bit 16 w) :: 8 word)) OR
      push_bit 8 (ucast (ucast (drop_bit 8 w) :: 8 word)) OR ucast (ucast w :: 8 word) :: 32 word) n"
      by (cases "n < 8"; cases "n < 16"; cases "n < 24") (auto simp: bit_simps)
  qed
  show "be_bytes v = be_bytes w \<Longrightarrow> v = w"
    using word [of v] word [of w] by (simp add: be_bytes_def)
qed

section \<open>The names of a session\<close>

definition advertised :: "Tool \<Rightarrow> string list" where
  "advertised tool = (if tool_Schemas tool = [] then [tool_ID tool] else map schema_Name (tool_Schemas tool))"

lemma RegisterResources_keeps [simp]:
  "srv_Tools (RegisterResources tool srv) = srv_Tools srv"
  "srv_Tenant (RegisterResources tool srv) = srv_Tenant srv"
  "srv_Client (RegisterResources tool srv) = srv_Client srv"
  by (simp_all add: RegisterResources_def Let_def foldl_frame)

lemma RegisterTool_keeps [simp]:
  "srv_Tenant (RegisterTool tool srv) = srv_Tenant srv" "srv_Client (RegisterTool tool srv) = srv_Client srv"
  by (simp_all add: RegisterTool_def add_tool_def foldl_frame)

lemma RegisterTool_targets:
  "map_option mt_Target (gm_get (srv_Tools (RegisterTool tool srv)) name) =
     (if name \<in> set (advertised tool) then Some (tool_ID tool)
      else map_option mt_Target (gm_get (srv_Tools srv) name))"
proof -
  have "map_option mt_Target (gm_get (srv_Tools (foldl (\<lambda>srv schema. add_tool (schema_Name schema)
         \<lparr>mt_Description = d schema, mt_InputSchema = s schema, mt_Target = u\<rparr> srv) srv schemas)) name) =
      (if name \<in> schema_Name ` set schemas then Some u else map_option mt_Target (gm_get (srv_Tools srv) name))"
    for d s u schemas
    by (induction schemas arbitrary: srv) (auto simp: add_tool_def gomap_simps)
  note schemas = this
  show ?thesis
  proof (cases "tool_Schemas tool = []")
    case True
    then show ?thesis by (simp add: RegisterTool_def advertised_def add_tool_def gomap_simps)
  next
    case False
    then show ?thesis by (simp add: RegisterTool_def advertised_def schemas)
  qed
qed

text \<open>Among the tools that advertise a name, the last one listed gets it.\<close>

definition last_advertiser :: "Tool list \<Rightarrow> string \<Rightarrow> ToolID option" where
  "last_advertiser tools name = map_option tool_ID (find (\<lambda>t. name \<in> set (advertised t)) (rev tools))"

lemma catalogue_targets:
  "map_option mt_Target (gm_get (srv_Tools (foldl (\<lambda>srv t. RegisterResources t (RegisterTool t srv)) srv tools)) name) =
     (case last_advertiser tools name of None \<Rightarrow> map_option mt_Target (gm_get (srv_Tools srv) name) | Some u \<Rightarrow> Some u)"
proof (induction tools rule: rev_induct)
  case Nil
  then show ?case by (simp add: last_advertiser_def)
next
  case (snoc tool tools)
  then show ?case by (simp add: last_advertiser_def RegisterTool_targets)
qed

definition new_server :: "TenantID \<Rightarrow> ClientID \<Rightarrow> mcp_server" where
  "new_server t c = \<lparr>srv_Tenant = t, srv_Client = c, srv_Tools = [], srv_Resources = [], srv_ResourceTemplates = []\<rparr>"

lemma BuildGetServer_Some:
  assumes "BuildGetServer gw resolver r w = (w', Some srv)"
  obtains t c tools where "resolver r = Inr (t, c)" "iv_ListTools gw w = (w', Inr tools)"
    "srv = foldl (\<lambda>srv t. RegisterResources t (RegisterTool t srv)) (new_server t c) tools"
  using assms by (auto simp: BuildGetServer_def new_server_def split: sum.splits prod.splits)

lemma last_advertiser_in: "last_advertiser tools name = Some u \<Longrightarrow> \<exists>tool \<in> set tools. tool_ID tool = u"
  by (force simp: last_advertiser_def dest: find_SomeD)

section \<open>Properties\<close>

text \<open>C28: What a tool says reaches the client. When a backend behind standard input or HTTP answers a
  call with text, a non-empty list of non-empty text items that is not marked as an error,
  and the gateway returns the executor's result with whatever duration, then the client
  that made the call over one of the MCP transports gets the same items in the same order
  and no error.\<close>

theorem tool_text_reaches_client:
  assumes "cx_sess e = Some sess" and "execute \<in> {StdioExecutor_Execute, HTTPExecutor_Execute}"
    and "cl_CallTool cl sess d (fst (ParamsFromInvocation (Some ivk'))) (snd (ParamsFromInvocation (Some ivk'))) n = (n', Inr r)"
    and "\<not> ctr_IsError r" and "ctr_Content r \<noteq> []" and "\<forall>c \<in> set (ctr_Content r). nonempty_text c"
    and "RequestToInvocation (json_Unmarshal js) stamp req toolID tenantID clientID = Inr ivk"
    and "iv_Invoke gw (with_scopes info ivk) w =
      (w', map_option (\<lambda>res. res\<lparr>exec_Duration := dur\<rparr>) (fst (snd (execute cl e d ivk' n))), None)"
  shows "\<exists>answer. DispatchToolCall js gw stamp info req toolID tenantID clientID w = (w', answer) \<and>
    ctr_Content answer = ctr_Content r \<and> \<not> ctr_IsError answer"
proof -
  obtain out where out: "CallResultToOutput (Some r) = Some out" by (simp add: CallResultToOutput_def)
  have texts: "filter nonempty_text (ctr_Content r) = ctr_Content r" using assms(6) by simp
  from assms(1-4) have "\<exists>res. fst (snd (execute cl e d ivk' n)) = Some res \<and> exec_Status res = ExecutionStatusSuccess \<and>
      exec_Output res = Some out"
    by (auto simp: StdioExecutor_Execute_def HTTPExecutor_Execute_def out case_prod_unfold)
  with assms(5,7,8) content_of_output [OF assms(5) out] texts show ?thesis
    by (auto simp: DispatchToolCall_def ExecutionResultToCallToolResult_def OutputToCallToolResult_def text_items_contents)
qed

text \<open>A backend with two lines of text and a resource, and a gateway that passes on what the
  executor for it answers.\<close>

definition example_text :: CallToolResult where
  "example_text = \<lparr>ctr_Content = [TextContent ''a'', TextContent ''b''], ctr_StructuredContent = ANil, ctr_IsError = False\<rparr>"

definition example_file :: ResourceContents where
  "example_file = \<lparr>rsc_URI = ''file:a'', rsc_MIMEType = '''', rsc_Text = ''hi'', rsc_Blob = ''''\<rparr>"

definition text_clients :: "nat clients" where
  "text_clients =
     \<lparr>cl_Connect_stdio = \<lambda>_ _ _ _ _ n. (n, Inr 1), cl_Connect_http = \<lambda>_ _ n. (n, Inr 1), cl_Environ = [],
      cl_CallTool = \<lambda>_ _ _ _ n. (n + 1, Inr example_text), cl_ReadResource = \<lambda>_ _ _ n. (n + 1, Inr [None, Some example_file]),
      cl_Close = \<lambda>_ n. (n, None), cl_ctxErr = \<lambda>_ _. False, cl_pki = \<lambda>_. no_pki, cl_tracing = \<lambda>_. False,
      cl_httpClient = None\<rparr>"

definition text_executor :: sdk_executor where
  "text_executor = \<lparr>cx_sess = Some 1, cx_closed = False, cx_closeErr = None\<rparr>"

definition text_gateway :: "nat invoker" where
  "text_gateway =
     \<lparr>iv_Invoke = \<lambda>ivk n. (n + 1,
        map_option (\<lambda>res. res\<lparr>exec_Duration := 7\<rparr>)
          (fst (snd ((if inv_Method ivk = MethodResourcesRead then HTTPExecutor_ReadResource else StdioExecutor_Execute)
             text_clients text_executor second ivk n))), None),
      iv_ListTools = \<lambda>n. (n, Inr []), iv_InvokeStream = \<lambda>_ n. (n, Inl (PlainErr ''no stream''))\<rparr>"

definition text_codec :: json_codec where
  "text_codec = \<lparr>json_Unmarshal = \<lambda>_. Inr [], json_Marshal = \<lambda>_. Inr ''{}''\<rparr>"

theorem tool_text_reaches_client_witness:
  "ctr_Content (snd (DispatchToolCall text_codec text_gateway (''r1'', 0) None
     (Some \<lparr>ctp_Name = ''say'', ctp_Arguments = ''''\<rparr>) ''fs'' ''acme'' ''web'' 0)) = [TextContent ''a'', TextContent ''b'']"
proof -
  obtain ivk where ivk: "RequestToInvocation (json_Unmarshal text_codec) (''r1'', 0) (Some \<lparr>ctp_Name = ''say'', ctp_Arguments = ''''\<rparr>)
      ''fs'' ''acme'' ''web'' = Inr ivk" "inv_Method ivk = MethodToolsCall"
    by (simp add: RequestToInvocation_def new_invocation_def Let_def)
  have "iv_Invoke text_gateway (with_scopes None ivk) 0 =
      (1, map_option (\<lambda>res. res\<lparr>exec_Duration := 7\<rparr>)
         (fst (snd (StdioExecutor_Execute text_clients text_executor second (with_scopes None ivk) 0))), None)"
    using ivk(2) by (simp add: text_gateway_def with_scopes_def MethodToolsCall_def MethodResourcesRead_def)
  moreover have "cx_sess text_executor = Some 1" "cl_CallTool text_clients sess d name args n = (n + 1, Inr example_text)"
      "\<not> ctr_IsError example_text" "ctr_Content example_text \<noteq> []" "\<forall>c \<in> set (ctr_Content example_text). nonempty_text c"
    for sess d name args n
    by (simp_all add: text_executor_def text_clients_def example_text_def)
  ultimately have "\<exists>answer. DispatchToolCall text_codec text_gateway (''r1'', 0) None
     (Some \<lparr>ctp_Name = ''say'', ctp_Arguments = ''''\<rparr>) ''fs'' ''acme'' ''web'' 0 = (1, answer) \<and>
     ctr_Content answer = ctr_Content example_text \<and> \<not> ctr_IsError answer"
    by (intro tool_text_reaches_client [where execute = StdioExecutor_Execute and ivk' = "with_scopes None ivk",
          OF _ _ _ _ _ _ ivk(1)]) simp_all
  then show ?thesis by (auto simp: example_text_def)
qed

text \<open>C29: What a resource holds reaches the client. When a backend behind standard input or HTTP answers
  a read with contents, and the gateway returns the executor's result with whatever
  duration, then the client that asked for the resource over one of the MCP transports gets
  these contents, entries that are nil left out, with their URI, type, text and bytes.\<close>

theorem resource_contents_reach_client:
  assumes "cx_sess e = Some sess" and "read \<in> {StdioExecutor_ReadResource, HTTPExecutor_ReadResource}"
    and "ResourceParamsFromInvocation (Some ivk') = uri" and "uri \<noteq> ''''"
    and "cl_ReadResource cl sess d uri n = (n', Inr contents)" and "contents \<noteq> []"
    and "iv_Invoke gw (with_scopes info (new_invocation stamp toolID MethodResourcesRead [(ParamKeyURI, AString uri)] tenantID clientID)) w =
      (w', map_option (\<lambda>res. res\<lparr>exec_Duration := dur\<rparr>) (fst (snd (read cl e d ivk' n))), None)"
  shows "DispatchResourceRead js gw stamp info (Some uri) toolID tenantID clientID w = (w', Inr (List.map_filter id contents))"
proof -
  from assms(1-5) have "\<exists>res. fst (snd (read cl e d ivk' n)) = Some res \<and> exec_Status res = ExecutionStatusSuccess \<and>
      exec_Output res = ReadResourceResultToOutput (Some contents)"
    by (auto simp: StdioExecutor_ReadResource_def HTTPExecutor_ReadResource_def Let_def)
  with assms(6,7) show ?thesis
    by (auto simp: DispatchResourceRead_def ExecutionResultToReadResourceResult_def Let_def
        contents_of_output OutputToReadResourceResult_def resource_contents_item map_idI)
qed

theorem resource_contents_reach_client_witness:
  "DispatchResourceRead text_codec text_gateway (''r1'', 0) None (Some ''file:a'') ''fs'' ''acme'' ''web'' 0 =
     (1, Inr [example_file])"
proof -
  let ?ivk = "with_scopes None (new_invocation (''r1'', 0) ''fs'' MethodResourcesRead [(ParamKeyURI, AString ''file:a'')] ''acme'' ''web'')"
  have "iv_Invoke text_gateway ?ivk 0 = (1, map_option (\<lambda>res. res\<lparr>exec_Duration := 7\<rparr>)
      (fst (snd (HTTPExecutor_ReadResource text_clients text_executor second ?ivk 0))), None)"
    by (simp add: text_gateway_def with_scopes_def new_invocation_def)
  moreover have "ResourceParamsFromInvocation (Some ?ivk) = ''file:a''"
    by (simp add: ResourceParamsFromInvocation_def with_scopes_def new_invocation_def)
  ultimately have "DispatchResourceRead text_codec text_gateway (''r1'', 0) None (Some ''file:a'') ''fs'' ''acme'' ''web'' 0 =
      (1, Inr (List.map_filter id [None, Some example_file]))"
    by (intro resource_contents_reach_client [where read = HTTPExecutor_ReadResource and ivk' = ?ivk])
      (simp_all add: text_executor_def text_clients_def)
  then show ?thesis by (simp add: List.map_filter_def)
qed

text \<open>A tool call reaches the backend as the client made it: the backend is called with the
  nested name and arguments when the client names an operation, and otherwise with
  the name of the request, or the tool's identifier when that is empty, and all
  arguments; the tenant, client and request identifier are those of the session and
  the request.\<close>

theorem call_reaches_backend:
  assumes "RequestToInvocation unmarshal stamp (Some params) toolID tenantID clientID = Inr ivk"
  shows "\<exists>args. (if ctp_Arguments params = '''' then args = [] else unmarshal (ctp_Arguments params) = Inr args) \<and>
    ParamsFromInvocation (Some ivk) =
      (if as_string (gm_get args ''name'') \<noteq> ''''
       then (as_string (gm_get args ''name''), any_of (gm_get args ''arguments''))
       else (if ctp_Name params = '''' then toolID else ctp_Name params, AMap args)) \<and>
    inv_ToolID ivk = toolID \<and>
    inv_Correlation ivk = \<lparr>corr_TenantID = tenantID, corr_ClientID = clientID, corr_RequestID = fst stamp, corr_TraceID = ''''\<rparr>"
proof -
  obtain args where args: "(if length (ctp_Arguments params) > 0 then unmarshal (ctp_Arguments params) else Inr []) = Inr args"
    using assms by (auto simp: RequestToInvocation_def split: sum.splits)
  with assms show ?thesis
    by (intro exI [of _ args])
      (auto simp: RequestToInvocation_def ParamsFromInvocation_def new_invocation_def key_defs any_of_def Let_def
        split: if_splits)
qed

theorem call_reaches_backend_witness:
  "\<exists>ivk. RequestToInvocation (\<lambda>_. Inr [(''name'', AString ''read''), (''arguments'', AMap [(''p'', AString ''/'')])])
       (''r1'', 7) (Some \<lparr>ctp_Name = ''files'', ctp_Arguments = ''{..}''\<rparr>) ''files'' ''acme'' ''cli'' = Inr ivk \<and>
     ParamsFromInvocation (Some ivk) = (''read'', AMap [(''p'', AString ''/'')])"
proof -
  obtain ivk where ivk: "RequestToInvocation (\<lambda>_. Inr [(''name'', AString ''read''), (''arguments'', AMap [(''p'', AString ''/'')])])
       (''r1'', 7) (Some \<lparr>ctp_Name = ''files'', ctp_Arguments = ''{..}''\<rparr>) ''files'' ''acme'' ''cli'' = Inr ivk"
    by (simp add: RequestToInvocation_def Let_def case_prod_unfold)
  with call_reaches_backend [OF ivk] show ?thesis
    by (auto simp: gomap_simps any_of_def)
qed

text \<open>When the random source fails, two requests get different identifiers unless their
  counters agree modulo 2 to the 32 and so do their clocks; and every identifier has
  sixteen characters.\<close>

theorem fallback_request_ids_distinct:
  assumes "NewRequestID None ts c = (c1, rid)" and "NewRequestID None ts' c' = (c1', rid')"
  shows "length rid = 16 \<and>
    (rid = rid' \<longleftrightarrow> uint (c + 1) mod 2 ^ 32 = uint (c' + 1) mod 2 ^ 32 \<and> uint ts mod 2 ^ 32 = uint ts' mod 2 ^ 32)"
proof -
  let ?b = "\<lambda>ts c. be_bytes (ucast ts) @ be_bytes (ucast (c + 1 :: 64 word))"
  have rid: "rid = concat (map hex_byte (?b ts c))" "rid' = concat (map hex_byte (?b ts' c'))"
    using assms by (auto simp: NewRequestID_def Let_def)
  have eq: "(ucast (x :: 64 word) :: 32 word) = ucast y \<longleftrightarrow> uint x mod 2 ^ 32 = uint y mod 2 ^ 32" for x y
    by (simp add: word_uint_eq_iff unsigned_ucast_eq take_bit_eq_mod)
  have len: "length (be_bytes v) = 4" for v by (simp add: be_bytes_def)
  have "rid = rid' \<longleftrightarrow> ?b ts c = ?b ts' c'"
    unfolding rid by (metis hex_bytes_inject)
  also have "\<dots> \<longleftrightarrow> (ucast ts :: 32 word) = ucast ts' \<and> (ucast (c + 1) :: 32 word) = ucast (c' + 1)"
    using len by (auto dest: be_bytes_inject)
  finally show ?thesis
    unfolding eq rid(1) by (auto simp: hex_byte_def be_bytes_def)
qed

theorem fallback_request_ids_distinct_witness:
  "snd (NewRequestID None 1 41) \<noteq> snd (NewRequestID None 1 42) \<and>
   snd (NewRequestID None 1 41) = snd (NewRequestID None 1 (41 + 2 ^ 32))"
  using fallback_request_ids_distinct [of 1 41 "fst (NewRequestID None 1 41)" "snd (NewRequestID None 1 41)"
      1 42 "fst (NewRequestID None 1 42)" "snd (NewRequestID None 1 42)"]
    fallback_request_ids_distinct [of 1 41 "fst (NewRequestID None 1 41)" "snd (NewRequestID None 1 41)"
      1 "41 + 2 ^ 32" "fst (NewRequestID None 1 (41 + 2 ^ 32))" "snd (NewRequestID None 1 (41 + 2 ^ 32))"]
  by simp

text \<open>A session that is opened carries the identity the resolver returned and dispatches
  each tool name to the last listed tool that advertises it; a name nobody
  advertises is not offered.\<close>

theorem session_catalogue_targets:
  assumes "BuildGetServer gw resolver r w = (w', Some srv)"
  shows "\<exists>tools. iv_ListTools gw w = (w', Inr tools) \<and> resolver r = Inr (srv_Tenant srv, srv_Client srv) \<and>
    map_option mt_Target (gm_get (srv_Tools srv) name) = last_advertiser tools name"
proof -
  obtain t c tools where ids: "resolver r = Inr (t, c)" and tools: "iv_ListTools gw w = (w', Inr tools)"
      and srv: "srv = foldl (\<lambda>srv t. RegisterResources t (RegisterTool t srv)) (new_server t c) tools"
    using assms by (rule BuildGetServer_Some)
  have "srv_Tenant srv = t" "srv_Client srv = c"
    unfolding srv by (simp_all add: foldl_frame new_server_def)
  moreover have "map_option mt_Target (gm_get (srv_Tools srv) name) = last_advertiser tools name"
    unfolding srv catalogue_targets by (simp add: new_server_def split: option.split)
  ultimately show ?thesis using ids tools by (intro exI [of _ tools]) simp
qed

theorem session_catalogue_targets_witness:
  "\<forall>t :: Tool. \<exists>srv. BuildGetServer
       \<lparr>iv_Invoke = \<lambda>_ w. (w, None, Some (PlainErr ''down'')), iv_ListTools = \<lambda>w. (w, Inr [t\<lparr>tool_ID := ''a'', tool_Schemas := []\<rparr>,
          t\<lparr>tool_ID := ''b'', tool_Schemas := [\<lparr>schema_Name = ''a'', schema_Description = '''', schema_InputSchema = None\<rparr>]\<rparr>]),
        iv_InvokeStream = \<lambda>_ w. (w, Inl (PlainErr ''down''))\<rparr> (\<lambda>_. Inr (''acme'', ''cli'')) () () = ((), Some srv) \<and>
     map_option mt_Target (gm_get (srv_Tools srv) ''a'') = Some ''b'' \<and>
     map_option mt_Target (gm_get (srv_Tools srv) ''c'') = None"
proof
  fix t :: Tool
  let ?tools = "[t\<lparr>tool_ID := ''a'', tool_Schemas := []\<rparr>,
          t\<lparr>tool_ID := ''b'', tool_Schemas := [\<lparr>schema_Name = ''a'', schema_Description = '''', schema_InputSchema = None\<rparr>]\<rparr>]"
  let ?gw = "\<lparr>iv_Invoke = \<lambda>_ w. (w, None, Some (PlainErr ''down'')), iv_ListTools = \<lambda>w. (w, Inr ?tools),
        iv_InvokeStream = \<lambda>_ w. (w, Inl (PlainErr ''down''))\<rparr> :: unit invoker"
  obtain srv where srv: "BuildGetServer ?gw (\<lambda>_. Inr (''acme'', ''cli'')) () () = ((), Some srv)"
    by (simp add: BuildGetServer_def)
  show "\<exists>srv. BuildGetServer ?gw (\<lambda>_. Inr (''acme'', ''cli'')) () () = ((), Some srv) \<and>
     map_option mt_Target (gm_get (srv_Tools srv) ''a'') = Some ''b'' \<and>
     map_option mt_Target (gm_get (srv_Tools srv) ''c'') = None"
    using srv session_catalogue_targets [OF srv, of "''a''"] session_catalogue_targets [OF srv, of "''c''"]
    by (simp add: last_advertiser_def advertised_def)
qed

end
