(* ===== verification/Ingress_Grpc.thy ===== *)
theory Ingress_Grpc
  imports Ingress
begin

text \<open>
  The gRPC ingress (internal/ingress/grpc): bearer token authentication, the cache
  of tool names, and the handlers that turn a gRPC call into an invocation and the
  gateway's result into a gRPC response; with the token resolver of mcp/auth.go.

  A request context holds the metadata of the call and the token claims an
  interceptor left in it. What decides whether a verifier's error is the
  \<open>ErrInvalidToken\<close> of the protocol library is an argument.
\<close>

datatype grpc_code = InvalidArgument | NotFound | PermissionDenied | Internal | Unauthenticated

datatype grpc_status = Status (status_code: grpc_code) (status_text: string)

type_synonym metadata = "(string, string list) gomap"

record grpc_ctx =
  gc_metadata :: "metadata option"
  gc_token :: "TokenInfo option"

section \<open>Authentication (auth.go)\<close>

definition metadataKeyAuthorization :: string where
  "metadataKeyAuthorization = ''authorization''"

definition bearerPrefix :: string where
  "bearerPrefix = ''bearer ''"

definition extractBearerToken :: "grpc_ctx \<Rightarrow> go_error + string" where
  "extractBearerToken ctx =
     (case gc_metadata ctx of
        None \<Rightarrow> Inl (PlainErr ''missing gRPC metadata'')
      | Some md \<Rightarrow>
          (case gm_get md metadataKeyAuthorization of
             None \<Rightarrow> Inl (PlainErr ''missing authorization metadata'')
           | Some [] \<Rightarrow> Inl (PlainErr ''missing authorization metadata'')
           | Some (authValue # _) \<Rightarrow>
               if length authValue \<le> length bearerPrefix \<or>
                  ToLower (take (length bearerPrefix) authValue) \<noteq> ToLower bearerPrefix
               then Inl (PlainErr ''authorization metadata must use Bearer scheme'')
               else Inr (drop (length bearerPrefix) authValue)))"

definition checkScopes :: "TokenInfo option \<Rightarrow> string list \<Rightarrow> go_error option" where
  "checkScopes info required =
     (case info of
        None \<Rightarrow> Some (PlainErr ''insufficient scope: no token info'')
      | Some i \<Rightarrow>
          map_option (\<lambda>req. PlainErr (''insufficient scope: missing '' @ req))
            (find (\<lambda>req. req \<notin> set (ti_Scopes i)) required))"

definition authenticateGRPC ::
  "(go_error \<Rightarrow> bool) \<Rightarrow> (string \<Rightarrow> go_error + TokenInfo option) \<Rightarrow> string list \<Rightarrow> grpc_ctx \<Rightarrow> grpc_status + grpc_ctx" where
  "authenticateGRPC isInvalidToken verify requiredScopes ctx =
     (case extractBearerToken ctx of
        Inl err \<Rightarrow> Inl (Status Unauthenticated (error_text err))
      | Inr token \<Rightarrow>
          (case verify token of
             Inl err \<Rightarrow>
               if isInvalidToken err then Inl (Status Unauthenticated (''invalid token: '' @ error_text err))
               else Inl (Status Unauthenticated (''token verification failed: '' @ error_text err))
           | Inr info \<Rightarrow>
               (case (if length requiredScopes > 0 then checkScopes info requiredScopes else None) of
                  Some err \<Rightarrow> Inl (Status PermissionDenied (error_text err))
                | None \<Rightarrow> Inr (ctx\<lparr>gc_token := info\<rparr>))))"

text \<open>
  The unary and the stream interceptor run the handler in the context that
  \<open>authenticateGRPC\<close> returns; a stream handler has the unit value as its result.
\<close>

type_synonym ('w, 'a) grpc_handler = "grpc_ctx \<Rightarrow> 'w \<Rightarrow> 'w \<times> (grpc_status + 'a)"

definition AuthInterceptors ::
  "(go_error \<Rightarrow> bool) \<Rightarrow> EnterpriseAuthConfig option \<Rightarrow> go_error + (grpc_ctx \<Rightarrow> ('w, 'a) grpc_handler \<Rightarrow> 'w \<Rightarrow> 'w \<times> (grpc_status + 'a))" where
  "AuthInterceptors isInvalidToken ea =
     (case ea of
        None \<Rightarrow> Inl (PlainErr ''enterprise auth config must not be nil'')
      | Some ea \<Rightarrow>
          (case ea_TokenVerifier ea of
             None \<Rightarrow> Inl (PlainErr ''enterprise auth: TokenVerifier must not be nil'')
           | Some verify \<Rightarrow>
               Inr (\<lambda>ctx handler w.
                 case authenticateGRPC isInvalidToken verify (ea_RequiredScopes ea) ctx of
                   Inl err \<Rightarrow> (w, Inl err)
                 | Inr enriched \<Rightarrow> handler enriched w)))"

definition NewGRPCTokenIdentityResolver :: "(TokenInfo option \<Rightarrow> identity) option \<Rightarrow> grpc_ctx \<Rightarrow> identity" where
  "NewGRPCTokenIdentityResolver mapper ctx =
     (let mapper = (case mapper of None \<Rightarrow> DefaultIdentityMapper | Some m \<Rightarrow> m)
      in case gc_token ctx of
           None \<Rightarrow> Inl (rt_error ErrCodeInvalidRequest ''missing bearer token context'')
         | Some info \<Rightarrow> mapper (Some info))"

record GRPCIngressConfig =
  gi_IdentityResolver :: "(grpc_ctx \<Rightarrow> identity) option"
  gi_EnterpriseAuth :: "EnterpriseAuthConfig option"
  gi_ToolCacheTTL :: duration

definition resolveGRPCAuthDefaults :: "GRPCIngressConfig \<Rightarrow> go_error + GRPCIngressConfig" where
  "resolveGRPCAuthDefaults cfg =
     (case gi_EnterpriseAuth cfg of
        None \<Rightarrow> Inr cfg
      | Some ea \<Rightarrow>
          if ea_TokenVerifier ea = None then Inl (PlainErr ''enterprise auth: TokenVerifier must not be nil'')
          else
            Inr (case gi_IdentityResolver cfg of
                   None \<Rightarrow> cfg\<lparr>gi_IdentityResolver := Some (NewGRPCTokenIdentityResolver (ea_IdentityMapper ea))\<rparr>
                 | Some _ \<Rightarrow> cfg))"

section \<open>Tool names (resolve.go, cache.go)\<close>

text \<open>The names a tool answers to, and the first tool of a list that answers to a name.\<close>

definition answers_to :: "Tool \<Rightarrow> string list" where
  "answers_to tool = tool_ID tool # map schema_Name (tool_Schemas tool)"

definition tool_not_found :: "string \<Rightarrow> go_error" where
  "tool_not_found toolName = PlainErr (''tool '' @ quoted toolName @ '' not found'')"

definition resolve_in :: "Tool list \<Rightarrow> string \<Rightarrow> go_error + ToolID" where
  "resolve_in tools toolName =
     (case find (\<lambda>tool. toolName \<in> set (answers_to tool)) tools of
        None \<Rightarrow> Inl (tool_not_found toolName)
      | Some tool \<Rightarrow> Inr (tool_ID tool))"

definition list_tools_failed :: "go_error \<Rightarrow> go_error" where
  "list_tools_failed err = WrapErr (''list tools: '' @ error_text err) err"

definition resolveToolID :: "'w invoker \<Rightarrow> string \<Rightarrow> 'w \<Rightarrow> 'w \<times> (go_error + ToolID)" where
  "resolveToolID gw toolName w =
     (case iv_ListTools gw w of
        (w, Inl err) \<Rightarrow> (w, Inl (list_tools_failed err))
      | (w, Inr tools) \<Rightarrow> (w, resolve_in tools toolName))"

text \<open>\<open>tc_expireAt\<close> is the zero time at first, which is before every reading of the clock.\<close>

record toolNameCache =
  tc_byName :: "(string, ToolID) gomap"
  tc_expireAt :: time
  tc_ttl :: duration

definition newToolNameCache :: "duration \<Rightarrow> toolNameCache" where
  "newToolNameCache ttl = \<lparr>tc_byName = [], tc_expireAt = 0, tc_ttl = ttl\<rparr>"

definition buildToolNameMap :: "Tool list \<Rightarrow> (string, ToolID) gomap" where
  "buildToolNameMap tools =
     foldl (\<lambda>m tool. foldl (\<lambda>m schema. gm_put (schema_Name schema) (tool_ID tool) m)
       (gm_put (tool_ID tool) (tool_ID tool) m) (tool_Schemas tool)) [] tools"

definition cached_name :: "toolNameCache \<Rightarrow> string \<Rightarrow> go_error + ToolID" where
  "cached_name c toolName =
     (case gm_get (tc_byName c) toolName of None \<Rightarrow> Inl (tool_not_found toolName) | Some u \<Rightarrow> Inr u)"

text \<open>
  \<open>resolve\<close> reads the cache under the read lock; when that gives no answer,
  \<open>refreshAndResolve\<close> runs under the write lock and reads the cache again, since
  another request may have refreshed it in between. The clock is read when a lock
  is taken, and once more after the tools were listed.
\<close>

definition resolve_cached :: "time \<Rightarrow> toolNameCache \<Rightarrow> string \<Rightarrow> (go_error + ToolID) option" where
  "resolve_cached now c toolName = (if now < tc_expireAt c then Some (cached_name c toolName) else None)"

definition refreshAndResolve ::
  "'w invoker \<Rightarrow> time \<Rightarrow> time \<Rightarrow> string \<Rightarrow> toolNameCache \<Rightarrow> 'w \<Rightarrow> toolNameCache \<times> 'w \<times> (go_error + ToolID)" where
  "refreshAndResolve gw now listed toolName c w =
     (if now < tc_expireAt c then (c, w, cached_name c toolName)
      else
        (case iv_ListTools gw w of
           (w, Inl err) \<Rightarrow> (c, w, Inl (list_tools_failed err))
         | (w, Inr tools) \<Rightarrow>
             (let c = c\<lparr>tc_byName := buildToolNameMap tools, tc_expireAt := listed + tc_ttl c\<rparr>
              in (c, w, cached_name c toolName))))"

text \<open>A request on its own, with the three readings of the clock.\<close>

definition resolve ::
  "'w invoker \<Rightarrow> time \<times> time \<times> time \<Rightarrow> string \<Rightarrow> toolNameCache \<Rightarrow> 'w \<Rightarrow> toolNameCache \<times> 'w \<times> (go_error + ToolID)" where
  "resolve gw clock toolName c w =
     (case clock of (now, locked, listed) \<Rightarrow>
        (case resolve_cached now c toolName of
           Some r \<Rightarrow> (c, w, r)
         | None \<Rightarrow> refreshAndResolve gw locked listed toolName c w))"

section \<open>Conversion of results (convert.go)\<close>

record ContentItem =
  ci_Type :: string
  ci_Text :: string
  ci_MimeType :: string
  ci_Data :: string

record CallToolResponse =
  cr_IsError :: bool
  cr_Content :: "ContentItem list"
  cr_StructuredContent :: string

definition contentFieldMimeType :: string where
  "contentFieldMimeType = ''mime_type''"

definition grpc_content_item :: "anymap \<Rightarrow> ContentItem" where
  "grpc_content_item item =
     \<lparr>ci_Type = as_string (gm_get item ''type''), ci_Text = as_string (gm_get item ''text''),
      ci_MimeType = as_string (gm_get item contentFieldMimeType), ci_Data = as_string (gm_get item ''data'')\<rparr>"

definition outputToContentItems :: "anymap option \<Rightarrow> ContentItem list" where
  "outputToContentItems output =
     (case output of
        None \<Rightarrow> []
      | Some out \<Rightarrow>
          (case gm_get out ''content'' of
             None \<Rightarrow> []
           | Some rawContent \<Rightarrow> map grpc_content_item (content_maps rawContent)))"

definition text_response :: "bool \<Rightarrow> string \<Rightarrow> CallToolResponse" where
  "text_response isError msg =
     \<lparr>cr_IsError = isError, cr_Content = [\<lparr>ci_Type = ''text'', ci_Text = msg, ci_MimeType = '''', ci_Data = ''''\<rparr>],
      cr_StructuredContent = ''''\<rparr>"

definition executionResultToCallToolResponse ::
  "(anymap \<Rightarrow> go_error + string) \<Rightarrow> ExecutionResult option \<Rightarrow> CallToolResponse" where
  "executionResultToCallToolResponse marshal result =
     (case result of
        None \<Rightarrow> text_response True ''empty result from gateway''
      | Some res \<Rightarrow>
          if exec_Status res \<noteq> ExecutionStatusSuccess then text_response True (failure_text res)
          else
            \<lparr>cr_IsError = False, cr_Content = outputToContentItems (exec_Output res),
             cr_StructuredContent =
               (case exec_Output res of
                  None \<Rightarrow> ''''
                | Some out \<Rightarrow> (case marshal out of Inl err \<Rightarrow> '''' | Inr data \<Rightarrow> data))\<rparr>)"

text \<open>A tool of the listing: its identifier, and the name, description and schema of each operation.\<close>

type_synonym ToolInfo = "string \<times> (string \<times> string \<times> string option) list"

definition toolsToListToolsResponse :: "Tool list \<Rightarrow> ToolInfo list" where
  "toolsToListToolsResponse tools =
     map (\<lambda>tool. (tool_ID tool,
       map (\<lambda>s. (schema_Name s, schema_Description s, schema_InputSchema s)) (tool_Schemas tool))) tools"

section \<open>Handlers (handler.go)\<close>

definition DefaultToolCacheTTL :: duration where
  "DefaultToolCacheTTL = 5 * second"

record grpc_server =
  gs_resolver :: "grpc_ctx \<Rightarrow> identity"
  gs_cache :: "toolNameCache option"

definition NewServer :: "'w invoker option \<Rightarrow> GRPCIngressConfig \<Rightarrow> go_error + grpc_server" where
  "NewServer gw cfg =
     (if gw = None then Inl (PlainErr ''ingress/grpc: gateway must not be nil'')
      else
        (case resolveGRPCAuthDefaults cfg of
           Inl err \<Rightarrow> Inl err
         | Inr cfg \<Rightarrow>
             (case gi_IdentityResolver cfg of
                None \<Rightarrow> Inl (PlainErr ''ingress/grpc: IdentityResolver must not be nil'')
              | Some resolver \<Rightarrow>
                  (let ttl = (if gi_ToolCacheTTL cfg = 0 then DefaultToolCacheTTL else gi_ToolCacheTTL cfg)
                   in Inr \<lparr>gs_resolver = resolver, gs_cache = (if ttl > 0 then Some (newToolNameCache ttl) else None)\<rparr>))))"

text \<open>
  What a request reads of its surroundings: the clock as \<open>resolve\<close> reads it, and the
  identifier and arrival time of the invocation.
\<close>

type_synonym readings = "(time \<times> time \<times> time) \<times> stamp"

definition resolve_tool ::
  "'w invoker \<Rightarrow> time \<times> time \<times> time \<Rightarrow> string \<Rightarrow> grpc_server \<times> 'w \<Rightarrow> (grpc_server \<times> 'w) \<times> (go_error + ToolID)" where
  "resolve_tool gw clock toolName s =
     (case s of (srv, w) \<Rightarrow>
        (case gs_cache srv of
           Some c \<Rightarrow> (let (c, w, r) = resolve gw clock toolName c w in ((srv\<lparr>gs_cache := Some c\<rparr>, w), r))
         | None \<Rightarrow> (let (w, r) = resolveToolID gw toolName w in ((srv, w), r))))"

definition buildInvocation ::
  "json_codec \<Rightarrow> 'w invoker \<Rightarrow> readings \<Rightarrow> string \<Rightarrow> string \<Rightarrow> grpc_ctx \<Rightarrow> grpc_server \<times> 'w \<Rightarrow>
     (grpc_server \<times> 'w) \<times> (grpc_status + Invocation)" where
  "buildInvocation js gw rds toolName argsBytes ctx s =
     (if toolName = '''' then (s, Inl (Status InvalidArgument ''tool_name must not be empty''))
      else
     (case gs_resolver (fst s) ctx of
        Inl err \<Rightarrow> (s, Inl (Status Unauthenticated (''identity resolution: '' @ error_text err)))
      | Inr (tenantID, clientID) \<Rightarrow>
     (case resolve_tool gw (fst rds) toolName s of
        (s, Inl err) \<Rightarrow> (s, Inl (Status NotFound (error_text err)))
      | (s, Inr toolID) \<Rightarrow>
     (case (if length argsBytes > 0 then json_Unmarshal js argsBytes else Inr []) of
        Inl err \<Rightarrow> (s, Inl (Status InvalidArgument (''invalid arguments JSON: '' @ error_text err)))
      | Inr args \<Rightarrow>
          (s, Inr (with_scopes (gc_token ctx)
                (new_invocation (snd rds) toolID ''tools/call''
                  [(''name'', AString toolName), (''arguments'', AMap args)] tenantID clientID)))))))"

definition grpc_ListTools :: "'w invoker \<Rightarrow> 'w \<Rightarrow> 'w \<times> (grpc_status + ToolInfo list)" where
  "grpc_ListTools gw w =
     (case iv_ListTools gw w of
        (w, Inl err) \<Rightarrow> (w, Inl (Status Internal (''list tools: '' @ error_text err)))
      | (w, Inr tools) \<Rightarrow> (w, Inr (toolsToListToolsResponse tools)))"

definition CallTool ::
  "json_codec \<Rightarrow> 'w invoker \<Rightarrow> readings \<Rightarrow> string \<times> string \<Rightarrow> grpc_ctx \<Rightarrow> grpc_server \<times> 'w \<Rightarrow>
     (grpc_server \<times> 'w) \<times> (grpc_status + CallToolResponse)" where
  "CallTool js gw rds req ctx s =
     (case buildInvocation js gw rds (fst req) (snd req) ctx s of
        (s, Inl err) \<Rightarrow> (s, Inl err)
      | ((srv, w), Inr ivk) \<Rightarrow>
          (case iv_Invoke gw ivk w of
             (w, None, Some gwErr) \<Rightarrow> ((srv, w), Inl (Status Internal (''invoke: '' @ error_text gwErr)))
           | (w, result, _) \<Rightarrow> ((srv, w), Inr (executionResultToCallToolResponse (json_Marshal js) result))))"

text \<open>
  A streamed call. \<open>send\<close> delivers one message to the client and may fail. A progress
  event is carried as its payload.
\<close>

datatype stream_response = ProgressPayload string | ResultPayload CallToolResponse

fun send_progress ::
  "(stream_response \<Rightarrow> 'w \<Rightarrow> 'w \<times> go_error option) \<Rightarrow> string list \<Rightarrow> 'w \<Rightarrow> 'w \<times> grpc_status option" where
  "send_progress send [] w = (w, None)"
| "send_progress send (pe # pes) w =
     (case send (ProgressPayload pe) w of
        (w, Some err) \<Rightarrow> (w, Some (Status Internal (''send progress: '' @ error_text err)))
      | (w, None) \<Rightarrow> send_progress send pes w)"

datatype stream_end = StreamStatus grpc_status | StreamSendError go_error

definition CallToolStream ::
  "json_codec \<Rightarrow> 'w invoker \<Rightarrow> (stream_response \<Rightarrow> 'w \<Rightarrow> 'w \<times> go_error option) \<Rightarrow> readings \<Rightarrow> string \<times> string \<Rightarrow>
     grpc_ctx \<Rightarrow> grpc_server \<times> 'w \<Rightarrow> (grpc_server \<times> 'w) \<times> stream_end option" where
  "CallToolStream js gw send rds req ctx s =
     (case buildInvocation js gw rds (fst req) (snd req) ctx s of
        (s, Inl err) \<Rightarrow> (s, Some (StreamStatus err))
      | ((srv, w), Inr ivk) \<Rightarrow>
     (case iv_InvokeStream gw ivk w of
        (w, Inl gwErr) \<Rightarrow> ((srv, w), Some (StreamStatus (Status Internal (''invoke stream: '' @ error_text gwErr))))
      | (w, Inr sr) \<Rightarrow>
     (case send_progress send (str_progress sr) w of
        (w, Some err) \<Rightarrow> ((srv, w), Some (StreamStatus err))
      | (w, None) \<Rightarrow>
          (let (w, e) = send (ResultPayload (executionResultToCallToolResponse (json_Marshal js) (str_final sr))) w
           in ((srv, w), map_option StreamSendError e)))))"

section \<open>The cached names\<close>

text \<open>No two tools of a listing answer to the same name, unless they are the same tool.\<close>

definition unambiguous :: "Tool list \<Rightarrow> bool" where
  "unambiguous tools \<longleftrightarrow>
     (\<forall>t \<in> set tools. \<forall>u \<in> set tools. set (answers_to t) \<inter> set (answers_to u) \<noteq> {} \<longrightarrow> tool_ID t = tool_ID u)"

lemma schema_names_get:
  "gm_get (foldl (\<lambda>m schema. gm_put (schema_Name schema) u m) m schemas) name =
     (if name \<in> schema_Name ` set schemas then Some u else gm_get m name)"
  by (induction schemas arbitrary: m) (auto simp: gomap_simps)

lemma names_of_tools:
  "gm_get (foldl (\<lambda>m tool. foldl (\<lambda>m schema. gm_put (schema_Name schema) (tool_ID tool) m)
       (gm_put (tool_ID tool) (tool_ID tool) m) (tool_Schemas tool)) m tools) name =
     (case find (\<lambda>tool. name \<in> set (answers_to tool)) (rev tools) of
        None \<Rightarrow> gm_get m name | Some tool \<Rightarrow> Some (tool_ID tool))"
proof (induction tools rule: rev_induct)
  case (snoc tool tools)
  then show ?case
    by (auto simp: schema_names_get gomap_simps answers_to_def)
qed simp

text \<open>The cache gives a name to the last tool that answers to it, the uncached search to the first.\<close>

lemma buildToolNameMap_last:
  "gm_get (buildToolNameMap tools) name =
     map_option tool_ID (find (\<lambda>tool. name \<in> set (answers_to tool)) (rev tools))"
  by (simp add: buildToolNameMap_def names_of_tools split: option.split)

lemma unambiguous_find_rev:
  assumes "unambiguous tools"
  shows "map_option tool_ID (find (\<lambda>tool. name \<in> set (answers_to tool)) (rev tools)) =
    map_option tool_ID (find (\<lambda>tool. name \<in> set (answers_to tool)) tools)"
proof -
  let ?P = "\<lambda>tool. name \<in> set (answers_to tool)"
  show ?thesis
  proof (cases "find ?P tools")
    case None
    then have "find ?P (rev tools) = None" by (simp add: find_None_iff)
    with None show ?thesis by simp
  next
    case (Some t)
    then have t: "t \<in> set tools" "?P t" by (auto dest: find_SomeD)
    then have "find ?P (rev tools) \<noteq> None" by (auto simp: find_None_iff)
    then obtain u where u: "find ?P (rev tools) = Some u" by blast
    then have "u \<in> set tools" "?P u" by (auto dest: find_SomeD)
    with t have "tool_ID u = tool_ID t" using assms unfolding unambiguous_def by blast
    with Some u show ?thesis by simp
  qed
qed

lemma cached_name_resolve_in:
  assumes "unambiguous tools" and "tc_byName c = buildToolNameMap tools"
  shows "cached_name c name = resolve_in tools name"
  using unambiguous_find_rev [OF assms(1), of name] assms(2)
  by (auto simp: cached_name_def resolve_in_def buildToolNameMap_last split: option.splits)

text \<open>
  Requests that share the cache. Each locked section is one step, the tools of the
  gateway change between them, and the clock does not go back. A state carries the
  successful listings, latest first, as pairs of the time they were stored and the
  tools; a label is an answer: when it was given, for which name, and what it was.
\<close>

type_synonym 'w cache_state = "toolNameCache \<times> 'w \<times> time \<times> (time \<times> Tool list) list"

definition listing :: "'w invoker \<Rightarrow> time \<Rightarrow> time \<Rightarrow> toolNameCache \<Rightarrow> 'w \<Rightarrow> (time \<times> Tool list) list" where
  "listing gw now listed c w =
     (if now < tc_expireAt c then []
      else case iv_ListTools gw w of (_, Inl _) \<Rightarrow> [] | (_, Inr tools) \<Rightarrow> [(listed, tools)])"

inductive cache_run ::
  "'w invoker \<Rightarrow> 'w cache_state \<Rightarrow> (time \<times> string \<times> (go_error + ToolID)) list \<Rightarrow> 'w cache_state \<Rightarrow> bool"
  for gw and s where
  start: "cache_run gw s [] s"
| hit: "cache_run gw s answers (c, w, now, hist) \<Longrightarrow> now \<le> t \<Longrightarrow> resolve_cached t c name = Some r \<Longrightarrow>
    cache_run gw s ((t, name, r) # answers) (c, w, t, hist)"
| refresh: "cache_run gw s answers (c, w, now, hist) \<Longrightarrow> now \<le> t \<Longrightarrow> t \<le> listed \<Longrightarrow>
    refreshAndResolve gw t listed name c w = (c', w', r) \<Longrightarrow>
    cache_run gw s ((if t < tc_expireAt c then t else listed, name, r) # answers) (c', w', listed, listing gw t listed c w @ hist)"
| change: "cache_run gw s answers (c, w, now, hist) \<Longrightarrow> cache_run gw s answers (c, w', now, hist)"

text \<open>What an answer promises: it is that of a search in tools listed less than the lifetime ago.\<close>

definition answer_ok :: "duration \<Rightarrow> (time \<times> Tool list) list \<Rightarrow> time \<times> string \<times> (go_error + ToolID) \<Rightarrow> bool" where
  "answer_ok ttl hist a \<longleftrightarrow>
     (case a of (t, name, r) \<Rightarrow>
        (\<exists>(t0, tools) \<in> set hist. t0 \<le> t \<and> t < t0 + ttl \<and> r = resolve_in tools name) \<or>
        (\<exists>err. r = Inl (list_tools_failed err)))"

lemma answer_ok_mono: "answer_ok ttl hist a \<Longrightarrow> answer_ok ttl (newer @ hist) a"
  by (auto simp: answer_ok_def split: prod.splits)

text \<open>The cache holds nothing yet, or the names of the latest listing.\<close>

definition cache_inv :: "duration \<Rightarrow> 'w cache_state \<Rightarrow> bool" where
  "cache_inv ttl s \<longleftrightarrow>
     (case s of (c, w, now, hist) \<Rightarrow>
        0 \<le> now \<and> tc_ttl c = ttl \<and>
        (case hist of
           [] \<Rightarrow> tc_expireAt c = 0
         | (t0, tools) # _ \<Rightarrow> t0 \<le> now \<and> tc_expireAt c = t0 + ttl \<and> tc_byName c = buildToolNameMap tools \<and> unambiguous tools))"

lemma cached_answer_ok:
  assumes "cache_inv ttl (c, w, now, hist)" and "now \<le> t" and "t < tc_expireAt c"
  shows "answer_ok ttl hist (t, name, cached_name c name)"
proof -
  from assms obtain t0 tools rest where "hist = (t0, tools) # rest" "t0 \<le> now" "tc_expireAt c = t0 + ttl"
      and "tc_byName c = buildToolNameMap tools" "unambiguous tools"
    by (auto simp: cache_inv_def split: list.splits)
  with assms show ?thesis by (auto simp: answer_ok_def cached_name_resolve_in)
qed

lemma refresh_step_ok:
  assumes refresh: "refreshAndResolve gw t listed name c w = (c', w', r)"
    and clear: "\<And>w w' tools. iv_ListTools gw w = (w', Inr tools) \<Longrightarrow> unambiguous tools"
    and pre: "cache_inv ttl (c, w, now, hist)" "now \<le> t" "t \<le> listed" "0 < ttl"
  shows "cache_inv ttl (c', w', listed, listing gw t listed c w @ hist) \<and>
    answer_ok ttl (listing gw t listed c w @ hist) (if t < tc_expireAt c then t else listed, name, r)"
proof (cases "t < tc_expireAt c")
  case True
  with refresh have same: "c' = c" "r = cached_name c name" "listing gw t listed c w = []"
    by (auto simp: refreshAndResolve_def listing_def)
  moreover have "cache_inv ttl (c, w', listed, hist)"
    using pre by (auto simp: cache_inv_def split: list.splits)
  ultimately show ?thesis using True cached_answer_ok [OF pre(1,2) True] by simp
next
  case expired: False
  show ?thesis
  proof (cases "snd (iv_ListTools gw w)")
    case (Inl err)
    with refresh expired have "c' = c" "r = Inl (list_tools_failed err)" "listing gw t listed c w = []"
      by (auto simp: refreshAndResolve_def listing_def split: prod.splits)
    moreover have "cache_inv ttl (c, w', listed, hist)"
      using pre by (auto simp: cache_inv_def split: list.splits)
    ultimately show ?thesis by (auto simp: answer_ok_def)
  next
    case (Inr tools)
    then have "unambiguous tools" by (metis clear prod.collapse)
    moreover from Inr refresh expired pre(1)
    have "c' = c\<lparr>tc_byName := buildToolNameMap tools, tc_expireAt := listed + ttl\<rparr>" "r = cached_name c' name"
        "listing gw t listed c w = [(listed, tools)]"
      by (auto simp: refreshAndResolve_def listing_def cache_inv_def Let_def split: prod.splits)
    ultimately show ?thesis
      using pre expired by (auto simp: cache_inv_def answer_ok_def cached_name_resolve_in)
  qed
qed

lemma cache_run_ok:
  assumes "cache_run gw s answers s'" and "cache_inv ttl s" and "0 < ttl"
    and "\<And>w w' tools. iv_ListTools gw w = (w', Inr tools) \<Longrightarrow> unambiguous tools"
  shows "cache_inv ttl s' \<and> (\<forall>a \<in> set answers. answer_ok ttl (snd (snd (snd s'))) a)"
  using assms
proof (induction rule: cache_run.induct)
  case start
  then show ?case by simp
next
  case (hit answers c w now hist t name r)
  then have ok: "cache_inv ttl (c, w, now, hist)" by simp
  from hit.hyps(3) have fresh: "t < tc_expireAt c" and r: "r = cached_name c name"
    by (auto simp: resolve_cached_def split: if_splits)
  have "cache_inv ttl (c, w, t, hist)"
    using ok hit.hyps(2) by (auto simp: cache_inv_def split: list.splits)
  with hit cached_answer_ok [OF ok hit.hyps(2) fresh, of name] r show ?case by simp
next
  case (refresh answers c w now hist t listed name c' w' r)
  have ok: "cache_inv ttl (c, w, now, hist)" using refresh by simp
  from refresh_step_ok [OF refresh.hyps(4) _ ok refresh.hyps(2,3) refresh.prems(2)] refresh.prems(3)
  show ?case using refresh by (auto intro: answer_ok_mono)
next
  case (change answers c w now hist w')
  then show ?case by (simp add: cache_inv_def)
qed

section \<open>Bearer tokens\<close>

definition carries :: "grpc_ctx \<Rightarrow> string \<Rightarrow> bool" where
  "carries ctx token \<longleftrightarrow>
     token \<noteq> '''' \<and>
     (\<exists>md scheme vs. gc_metadata ctx = Some md \<and> ToLower scheme = ''bearer'' \<and>
        gm_get md ''authorization'' = Some ((scheme @ '' '' @ token) # vs))"

definition admitted :: "EnterpriseAuthConfig \<Rightarrow> grpc_ctx \<Rightarrow> TokenInfo option \<Rightarrow> bool" where
  "admitted ea ctx info \<longleftrightarrow>
     (\<exists>verify token. ea_TokenVerifier ea = Some verify \<and> carries ctx token \<and> verify token = Inr info \<and>
        (ea_RequiredScopes ea \<noteq> [] \<longrightarrow> (\<exists>i. info = Some i \<and> set (ea_RequiredScopes ea) \<subseteq> set (ti_Scopes i))))"

lemma ToLower_append [simp]: "ToLower (s @ t) = ToLower s @ ToLower t"
  by (simp add: ToLower_def)

lemma length_ToLower [simp]: "length (ToLower s) = length s"
  by (simp add: ToLower_def)

lemma ToLower_space: "ToLower [c] = '' '' \<longleftrightarrow> c = CHR '' ''"
proof
  assume lower: "ToLower [c] = '' ''"
  show "c = CHR '' ''"
  proof (cases "65 \<le> (of_char c :: nat) \<and> (of_char c :: nat) \<le> 90")
    case True
    with lower have "char_of (of_char c + 32 :: nat) = CHR '' ''" by (simp add: ToLower_def Let_def)
    then have "of_char (char_of (of_char c + 32 :: nat)) = (32 :: nat)" by simp
    with True show ?thesis by simp
  qed (use lower in \<open>auto simp: ToLower_def Let_def split: if_splits\<close>)
qed (simp add: ToLower_def)

lemma bearer_split:
  assumes "ToLower (take 7 v) = ''bearer ''"
  shows "\<exists>scheme. ToLower scheme = ''bearer'' \<and> v = scheme @ '' '' @ drop 7 v"
proof -
  have len: "length (take 7 v) = 7" using arg_cong [OF assms, of length] by simp
  then have v7: "take 7 v = take 6 v @ [v ! 6]"
    by (simp add: take_Suc_conv_app_nth numeral_eq_Suc)
  with assms have "ToLower (take 6 v) @ ToLower [v ! 6] = ''bearer'' @ '' ''" by simp
  then have "ToLower (take 6 v) = ''bearer'' \<and> ToLower [v ! 6] = '' ''"
    by (subst (asm) append_eq_append_conv) (use len in simp_all)
  then have "ToLower (take 6 v) = ''bearer''" "v ! 6 = CHR '' ''" by (simp_all add: ToLower_space)
  with v7 show ?thesis by (metis append_assoc append_take_drop_id)
qed

lemma bearerPrefix_facts: "length bearerPrefix = 7" "ToLower bearerPrefix = ''bearer ''"
  by (simp_all add: bearerPrefix_def ToLower_def)

lemma extractBearerToken_iff: "extractBearerToken ctx = Inr token \<longleftrightarrow> carries ctx token"
proof
  assume "extractBearerToken ctx = Inr token"
  then obtain md v vs where md: "gc_metadata ctx = Some md" "gm_get md ''authorization'' = Some (v # vs)"
      and v: "7 < length v" "ToLower (take 7 v) = ''bearer ''" "token = drop 7 v"
    by (auto simp: extractBearerToken_def bearerPrefix_facts metadataKeyAuthorization_def not_le
        split: option.splits list.splits if_splits)
  from bearer_split [OF v(2)] obtain scheme where scheme: "ToLower scheme = ''bearer''" "v = scheme @ '' '' @ token"
    unfolding v(3) by blast
  moreover have "token \<noteq> ''''" using v(1) unfolding v(3) by simp
  ultimately show "carries ctx token" using md unfolding carries_def by blast
next
  assume "carries ctx token"
  then obtain md scheme vs where md: "gc_metadata ctx = Some md" "ToLower scheme = ''bearer''" "token \<noteq> ''''"
      "gm_get md ''authorization'' = Some ((scheme @ '' '' @ token) # vs)" by (auto simp: carries_def)
  have "length scheme = 6" using arg_cong [OF md(2), of length] by simp
  moreover have "ToLower '' '' = '' ''" by (simp add: ToLower_def)
  ultimately show "extractBearerToken ctx = Inr token"
    using md by (simp add: extractBearerToken_def bearerPrefix_facts metadataKeyAuthorization_def)
qed

lemma checkScopes_None_iff:
  "checkScopes info required = None \<longleftrightarrow> (\<exists>i. info = Some i \<and> set required \<subseteq> set (ti_Scopes i))"
  by (auto simp: checkScopes_def find_None_iff split: option.splits)

lemma authenticateGRPC_admitted:
  assumes "ea_TokenVerifier ea = Some verify"
  shows "(\<forall>info. admitted ea ctx info \<longrightarrow>
        authenticateGRPC isInvalid verify (ea_RequiredScopes ea) ctx = Inr (ctx\<lparr>gc_token := info\<rparr>)) \<and>
    ((\<nexists>info. admitted ea ctx info) \<longrightarrow>
       (\<exists>st. authenticateGRPC isInvalid verify (ea_RequiredScopes ea) ctx = Inl st \<and>
          status_code st \<in> {Unauthenticated, PermissionDenied}))"
proof (cases "extractBearerToken ctx")
  case (Inl e)
  then have "\<nexists>token. carries ctx token" by (simp flip: extractBearerToken_iff)
  with Inl show ?thesis by (auto simp: admitted_def authenticateGRPC_def)
next
  case (Inr token)
  then have "carries ctx token' \<longleftrightarrow> token' = token" for token' by (auto simp flip: extractBearerToken_iff)
  with assms have adm: "admitted ea ctx info \<longleftrightarrow> verify token = Inr info \<and>
      (ea_RequiredScopes ea \<noteq> [] \<longrightarrow> checkScopes info (ea_RequiredScopes ea) = None)" for info
    by (auto simp: admitted_def checkScopes_None_iff)
  show ?thesis
    unfolding adm using Inr by (auto simp: authenticateGRPC_def split: sum.splits option.splits)
qed

lemma intercept_cases:
  assumes "AuthInterceptors isInvalid (Some ea) = Inr intercept"
  shows "admitted ea ctx info \<Longrightarrow> intercept ctx handler w = handler (ctx\<lparr>gc_token := info\<rparr>) w"
    and "\<nexists>info. admitted ea ctx info \<Longrightarrow>
       \<exists>st. intercept ctx handler w = (w, Inl st) \<and> status_code st \<in> {Unauthenticated, PermissionDenied}"
proof -
  obtain verify where verify: "ea_TokenVerifier ea = Some verify"
      and icp: "intercept = (\<lambda>ctx handler w. case authenticateGRPC isInvalid verify (ea_RequiredScopes ea) ctx of
        Inl err \<Rightarrow> (w, Inl err) | Inr enriched \<Rightarrow> handler enriched w)"
    using assms by (auto simp: AuthInterceptors_def split: option.splits)
  note authenticateGRPC_admitted [OF verify, of ctx isInvalid]
  then show "admitted ea ctx info \<Longrightarrow> intercept ctx handler w = handler (ctx\<lparr>gc_token := info\<rparr>) w"
    and "\<nexists>info. admitted ea ctx info \<Longrightarrow>
       \<exists>st. intercept ctx handler w = (w, Inl st) \<and> status_code st \<in> {Unauthenticated, PermissionDenied}"
    unfolding icp by auto
qed

section \<open>Properties\<close>

text \<open>C18: Every RPC that reaches a handler behind the interceptor carries a bearer token that the
  verifier accepted and that grants every required scope, and the handler sees its
  claims; every other RPC is refused with Unauthenticated or PermissionDenied
  without running the handler.\<close>

theorem grpc_auth_gate:
  assumes "AuthInterceptors isInvalid (Some ea) = Inr intercept"
  shows "(\<forall>info. admitted ea ctx info \<longrightarrow> intercept ctx handler w = handler (ctx\<lparr>gc_token := info\<rparr>) w) \<and>
    ((\<nexists>info. admitted ea ctx info) \<longrightarrow>
       (\<exists>st. intercept ctx handler w = (w, Inl st) \<and> status_code st \<in> {Unauthenticated, PermissionDenied}))"
  using intercept_cases [OF assms] by blast

definition example_auth :: EnterpriseAuthConfig where
  "example_auth = \<lparr>ea_TokenVerifier = Some (\<lambda>token. if token = ''t1'' then Inr (Some \<lparr>ti_UserID = ''ann'', ti_Scopes = [''call'']\<rparr>)
       else Inl (PlainErr ''bad'')), ea_ResourceMetadata = None, ea_RequiredScopes = [''call''], ea_IdentityMapper = None\<rparr>"

definition example_ctx :: "string \<Rightarrow> grpc_ctx" where
  "example_ctx v = \<lparr>gc_metadata = Some [(''authorization'', [v])], gc_token = None\<rparr>"

lemma example_admitted:
  "admitted example_auth (example_ctx ''Bearer t1'') (Some \<lparr>ti_UserID = ''ann'', ti_Scopes = [''call'']\<rparr>)"
proof -
  have lower_B: "char_of (98 :: nat) = CHR ''b''" by code_simp
  have "carries (example_ctx ''Bearer t1'') ''t1''"
    by (simp flip: extractBearerToken_iff
        add: lower_B extractBearerToken_def example_ctx_def metadataKeyAuthorization_def bearerPrefix_def ToLower_def)
  then show ?thesis
    unfolding admitted_def by (intro exI [of _ "''t1''"] exI) (auto simp: example_auth_def)
qed

theorem grpc_auth_gate_witness:
  "\<exists>intercept. AuthInterceptors (\<lambda>_. True) (Some example_auth) = Inr intercept \<and>
     intercept (example_ctx ''Bearer t1'') (\<lambda>ctx n. (n + 1, Inr (gc_token ctx))) (0 :: nat) =
       (1, Inr (Some \<lparr>ti_UserID = ''ann'', ti_Scopes = [''call'']\<rparr>))"
proof -
  obtain intercept :: "grpc_ctx \<Rightarrow> (nat, TokenInfo option) grpc_handler \<Rightarrow> nat \<Rightarrow> nat \<times> (grpc_status + TokenInfo option)"
    where icp: "AuthInterceptors (\<lambda>_. True) (Some example_auth) = Inr intercept"
    by (simp add: AuthInterceptors_def example_auth_def)
  with grpc_auth_gate [OF icp, of "example_ctx ''Bearer t1''" "\<lambda>ctx n. (n + 1, Inr (gc_token ctx))" 0] example_admitted
  show ?thesis by (intro exI [of _ intercept]) (simp add: example_ctx_def)
qed

text \<open>C31: A gRPC tool call that gets a response under enterprise authorization was made with the
  scopes of an accepted token and for the identity the server is configured to take: the
  gateway is called for the tenant and client that the configured identity resolver gives
  for the request, or, when none is configured, that the identity mapper gives for the
  claims of the token; and the response is that of the gateway's result.\<close>

theorem grpc_call_attributed:
  assumes "gi_EnterpriseAuth cfg = Some ea"
    and "NewServer (Some gw) cfg = Inr srv" and "AuthInterceptors isInvalid (Some ea) = Inr intercept"
    and "intercept ctx (CallTool js gw rds req) (srv, w) = ((srv', w'), Inr resp)"
  shows "\<exists>info tenantID clientID ivk w1 result err. admitted ea ctx info \<and>
    (case gi_IdentityResolver cfg of
       Some resolver \<Rightarrow> resolver (ctx\<lparr>gc_token := info\<rparr>) = Inr (tenantID, clientID)
     | None \<Rightarrow> info \<noteq> None \<and>
         (case ea_IdentityMapper ea of None \<Rightarrow> DefaultIdentityMapper | Some m \<Rightarrow> m) info = Inr (tenantID, clientID)) \<and>
    corr_TenantID (inv_Correlation ivk) = tenantID \<and> corr_ClientID (inv_Correlation ivk) = clientID \<and>
    inv_Scopes ivk = (case info of None \<Rightarrow> [] | Some i \<Rightarrow> ti_Scopes i) \<and> iv_Invoke gw ivk w1 = (w', result, err) \<and>
    resp = executionResultToCallToolResponse (json_Marshal js) result"
proof -
  from assms(4) obtain info where adm: "admitted ea ctx info"
      and call: "CallTool js gw rds req (ctx\<lparr>gc_token := info\<rparr>) (srv, w) = ((srv', w'), Inr resp)"
    using intercept_cases(1) [OF assms(3), of ctx _ "CallTool js gw rds req" "(srv, w)"]
      intercept_cases(2) [OF assms(3), of ctx "CallTool js gw rds req" "(srv, w)"]
    by (metis Inl_Inr_False prod.inject)
  from call obtain srv1 w1 ivk result err
    where build: "buildInvocation js gw rds (fst req) (snd req) (ctx\<lparr>gc_token := info\<rparr>) (srv, w) = ((srv1, w1), Inr ivk)"
      and inv: "iv_Invoke gw ivk w1 = (w', result, err)" "resp = executionResultToCallToolResponse (json_Marshal js) result"
    by (auto simp: CallTool_def split: prod.splits sum.splits option.splits)
  from assms(1,2) have res: "gs_resolver srv = (case gi_IdentityResolver cfg of
      Some resolver \<Rightarrow> resolver | None \<Rightarrow> NewGRPCTokenIdentityResolver (ea_IdentityMapper ea))"
    by (auto simp: NewServer_def resolveGRPCAuthDefaults_def Let_def split: if_splits option.splits)
  from build obtain tenantID clientID toolID args where
      id: "gs_resolver srv (ctx\<lparr>gc_token := info\<rparr>) = Inr (tenantID, clientID)"
      and ivk: "ivk = with_scopes info (new_invocation (snd rds) toolID ''tools/call''
         [(''name'', AString (fst req)), (''arguments'', AMap args)] tenantID clientID)"
    by (auto simp: buildInvocation_def split: if_splits sum.splits prod.splits option.splits)
  have "case gi_IdentityResolver cfg of
       Some resolver \<Rightarrow> resolver (ctx\<lparr>gc_token := info\<rparr>) = Inr (tenantID, clientID)
     | None \<Rightarrow> info \<noteq> None \<and>
         (case ea_IdentityMapper ea of None \<Rightarrow> DefaultIdentityMapper | Some m \<Rightarrow> m) info = Inr (tenantID, clientID)"
    using id unfolding res
    by (cases info) (auto simp: NewGRPCTokenIdentityResolver_def Let_def split: option.splits)
  moreover have "corr_TenantID (inv_Correlation ivk) = tenantID" "corr_ClientID (inv_Correlation ivk) = clientID"
      "inv_Scopes ivk = (case info of None \<Rightarrow> [] | Some i \<Rightarrow> ti_Scopes i)"
    unfolding ivk by (simp_all add: with_scopes_def new_invocation_def split: option.split)
  ultimately show ?thesis using adm inv by blast
qed

definition example_gateway :: "Tool list \<Rightarrow> nat invoker" where
  "example_gateway tools =
     \<lparr>iv_Invoke = \<lambda>ivk n. (n + 1, Some \<lparr>exec_Status = ExecutionStatusSuccess,
          exec_Output = Some [(''content'', AMapSlice [[(''type'', AString ''text''), (''text'', AString (corr_ClientID (inv_Correlation ivk)))]])],
          exec_Err = None, exec_Duration = 0, exec_Correlation = inv_Correlation ivk\<rparr>, None),
      iv_ListTools = \<lambda>n. (n, Inr tools),
      iv_InvokeStream = \<lambda>_ n. (n, Inl (PlainErr ''no stream''))\<rparr>"

theorem grpc_call_attributed_witness:
  "\<forall>t :: Tool. \<exists>srv intercept w' srv' resp info.
     NewServer (Some (example_gateway [t\<lparr>tool_ID := ''calc''\<rparr>]))
       \<lparr>gi_IdentityResolver = None, gi_EnterpriseAuth = Some example_auth, gi_ToolCacheTTL = 0\<rparr> = Inr srv \<and>
     AuthInterceptors (\<lambda>_. True) (Some example_auth) = Inr intercept \<and>
     intercept (example_ctx ''Bearer t1'')
       (CallTool \<lparr>json_Unmarshal = \<lambda>_. Inr [], json_Marshal = \<lambda>_. Inr ''{}''\<rparr> (example_gateway [t\<lparr>tool_ID := ''calc''\<rparr>])
          ((1, 1, 1), ''r1'', 1) (''calc'', '''')) (srv, 0) = ((srv', w'), Inr resp) \<and>
     admitted example_auth (example_ctx ''Bearer t1'') info \<and>
     map ci_Text (cr_Content resp) = [''ann'']"
proof
  fix t :: Tool
  let ?gw = "example_gateway [t\<lparr>tool_ID := ''calc''\<rparr>]"
  let ?js = "\<lparr>json_Unmarshal = \<lambda>_. Inr [], json_Marshal = \<lambda>_. Inr ''{}''\<rparr>"
  let ?cfg = "\<lparr>gi_IdentityResolver = None, gi_EnterpriseAuth = Some example_auth, gi_ToolCacheTTL = 0\<rparr>"
  let ?call = "CallTool ?js ?gw ((1, 1, 1), ''r1'', 1) (''calc'', '''')"
  let ?srv = "\<lparr>gs_resolver = NewGRPCTokenIdentityResolver None, gs_cache = Some (newToolNameCache (5 * second))\<rparr>"
  have srv: "NewServer (Some ?gw) ?cfg = Inr ?srv"
    by (simp add: NewServer_def resolveGRPCAuthDefaults_def example_auth_def DefaultToolCacheTTL_def Let_def)
  obtain intercept :: "grpc_ctx \<Rightarrow> (grpc_server \<times> nat, CallToolResponse) grpc_handler \<Rightarrow> grpc_server \<times> nat \<Rightarrow>
      (grpc_server \<times> nat) \<times> (grpc_status + CallToolResponse)"
    where icp: "AuthInterceptors (\<lambda>_. True) (Some example_auth) = Inr intercept"
    by (simp add: AuthInterceptors_def example_auth_def)
  have "intercept (example_ctx ''Bearer t1'') ?call (?srv, 0) =
      ?call ((example_ctx ''Bearer t1'')\<lparr>gc_token := Some \<lparr>ti_UserID = ''ann'', ti_Scopes = [''call'']\<rparr>\<rparr>) (?srv, 0)"
    using intercept_cases [OF icp] example_admitted by blast
  moreover obtain srv' resp where
      "?call ((example_ctx ''Bearer t1'')\<lparr>gc_token := Some \<lparr>ti_UserID = ''ann'', ti_Scopes = [''call'']\<rparr>\<rparr>) (?srv, 0) =
         ((srv', 1), Inr resp)" and resp: "map ci_Text (cr_Content resp) = [''ann'']"
    by (simp add: CallTool_def buildInvocation_def NewGRPCTokenIdentityResolver_def DefaultIdentityMapper_def
        resolve_tool_def resolve_def resolve_cached_def refreshAndResolve_def newToolNameCache_def cached_name_def
        buildToolNameMap_last answers_to_def example_gateway_def Let_def with_scopes_def new_invocation_def
        executionResultToCallToolResponse_def outputToContentItems_def grpc_content_item_def)
  ultimately have call: "intercept (example_ctx ''Bearer t1'') ?call (?srv, 0) = ((srv', 1), Inr resp)" by simp
  have "gi_EnterpriseAuth ?cfg = Some example_auth" by simp
  from grpc_call_attributed [OF this srv icp call] obtain info
    where "admitted example_auth (example_ctx ''Bearer t1'') info" by blast
  with srv icp call resp show "\<exists>srv intercept w' srv' resp info. NewServer (Some ?gw) ?cfg = Inr srv \<and>
     AuthInterceptors (\<lambda>_. True) (Some example_auth) = Inr intercept \<and>
     intercept (example_ctx ''Bearer t1'') ?call (srv, 0) = ((srv', w'), Inr resp) \<and>
     admitted example_auth (example_ctx ''Bearer t1'') info \<and> map ci_Text (cr_Content resp) = [''ann'']"
    by (intro exI conjI) (assumption | simp)+
qed

text \<open>C19: The name cache of the gRPC ingress is transparent up to its lifetime. However requests,
  refreshes and changes of the tools interleave, each answer is the one a search
  without the cache would have given in a list of tools that was fetched before, and
  less than the lifetime before, the answer, or it reports that listing the tools
  failed; provided no listing has two tools that answer to one name.\<close>

theorem grpc_name_cache_transparent:
  assumes "cache_run gw (newToolNameCache ttl, w, start, []) answers (c, w', now, hist)"
    and "0 < ttl" and "0 \<le> start"
    and "\<And>w w' tools. iv_ListTools gw w = (w', Inr tools) \<Longrightarrow> unambiguous tools"
    and "(t, name, r) \<in> set answers"
  shows "(\<exists>t0 tools. (t0, tools) \<in> set hist \<and> t0 \<le> t \<and> t < t0 + ttl \<and> r = resolve_in tools name) \<or>
    (\<exists>err. r = Inl (list_tools_failed err))"
proof -
  have "cache_inv ttl (newToolNameCache ttl, w, start, [])"
    using assms(3) by (simp add: cache_inv_def newToolNameCache_def)
  from cache_run_ok [OF assms(1) this assms(2) assms(4)] assms(5)
  have "answer_ok ttl hist (t, name, r)" by auto
  then show ?thesis by (auto simp: answer_ok_def)
qed

theorem grpc_name_cache_transparent_witness:
  "\<forall>t :: Tool. \<exists>c hist. cache_run (example_gateway [t\<lparr>tool_ID := ''calc'', tool_Schemas := []\<rparr>]) (newToolNameCache 10, 0, 1, [])
     [(5, ''old'', Inl (tool_not_found ''old'')), (3, ''calc'', Inr ''calc'')] (c, 0, 5, hist) \<and>
     (\<exists>t0 tools. (t0, tools) \<in> set hist \<and> t0 \<le> 5 \<and> 5 < t0 + 10 \<and> resolve_in tools ''old'' = Inl (tool_not_found ''old''))"
proof
  fix t :: Tool
  let ?t = "t\<lparr>tool_ID := ''calc'', tool_Schemas := []\<rparr>"
  let ?gw = "example_gateway [?t]"
  let ?c = "(newToolNameCache 10)\<lparr>tc_byName := buildToolNameMap [?t], tc_expireAt := 3 + 10\<rparr>"
  have names: "cached_name ?c ''calc'' = Inr ''calc''" "cached_name ?c ''old'' = Inl (tool_not_found ''old'')"
    by (simp_all add: cached_name_def buildToolNameMap_last answers_to_def)
  have "refreshAndResolve ?gw 2 3 ''calc'' (newToolNameCache 10) 0 = (?c, 0, Inr ''calc'')"
    using names(1) by (simp add: refreshAndResolve_def example_gateway_def Let_def newToolNameCache_def)
  from cache_run.refresh [OF cache_run.start [of ?gw "(newToolNameCache 10, 0, 1, [])"] _ _ this]
  have one: "cache_run ?gw (newToolNameCache 10, 0, 1, []) [(3, ''calc'', Inr ''calc'')] (?c, 0, 3, [(3, [?t])])"
    by (simp add: newToolNameCache_def listing_def example_gateway_def)
  have run: "cache_run ?gw (newToolNameCache 10, 0, 1, [])
      [(5, ''old'', Inl (tool_not_found ''old'')), (3, ''calc'', Inr ''calc'')] (?c, 0, 5, [(3, [?t])])"
    by (rule cache_run.hit [OF one]) (use names(2) in \<open>simp_all add: resolve_cached_def\<close>)
  have clear: "unambiguous tools" if "iv_ListTools ?gw n = (n', Inr tools)" for n n' tools
    using that by (auto simp: example_gateway_def unambiguous_def)
  have "tool_not_found ''old'' \<noteq> list_tools_failed err" for err
    by (simp add: tool_not_found_def list_tools_failed_def)
  with grpc_name_cache_transparent [where t = 5 and name = "''old''" and r = "Inl (tool_not_found ''old'')", OF run _ _ clear] run
  show "\<exists>c hist. cache_run ?gw (newToolNameCache 10, 0, 1, [])
     [(5, ''old'', Inl (tool_not_found ''old'')), (3, ''calc'', Inr ''calc'')] (c, 0, 5, hist) \<and>
     (\<exists>t0 tools. (t0, tools) \<in> set hist \<and> t0 \<le> 5 \<and> 5 < t0 + 10 \<and> resolve_in tools ''old'' = Inl (tool_not_found ''old''))"
    by (intro exI [of _ ?c] exI [of _ "[(3, [?t])]"]) auto
qed

text \<open>An HTTP and a gRPC client see the same text of a result: a failed execution is an error
  with the same message, and a successful one with at least one non-empty text item
  gives the HTTP client exactly the text items the gRPC client gets.\<close>

theorem http_grpc_same_text:
  "(exec_Status res \<noteq> ExecutionStatusSuccess \<longrightarrow>
      cr_IsError (executionResultToCallToolResponse marshal (Some res)) \<and>
      ctr_IsError (ExecutionResultToCallToolResult marshal (Some res, err)) \<and>
      ctr_Content (ExecutionResultToCallToolResult marshal (Some res, err)) =
        map (TextContent \<circ> ci_Text) (cr_Content (executionResultToCallToolResponse marshal (Some res)))) \<and>
   (exec_Status res = ExecutionStatusSuccess \<and>
      filter (\<lambda>i. ci_Type i = ''text'' \<and> ci_Text i \<noteq> '''') (cr_Content (executionResultToCallToolResponse marshal (Some res))) = items \<and>
      items \<noteq> [] \<longrightarrow>
      \<not> ctr_IsError (ExecutionResultToCallToolResult marshal (Some res, err)) \<and>
      ctr_Content (ExecutionResultToCallToolResult marshal (Some res, err)) = map (TextContent \<circ> ci_Text) items)"
proof -
  have texts: "List.map_filter text_item ms =
      map (TextContent \<circ> ci_Text) (filter (\<lambda>i. ci_Type i = ''text'' \<and> ci_Text i \<noteq> '''') (map grpc_content_item ms))" for ms
    by (induction ms) (auto simp: List.map_filter_def text_item_def grpc_content_item_def key_defs)
  show ?thesis
  proof (intro conjI impI; (elim conjE)?)
    assume ok: "exec_Status res = ExecutionStatusSuccess" and "items \<noteq> []"
      and items: "filter (\<lambda>i. ci_Type i = ''text'' \<and> ci_Text i \<noteq> '''') (cr_Content (executionResultToCallToolResponse marshal (Some res))) = items"
    then obtain out raw where "exec_Output res = Some out" "gm_get out ''content'' = Some raw"
      by (auto simp: executionResultToCallToolResponse_def outputToContentItems_def split: option.splits)
    with ok items \<open>items \<noteq> []\<close>
    have "ExecutionResultToCallToolResult marshal (Some res, err) =
        \<lparr>ctr_Content = map (TextContent \<circ> ci_Text) items, ctr_StructuredContent = AMap out, ctr_IsError = False\<rparr>"
      by (auto simp: ExecutionResultToCallToolResult_def OutputToCallToolResult_def key_defs texts Let_def
          executionResultToCallToolResponse_def outputToContentItems_def)
    then show "\<not> ctr_IsError (ExecutionResultToCallToolResult marshal (Some res, err))"
      and "ctr_Content (ExecutionResultToCallToolResult marshal (Some res, err)) = map (TextContent \<circ> ci_Text) items"
      by simp_all
  qed (simp_all add: executionResultToCallToolResponse_def ExecutionResultToCallToolResult_def text_response_def error_result_def)
qed

theorem http_grpc_same_text_witness:
  "\<forall>c :: CorrelationMeta. \<forall>f.
     let res = \<lparr>exec_Status = ExecutionStatusSuccess, exec_Output = Some [(''content'', AMapSlice
           [[(''type'', AString ''text''), (''text'', AString ''a'')], [(''type'', AString ''image'')]])],
         exec_Err = None, exec_Duration = 0, exec_Correlation = c\<rparr>
     in ctr_Content (ExecutionResultToCallToolResult f (Some res, None)) = [TextContent ''a'']"
proof (intro allI)
  fix c :: CorrelationMeta and f :: "anymap \<Rightarrow> go_error + string"
  let ?res = "\<lparr>exec_Status = ExecutionStatusSuccess, exec_Output = Some [(''content'', AMapSlice
           [[(''type'', AString ''text''), (''text'', AString ''a'')], [(''type'', AString ''image'')]])],
         exec_Err = None, exec_Duration = 0, exec_Correlation = c\<rparr>"
  have "filter (\<lambda>i. ci_Type i = ''text'' \<and> ci_Text i \<noteq> '''') (cr_Content (executionResultToCallToolResponse f (Some ?res))) =
      [\<lparr>ci_Type = ''text'', ci_Text = ''a'', ci_MimeType = '''', ci_Data = ''''\<rparr>]"
    by (simp add: executionResultToCallToolResponse_def outputToContentItems_def grpc_content_item_def contentFieldMimeType_def)
  with http_grpc_same_text [of ?res f None "[\<lparr>ci_Type = ''text'', ci_Text = ''a'', ci_MimeType = '''', ci_Data = ''''\<rparr>]"]
  show "let res = ?res in ctr_Content (ExecutionResultToCallToolResult f (Some res, None)) = [TextContent ''a'']"
    by simp
qed

text \<open>An image a tool returns reaches a gRPC client without its MIME type, which is read under
  another key than the one it is stored under, and with its data still in base64.\<close>

theorem grpc_images_lose_mime_type:
  "map_option (\<lambda>out. outputToContentItems (Some out))
       (CallResultToOutput (Some \<lparr>ctr_Content = [ImageContent dat mime], ctr_StructuredContent = ANil, ctr_IsError = False\<rparr>)) =
     Some [\<lparr>ci_Type = ''image'', ci_Text = '''', ci_MimeType = '''', ci_Data = EncodeToString dat\<rparr>]"
  by (simp add: CallResultToOutput_def contentToSlice_def content_item_def outputToContentItems_def
      grpc_content_item_def contentFieldMimeType_def key_defs)

end
