(* ===== verification/Ingress_Handlers.thy ===== *)
theory Ingress_Handlers
  imports Ingress
begin

text \<open>
  The handlers of the HTTP, SSE and WebSocket ingress (internal/ingress/http, sse and
  ws) and the WebSocket connection they hand to the protocol library.

  The protocol library serves the sessions; here a handler is what it is given: how
  a session's server is built, its options, and the bearer token check in front of
  it. The WebSocket library is a record of functions.
\<close>

section \<open>Handlers\<close>

text \<open>The check of bearer tokens: the verifier, the address of the metadata and the scopes.\<close>

record bearer_check =
  bc_verify :: "string \<Rightarrow> go_error + TokenInfo option"
  bc_ResourceMetadataURL :: string
  bc_Scopes :: "string list"

record ('r, 'w) session_handler =
  sh_getServer :: "'r \<Rightarrow> 'w \<Rightarrow> 'w \<times> mcp_server option"
  sh_bearer :: "bearer_check option"

definition protect :: "'r IngressConfig \<Rightarrow> bearer_check option" where
  "protect cfg =
     (case ic_EnterpriseAuth cfg of
        None \<Rightarrow> None
      | Some ea \<Rightarrow>
          map_option (\<lambda>verify. \<lparr>bc_verify = verify, bc_ResourceMetadataURL = ResourceMetadataURL (ea_ResourceMetadata ea),
            bc_Scopes = ea_RequiredScopes ea\<rparr>) (ea_TokenVerifier ea))"

definition new_handler ::
  "string \<Rightarrow> ('r \<Rightarrow> TokenInfo option) \<Rightarrow> 'w invoker \<Rightarrow> 'r IngressConfig \<Rightarrow> go_error + ('r, 'w) session_handler" where
  "new_handler msg tokenOf gw cfg =
     (case ResolveAuthDefaults tokenOf cfg of
        Inl err \<Rightarrow> Inl err
      | Inr cfg \<Rightarrow>
          (case ic_IdentityResolver cfg of
             None \<Rightarrow> Inl (PlainErr msg)
           | Some resolver \<Rightarrow> Inr \<lparr>sh_getServer = BuildGetServer gw resolver, sh_bearer = protect cfg\<rparr>))"

record StreamableHTTPOptions =
  so_Stateless :: bool
  so_SessionTimeout :: duration

definition HTTP_New ::
  "('r \<Rightarrow> TokenInfo option) \<Rightarrow> 'w invoker \<Rightarrow> 'r IngressConfig \<Rightarrow>
     go_error + ('r, 'w) session_handler \<times> StreamableHTTPOptions" where
  "HTTP_New tokenOf gw cfg =
     (case new_handler ''ingress: IdentityResolver must not be nil'' tokenOf gw cfg of
        Inl err \<Rightarrow> Inl err
      | Inr h \<Rightarrow> Inr (h, \<lparr>so_Stateless = ic_Stateless cfg, so_SessionTimeout = ic_SessionIdleTimeout cfg\<rparr>))"

definition SSE_New :: "('r \<Rightarrow> TokenInfo option) \<Rightarrow> 'w invoker \<Rightarrow> 'r IngressConfig \<Rightarrow> go_error + ('r, 'w) session_handler" where
  "SSE_New tokenOf gw cfg = new_handler ''ingress/sse: IdentityResolver must not be nil'' tokenOf gw cfg"

section \<open>The WebSocket handler (ws/handler.go)\<close>

definition defaultReadBufferSize :: int where "defaultReadBufferSize = 4096"
definition defaultWriteBufferSize :: int where "defaultWriteBufferSize = 4096"
definition defaultPingInterval :: duration where "defaultPingInterval = 30 * second"

record 'r WSConfig =
  ws_ReadBufferSize :: int
  ws_WriteBufferSize :: int
  ws_PingInterval :: duration
  ws_CheckOrigin :: "('r \<Rightarrow> bool) option"

definition readBufferSize :: "'r WSConfig option \<Rightarrow> int" where
  "readBufferSize c =
     (case c of Some c \<Rightarrow> if ws_ReadBufferSize c > 0 then ws_ReadBufferSize c else defaultReadBufferSize
      | None \<Rightarrow> defaultReadBufferSize)"

definition writeBufferSize :: "'r WSConfig option \<Rightarrow> int" where
  "writeBufferSize c =
     (case c of Some c \<Rightarrow> if ws_WriteBufferSize c > 0 then ws_WriteBufferSize c else defaultWriteBufferSize
      | None \<Rightarrow> defaultWriteBufferSize)"

definition pingInterval :: "'r WSConfig option \<Rightarrow> duration" where
  "pingInterval c =
     (case c of Some c \<Rightarrow> if ws_PingInterval c > 0 then ws_PingInterval c else defaultPingInterval
      | None \<Rightarrow> defaultPingInterval)"

definition checkOrigin :: "'r WSConfig option \<Rightarrow> 'r \<Rightarrow> bool" where
  "checkOrigin c =
     (case c of Some c \<Rightarrow> (case ws_CheckOrigin c of Some f \<Rightarrow> f | None \<Rightarrow> (\<lambda>_. True)) | None \<Rightarrow> (\<lambda>_. True))"

record ('r, 'w) wsHandler =
  wh_session :: "('r, 'w) session_handler"
  wh_ReadBufferSize :: int
  wh_WriteBufferSize :: int
  wh_CheckOrigin :: "'r \<Rightarrow> bool"
  wh_pingInterval :: duration

definition WS_New ::
  "('r \<Rightarrow> TokenInfo option) \<Rightarrow> 'w invoker \<Rightarrow> 'r IngressConfig \<Rightarrow> 'r WSConfig option \<Rightarrow> go_error + ('r, 'w) wsHandler" where
  "WS_New tokenOf gw cfg wsCfg =
     (case new_handler ''ingress/ws: IdentityResolver must not be nil'' tokenOf gw cfg of
        Inl err \<Rightarrow> Inl err
      | Inr h \<Rightarrow> Inr \<lparr>wh_session = h, wh_ReadBufferSize = readBufferSize wsCfg, wh_WriteBufferSize = writeBufferSize wsCfg,
          wh_CheckOrigin = checkOrigin wsCfg, wh_pingInterval = pingInterval wsCfg\<rparr>)"

section \<open>The WebSocket connection (ws/conn.go)\<close>

text \<open>
  \<open>wc_done\<close> says whether the channel \<open>done\<close> is closed. Another goroutine may close the
  connection while a read is under way, so a read returns the whole connection.
\<close>

record 'n wsConn =
  wc_conn :: 'n
  wc_done :: bool

record 'n ws_lib =
  wl_ctxErr :: "'n wsConn \<Rightarrow> go_error option"
  wl_ReadMessage :: "'n wsConn \<Rightarrow> 'n wsConn \<times> (go_error + string)"
  wl_WriteMessage :: "string \<Rightarrow> 'n \<Rightarrow> 'n \<times> go_error option"
  wl_Close :: "'n \<Rightarrow> 'n \<times> go_error option"
  wl_IsCloseError :: "go_error \<Rightarrow> bool"
  wl_IsTimeout :: "go_error \<Rightarrow> bool"
  wl_Decode :: "string \<Rightarrow> go_error + any"
  wl_Encode :: "any \<Rightarrow> go_error + string"

definition EOF :: go_error where "EOF = PlainErr ''EOF''"

partial_function (option) ws_Read :: "'n ws_lib \<Rightarrow> 'n wsConn \<Rightarrow> ('n wsConn \<times> (go_error + any)) option" where
  "ws_Read wl c =
     (case wl_ctxErr wl c of
        Some err \<Rightarrow> Some (c, Inl err)
      | None \<Rightarrow>
          if wc_done c then Some (c, Inl EOF)
          else
            (case wl_ReadMessage wl c of
               (c, Inl err) \<Rightarrow>
                 if wl_IsCloseError wl err then Some (c, Inl EOF)
                 else if wl_IsTimeout wl err then ws_Read wl c
                 else if wc_done c then Some (c, Inl EOF)
                 else Some (c, Inl err)
             | (c, Inr data) \<Rightarrow> Some (c, wl_Decode wl data)))"

text \<open>The second reading of the context happens when the write lock is held, in the connection \<open>c'\<close>.\<close>

definition ws_Write :: "'n ws_lib \<Rightarrow> any \<Rightarrow> 'n wsConn \<Rightarrow> 'n wsConn \<Rightarrow> 'n wsConn \<times> go_error option" where
  "ws_Write wl msg c c' =
     (case wl_ctxErr wl c of
        Some err \<Rightarrow> (c', Some err)
      | None \<Rightarrow>
     (case wl_Encode wl msg of
        Inl err \<Rightarrow> (c', Some err)
      | Inr data \<Rightarrow>
     (case wl_ctxErr wl c' of
        Some err \<Rightarrow> (c', Some err)
      | None \<Rightarrow>
          if wc_done c' then (c', Some EOF)
          else (let (n, err) = wl_WriteMessage wl data (wc_conn c') in (c'\<lparr>wc_conn := n\<rparr>, err)))))"

text \<open>\<open>wl_Close\<close> sends the closing frame and closes the socket; it runs once.\<close>

definition ws_Close :: "'n ws_lib \<Rightarrow> 'n wsConn \<Rightarrow> 'n wsConn \<times> go_error option" where
  "ws_Close wl c =
     (if wc_done c then (c, None)
      else (let (n, err) = wl_Close wl (wc_conn c) in (\<lparr>wc_conn = n, wc_done = True\<rparr>, err)))"

text \<open>Serving a request: the session's server, the upgrade, the session, and its end.\<close>

datatype 'n ws_outcome = WSBadRequest | WSUpgradeFailed | WSConnectFailed "'n wsConn" | WSServed "'n wsConn" duration

definition ServeHTTP ::
  "'n ws_lib \<Rightarrow> ('r \<Rightarrow> 'w \<Rightarrow> 'w \<times> 'n option) \<Rightarrow> (mcp_server \<Rightarrow> 'n wsConn \<Rightarrow> bool) \<Rightarrow> ('r, 'w) wsHandler \<Rightarrow> 'r \<Rightarrow> 'w \<Rightarrow>
     'w \<times> 'n ws_outcome" where
  "ServeHTTP wl upgrade connect h r w =
     (case sh_getServer (wh_session h) r w of
        (w, None) \<Rightarrow> (w, WSBadRequest)
      | (w, Some srv) \<Rightarrow>
     (case upgrade r w of
        (w, None) \<Rightarrow> (w, WSUpgradeFailed)
      | (w, Some conn) \<Rightarrow>
          (let wc = \<lparr>wc_conn = conn, wc_done = False\<rparr>
           in if connect srv wc then (w, WSServed wc (wh_pingInterval h))
              else (w, WSConnectFailed (fst (ws_Close wl wc))))))"

definition newSessionID :: "8 word list option \<Rightarrow> int \<Rightarrow> string" where
  "newSessionID rnd unixNano = (case rnd of Some b \<Rightarrow> concat (map hex_byte b) | None \<Rightarrow> Itoa unixNano)"

section \<open>Reading, writing and closing\<close>

text \<open>
  The documentation of the WebSocket library says that an error of a read is
  permanent: every later read fails with it.
\<close>

definition read_errors_permanent :: "'n ws_lib \<Rightarrow> bool" where
  "read_errors_permanent wl \<longleftrightarrow>
     (\<forall>c c' err. wl_ReadMessage wl c = (c', Inl err) \<longrightarrow> (\<exists>c''. wl_ReadMessage wl c' = (c'', Inl err)))"

definition read_failed :: "'n ws_lib \<Rightarrow> 'n wsConn \<Rightarrow> bool" where
  "read_failed wl c \<longleftrightarrow> (\<exists>c' err. wl_ReadMessage wl c = (c', Inl err))"

lemma read_failed_again:
  "read_errors_permanent wl \<Longrightarrow> wl_ReadMessage wl c = (c', Inl err) \<Longrightarrow> read_failed wl c'"
  unfolding read_errors_permanent_def read_failed_def by blast

lemma ws_Read_failed:
  assumes permanent: "read_errors_permanent wl" and ret: "ws_Read wl c = Some r" and "read_failed wl c"
  shows "\<exists>e. snd r = Inl e"
proof -
  have "read_errors_permanent wl \<longrightarrow> read_failed wl c \<longrightarrow> (\<exists>e. snd r = Inl e)"
  proof (rule ws_Read.raw_induct [where P = "\<lambda>wl c r. read_errors_permanent wl \<longrightarrow> read_failed wl c \<longrightarrow> (\<exists>e. snd r = Inl e)", OF _ ret])
    fix rec wl c r
    assume IH: "\<And>wl c r. rec wl c = Some r \<Longrightarrow> read_errors_permanent wl \<longrightarrow> read_failed wl c \<longrightarrow> (\<exists>e. snd r = Inl e)"
      and body: "(case wl_ctxErr wl c of Some err \<Rightarrow> Some (c, Inl err)
        | None \<Rightarrow> if wc_done c then Some (c, Inl EOF)
          else (case wl_ReadMessage wl c of
            (c, Inl err) \<Rightarrow> if wl_IsCloseError wl err then Some (c, Inl EOF)
              else if wl_IsTimeout wl err then rec wl c
              else if wc_done c then Some (c, Inl EOF) else Some (c, Inl err)
          | (c, Inr data) \<Rightarrow> Some (c, wl_Decode wl data))) = Some r"
    show "read_errors_permanent wl \<longrightarrow> read_failed wl c \<longrightarrow> (\<exists>e. snd r = Inl e)"
    proof (intro impI)
      assume permanent: "read_errors_permanent wl" and "read_failed wl c"
      then obtain c' err where rd: "wl_ReadMessage wl c = (c', Inl err)" by (auto simp: read_failed_def)
      note again = read_failed_again [OF permanent rd]
      from body rd show "\<exists>e. snd r = Inl e"
        by (auto split: option.splits if_splits dest!: IH [THEN mp, THEN mp] simp: permanent again)
    qed
  qed
  with assms show ?thesis by blast
qed

lemma ws_Read_returns:
  assumes "\<And>c c' err. wl_ReadMessage wl c = (c', Inl err) \<Longrightarrow> wl_IsTimeout wl err \<Longrightarrow> m c' < (m c :: nat)"
  shows "\<exists>r. ws_Read wl c = Some r"
proof (induction "m c" arbitrary: c rule: less_induct)
  case less
  show ?case
  proof (cases "wl_ReadMessage wl c")
    case (Pair c' x)
    with less assms show ?thesis
      by (subst ws_Read.simps) (auto split: option.splits sum.splits)
  qed
qed

text \<open>When a configuration gives a handler, and what protects it.\<close>

definition servable :: "'r IngressConfig \<Rightarrow> bool" where
  "servable cfg \<longleftrightarrow>
     (case ic_EnterpriseAuth cfg of
        None \<Rightarrow> ic_IdentityResolver cfg \<noteq> None
      | Some ea \<Rightarrow> ea_TokenVerifier ea \<noteq> None \<and> ea_ResourceMetadata ea \<notin> {None, Some ''''})"

definition protected_by :: "'r IngressConfig \<Rightarrow> bearer_check option \<Rightarrow> bool" where
  "protected_by cfg b \<longleftrightarrow>
     (case ic_EnterpriseAuth cfg of
        None \<Rightarrow> b = None
      | Some ea \<Rightarrow> \<exists>check. b = Some check \<and> ea_TokenVerifier ea = Some (bc_verify check) \<and> bc_Scopes check = ea_RequiredScopes ea)"

lemma new_handler_cases:
  obtains (ok) h where "new_handler msg tokenOf gw cfg = Inr h" "servable cfg" "protected_by cfg (sh_bearer h)"
  | (failed) err where "new_handler msg tokenOf gw cfg = Inl err" "\<not> servable cfg"
proof (cases "new_handler msg tokenOf gw cfg")
  case (Inl err)
  then have "\<not> servable cfg"
    by (auto simp: new_handler_def ResolveAuthDefaults_def servable_def split: option.splits sum.splits if_splits)
  with Inl show ?thesis by (rule failed)
next
  case (Inr h)
  then have "servable cfg \<and> protected_by cfg (sh_bearer h)"
    by (auto simp: new_handler_def ResolveAuthDefaults_def servable_def protected_by_def protect_def
        split: option.splits sum.splits if_splits)
  with Inr show ?thesis by (intro ok) auto
qed

lemma ws_closed:
  assumes "ws_Close wl c = (c', err)"
  shows "wc_done c'" "ws_Close wl c' = (c', None)"
    "wl_ctxErr wl c' = None \<Longrightarrow> ws_Read wl c' = Some (c', Inl EOF)"
    "fst (ws_Write wl msg c0 c') = c'" "snd (ws_Write wl msg c0 c') \<noteq> None"
proof -
  show "wc_done c'" using assms by (auto simp: ws_Close_def Let_def split: if_splits prod.splits)
  then show "ws_Close wl c' = (c', None)" and "wl_ctxErr wl c' = None \<Longrightarrow> ws_Read wl c' = Some (c', Inl EOF)"
    and "fst (ws_Write wl msg c0 c') = c'" "snd (ws_Write wl msg c0 c') \<noteq> None"
    by (auto simp: ws_Close_def ws_Write_def ws_Read.simps split: option.splits sum.splits)
qed

section \<open>Properties\<close>

text \<open>The HTTP, SSE and WebSocket handlers are built for the same configurations: an identity
  resolver is given, or enterprise authorization with a verifier and a named
  resource; and a handler checks bearer tokens, with the configured verifier and
  scopes, exactly when enterprise authorization is set.\<close>

theorem ingress_handlers_protected:
  "((\<exists>h. HTTP_New tokenOf gw cfg = Inr h) \<longleftrightarrow> servable cfg) \<and>
   ((\<exists>h. SSE_New tokenOf gw cfg = Inr h) \<longleftrightarrow> servable cfg) \<and>
   ((\<exists>h. WS_New tokenOf gw cfg wsCfg = Inr h) \<longleftrightarrow> servable cfg) \<and>
   (\<forall>h opts. HTTP_New tokenOf gw cfg = Inr (h, opts) \<longrightarrow> protected_by cfg (sh_bearer h)) \<and>
   (\<forall>h. SSE_New tokenOf gw cfg = Inr h \<longrightarrow> protected_by cfg (sh_bearer h)) \<and>
   (\<forall>h. WS_New tokenOf gw cfg wsCfg = Inr h \<longrightarrow> protected_by cfg (sh_bearer (wh_session h)))"
proof -
  have "(\<exists>h. HTTP_New tokenOf gw cfg = Inr h) \<longleftrightarrow> servable cfg"
      "\<forall>h opts. HTTP_New tokenOf gw cfg = Inr (h, opts) \<longrightarrow> protected_by cfg (sh_bearer h)"
    by (cases rule: new_handler_cases [of "''ingress: IdentityResolver must not be nil''" tokenOf gw cfg]; simp add: HTTP_New_def)+
  moreover have "(\<exists>h. SSE_New tokenOf gw cfg = Inr h) \<longleftrightarrow> servable cfg"
      "\<forall>h. SSE_New tokenOf gw cfg = Inr h \<longrightarrow> protected_by cfg (sh_bearer h)"
    by (cases rule: new_handler_cases [of "''ingress/sse: IdentityResolver must not be nil''" tokenOf gw cfg]; simp add: SSE_New_def)+
  moreover have "(\<exists>h. WS_New tokenOf gw cfg wsCfg = Inr h) \<longleftrightarrow> servable cfg"
      "\<forall>h. WS_New tokenOf gw cfg wsCfg = Inr h \<longrightarrow> protected_by cfg (sh_bearer (wh_session h))"
    by (cases rule: new_handler_cases [of "''ingress/ws: IdentityResolver must not be nil''" tokenOf gw cfg]; simp add: WS_New_def)+
  ultimately show ?thesis by blast
qed

theorem ingress_handlers_protected_witness:
  "\<forall>gw :: unit invoker. \<exists>h. SSE_New (\<lambda>_ :: unit. None) gw \<lparr>ic_IdentityResolver = None, ic_SessionIdleTimeout = 0, ic_Stateless = False,
     ic_EnterpriseAuth = Some \<lparr>ea_TokenVerifier = Some (\<lambda>_. Inr None), ea_ResourceMetadata = Some ''https://gw'',
       ea_RequiredScopes = [''call''], ea_IdentityMapper = None\<rparr>\<rparr> = Inr h \<and> sh_bearer h \<noteq> None"
proof
  fix gw :: "unit invoker"
  let ?cfg = "\<lparr>ic_IdentityResolver = None, ic_SessionIdleTimeout = 0, ic_Stateless = False,
     ic_EnterpriseAuth = Some \<lparr>ea_TokenVerifier = Some (\<lambda>_. Inr None), ea_ResourceMetadata = Some ''https://gw'',
       ea_RequiredScopes = [''call''], ea_IdentityMapper = None\<rparr>\<rparr> :: unit IngressConfig"
  have "servable ?cfg" by (simp add: servable_def)
  with ingress_handlers_protected [of "\<lambda>_. None" gw ?cfg None] obtain h
    where "SSE_New (\<lambda>_. None) gw ?cfg = Inr h" "protected_by ?cfg (sh_bearer h)" by blast
  then show "\<exists>h. SSE_New (\<lambda>_. None) gw ?cfg = Inr h \<and> sh_bearer h \<noteq> None"
    by (intro exI [of _ h]) (auto simp: protected_by_def)
qed

text \<open>A WebSocket connection does not survive an idle half second. The read loop retries after
  a timeout, but errors of the library's reads are permanent: once a read has timed
  out, no read of the connection returns a message.\<close>

theorem ws_timeout_is_fatal:
  assumes "read_errors_permanent wl" and "wl_ReadMessage wl c = (c', Inl err)" and "wl_IsTimeout wl err"
    and "ws_Read wl c = Some (c'', r) \<or> ws_Read wl c' = Some (c'', r)"
  shows "\<exists>e. r = Inl e"
proof -
  have "read_failed wl c" "read_failed wl c'"
    using assms(2) read_failed_again [OF assms(1,2)] by (auto simp: read_failed_def)
  with assms(1,4) show ?thesis by (auto dest: ws_Read_failed)
qed

text \<open>A socket that stays idle until the context ends.\<close>

definition idle_socket :: "nat ws_lib" where
  "idle_socket =
     \<lparr>wl_ctxErr = \<lambda>c. if wc_conn c > 3 then Some (PlainErr ''cancelled'') else None,
      wl_ReadMessage = \<lambda>c. (c\<lparr>wc_conn := wc_conn c + 1\<rparr>, Inl (PlainErr ''i/o timeout'')),
      wl_WriteMessage = \<lambda>_ n. (n, None), wl_Close = \<lambda>n. (n, None), wl_IsCloseError = \<lambda>_. False,
      wl_IsTimeout = \<lambda>e. e = PlainErr ''i/o timeout'', wl_Decode = \<lambda>_. Inr ANil, wl_Encode = \<lambda>_. Inr ''{}''\<rparr>"

theorem ws_timeout_is_fatal_witness:
  "\<exists>c r. ws_Read idle_socket \<lparr>wc_conn = 2, wc_done = False\<rparr> = Some (c, r) \<and> (\<exists>e. r = Inl e)"
proof -
  have "ws_Read idle_socket \<lparr>wc_conn = 2, wc_done = False\<rparr> =
      Some (\<lparr>wc_conn = 4, wc_done = False\<rparr>, Inl (PlainErr ''cancelled''))"
    by (simp add: ws_Read.simps idle_socket_def)
  moreover have "read_errors_permanent idle_socket"
    by (simp add: read_errors_permanent_def idle_socket_def)
  ultimately show ?thesis
    using ws_timeout_is_fatal [of idle_socket "\<lparr>wc_conn = 2, wc_done = False\<rparr>" "\<lparr>wc_conn = 3, wc_done = False\<rparr>"
        "PlainErr ''i/o timeout''"] by (simp add: idle_socket_def)
qed

end
