(* ===== verification/Token_Exchange.thy ===== *)
theory Token_Exchange
  imports Mcp_Types
begin

text \<open>
  The token exchanger of enterprise authorization (mcp/token_exchange.go). The
  exchange itself is made by the OAuth library and is an argument; modelled are the
  checks around it, the defaults, and the parsing of the granted scopes.
\<close>

section \<open>Data\<close>

record TokenExchangeRequest =
  tx_SubjectToken :: string
  tx_SubjectTokenType :: string
  tx_Audience :: string
  tx_Resource :: string
  tx_Scope :: "string list"
  tx_RequestedTokenType :: string

record TokenExchangeResult =
  tr_AccessToken :: string
  tr_TokenType :: string
  tr_IssuedTokenType :: string
  tr_Expiry :: time
  tr_Scope :: "string list"

text \<open>A token of the library: its fields, and the extra fields of the response by name.\<close>

datatype extra = ExtraString string | ExtraStrings "string list" | ExtraOther

record oauth_token =
  ot_AccessToken :: string
  ot_TokenType :: string
  ot_Expiry :: time
  ot_Extra :: "string \<Rightarrow> extra"

record OAuthTokenExchangerConfig =
  oc_TokenEndpoint :: string
  oc_ClientCredentials :: "(string \<times> string) option"
  oc_HTTPClient :: "handle option"

record oauthTokenExchanger =
  ox_tokenEndpoint :: string
  ox_clientCreds :: "string \<times> string"
  ox_httpClient :: "handle option"

definition ErrTokenExchangerConfigRequired :: go_error where
  "ErrTokenExchangerConfigRequired = PlainErr ''token exchanger configuration is required''"

definition NewOAuthTokenExchanger :: "OAuthTokenExchangerConfig option \<Rightarrow> go_error + oauthTokenExchanger" where
  "NewOAuthTokenExchanger cfg =
     (case cfg of
        None \<Rightarrow> Inl ErrTokenExchangerConfigRequired
      | Some cfg \<Rightarrow>
          (case oc_ClientCredentials cfg of
             None \<Rightarrow> Inl ErrTokenExchangerConfigRequired
           | Some creds \<Rightarrow>
               if oc_TokenEndpoint cfg = '''' then Inl ErrTokenExchangerConfigRequired
               else Inr \<lparr>ox_tokenEndpoint = oc_TokenEndpoint cfg, ox_clientCreds = creds, ox_httpClient = oc_HTTPClient cfg\<rparr>))"

section \<open>Scopes\<close>

text \<open>The loop over the positions of the value: \<open>start\<close> is where the current segment begins.\<close>

function split_loop :: "string \<Rightarrow> nat \<Rightarrow> nat \<Rightarrow> string list \<Rightarrow> string list" where
  "split_loop val i start scopes =
     (if i < length val then
        (if val ! i \<noteq> CHR '' '' then split_loop val (i + 1) start scopes
         else split_loop val (i + 1) (i + 1)
                (if i > start then scopes @ [take (i - start) (drop start val)] else scopes))
      else if start < length val then scopes @ [drop start val] else scopes)"
  by auto

termination split_loop
  by (relation "measure (\<lambda>(val, i, start, scopes). length val - i)") auto

declare split_loop.simps [simp del]

definition splitSpace :: "string \<Rightarrow> string list" where
  "splitSpace val = split_loop val 0 0 []"

text \<open>No scopes are a nil slice, which is the empty list here.\<close>

fun scopeFromToken :: "extra \<Rightarrow> string list" where
  "scopeFromToken (ExtraString val) = (if val = '''' then [] else splitSpace val)"
| "scopeFromToken (ExtraStrings val) = val"
| "scopeFromToken ExtraOther = []"

section \<open>The exchange\<close>

text \<open>
  \<open>idJAG\<close> is the token type of the library that is requested by default; \<open>exchange\<close> is
  the library's call with the endpoint, the request, the credentials and the client.
\<close>

definition ExchangeToken ::
  "string \<Rightarrow>
   (string \<Rightarrow> TokenExchangeRequest \<Rightarrow> string \<times> string \<Rightarrow> handle option \<Rightarrow> 'w \<Rightarrow> 'w \<times> (go_error + oauth_token)) \<Rightarrow>
   oauthTokenExchanger \<Rightarrow> TokenExchangeRequest option \<Rightarrow> 'w \<Rightarrow> 'w \<times> (go_error + TokenExchangeResult)" where
  "ExchangeToken idJAG exchange x req w =
     (case req of
        None \<Rightarrow> (w, Inl (RuntimeErr (WrapRuntimeError ErrCodeInvalidRequest ''token exchange request is required'' None)))
      | Some req \<Rightarrow>
          (let requestedType = (if tx_RequestedTokenType req = '''' then idJAG else tx_RequestedTokenType req)
           in case exchange (ox_tokenEndpoint x) (req\<lparr>tx_RequestedTokenType := requestedType\<rparr>) (ox_clientCreds x) (ox_httpClient x) w of
                (w, Inl err) \<Rightarrow> (w, Inl (rt_wrap ErrCodeInternal ''token exchange failed'' err))
              | (w, Inr token) \<Rightarrow>
                  (w, Inr \<lparr>tr_AccessToken = ot_AccessToken token, tr_TokenType = ot_TokenType token,
                    tr_IssuedTokenType = (case ot_Extra token ''issued_token_type'' of ExtraString s \<Rightarrow> s | _ \<Rightarrow> ''''),
                    tr_Expiry = ot_Expiry token, tr_Scope = scopeFromToken (ot_Extra token ''scope'')\<rparr>)))"

section \<open>The words of a scope string\<close>

text \<open>The reference: the maximal runs of characters other than the space.\<close>

function scope_words :: "string \<Rightarrow> string list" where
  "scope_words [] = []"
| "scope_words (c # cs) =
     (if c = CHR '' '' then scope_words cs
      else (c # takeWhile (\<lambda>c. c \<noteq> CHR '' '') cs) # scope_words (dropWhile (\<lambda>c. c \<noteq> CHR '' '') cs))"
  by pat_completeness auto

termination scope_words
  by (relation "measure length") (auto simp: length_dropWhile_le less_Suc_eq_le)

lemma scope_words_run:
  assumes "CHR '' '' \<notin> set cur"
  shows "scope_words (cur @ CHR '' '' # rest) = (if cur = [] then [] else [cur]) @ scope_words rest"
    and "scope_words cur = (if cur = [] then [] else [cur])"
proof -
  have run: "takeWhile (\<lambda>c. c \<noteq> CHR '' '') (cs @ CHR '' '' # rest) = cs" "takeWhile (\<lambda>c. c \<noteq> CHR '' '') cs = cs"
      "dropWhile (\<lambda>c. c \<noteq> CHR '' '') (cs @ CHR '' '' # rest) = CHR '' '' # rest" "dropWhile (\<lambda>c. c \<noteq> CHR '' '') cs = []"
    if "CHR '' '' \<notin> set cs" for cs
    using that by (induction cs) auto
  show "scope_words (cur @ CHR '' '' # rest) = (if cur = [] then [] else [cur]) @ scope_words rest"
    using assms by (cases cur) (auto simp: run)
  show "scope_words cur = (if cur = [] then [] else [cur])"
    using assms by (cases cur) (auto simp: run)
qed

lemma split_loop_words:
  assumes "CHR '' '' \<notin> set cur"
  shows "split_loop (pre @ cur @ rest) (length pre + length cur) (length pre) scopes = scopes @ scope_words (cur @ rest)"
  using assms
proof (induction rest arbitrary: pre cur scopes)
  case Nil
  then show ?case by (simp add: split_loop.simps scope_words_run)
next
  case (Cons c rest)
  let ?val = "pre @ cur @ c # rest"
  have here: "?val ! (length pre + length cur) = c" by (simp add: nth_append)
  show ?case
  proof (cases "c = CHR '' ''")
    case True
    with here have "split_loop ?val (length pre + length cur) (length pre) scopes =
        split_loop ((pre @ cur @ [c]) @ [] @ rest) (length (pre @ cur @ [c]) + length ([] :: string)) (length (pre @ cur @ [c]))
          (if cur = [] then scopes else scopes @ [cur])"
      by (subst split_loop.simps) simp
    also have "\<dots> = (if cur = [] then scopes else scopes @ [cur]) @ scope_words rest"
      by (subst Cons.IH) simp_all
    finally show ?thesis using True Cons.prems by (simp add: scope_words_run)
  next
    case False
    with here have "split_loop ?val (length pre + length cur) (length pre) scopes =
        split_loop (pre @ (cur @ [c]) @ rest) (length pre + length (cur @ [c])) (length pre) scopes"
      by (subst split_loop.simps) simp
    also have "\<dots> = scopes @ scope_words ((cur @ [c]) @ rest)"
      by (rule Cons.IH) (use Cons.prems False in simp)
    finally show ?thesis by simp
  qed
qed

lemma splitSpace_words: "splitSpace val = scope_words val"
  using split_loop_words [of "[]" "[]" "val" "[]"] by (simp add: splitSpace_def)

lemma scope_words_joined:
  assumes "\<forall>s \<in> set scopes. s \<noteq> '''' \<and> CHR '' '' \<notin> set s"
  shows "scope_words (concat (map (\<lambda>s. s @ '' '') scopes)) = scopes"
  using assms by (induction scopes) (auto simp: scope_words_run)

section \<open>Properties\<close>

text \<open>C37: The granted scopes of an exchange are the words of the scope field: the index loop that
  splits it returns its maximal runs of characters other than the space, so that
  scopes written one after the other, each followed by a space, are read back.\<close>

theorem granted_scopes_are_words:
  "scopeFromToken (ExtraString val) = scope_words val \<and>
   ((\<forall>s \<in> set scopes. s \<noteq> '''' \<and> CHR '' '' \<notin> set s) \<longrightarrow>
      scopeFromToken (ExtraString (concat (map (\<lambda>s. s @ '' '') scopes))) = scopes)"
  by (auto simp: splitSpace_words scope_words_joined)

theorem granted_scopes_are_words_witness:
  "scopeFromToken (ExtraString ''read write '') = [''read'', ''write'']"
  using granted_scopes_are_words [of "''''" "[''read'', ''write'']"] by simp

end
