(* ===== verification/Audit_File_Sink.thy ===== *)
theory Audit_File_Sink
  imports Audit_Journal "HOL-Library.Sublist"
begin

text \<open>
  The durable audit sink (internal/runtime/audit/filesink.go): audit events are encoded
  as JSON lines into a buffered writer over an append-only file. The buffered writer and
  the encoder of the Go library are modelled with their errors, which are sticky: once a
  write has failed, every later write and flush fails in the same way.

  Two things are arguments: the JSON encoding of an event, and the device, which says for
  each write whether all bytes were written or how many, and with which error.
\<close>

section \<open>The file\<close>

text \<open>
  \<open>os.File.Write\<close> returns an error whenever it writes fewer bytes than it was given, so
  a device answers either with nothing or with a count and an error.
\<close>

record 'n disk =
  disk_log :: string
  disk_env :: 'n

type_synonym 'n device = "nat \<Rightarrow> 'n \<Rightarrow> 'n \<times> (nat \<times> go_error) option"

definition os_Write :: "'n device \<Rightarrow> string \<Rightarrow> 'n disk \<Rightarrow> 'n disk \<times> nat \<times> go_error option" where
  "os_Write dev p d =
     (case dev (length p) (disk_env d) of
        (n, None) \<Rightarrow> (d\<lparr>disk_log := disk_log d @ p, disk_env := n\<rparr>, length p, None)
      | (n, Some (k, err)) \<Rightarrow>
          (d\<lparr>disk_log := disk_log d @ take k p, disk_env := n\<rparr>, min k (length p), Some err))"

section \<open>The buffered writer\<close>

definition fileSinkBufSize :: nat where "fileSinkBufSize = 4096"

record bufio_writer =
  bw_err :: "go_error option"
  bw_buf :: string

definition bw_Available :: "bufio_writer \<Rightarrow> nat" where
  "bw_Available b = fileSinkBufSize - length (bw_buf b)"

definition bw_Flush :: "'n device \<Rightarrow> bufio_writer \<Rightarrow> 'n disk \<Rightarrow> bufio_writer \<times> 'n disk \<times> go_error option" where
  "bw_Flush dev b d =
     (case bw_err b of
        Some err \<Rightarrow> (b, d, Some err)
      | None \<Rightarrow>
          if bw_buf b = [] then (b, d, None)
          else
            (case os_Write dev (bw_buf b) d of
               (d, n, Some err) \<Rightarrow> (b\<lparr>bw_buf := drop n (bw_buf b), bw_err := Some err\<rparr>, d, Some err)
             | (d, n, None) \<Rightarrow> (b\<lparr>bw_buf := []\<rparr>, d, None)))"

text \<open>One turn of the loop that makes room for data larger than the free part of the buffer.\<close>

definition bw_spill ::
  "'n device \<Rightarrow> string \<Rightarrow> bufio_writer \<Rightarrow> 'n disk \<Rightarrow> string \<times> bufio_writer \<times> 'n disk" where
  "bw_spill dev p b d =
     (if bw_buf b = [] then
        (case os_Write dev p d of (d, n, err) \<Rightarrow> (drop n p, b\<lparr>bw_err := err\<rparr>, d))
      else
        (let n = min (bw_Available b) (length p);
             (b, d, _) = bw_Flush dev (b\<lparr>bw_buf := bw_buf b @ take n p\<rparr>) d
         in (drop n p, b, d)))"

definition spill_work :: "string \<times> bufio_writer \<times> 'n disk \<Rightarrow> nat" where
  "spill_work = (\<lambda>(p, b, d). 2 * length p + (if bw_buf b = [] then 0 else 1))"

lemma bw_spill_progress:
  assumes "(p', b', d') = bw_spill dev p b d" and "bw_err b' = None" and "p \<noteq> []"
  shows "spill_work (p', b', d') < spill_work (p, b, d)"
  using assms(2,3) assms(1) [symmetric]
  by (auto simp: bw_spill_def os_Write_def bw_Flush_def spill_work_def Let_def
      split: if_splits prod.splits option.splits)

function bw_Write ::
  "'n device \<Rightarrow> string \<Rightarrow> bufio_writer \<Rightarrow> 'n disk \<Rightarrow> bufio_writer \<times> 'n disk \<times> go_error option" where
  "bw_Write dev p b d =
     (if length p > bw_Available b \<and> bw_err b = None then
        (case bw_spill dev p b d of (p', b', d') \<Rightarrow>
           if bw_err b' = None then bw_Write dev p' b' d' else (b', d', bw_err b'))
      else if bw_err b \<noteq> None then (b, d, bw_err b)
      else (b\<lparr>bw_buf := bw_buf b @ p\<rparr>, d, None))"
  by auto

termination
proof (relation "measure (\<lambda>(dev, p, b, d). spill_work (p, b, d))", goal_cases)
  case 1
  then show ?case by simp
next
  case prems: (2 dev p b d)
  then have "p \<noteq> []" by auto
  with prems show ?case by (clarsimp simp del: split_paired_Ex) (metis bw_spill_progress)
qed

declare bw_Write.simps [simp del]

section \<open>The sink\<close>

text \<open>
  The encoder appends a newline to the JSON of a value and keeps the first error of its
  writer; an event that does not encode is reported and leaves the encoder usable.
  \<open>fs_f\<close> says that the sink holds its file; the buffer and the encoder are only used
  while it does.
\<close>

record FileSink =
  fs_f :: bool
  fs_bw :: bufio_writer
  fs_encErr :: "go_error option"

type_synonym event_json = "AuditEvent \<Rightarrow> go_error + string"

definition enc_Encode ::
  "event_json \<Rightarrow> 'n device \<Rightarrow> AuditEvent \<Rightarrow> FileSink \<Rightarrow> 'n disk \<Rightarrow> (FileSink \<times> 'n disk) \<times> go_error option" where
  "enc_Encode js dev event x d =
     (if fs_encErr x \<noteq> None then ((x, d), fs_encErr x)
      else
        (case js event of
           Inl err \<Rightarrow> ((x, d), Some err)
         | Inr b \<Rightarrow>
             (let (bw, d, err) = bw_Write dev (b @ [CHR 0x0A]) (fs_bw x) d
              in ((x\<lparr>fs_bw := bw, fs_encErr := err\<rparr>, d), err))))"

text \<open>What \<open>NewFileSink\<close> uses of the operating system.\<close>

record 'n os_files =
  os_MkdirAll :: "string \<Rightarrow> go_error option"
  os_Join :: "string \<Rightarrow> string \<Rightarrow> string"
  os_OpenAppend :: "string \<Rightarrow> go_error + 'n disk"

definition NewFileSink :: "'n os_files \<Rightarrow> string \<Rightarrow> go_error + FileSink \<times> 'n disk" where
  "NewFileSink osf dir =
     (let dir = (if dir = '''' then ''.'' else dir)
      in case os_MkdirAll osf dir of
           Some err \<Rightarrow> Inl err
         | None \<Rightarrow>
             (case os_OpenAppend osf (os_Join osf dir ''audit.log'') of
                Inl err \<Rightarrow> Inl err
              | Inr f \<Rightarrow> Inr (\<lparr>fs_f = True, fs_bw = \<lparr>bw_err = None, bw_buf = []\<rparr>, fs_encErr = None\<rparr>, f)))"

definition FileSink_Write ::
  "event_json \<Rightarrow> 'n device \<Rightarrow> AuditEvent option \<Rightarrow> FileSink \<times> 'n disk \<Rightarrow> (FileSink \<times> 'n disk) \<times> go_error option" where
  "FileSink_Write js dev event = (\<lambda>(x, d).
     (case event of
        None \<Rightarrow> ((x, d), None)
      | Some event \<Rightarrow> if \<not> fs_f x then ((x, d), None) else enc_Encode js dev event x d))"

definition FileSink_Close ::
  "'n device \<Rightarrow> ('n \<Rightarrow> 'n \<times> go_error option) \<Rightarrow> FileSink \<times> 'n disk \<Rightarrow> (FileSink \<times> 'n disk) \<times> go_error option" where
  "FileSink_Close dev fclose = (\<lambda>(x, d).
     (if \<not> fs_f x then ((x, d), None)
      else
        (let (bw, d, flushErr) = bw_Flush dev (fs_bw x) d;
             (n, closeErr) = fclose (disk_env d)
         in ((x\<lparr>fs_f := False\<rparr>, d\<lparr>disk_env := n\<rparr>),
             if flushErr \<noteq> None then flushErr else closeErr))))"

section \<open>What the file holds\<close>

definition json_lines :: "event_json \<Rightarrow> AuditEvent list \<Rightarrow> string" where
  "json_lines js es = concat (map (\<lambda>e. case js e of Inl _ \<Rightarrow> [] | Inr s \<Rightarrow> s @ [CHR 0x0A]) es)"

lemma json_lines_simps [simp]:
  "json_lines js [] = []"
  "json_lines js (es @ fs) = json_lines js es @ json_lines js fs"
  "json_lines js [e] = (case js e of Inl _ \<Rightarrow> [] | Inr s \<Rightarrow> s @ [CHR 0x0A])"
  by (simp_all add: json_lines_def)

text \<open>
  \<open>pending out b d\<close>: \<open>out\<close> is what has been handed to the buffered writer; without an
  error it is the file followed by the buffer, after an error the file holds a part.
\<close>

definition pending :: "string \<Rightarrow> bufio_writer \<Rightarrow> 'n disk \<Rightarrow> bool" where
  "pending out b d \<longleftrightarrow> length (bw_buf b) \<le> fileSinkBufSize \<and>
     (if bw_err b = None then disk_log d @ bw_buf b = out else prefix (disk_log d) out)"

lemma pending_extend: "pending out b d \<Longrightarrow> bw_err b \<noteq> None \<Longrightarrow> pending (out @ p) b d"
  by (auto simp: pending_def)

lemma bw_Flush_pending:
  assumes "pending out b d" and "bw_Flush dev b d = (b', d', err)"
  shows "pending out b' d' \<and> err = bw_err b' \<and> (err = None \<longrightarrow> disk_log d' = out)"
  using assms
  by (auto simp: pending_def bw_Flush_def os_Write_def take_is_prefix split: if_splits option.splits prod.splits)

lemma bw_spill_pending:
  assumes "pending out b d" and "bw_err b = None" and "bw_spill dev p b d = (p', b', d')"
  shows "\<exists>q. p = q @ p' \<and> pending (out @ q) b' d'"
proof (cases "bw_buf b = []")
  case True
  obtain d1 n err where w: "os_Write dev p d = (d1, n, err)" by (metis prod_cases3)
  with True assms(3) have eqs: "p' = drop n p" "b' = b\<lparr>bw_err := err\<rparr>" "d' = d1"
    by (simp_all add: bw_spill_def)
  have "disk_log d1 = disk_log d @ take n p"
    using w by (auto simp: os_Write_def min_def split: prod.splits option.splits)
  with True assms(1,2) eqs have "pending (out @ take n p) b' d'" by (simp add: pending_def)
  with eqs(1) show ?thesis by (metis append_take_drop_id)
next
  case False
  let ?n = "min (bw_Available b) (length p)" and ?b = "b\<lparr>bw_buf := bw_buf b @ take (min (bw_Available b) (length p)) p\<rparr>"
  have "pending (out @ take ?n p) ?b d"
    using assms(1,2) by (auto simp: pending_def bw_Available_def)
  moreover have "p' = drop ?n p" "\<exists>err. bw_Flush dev ?b d = (b', d', err)"
    using assms(3) False by (auto simp: bw_spill_def Let_def split: prod.splits)
  ultimately show ?thesis
    using bw_Flush_pending by (metis append_take_drop_id)
qed

lemma bw_Write_pending:
  assumes "pending out b d" and "bw_Write dev p b d = (b', d', err)"
  shows "pending (out @ p) b' d' \<and> err = bw_err b'"
  using assms
proof (induction dev p b d arbitrary: out rule: bw_Write.induct)
  case (1 dev p b d)
  show ?case
  proof (cases "length p > bw_Available b \<and> bw_err b = None")
    case True
    obtain p1 b1 d1 where sp: "bw_spill dev p b d = (p1, b1, d1)" by (metis prod_cases3)
    obtain q where q: "p = q @ p1" "pending (out @ q) b1 d1"
      using bw_spill_pending [OF "1.prems"(1) _ sp] True by auto
    show ?thesis
    proof (cases "bw_err b1 = None")
      case None: True
      have "bw_Write dev p1 b1 d1 = (b', d', err)"
        using "1.prems"(2) True None sp by (simp add: bw_Write.simps [of dev p b d])
      from "1.IH" [OF True sp [symmetric] refl None q(2) this] q(1) show ?thesis by simp
    next
      case False
      with "1.prems"(2) True sp have "b' = b1" "d' = d1" "err = bw_err b1"
        by (auto simp: bw_Write.simps [of dev p b d])
      with pending_extend [OF q(2) False, of p1] q(1) show ?thesis by simp
    qed
  next
    case False
    show ?thesis
    proof (cases "bw_err b")
      case None
      with False "1.prems" show ?thesis
        by (auto simp: bw_Write.simps [of dev p b d] pending_def bw_Available_def)
    next
      case (Some e)
      with pending_extend [OF "1.prems"(1), of p] False "1.prems"(2) show ?thesis
        by (auto simp: bw_Write.simps [of dev p b d])
    qed
  qed
qed

text \<open>A sink that holds its file and has been handed the text \<open>out\<close>.\<close>

definition sink_holds :: "string \<Rightarrow> FileSink \<times> 'n disk \<Rightarrow> bool" where
  "sink_holds out = (\<lambda>(x, d). fs_f x \<and> fs_encErr x = bw_err (fs_bw x) \<and> pending out (fs_bw x) d)"

lemma sink_holds_lag:
  assumes "sink_holds out (x, d)"
  shows "prefix (disk_log d) out \<and> (fs_encErr x = None \<longrightarrow> length out \<le> length (disk_log d) + fileSinkBufSize)"
  using assms by (auto simp: sink_holds_def pending_def split: if_splits)

lemma FileSink_Write_holds:
  assumes "sink_holds out s"
  shows "sink_holds (out @ json_lines js [e]) (fst (FileSink_Write js dev (Some e) s))"
proof -
  obtain x d where s: "s = (x, d)" by fastforce
  show ?thesis
  proof (cases "fs_encErr x = None")
    case False
    with assms s show ?thesis
      by (auto simp: sink_holds_def FileSink_Write_def enc_Encode_def intro: pending_extend)
  next
    case True
    show ?thesis
    proof (cases "js e")
      case (Inl err)
      with True assms s show ?thesis by (auto simp: sink_holds_def FileSink_Write_def enc_Encode_def)
    next
      case (Inr b)
      obtain bw d1 err where w: "bw_Write dev (b @ [CHR 0x0A]) (fs_bw x) d = (bw, d1, err)"
        by (metis prod_cases3)
      from bw_Write_pending [OF _ w, of out] True assms s Inr w show ?thesis
        by (auto simp: sink_holds_def FileSink_Write_def enc_Encode_def)
    qed
  qed
qed

lemma FileSink_Close_holds:
  assumes "sink_holds out s" and "FileSink_Close dev fclose s = ((x', d'), err)"
  shows "\<not> fs_f x' \<and> prefix (disk_log d') out \<and> (err = None \<longrightarrow> disk_log d' = out)"
proof -
  obtain x d where s: "s = (x, d)" by fastforce
  obtain bw d1 flushErr where f: "bw_Flush dev (fs_bw x) d = (bw, d1, flushErr)" by (metis prod_cases3)
  from bw_Flush_pending [OF _ f, of out] assms s f show ?thesis
    by (auto simp: sink_holds_def FileSink_Close_def pending_def prefix_def split: if_splits prod.splits)
qed

text \<open>The journal hands each non-nil event to its sink, in the order of arrival.\<close>

lemma journal_sink_fold:
  "jr_sink (foldl (handleRecordAuditEvent wr) x es) =
     map_option (\<lambda>s. foldl (\<lambda>s e. fst (wr e s)) s (List.map_filter id es)) (jr_sink x)"
proof (induction es arbitrary: x)
  case (Cons e es)
  then show ?case
    by (cases e) (simp_all add: handleRecordAuditEvent_def List.map_filter_simps option.map_comp comp_def)
qed (simp add: List.map_filter_simps option.map_ident)

lemma sink_fold_holds:
  assumes "sink_holds out s"
  shows "sink_holds (out @ json_lines js es) (foldl (\<lambda>s e. fst (FileSink_Write js dev (Some e) s)) s es)"
  using assms
proof (induction es arbitrary: out s)
  case (Cons e es)
  from Cons.IH [OF FileSink_Write_holds [OF Cons.prems, of js e dev]] show ?case
    using json_lines_simps(2) [of js "[e]" es] by simp
qed simp

section \<open>The file only grows\<close>

lemma os_Write_grows: "os_Write dev p d = (d', n, err) \<Longrightarrow> prefix (disk_log d) (disk_log d')"
  by (auto simp: os_Write_def split: prod.splits option.splits)

lemma bw_Flush_grows: "bw_Flush dev b d = (b', d', err) \<Longrightarrow> prefix (disk_log d) (disk_log d')"
  by (auto simp: bw_Flush_def dest: os_Write_grows split: option.splits if_splits prod.splits)

lemma bw_spill_grows: "bw_spill dev p b d = (p', b', d') \<Longrightarrow> prefix (disk_log d) (disk_log d')"
  by (auto simp: bw_spill_def Let_def dest: os_Write_grows bw_Flush_grows split: if_splits prod.splits)

lemma bw_Write_grows: "bw_Write dev p b d = (b', d', err) \<Longrightarrow> prefix (disk_log d) (disk_log d')"
proof (induction dev p b d rule: bw_Write.induct)
  case (1 dev p b d)
  obtain p1 b1 d1 where sp: "bw_spill dev p b d = (p1, b1, d1)" by (metis prod_cases3)
  note unfolded = "1.prems" [unfolded bw_Write.simps [of dev p b d] sp prod.case]
  show ?case
  proof (cases "length p > bw_Available b \<and> bw_err b = None \<and> bw_err b1 = None")
    case True
    then have "bw_Write dev p1 b1 d1 = (b', d', err)" using unfolded by simp
    with "1.IH" [OF _ sp [symmetric] refl] True have "prefix (disk_log d1) (disk_log d')" by simp
    with bw_spill_grows [OF sp] show ?thesis by (rule prefix_order.trans)
  next
    case False
    with unfolded bw_spill_grows [OF sp] show ?thesis by (auto split: if_splits)
  qed
qed

lemma FileSink_Write_grows: "prefix (disk_log (snd s)) (disk_log (snd (fst (FileSink_Write js dev e s))))"
  by (auto simp: FileSink_Write_def enc_Encode_def Let_def dest: bw_Write_grows split: option.split sum.split prod.split)

lemma sink_fold_grows:
  "prefix (disk_log (snd s)) (disk_log (snd (foldl (\<lambda>s e. fst (FileSink_Write js dev (Some e) s)) s es)))"
proof (induction es arbitrary: s)
  case (Cons e es)
  show ?case
    unfolding foldl_Cons by (rule prefix_order.trans [OF FileSink_Write_grows Cons.IH])
qed simp

lemma FileSink_Close_grows:
  "FileSink_Close dev fclose (x, d) = ((x', d'), err) \<Longrightarrow> prefix (disk_log d) (disk_log d')"
  by (auto simp: FileSink_Close_def Let_def dest: bw_Flush_grows split: if_splits prod.splits)

section \<open>Properties\<close>

text \<open>C32: A journal over a file sink keeps the audit log. Whatever the device does, the file is
  only appended to: it holds what it held before followed by a part of the JSON lines of
  the events in the order of arrival, and closing adds to that; while no write has failed, at most one buffer, 4096 bytes, is not yet in the
  file; and when closing the sink reports no error, every event that encodes is there.\<close>

theorem file_audit_log_kept:
  assumes "NewFileSink osf dir = Inr (s0, d0)" and "jr_sink x = Some (s0, d0)"
    and "jr_sink (foldl (handleRecordAuditEvent (\<lambda>e. FileSink_Write js dev (Some e))) x es) = Some (s1, d1)"
    and "FileSink_Close dev fclose (s1, d1) = ((s2, d2), err)"
  shows "let log = disk_log d0 @ json_lines js (List.map_filter id es) in
    prefix (disk_log d0) (disk_log d1) \<and> prefix (disk_log d1) (disk_log d2) \<and> prefix (disk_log d2) log \<and>
    (fs_encErr s1 = None \<longrightarrow> length log \<le> length (disk_log d1) + fileSinkBufSize) \<and>
    (err = None \<longrightarrow> disk_log d2 = log)"
proof -
  have "sink_holds (disk_log d0) (s0, d0)"
    using assms(1) by (auto simp: NewFileSink_def sink_holds_def pending_def Let_def split: option.splits sum.splits)
  from sink_fold_holds [OF this, where js = js and dev = dev and es = "List.map_filter id es"] assms(2,3)
  have held: "sink_holds (disk_log d0 @ json_lines js (List.map_filter id es)) (s1, d1)"
    by (simp add: journal_sink_fold)
  have "prefix (disk_log d0) (disk_log d1)"
    using sink_fold_grows [of "(s0, d0)" js dev "List.map_filter id es"] assms(2,3) by (simp add: journal_sink_fold)
  with FileSink_Close_holds [OF held assms(4)] sink_holds_lag [OF held] FileSink_Close_grows [OF assms(4)] show ?thesis
    by (simp add: Let_def)
qed

text \<open>A disk with room for a given number of bytes.\<close>

definition small_disk :: "nat device" where
  "small_disk len room =
     (if len \<le> room then (room - len, None) else (0, Some (room, PlainErr ''no space left on device'')))"

definition example_sink :: FileSink where
  "example_sink = \<lparr>fs_f = True, fs_bw = \<lparr>bw_err = None, bw_buf = []\<rparr>, fs_encErr = None\<rparr>"

theorem file_audit_log_kept_witness:
  "prefix (disk_log (snd (fst (FileSink_Close small_disk (\<lambda>n. (n, None))
      (example_sink\<lparr>fs_bw := \<lparr>bw_err = None, bw_buf = ''fs'' @ [CHR 0x0A]\<rparr>\<rparr>, \<lparr>disk_log = ''old '', disk_env = 1\<rparr>)))))
     (''old fs'' @ [CHR 0x0A])"
proof -
  let ?d = "\<lparr>disk_log = ''old '', disk_env = 1 :: nat\<rparr>"
  let ?osf = "\<lparr>os_MkdirAll = (\<lambda>_. None), os_Join = (\<lambda>a b. a @ ''/'' @ b), os_OpenAppend = (\<lambda>_. Inr ?d)\<rparr>"
  let ?ev = "HealthTransitionAuditEvent 1 ''fs'' ''enabled'' ''unavailable''"
  let ?x = "\<lparr>jr_sink = Some (example_sink, ?d), jr_stream = None\<rparr>"
  let ?s1 = "example_sink\<lparr>fs_bw := \<lparr>bw_err = None, bw_buf = ''fs'' @ [CHR 0x0A]\<rparr>\<rparr>"
  have "NewFileSink ?osf '''' = Inr (example_sink, ?d)"
    by (simp add: NewFileSink_def example_sink_def)
  moreover have "jr_sink ?x = Some (example_sink, ?d)" by simp
  moreover have "jr_sink (foldl (handleRecordAuditEvent (\<lambda>e. FileSink_Write (\<lambda>e. Inr (audit_ToolID e)) small_disk (Some e)))
      ?x [Some ?ev, None]) = Some (?s1, ?d)"
    by (simp add: handleRecordAuditEvent_def FileSink_Write_def enc_Encode_def example_sink_def bw_Write.simps
        bw_Available_def fileSinkBufSize_def HealthTransitionAuditEvent_def)
  moreover have "FileSink_Close small_disk (\<lambda>n. (n, None)) (?s1, ?d) =
      ((?s1\<lparr>fs_f := False\<rparr>, \<lparr>disk_log = ''old f'', disk_env = 0\<rparr>), Some (PlainErr ''no space left on device''))"
    by (simp add: FileSink_Close_def bw_Flush_def os_Write_def small_disk_def example_sink_def)
  ultimately have "prefix ''old f'' (''old '' @ json_lines (\<lambda>e. Inr (audit_ToolID e)) (List.map_filter id [Some ?ev, None]))"
    using file_audit_log_kept [where x = ?x] by (fastforce simp: Let_def)
  then show ?thesis
    by (simp add: FileSink_Close_def bw_Flush_def os_Write_def small_disk_def example_sink_def)
qed

end
