(* ===== verification/Telemetry.thy ===== *)
theory Telemetry
  imports Mcp_Types
begin

text \<open>
  Telemetry (internal/runtime/telemetry): registration of the metric instruments and of the
  tracer, which are process-wide, and the functions the actors record measurements with.
  The exporter of the measurements is outside: what is recorded is a list of points, each
  with its instrument, its reading and its attributes. Latencies are values of a type
  \<open>'f\<close>, which is never computed with.
\<close>

section \<open>Instruments\<close>

definition instrumentationName :: string where
  "instrumentationName = ''github.com/tochemey/goakt-mcp/telemetry''"

definition attrKeyReason :: string where "attrKeyReason = ''reason''"
definition attrKeyToolID :: string where "attrKeyToolID = ''tool_id''"
definition attrKeyTenantID :: string where "attrKeyTenantID = ''tenant_id''"
definition credentialCacheHit :: string where "credentialCacheHit = ''hit''"
definition credentialCacheMiss :: string where "credentialCacheMiss = ''miss''"

datatype Metrics =
    toolAvailability | invocationLatency | invocationFailure | circuitState
  | sessionActive | sessionCreated | sessionDestroyed | sessionPassivated
  | credentialCacheResult | policyEvalLatency | deadLetter

definition instruments :: "(Metrics \<times> string) list" where
  "instruments =
     [(toolAvailability, ''goaktmcp.tool.availability''),
      (invocationLatency, ''goaktmcp.invocation.latency''),
      (invocationFailure, ''goaktmcp.invocation.failure''),
      (circuitState, ''goaktmcp.circuit.state''),
      (sessionActive, ''goaktmcp.session.active''),
      (sessionCreated, ''goaktmcp.session.created''),
      (sessionDestroyed, ''goaktmcp.session.destroyed''),
      (sessionPassivated, ''goaktmcp.session.passivated''),
      (credentialCacheResult, ''goaktmcp.credential.cache''),
      (policyEvalLatency, ''goaktmcp.policy.evaluation.latency''),
      (deadLetter, ''goaktmcp.actor.dead_letter'')]"

datatype attribute = AttrString string string | AttrBool string bool

datatype 'f reading = Add int | Observe 'f

record 'f point =
  pt_instrument :: Metrics
  pt_reading :: "'f reading"
  pt_attrs :: "attribute list"

text \<open>
  The process-wide state: the instruments that are registered, as the association of an
  instrument to its name at the meter, the tracer, and the points recorded.
\<close>

record 'f telemetry =
  tm_metrics :: "(Metrics \<times> string) list option"
  tm_tracer :: "handle option"
  tm_points :: "'f point list"

section \<open>Registration\<close>

text \<open>A meter either makes an instrument of a given name or refuses it.\<close>

type_synonym Meter = "string \<Rightarrow> go_error option"

fun make_instruments :: "Meter \<Rightarrow> (Metrics \<times> string) list \<Rightarrow> (Metrics \<times> string) list \<Rightarrow> go_error + (Metrics \<times> string) list" where
  "make_instruments meter [] acc = Inr acc"
| "make_instruments meter ((i, name) # rest) acc =
     (case meter name of
        Some err \<Rightarrow> Inl err
      | None \<Rightarrow> make_instruments meter rest (acc @ [(i, name)]))"

definition RegisterMetrics ::
  "(string \<Rightarrow> Meter) \<Rightarrow> Meter option \<Rightarrow> 'f telemetry \<Rightarrow> 'f telemetry \<times> (go_error + (Metrics \<times> string) list)" where
  "RegisterMetrics globalMeter meter t =
     (let m = (case meter of None \<Rightarrow> globalMeter instrumentationName | Some m \<Rightarrow> m)
      in case make_instruments m instruments [] of
           Inl err \<Rightarrow> (t, Inl err)
         | Inr metrics \<Rightarrow> (t\<lparr>tm_metrics := Some metrics\<rparr>, Inr metrics))"

definition UnregisterMetrics :: "'f telemetry \<Rightarrow> 'f telemetry" where
  "UnregisterMetrics t = t\<lparr>tm_metrics := None\<rparr>"

definition RegisterTracer :: "(string \<Rightarrow> handle) \<Rightarrow> 'f telemetry \<Rightarrow> 'f telemetry \<times> handle" where
  "RegisterTracer provider t = (let tracer = provider instrumentationName in (t\<lparr>tm_tracer := Some tracer\<rparr>, tracer))"

definition UnregisterTracer :: "'f telemetry \<Rightarrow> 'f telemetry" where
  "UnregisterTracer t = t\<lparr>tm_tracer := None\<rparr>"

definition Tracer :: "handle \<Rightarrow> 'f telemetry \<Rightarrow> handle" where
  "Tracer noopTracer t = (case tm_tracer t of Some p \<Rightarrow> p | None \<Rightarrow> noopTracer)"

definition TracingEnabled :: "'f telemetry \<Rightarrow> bool" where
  "TracingEnabled t \<longleftrightarrow> tm_tracer t \<noteq> None"

section \<open>Recording\<close>

definition emit :: "'f point list \<Rightarrow> 'f telemetry \<Rightarrow> 'f telemetry" where
  "emit ps t = (case tm_metrics t of None \<Rightarrow> t | Some m \<Rightarrow> t\<lparr>tm_points := tm_points t @ ps\<rparr>)"

definition RecordToolAvailability :: "ToolID \<Rightarrow> bool \<Rightarrow> 'f telemetry \<Rightarrow> 'f telemetry" where
  "RecordToolAvailability toolID available =
     emit [\<lparr>pt_instrument = toolAvailability, pt_reading = Add 1,
            pt_attrs = [AttrString attrKeyToolID toolID, AttrBool ''available'' available]\<rparr>]"

definition RecordInvocationLatency :: "ToolID \<Rightarrow> TenantID \<Rightarrow> 'f \<Rightarrow> 'f telemetry \<Rightarrow> 'f telemetry" where
  "RecordInvocationLatency toolID tenantID latencyMs =
     emit [\<lparr>pt_instrument = invocationLatency, pt_reading = Observe latencyMs,
            pt_attrs = [AttrString attrKeyToolID toolID, AttrString attrKeyTenantID tenantID]\<rparr>]"

definition RecordInvocationFailure :: "ToolID \<Rightarrow> TenantID \<Rightarrow> string \<Rightarrow> 'f telemetry \<Rightarrow> 'f telemetry" where
  "RecordInvocationFailure toolID tenantID reason =
     emit [\<lparr>pt_instrument = invocationFailure, pt_reading = Add 1,
            pt_attrs = [AttrString attrKeyToolID toolID, AttrString attrKeyTenantID tenantID, AttrString attrKeyReason reason]\<rparr>]"

definition RecordCircuitState :: "ToolID \<Rightarrow> string \<Rightarrow> 'f telemetry \<Rightarrow> 'f telemetry" where
  "RecordCircuitState toolID state =
     emit [\<lparr>pt_instrument = circuitState, pt_reading = Add 1,
            pt_attrs = [AttrString attrKeyToolID toolID, AttrString ''state'' state]\<rparr>]"

definition session_attrs :: "ToolID \<Rightarrow> TenantID \<Rightarrow> attribute list" where
  "session_attrs toolID tenantID = [AttrString attrKeyToolID toolID, AttrString attrKeyTenantID tenantID]"

definition RecordSessionCreated :: "ToolID \<Rightarrow> TenantID \<Rightarrow> 'f telemetry \<Rightarrow> 'f telemetry" where
  "RecordSessionCreated toolID tenantID =
     emit [\<lparr>pt_instrument = sessionCreated, pt_reading = Add 1, pt_attrs = session_attrs toolID tenantID\<rparr>,
           \<lparr>pt_instrument = sessionActive, pt_reading = Add 1, pt_attrs = session_attrs toolID tenantID\<rparr>]"

definition RecordSessionDestroyed :: "ToolID \<Rightarrow> TenantID \<Rightarrow> 'f telemetry \<Rightarrow> 'f telemetry" where
  "RecordSessionDestroyed toolID tenantID =
     emit [\<lparr>pt_instrument = sessionDestroyed, pt_reading = Add 1, pt_attrs = session_attrs toolID tenantID\<rparr>,
           \<lparr>pt_instrument = sessionActive, pt_reading = Add (- 1), pt_attrs = session_attrs toolID tenantID\<rparr>]"

definition RecordSessionPassivated :: "ToolID \<Rightarrow> 'f telemetry \<Rightarrow> 'f telemetry" where
  "RecordSessionPassivated toolID =
     emit [\<lparr>pt_instrument = sessionPassivated, pt_reading = Add 1, pt_attrs = [AttrString attrKeyToolID toolID]\<rparr>]"

definition RecordCredentialCacheResult :: "ToolID \<Rightarrow> TenantID \<Rightarrow> bool \<Rightarrow> 'f telemetry \<Rightarrow> 'f telemetry" where
  "RecordCredentialCacheResult toolID tenantID hit =
     emit [\<lparr>pt_instrument = credentialCacheResult, pt_reading = Add 1,
            pt_attrs = [AttrString attrKeyToolID toolID, AttrString attrKeyTenantID tenantID,
              AttrString ''result'' (if hit then credentialCacheHit else credentialCacheMiss)]\<rparr>]"

definition RecordPolicyEvaluationLatency :: "TenantID \<Rightarrow> string \<Rightarrow> 'f \<Rightarrow> 'f telemetry \<Rightarrow> 'f telemetry" where
  "RecordPolicyEvaluationLatency tenantID decision latencyMs =
     emit [\<lparr>pt_instrument = policyEvalLatency, pt_reading = Observe latencyMs,
            pt_attrs = [AttrString attrKeyTenantID tenantID, AttrString ''decision'' decision]\<rparr>]"

definition RecordDeadLetter :: "string \<Rightarrow> 'f telemetry \<Rightarrow> 'f telemetry" where
  "RecordDeadLetter reason =
     emit [\<lparr>pt_instrument = deadLetter, pt_reading = Add 1, pt_attrs = [AttrString attrKeyReason reason]\<rparr>]"

section \<open>Trace context\<close>

text \<open>The propagator is that of the tracing library: it writes a context into headers and reads one from them.\<close>

record ('c, 'h) TextMapPropagator =
  tp_Inject :: "'c \<Rightarrow> 'h \<Rightarrow> 'h"
  tp_Extract :: "'c \<Rightarrow> 'h \<Rightarrow> 'c"

definition otel_Inject :: "('c, 'h) TextMapPropagator \<Rightarrow> 'c \<Rightarrow> 'h \<Rightarrow> 'h \<times> go_error option" where
  "otel_Inject x ctx headers = (tp_Inject x ctx headers, None)"

definition otel_Extract :: "('c, 'h) TextMapPropagator \<Rightarrow> 'c \<Rightarrow> 'h \<Rightarrow> 'c \<times> go_error option" where
  "otel_Extract x ctx headers = (tp_Extract x ctx headers, None)"

section \<open>Recording in sequence\<close>

text \<open>Everything the runtime records, as one step.\<close>

datatype 'f measure =
    Availability ToolID bool | Latency ToolID TenantID 'f | Failure ToolID TenantID string | Circuit ToolID string
  | SessionCreated ToolID TenantID | SessionDestroyed ToolID TenantID | SessionPassivated ToolID
  | CacheResult ToolID TenantID bool | PolicyLatency TenantID string 'f | DeadLetter string

fun record_measure :: "'f telemetry \<Rightarrow> 'f measure \<Rightarrow> 'f telemetry" where
  "record_measure t (Availability tool a) = RecordToolAvailability tool a t"
| "record_measure t (Latency tool tenant ms) = RecordInvocationLatency tool tenant ms t"
| "record_measure t (Failure tool tenant r) = RecordInvocationFailure tool tenant r t"
| "record_measure t (Circuit tool s) = RecordCircuitState tool s t"
| "record_measure t (SessionCreated tool tenant) = RecordSessionCreated tool tenant t"
| "record_measure t (SessionDestroyed tool tenant) = RecordSessionDestroyed tool tenant t"
| "record_measure t (SessionPassivated tool) = RecordSessionPassivated tool t"
| "record_measure t (CacheResult tool tenant hit) = RecordCredentialCacheResult tool tenant hit t"
| "record_measure t (PolicyLatency tenant d ms) = RecordPolicyEvaluationLatency tenant d ms t"
| "record_measure t (DeadLetter r) = RecordDeadLetter r t"

lemmas record_defs =
  RecordToolAvailability_def RecordInvocationLatency_def RecordInvocationFailure_def RecordCircuitState_def
  RecordSessionCreated_def RecordSessionDestroyed_def RecordSessionPassivated_def RecordCredentialCacheResult_def
  RecordPolicyEvaluationLatency_def RecordDeadLetter_def

lemma emit_metrics [simp]: "tm_metrics (emit ps t) = tm_metrics t"
  by (simp add: emit_def split: option.split)

lemma emit_points: "tm_points (emit ps t) = (if tm_metrics t = None then tm_points t else tm_points t @ ps)"
  by (simp add: emit_def split: option.split)

lemma record_keeps_metrics [simp]: "tm_metrics (record_measure t m) = tm_metrics t"
  by (cases m) (simp_all add: record_defs)

lemma run_keeps_metrics [simp]: "tm_metrics (foldl record_measure t ms) = tm_metrics t"
  by (induction ms arbitrary: t) simp_all

text \<open>What an up-down counter shows for an instrument and a set of attributes.\<close>

definition shown :: "Metrics \<Rightarrow> attribute list \<Rightarrow> 'f telemetry \<Rightarrow> int" where
  "shown i attrs t = sum_list (map (\<lambda>p. case pt_reading p of Add k \<Rightarrow> k | Observe _ \<Rightarrow> 0)
     (filter (\<lambda>p. pt_instrument p = i \<and> pt_attrs p = attrs) (tm_points t)))"

definition sessions_created :: "ToolID \<Rightarrow> TenantID \<Rightarrow> 'f measure list \<Rightarrow> nat" where
  "sessions_created tool tenant ms = length (filter (\<lambda>m. m = SessionCreated tool tenant) ms)"

definition sessions_destroyed :: "ToolID \<Rightarrow> TenantID \<Rightarrow> 'f measure list \<Rightarrow> nat" where
  "sessions_destroyed tool tenant ms = length (filter (\<lambda>m. m = SessionDestroyed tool tenant) ms)"

lemma session_attrs_inject [simp]: "session_attrs a b = session_attrs c d \<longleftrightarrow> a = c \<and> b = d"
  by (auto simp: session_attrs_def)

lemma gauge_step:
  assumes "tm_metrics t \<noteq> None"
  shows "shown sessionActive (session_attrs tool tenant) (record_measure t m) =
    shown sessionActive (session_attrs tool tenant) t +
      (if m = SessionCreated tool tenant then 1 else if m = SessionDestroyed tool tenant then - 1 else 0)"
  using assms by (cases m) (auto simp: record_defs shown_def emit_points)

lemma gauge_run:
  assumes "tm_metrics t \<noteq> None"
  shows "shown sessionActive (session_attrs tool tenant) (foldl record_measure t ms) =
    shown sessionActive (session_attrs tool tenant) t + int (sessions_created tool tenant ms) - int (sessions_destroyed tool tenant ms)"
  using assms
proof (induction ms arbitrary: t)
  case (Cons m ms)
  from Cons.IH [of "record_measure t m"] Cons.prems show ?case
    by (auto simp: gauge_step sessions_created_def sessions_destroyed_def)
qed (simp add: sessions_created_def sessions_destroyed_def)

lemma unregistered_run: "tm_metrics t = None \<Longrightarrow> foldl record_measure t ms = t"
proof (induction ms arbitrary: t)
  case (Cons m ms)
  then have "record_measure t m = t" by (cases m) (simp_all add: record_defs emit_def)
  with Cons show ?case by simp
qed simp

lemma make_instruments_Inr: "make_instruments meter is acc = Inr r \<longleftrightarrow> r = acc @ is \<and> (\<forall>x \<in> set is. meter (snd x) = None)"
  by (induction meter "is" acc rule: make_instruments.induct) (auto split: option.splits)

section \<open>Properties\<close>

text \<open>Registration is all or nothing: it succeeds exactly when the meter makes every instrument,
  and otherwise leaves the registered instruments as they were. After it, whatever
  the actors record, the gauge of active sessions of a tool and tenant is the number of
  sessions created minus the number destroyed; before it, nothing is recorded.\<close>

theorem session_gauge_counts:
  "(case RegisterMetrics gm (Some meter) t of
      (t', Inl err) \<Rightarrow> t' = t \<and> (\<exists>name \<in> snd ` set instruments. meter name \<noteq> None)
    | (t', Inr metrics) \<Rightarrow> (\<forall>name \<in> snd ` set instruments. meter name = None) \<and>
        shown sessionActive (session_attrs tool tenant) (foldl record_measure t' ms) =
          shown sessionActive (session_attrs tool tenant) t +
            int (sessions_created tool tenant ms) - int (sessions_destroyed tool tenant ms)) \<and>
   (tm_metrics t = None \<longrightarrow> foldl record_measure t ms = t)"
proof (intro conjI impI)
  show "case RegisterMetrics gm (Some meter) t of
      (t', Inl err) \<Rightarrow> t' = t \<and> (\<exists>name \<in> snd ` set instruments. meter name \<noteq> None)
    | (t', Inr metrics) \<Rightarrow> (\<forall>name \<in> snd ` set instruments. meter name = None) \<and>
        shown sessionActive (session_attrs tool tenant) (foldl record_measure t' ms) =
          shown sessionActive (session_attrs tool tenant) t +
            int (sessions_created tool tenant ms) - int (sessions_destroyed tool tenant ms)"
  proof (cases "make_instruments meter instruments []")
    case (Inl err)
    have "\<exists>x \<in> set instruments. meter (snd x) \<noteq> None"
    proof (rule ccontr)
      assume "\<not> ?thesis"
      then have "make_instruments meter instruments [] = Inr instruments"
        by (simp add: make_instruments_Inr)
      with Inl show False by simp
    qed
    with Inl show ?thesis by (auto simp: RegisterMetrics_def)
  next
    case (Inr metrics)
    then have "\<forall>x \<in> set instruments. meter (snd x) = None" by (simp add: make_instruments_Inr)
    moreover have "shown sessionActive a (t\<lparr>tm_metrics := Some metrics\<rparr>) = shown sessionActive a t" for a
      by (simp add: shown_def)
    ultimately show ?thesis
      using gauge_run [of "t\<lparr>tm_metrics := Some metrics\<rparr>" tool tenant ms] Inr by (auto simp: RegisterMetrics_def)
  qed
qed (rule unregistered_run)

theorem session_gauge_counts_witness:
  "shown sessionActive (session_attrs ''fs'' ''acme'')
     (foldl record_measure (fst (RegisterMetrics (\<lambda>_ _. None) (Some (\<lambda>_. None))
         \<lparr>tm_metrics = None, tm_tracer = None, tm_points = [] :: nat point list\<rparr>))
       [SessionCreated ''fs'' ''acme'', SessionCreated ''fs'' ''acme'', DeadLetter ''full'', SessionDestroyed ''fs'' ''acme'']) = 1"
  using session_gauge_counts [where gm = "\<lambda>_ _. None" and meter = "\<lambda>_. None" and tool = "''fs''" and tenant = "''acme''"
      and t = "\<lparr>tm_metrics = None, tm_tracer = None, tm_points = [] :: nat point list\<rparr>"
      and ms = "[SessionCreated ''fs'' ''acme'', SessionCreated ''fs'' ''acme'', DeadLetter ''full'', SessionDestroyed ''fs'' ''acme'']"]
  by (simp add: RegisterMetrics_def instruments_def shown_def sessions_created_def sessions_destroyed_def)

end
