(* ===== verification/Logger.thy ===== *)
theory Logger
  imports Mcp_Types
begin

text \<open>
  Logging: the adapter from the user's logger to the one the actor library calls
  (logger.go), log levels and the built-in loggers (internal/runtime/config/config.go), and
  the correlation fields attached to the log lines of a request
  (internal/runtime/telemetry/correlation.go, \<open>loggerWithCorrelation\<close> of the router and
  \<open>invocationLogger\<close> of the session grain).

  What reaches the user's logger is a list of calls with message and key-value arguments.
  The formatting functions of the Go library are arguments.
\<close>

section \<open>Levels\<close>

datatype Level = InfoLevel | WarningLevel | ErrorLevel | FatalLevel | PanicLevel | DebugLevel | InvalidLevel | OtherLevel int

fun levelSeverity :: "Level \<Rightarrow> int" where
  "levelSeverity DebugLevel = 0"
| "levelSeverity InfoLevel = 1"
| "levelSeverity WarningLevel = 2"
| "levelSeverity ErrorLevel = 3"
| "levelSeverity FatalLevel = 4"
| "levelSeverity PanicLevel = 5"
| "levelSeverity _ = 1"

definition parseLevel :: "string \<Rightarrow> Level" where
  "parseLevel s =
     (let s = ToLower s in
      if s = ''debug'' then DebugLevel
      else if s = ''info'' then InfoLevel
      else if s = ''warn'' \<or> s = ''warning'' then WarningLevel
      else if s = ''error'' then ErrorLevel
      else if s = ''fatal'' then FatalLevel
      else if s = ''panic'' then PanicLevel
      else InfoLevel)"

definition ParseLogLevel :: "string \<Rightarrow> Level" where
  "ParseLogLevel s =
     (if s = ''debug'' then DebugLevel
      else if s = ''info'' then InfoLevel
      else if s = ''warning'' \<or> s = ''warn'' then WarningLevel
      else if s = ''error'' then ErrorLevel
      else if s = ''fatal'' then FatalLevel
      else if s = ''panic'' then PanicLevel
      else InvalidLevel)"

section \<open>The user's logger and its adapter\<close>

text \<open>
  A logger is an object, with the level it advertises if it advertises one; the value of
  the interface can also be nil or hold a nil pointer.
\<close>

datatype Logger = NilLogger | NilLoggerPointer | LoggerObject handle "string option"

definition isNilLogger :: "Logger \<Rightarrow> bool" where
  "isNilLogger l \<longleftrightarrow> (case l of LoggerObject _ _ \<Rightarrow> False | _ \<Rightarrow> True)"

record loggerAdapter =
  la_inner :: Logger
  la_level :: Level
  la_fields :: "any list"

definition newLoggerAdapter :: "Logger \<Rightarrow> loggerAdapter" where
  "newLoggerAdapter inner =
     \<lparr>la_inner = inner,
      la_level = (case inner of LoggerObject _ (Some level) \<Rightarrow> parseLevel level | _ \<Rightarrow> InfoLevel),
      la_fields = []\<rparr>"

definition With :: "any list \<Rightarrow> loggerAdapter \<Rightarrow> loggerAdapter" where
  "With keyValues a = (if keyValues = [] then a else a\<lparr>la_fields := la_fields a @ keyValues\<rparr>)"

definition Enabled :: "Level \<Rightarrow> loggerAdapter \<Rightarrow> bool" where
  "Enabled l a \<longleftrightarrow> levelSeverity l \<ge> levelSeverity (la_level a)"

definition goaktArgsToMsg :: "(any \<Rightarrow> string) \<Rightarrow> any list \<Rightarrow> string \<times> any list" where
  "goaktArgsToMsg sprint args =
     (case args of [] \<Rightarrow> ('''', []) | [x] \<Rightarrow> (sprint x, []) | x # xs \<Rightarrow> (sprint x, xs))"

definition mergeFields :: "loggerAdapter \<Rightarrow> any list \<Rightarrow> any list" where
  "mergeFields a extra =
     (if la_fields a = [] then extra else if extra = [] then la_fields a else la_fields a @ extra)"

text \<open>The methods of the user's logger, and what a call of the adapter does after logging.\<close>

datatype log_method = InnerDebug | InnerInfo | InnerWarn | InnerError

record log_call =
  lc_method :: log_method
  lc_msg :: string
  lc_args :: "any list"

datatype log_outcome = Returns | Exits int | Panics string

text \<open>The calls the actor library makes; those with a context ignore it.\<close>

datatype adapter_call =
    Debug "any list" | Debugf string "any list" | DebugContext "any list" | DebugfContext string "any list"
  | Info "any list" | Infof string "any list" | InfoContext "any list" | InfofContext string "any list"
  | Warn "any list" | Warnf string "any list" | WarnContext "any list" | WarnfContext string "any list"
  | Error "any list" | Errorf string "any list" | ErrorContext "any list" | ErrorfContext string "any list"
  | Fatal "any list" | Fatalf string "any list" | Panic "any list" | Panicf string "any list"

definition plain_call :: "(any \<Rightarrow> string) \<Rightarrow> loggerAdapter \<Rightarrow> log_method \<Rightarrow> any list \<Rightarrow> log_call" where
  "plain_call sprint a meth args =
     (let (msg, kvs) = goaktArgsToMsg sprint args
      in \<lparr>lc_method = meth, lc_msg = msg, lc_args = mergeFields a kvs\<rparr>)"

definition format_call :: "(string \<Rightarrow> any list \<Rightarrow> string) \<Rightarrow> loggerAdapter \<Rightarrow> log_method \<Rightarrow> string \<Rightarrow> any list \<Rightarrow> log_call" where
  "format_call sprintf a meth format args = \<lparr>lc_method = meth, lc_msg = sprintf format args, lc_args = la_fields a\<rparr>"

fun adapter_log ::
  "(any \<Rightarrow> string) \<Rightarrow> (string \<Rightarrow> any list \<Rightarrow> string) \<Rightarrow> loggerAdapter \<Rightarrow> adapter_call \<Rightarrow> log_call \<times> log_outcome" where
  "adapter_log sp sf a (Debug args) = (plain_call sp a InnerDebug args, Returns)"
| "adapter_log sp sf a (Debugf f args) = (format_call sf a InnerDebug f args, Returns)"
| "adapter_log sp sf a (DebugContext args) = (plain_call sp a InnerDebug args, Returns)"
| "adapter_log sp sf a (DebugfContext f args) = (format_call sf a InnerDebug f args, Returns)"
| "adapter_log sp sf a (Info args) = (plain_call sp a InnerInfo args, Returns)"
| "adapter_log sp sf a (Infof f args) = (format_call sf a InnerInfo f args, Returns)"
| "adapter_log sp sf a (InfoContext args) = (plain_call sp a InnerInfo args, Returns)"
| "adapter_log sp sf a (InfofContext f args) = (format_call sf a InnerInfo f args, Returns)"
| "adapter_log sp sf a (Warn args) = (plain_call sp a InnerWarn args, Returns)"
| "adapter_log sp sf a (Warnf f args) = (format_call sf a InnerWarn f args, Returns)"
| "adapter_log sp sf a (WarnContext args) = (plain_call sp a InnerWarn args, Returns)"
| "adapter_log sp sf a (WarnfContext f args) = (format_call sf a InnerWarn f args, Returns)"
| "adapter_log sp sf a (Error args) = (plain_call sp a InnerError args, Returns)"
| "adapter_log sp sf a (Errorf f args) = (format_call sf a InnerError f args, Returns)"
| "adapter_log sp sf a (ErrorContext args) = (plain_call sp a InnerError args, Returns)"
| "adapter_log sp sf a (ErrorfContext f args) = (format_call sf a InnerError f args, Returns)"
| "adapter_log sp sf a (Fatal args) = (plain_call sp a InnerError args, Exits 1)"
| "adapter_log sp sf a (Fatalf f args) = (format_call sf a InnerError f args, Exits 1)"
| "adapter_log sp sf a (Panic args) = (plain_call sp a InnerError args, Panics (fst (goaktArgsToMsg sp args)))"
| "adapter_log sp sf a (Panicf f args) = (format_call sf a InnerError f args, Panics (sf f args))"

text \<open>The writer behind \<open>StdLogger\<close>: one info line per write, without the trailing line ends.\<close>

definition loggerWriter_Write :: "string \<Rightarrow> log_call \<times> nat" where
  "loggerWriter_Write p =
     (\<lparr>lc_method = InnerInfo,
       lc_msg = rev (dropWhile (\<lambda>c. c = CHR 0x0D \<or> c = CHR 0x0A) (rev p)), lc_args = []\<rparr>, length p)"

section \<open>The logger of a gateway\<close>

datatype gateway_logger = DiscardLogger | Slog Level | AdapterLogger loggerAdapter

definition NewLogger :: "string \<Rightarrow> gateway_logger" where
  "NewLogger level =
     (let parsed = ParseLogLevel level in if parsed = InvalidLevel then DiscardLogger else Slog parsed)"

section \<open>Correlation fields\<close>

record CorrelationFields =
  cf_TenantID :: TenantID
  cf_ClientID :: ClientID
  cf_RequestID :: RequestID
  cf_TraceID :: TraceID
  cf_ToolID :: ToolID

definition LogFields :: "CorrelationFields \<Rightarrow> strmap" where
  "LogFields c =
     (let m = [];
          m = (if \<not> IsZero (cf_TenantID c) then gm_put ''tenant_id'' (cf_TenantID c) m else m);
          m = (if \<not> IsZero (cf_ClientID c) then gm_put ''client_id'' (cf_ClientID c) m else m);
          m = (if \<not> IsZero (cf_RequestID c) then gm_put ''request_id'' (cf_RequestID c) m else m);
          m = (if \<not> IsZero (cf_TraceID c) then gm_put ''trace_id'' (cf_TraceID c) m else m);
          m = (if \<not> IsZero (cf_ToolID c) then gm_put ''tool_id'' (cf_ToolID c) m else m)
      in m)"

definition LogKeyValues :: "CorrelationFields \<Rightarrow> any list" where
  "LogKeyValues c =
     (let kvs = [];
          kvs = (if \<not> IsZero (cf_TenantID c) then kvs @ [AString ''tenant_id'', AString (cf_TenantID c)] else kvs);
          kvs = (if \<not> IsZero (cf_ClientID c) then kvs @ [AString ''client_id'', AString (cf_ClientID c)] else kvs);
          kvs = (if \<not> IsZero (cf_RequestID c) then kvs @ [AString ''request_id'', AString (cf_RequestID c)] else kvs);
          kvs = (if \<not> IsZero (cf_TraceID c) then kvs @ [AString ''trace_id'', AString (cf_TraceID c)] else kvs);
          kvs = (if \<not> IsZero (cf_ToolID c) then kvs @ [AString ''tool_id'', AString (cf_ToolID c)] else kvs)
      in kvs)"

definition invocation_fields :: "Invocation \<Rightarrow> CorrelationFields" where
  "invocation_fields ivk =
     \<lparr>cf_TenantID = corr_TenantID (inv_Correlation ivk), cf_ClientID = corr_ClientID (inv_Correlation ivk),
      cf_RequestID = corr_RequestID (inv_Correlation ivk), cf_TraceID = corr_TraceID (inv_Correlation ivk),
      cf_ToolID = inv_ToolID ivk\<rparr>"

definition loggerWithCorrelation :: "loggerAdapter \<Rightarrow> Invocation \<Rightarrow> loggerAdapter" where
  "loggerWithCorrelation logger ivk =
     (let kvs = LogKeyValues (invocation_fields ivk) in if kvs = [] then logger else With kvs logger)"

definition invocationLogger :: "loggerAdapter \<Rightarrow> Invocation \<Rightarrow> loggerAdapter" where
  "invocationLogger logger ivk =
     (let kvs = LogKeyValues (invocation_fields ivk) in if kvs = [] then logger else With kvs logger)"

section \<open>Fields\<close>

lemma With_fields [simp]:
  "la_fields (With kvs a) = la_fields a @ kvs" "la_level (With kvs a) = la_level a" "la_inner (With kvs a) = la_inner a"
  by (simp_all add: With_def)

lemma mergeFields_append: "mergeFields a extra = la_fields a @ extra"
  by (simp add: mergeFields_def)

lemma loggerWithCorrelation_With: "loggerWithCorrelation a ivk = With (LogKeyValues (invocation_fields ivk)) a"
  by (simp add: loggerWithCorrelation_def With_def)

text \<open>The message of a call, the key-value pairs it brings along and how severe it is.\<close>

fun call_parts :: "(any \<Rightarrow> string) \<Rightarrow> (string \<Rightarrow> any list \<Rightarrow> string) \<Rightarrow> adapter_call \<Rightarrow> string \<times> any list" where
  "call_parts sp sf c =
     (case c of
        Debug args \<Rightarrow> goaktArgsToMsg sp args | DebugContext args \<Rightarrow> goaktArgsToMsg sp args
      | Info args \<Rightarrow> goaktArgsToMsg sp args | InfoContext args \<Rightarrow> goaktArgsToMsg sp args
      | Warn args \<Rightarrow> goaktArgsToMsg sp args | WarnContext args \<Rightarrow> goaktArgsToMsg sp args
      | Error args \<Rightarrow> goaktArgsToMsg sp args | ErrorContext args \<Rightarrow> goaktArgsToMsg sp args
      | Fatal args \<Rightarrow> goaktArgsToMsg sp args | Panic args \<Rightarrow> goaktArgsToMsg sp args
      | Debugf f args \<Rightarrow> (sf f args, []) | DebugfContext f args \<Rightarrow> (sf f args, [])
      | Infof f args \<Rightarrow> (sf f args, []) | InfofContext f args \<Rightarrow> (sf f args, [])
      | Warnf f args \<Rightarrow> (sf f args, []) | WarnfContext f args \<Rightarrow> (sf f args, [])
      | Errorf f args \<Rightarrow> (sf f args, []) | ErrorfContext f args \<Rightarrow> (sf f args, [])
      | Fatalf f args \<Rightarrow> (sf f args, []) | Panicf f args \<Rightarrow> (sf f args, []))"

fun call_level :: "adapter_call \<Rightarrow> Level" where
  "call_level c =
     (case c of
        Debug _ \<Rightarrow> DebugLevel | Debugf _ _ \<Rightarrow> DebugLevel | DebugContext _ \<Rightarrow> DebugLevel | DebugfContext _ _ \<Rightarrow> DebugLevel
      | Info _ \<Rightarrow> InfoLevel | Infof _ _ \<Rightarrow> InfoLevel | InfoContext _ \<Rightarrow> InfoLevel | InfofContext _ _ \<Rightarrow> InfoLevel
      | Warn _ \<Rightarrow> WarningLevel | Warnf _ _ \<Rightarrow> WarningLevel | WarnContext _ \<Rightarrow> WarningLevel | WarnfContext _ _ \<Rightarrow> WarningLevel
      | Error _ \<Rightarrow> ErrorLevel | Errorf _ _ \<Rightarrow> ErrorLevel | ErrorContext _ \<Rightarrow> ErrorLevel | ErrorfContext _ _ \<Rightarrow> ErrorLevel
      | Fatal _ \<Rightarrow> FatalLevel | Fatalf _ _ \<Rightarrow> FatalLevel | Panic _ \<Rightarrow> PanicLevel | Panicf _ _ \<Rightarrow> PanicLevel)"

fun method_of :: "Level \<Rightarrow> log_method" where
  "method_of DebugLevel = InnerDebug"
| "method_of InfoLevel = InnerInfo"
| "method_of WarningLevel = InnerWarn"
| "method_of _ = InnerError"

lemma adapter_log_parts:
  "fst (adapter_log sp sf a c) =
     (case call_parts sp sf c of (msg, kvs) \<Rightarrow>
        \<lparr>lc_method = method_of (call_level c), lc_msg = msg, lc_args = la_fields a @ kvs\<rparr>)"
  by (cases c) (simp_all add: plain_call_def format_call_def mergeFields_append split: prod.split)

lemma adapter_log_outcome: "snd (adapter_log sp sf a c) = Returns \<longleftrightarrow> levelSeverity (call_level c) \<le> 3"
  by (cases c) simp_all

lemma foldl_With: "foldl (\<lambda>a kvs. With kvs a) a kvss =
    a\<lparr>la_fields := la_fields a @ concat kvss\<rparr>"
  by (induction kvss arbitrary: a) (simp_all add: With_def)

section \<open>Properties\<close>

text \<open>However a logger has been decorated, a call reaches the user's logger once, at the level of
  the call, with fatal and panic as errors, and with all fields: those of the
  decorations in their order, then those of the call. A line of a request carries its
  correlation fields. Only a call that is fatal or panics does not return.\<close>

theorem log_calls_forwarded:
  "adapter_log sp sf (foldl (\<lambda>a kvs. With kvs a) (newLoggerAdapter l) kvss) c =
     (\<lparr>lc_method = method_of (call_level c), lc_msg = fst (call_parts sp sf c),
       lc_args = concat kvss @ snd (call_parts sp sf c)\<rparr>,
      snd (adapter_log sp sf (newLoggerAdapter l) c)) \<and>
   lc_args (fst (adapter_log sp sf (loggerWithCorrelation (newLoggerAdapter l) ivk) c)) =
     LogKeyValues (invocation_fields ivk) @ snd (call_parts sp sf c) \<and>
   (snd (adapter_log sp sf (newLoggerAdapter l) c) = Returns \<longleftrightarrow> call_level c \<notin> {FatalLevel, PanicLevel})"
proof (intro conjI)
  let ?a = "foldl (\<lambda>a kvs. With kvs a) (newLoggerAdapter l) kvss"
  have "snd (adapter_log sp sf ?a c) = snd (adapter_log sp sf (newLoggerAdapter l) c)"
    by (cases c) simp_all
  moreover have "la_fields ?a = concat kvss" by (simp add: foldl_With newLoggerAdapter_def)
  ultimately show "adapter_log sp sf ?a c =
     (\<lparr>lc_method = method_of (call_level c), lc_msg = fst (call_parts sp sf c),
       lc_args = concat kvss @ snd (call_parts sp sf c)\<rparr>,
      snd (adapter_log sp sf (newLoggerAdapter l) c))"
    using adapter_log_parts [of sp sf ?a c] by (simp add: prod_eq_iff case_prod_unfold del: call_parts.simps call_level.simps)
  show "lc_args (fst (adapter_log sp sf (loggerWithCorrelation (newLoggerAdapter l) ivk) c)) =
     LogKeyValues (invocation_fields ivk) @ snd (call_parts sp sf c)"
    by (simp add: adapter_log_parts loggerWithCorrelation_With newLoggerAdapter_def case_prod_unfold
        del: call_parts.simps call_level.simps)
  show "snd (adapter_log sp sf (newLoggerAdapter l) c) = Returns \<longleftrightarrow> call_level c \<notin> {FatalLevel, PanicLevel}"
    by (cases c) simp_all
qed

text \<open>The key-value pairs of a log line and the map of the same fields agree: each key of the map
  appears once among the pairs, followed by its value, and nothing else does.\<close>

fun pairs_of :: "any list \<Rightarrow> (string \<times> string) list" where
  "pairs_of (AString k # AString v # kvs) = (k, v) # pairs_of kvs"
| "pairs_of _ = []"

theorem log_key_values_agree: "pairs_of (LogKeyValues c) = LogFields c"
  by (simp add: LogKeyValues_def LogFields_def Let_def)

end
