(* ===== verification/Gateway.thy ===== *)
theory Gateway
  imports Naming Mcp_Config Logger
begin

text \<open>
  The life of a gateway (gateway.go, options.go), the options of its actor system
  with the cluster part (internal/runtime/cluster/bootstrap.go), the handling of
  system events, and the start of the foundational actors by the gateway manager
  (internal/runtime/actor/gateway_manager.go).

  The actor library, telemetry and TLS loading are a record of functions over a
  world \<open>'w\<close>. Each section of code that runs under the gateway's lock is one
  definition, so that the calls can be interleaved.
\<close>

section \<open>The gateway\<close>


record Gateway =
  gw_config :: Config
  gw_logger :: gateway_logger
  gw_metrics :: bool
  gw_tracing :: bool
  gw_system :: "handle option"
  gw_draining :: bool
  gw_eventSub :: "handle option"
  gw_auditStream :: "handle option"
  gw_managerName :: string
  gw_testSystem :: "handle option"

text \<open>The options: a nil logger leaves the logger as it is.\<close>

datatype Option = WithLogger Logger | WithDebug | WithMetrics | WithTracing

fun apply_option :: "Option \<Rightarrow> Gateway \<Rightarrow> Gateway" where
  "apply_option (WithLogger logger) g =
     (if isNilLogger logger then g else g\<lparr>gw_logger := AdapterLogger (newLoggerAdapter logger)\<rparr>)"
| "apply_option WithDebug g = g\<lparr>gw_logger := Slog DebugLevel\<rparr>"
| "apply_option WithMetrics g = g\<lparr>gw_metrics := True\<rparr>"
| "apply_option WithTracing g = g\<lparr>gw_tracing := True\<rparr>"

fun check_tenants :: "TenantID list \<Rightarrow> TenantConfig list \<Rightarrow> go_error option" where
  "check_tenants seen [] = None"
| "check_tenants seen (tenant # tenants) =
     (if IsZero (tenant_ID tenant) then Some (rt_error ErrCodeInvalidRequest ''tenant ID must not be empty'')
      else if tenant_ID tenant \<in> set seen
      then Some (rt_error ErrCodeInvalidRequest (''duplicate tenant ID: '' @ tenant_ID tenant))
      else check_tenants (tenant_ID tenant # seen) tenants)"

definition gateway_validateTenants :: "TenantConfig list \<Rightarrow> go_error option" where
  "gateway_validateTenants tenants = check_tenants [] tenants"

definition New :: "Config \<Rightarrow> Option list \<Rightarrow> go_error + Gateway" where
  "New cfg opts =
     (let cfg = ApplyDefaults cfg;
          g = \<lparr>gw_config = cfg, gw_logger = (if cfg_LogLevel cfg \<noteq> '''' then NewLogger (cfg_LogLevel cfg) else DiscardLogger),
               gw_metrics = False, gw_tracing = False, gw_system = None, gw_draining = False, gw_eventSub = None,
               gw_auditStream = None, gw_managerName = '''', gw_testSystem = None\<rparr>;
          g = foldl (\<lambda>g opt. apply_option opt g) g opts
      in case gateway_validateTenants (cfg_Tenants (gw_config g)) of Some err \<Rightarrow> Inl err | None \<Rightarrow> Inr g)"

section \<open>Options of the actor system\<close>

definition defaultDiscoveryPort :: int where "defaultDiscoveryPort = 15000"
definition defaultPeersPort :: int where "defaultPeersPort = 15000"
definition defaultRemotingPort :: int where "defaultRemotingPort = 15001"

text \<open>
  Remoting with its port and whether trace contexts are propagated; and clustering
  with its provider, ports, and the role of the registrar, if any.
\<close>

datatype system_option =
    WithRemote int bool
  | WithCluster DiscoveryProvider int int "string option"

definition BuildOptions :: "Config \<Rightarrow> bool \<Rightarrow> system_option list" where
  "BuildOptions config tracing =
     (if \<not> cl_Enabled (cfg_Cluster config) then []
      else
        (let cl = cfg_Cluster config;
             discoveryPort = (if cl_DiscoveryPort cl \<le> 0 then defaultDiscoveryPort else cl_DiscoveryPort cl);
             peersPort = (if cl_PeersPort cl \<le> 0 then defaultPeersPort else cl_PeersPort cl);
             remotingPort = (if cl_RemotingPort cl \<le> 0 then defaultRemotingPort else cl_RemotingPort cl)
         in if IsNilDiscoveryProvider (cl_DiscoveryProvider cl) then [WithRemote remotingPort tracing]
            else [WithRemote remotingPort tracing,
                  WithCluster (cl_DiscoveryProvider cl) peersPort discoveryPort
                    (if cl_RegistrarRole cl \<noteq> '''' then Some (cl_RegistrarRole cl) else None)]))"

record system_options =
  op_logger :: gateway_logger
  op_config :: Config
  op_auditStream :: handle
  op_tls :: "tls_Info option"
  op_cluster :: "system_option list"

record 'w engine =
  en_RegisterMetrics :: "'w \<Rightarrow> 'w \<times> go_error option"
  en_RegisterTracer :: "'w \<Rightarrow> 'w"
  en_pki :: "'w \<Rightarrow> pki"
  en_NewStream :: "'w \<Rightarrow> 'w \<times> handle"
  en_CloseStream :: "handle \<Rightarrow> 'w \<Rightarrow> 'w"
  en_AddSubscriber :: "handle \<Rightarrow> 'w \<Rightarrow> 'w \<times> handle"
  en_RemoveSubscriber :: "handle \<Rightarrow> handle \<Rightarrow> 'w \<Rightarrow> 'w"
  en_NewActorSystem :: "system_options \<Rightarrow> 'w \<Rightarrow> 'w \<times> (go_error + handle)"
  en_StartSystem :: "handle \<Rightarrow> 'w \<Rightarrow> 'w \<times> go_error option"
  en_StopSystem :: "handle \<Rightarrow> 'w \<Rightarrow> 'w \<times> go_error option"
  en_Spawn :: "handle \<Rightarrow> string \<Rightarrow> 'w \<Rightarrow> 'w \<times> go_error option"
  en_Subscribe :: "handle \<Rightarrow> 'w \<Rightarrow> 'w \<times> (go_error + handle)"
  en_Unsubscribe :: "handle \<Rightarrow> handle \<Rightarrow> 'w \<Rightarrow> 'w"
  en_Hostname :: "go_error + string"

definition actorSystemOptions ::
  "'w engine \<Rightarrow> tls_Info option \<Rightarrow> Gateway \<Rightarrow> 'w \<Rightarrow> (Gateway \<times> 'w) \<times> system_options" where
  "actorSystemOptions en tlsInfo g w =
     (let (w, stream) = en_NewStream en w
      in ((g\<lparr>gw_auditStream := Some stream\<rparr>, w),
          \<lparr>op_logger = gw_logger g, op_config = gw_config g, op_auditStream = stream, op_tls = tlsInfo,
           op_cluster = BuildOptions (gw_config g) (gw_tracing g)\<rparr>))"

definition localManagerName :: "'w engine \<Rightarrow> Gateway \<Rightarrow> string" where
  "localManagerName en g =
     (if cl_Enabled (cfg_Cluster (gw_config g)) then
        (case en_Hostname en of
           Inr hostname \<Rightarrow> if hostname \<noteq> '''' then ActorNameGatewayManager @ ''-'' @ hostname else ActorNameGatewayManager
         | Inl _ \<Rightarrow> ActorNameGatewayManager)
      else ActorNameGatewayManager)"

section \<open>Start\<close>

definition validateClusterConfig :: "Gateway \<Rightarrow> go_error option" where
  "validateClusterConfig g =
     (if cl_Enabled (cfg_Cluster (gw_config g)) \<and> IsNilDiscoveryProvider (cl_DiscoveryProvider (cfg_Cluster (gw_config g)))
      then Some (rt_error ErrCodeInvalidRequest ''cluster is enabled but no DiscoveryProvider is configured'')
      else None)"

definition startEventConsumer :: "'w engine \<Rightarrow> handle \<Rightarrow> Gateway \<times> 'w \<Rightarrow> Gateway \<times> 'w" where
  "startEventConsumer en system s =
     (case s of (g, w) \<Rightarrow>
        (case en_Subscribe en system w of
           (w, Inl err) \<Rightarrow> (g, w)
         | (w, Inr sub) \<Rightarrow> (g\<lparr>gw_eventSub := Some sub\<rparr>, w)))"

text \<open>Creating, starting and populating the system, once the checks have passed.\<close>

definition launch :: "'w engine \<Rightarrow> system_options \<Rightarrow> Gateway \<times> 'w \<Rightarrow> (Gateway \<times> 'w) \<times> go_error option" where
  "launch en options s =
     (case s of (g, w) \<Rightarrow>
     (case en_NewActorSystem en options w of
        (w, Inl err) \<Rightarrow> ((g, w), Some (rt_wrap ErrCodeInternal ''failed to create actor system'' err))
      | (w, Inr system) \<Rightarrow>
     (case en_StartSystem en system w of
        (w, Some err) \<Rightarrow> ((g, w), Some (rt_wrap ErrCodeInternal ''failed to start actor system'' err))
      | (w, None) \<Rightarrow>
     (case en_Spawn en system (localManagerName en g) w of
        (w, Some err) \<Rightarrow>
          ((g, fst (en_StopSystem en system w)), Some (rt_wrap ErrCodeInternal ''failed to spawn GatewayManager'' err))
      | (w, None) \<Rightarrow>
          (let g = g\<lparr>gw_managerName := localManagerName en g, gw_system := Some system\<rparr>
           in (if gw_metrics g then startEventConsumer en system (g, w) else (g, w), None))))))"

definition Start :: "'w engine \<Rightarrow> Gateway \<times> 'w \<Rightarrow> (Gateway \<times> 'w) \<times> go_error option" where
  "Start en s =
     (case s of (g, w) \<Rightarrow>
     (case validateClusterConfig g of
        Some err \<Rightarrow> ((g, w), Some err)
      | None \<Rightarrow>
     (case gw_testSystem g of
        Some system \<Rightarrow> ((g\<lparr>gw_system := Some system, gw_managerName := ActorNameGatewayManager\<rparr>, w), None)
      | None \<Rightarrow>
     (case (if gw_metrics g then en_RegisterMetrics en w else (w, None)) of
        (w, Some err) \<Rightarrow> ((g, w), Some (rt_wrap ErrCodeInternal ''failed to register metrics'' err))
      | (w, None) \<Rightarrow>
     (let w = (if gw_tracing g then en_RegisterTracer en w else w);
          cl = cfg_Cluster (gw_config g)
      in case (if cl_Enabled cl \<and> cl_TLS cl \<noteq> None then BuildRemotingTLSInfo (en_pki en w) (cl_TLS cl) else Inr None) of
           Inl err \<Rightarrow> ((g, w), Some (rt_wrap ErrCodeInternal ''cluster TLS config'' err))
         | Inr tlsInfo \<Rightarrow>
             (let (s, options) = actorSystemOptions en tlsInfo g w in launch en options s))))))"

section \<open>Stop\<close>

text \<open>The three locked sections of \<open>Stop\<close>, and the end of the event consumer between them.\<close>

definition Stop_begin :: "Gateway \<Rightarrow> (Gateway \<times> handle) option" where
  "Stop_begin g = map_option (\<lambda>system. (g\<lparr>gw_draining := True\<rparr>, system)) (gw_system g)"

definition Stop_failed :: "Gateway \<Rightarrow> Gateway" where
  "Stop_failed g = g\<lparr>gw_draining := False\<rparr>"

definition Stop_cleared :: "Gateway \<Rightarrow> Gateway" where
  "Stop_cleared g = g\<lparr>gw_auditStream := None, gw_system := None, gw_draining := False\<rparr>"

definition Stop_finish :: "'w engine \<Rightarrow> Gateway \<times> 'w \<Rightarrow> Gateway \<times> 'w" where
  "Stop_finish en s =
     (case s of (g, w) \<Rightarrow>
        (Stop_cleared g,
         case gw_auditStream g of Some stream \<Rightarrow> en_CloseStream en stream w | None \<Rightarrow> w))"

definition stopEventConsumer :: "'w engine \<Rightarrow> handle \<Rightarrow> Gateway \<times> 'w \<Rightarrow> Gateway \<times> 'w" where
  "stopEventConsumer en system s =
     (case s of (g, w) \<Rightarrow>
        (g\<lparr>gw_eventSub := None\<rparr>, case gw_eventSub g of Some sub \<Rightarrow> en_Unsubscribe en system sub w | None \<Rightarrow> w))"

definition Stop :: "'w engine \<Rightarrow> Gateway \<times> 'w \<Rightarrow> (Gateway \<times> 'w) \<times> go_error option" where
  "Stop en s =
     (case s of (g, w) \<Rightarrow>
     (case Stop_begin g of
        None \<Rightarrow> ((g, w), None)
      | Some (g, system) \<Rightarrow>
     (let (g, w) = stopEventConsumer en system (g, w)
      in case en_StopSystem en system w of
           (w, Some err) \<Rightarrow> ((Stop_failed g, w), Some (rt_wrap ErrCodeInternal ''failed to stop actor system'' err))
         | (w, None) \<Rightarrow> (Stop_finish en (g, w), None))))"

section \<open>Access\<close>

definition requireRunning :: "Gateway \<Rightarrow> go_error + handle" where
  "requireRunning g =
     (if gw_draining g then Inl (rt_error ErrCodeInternal ''gateway is shutting down'')
      else case gw_system g of
             None \<Rightarrow> Inl (rt_error ErrCodeInternal ''gateway not started'')
           | Some system \<Rightarrow> Inr system)"

definition SubscribeAudit :: "'w engine \<Rightarrow> Gateway \<Rightarrow> 'w \<Rightarrow> 'w \<times> (go_error + handle)" where
  "SubscribeAudit en g w =
     (case gw_auditStream g of
        None \<Rightarrow> (w, Inl (rt_error ErrCodeInternal ''gateway not started''))
      | Some stream \<Rightarrow> (let (w, sub) = en_AddSubscriber en stream w in (w, Inr sub)))"

definition UnsubscribeAudit :: "'w engine \<Rightarrow> Gateway \<Rightarrow> handle option \<Rightarrow> 'w \<Rightarrow> 'w" where
  "UnsubscribeAudit en g sub w =
     (case (sub, gw_auditStream g) of
        (Some sub, Some stream) \<Rightarrow> en_RemoveSubscriber en stream sub w
      | _ \<Rightarrow> w)"

definition System :: "Gateway \<Rightarrow> handle option" where
  "System g = gw_system g"

section \<open>System events\<close>

datatype path = Path (path_Name: string) (path_Parent: "path option")

datatype system_event =
    ActorPassivated "path option"
  | Deadletter "path option" "path option" string
  | OtherEvent

text \<open>What the consumer records: a passivated session, and a dead letter with its log line.\<close>

datatype event_record = SessionPassivated ToolID | DeadLetter string string string

definition deadLetterUnknown :: string where
  "deadLetterUnknown = ''unknown''"

definition formatDeadLetterPath :: "path option \<Rightarrow> string" where
  "formatDeadLetterPath p = (case p of None \<Rightarrow> deadLetterUnknown | Some p \<Rightarrow> path_Name p)"

definition toolIDFromPath :: "path option \<Rightarrow> ToolID" where
  "toolIDFromPath p =
     (case p of
        None \<Rightarrow> ''''
      | Some p \<Rightarrow>
          if \<not> prefix ''session-'' (path_Name p) then ''''
          else (case path_Parent p of
                  None \<Rightarrow> ''''
                | Some parent \<Rightarrow>
                    if \<not> prefix ''supervisor-'' (path_Name parent) then ''''
                    else ToolIDFromSupervisorName (path_Name parent)))"

definition handlePassivationEvent :: "path option \<Rightarrow> event_record list" where
  "handlePassivationEvent p = (let toolID = toolIDFromPath p in if IsZero toolID then [] else [SessionPassivated toolID])"

definition handleDeadLetterEvent :: "path option \<Rightarrow> path option \<Rightarrow> string \<Rightarrow> event_record list" where
  "handleDeadLetterEvent sender receiver reason =
     [DeadLetter (formatDeadLetterPath sender) (formatDeadLetterPath receiver)
        (if reason = '''' then deadLetterUnknown else reason)]"

fun consume_event :: "system_event \<Rightarrow> event_record list" where
  "consume_event (ActorPassivated p) = handlePassivationEvent p"
| "consume_event (Deadletter sender receiver reason) = handleDeadLetterEvent sender receiver reason"
| "consume_event OtherEvent = []"

text \<open>The events the subscriber held at each tick, until the consumer is stopped.\<close>

definition consumeSystemEvents :: "system_event list list \<Rightarrow> event_record list" where
  "consumeSystemEvents ticks = concat (map (\<lambda>msgs. concat (map consume_event msgs)) ticks)"

section \<open>The gateway manager\<close>

text \<open>\<open>sp_Spawn\<close> takes the size of a bounded mailbox, if the actor has one, and returns no actor when it failed.\<close>

record 'w spawner =
  sp_Spawn :: "string \<Rightarrow> int option \<Rightarrow> 'w \<Rightarrow> 'w \<times> handle option"
  sp_SpawnSingleton :: "string \<Rightarrow> string option \<Rightarrow> 'w \<Rightarrow> 'w \<times> (go_error + handle)"
  sp_IsSingletonAlreadyExists :: "go_error \<Rightarrow> bool"
  sp_ActorOf :: "string \<Rightarrow> 'w \<Rightarrow> go_error + handle"
  sp_IsRunning :: "handle \<Rightarrow> 'w \<Rightarrow> bool"
  sp_TellBootstrapTools :: "handle \<Rightarrow> Tool list \<Rightarrow> 'w \<Rightarrow> 'w"

definition spawnRegistrar :: "'w spawner \<Rightarrow> Config \<Rightarrow> 'w \<Rightarrow> 'w \<times> handle option" where
  "spawnRegistrar sp config w =
     (if IsClusterConfigured config then
        (case sp_SpawnSingleton sp ActorNameRegistrar
                (if cl_RegistrarRole (cfg_Cluster config) \<noteq> '''' then Some (cl_RegistrarRole (cfg_Cluster config)) else None) w of
           (w, Inr pid) \<Rightarrow> (w, Some pid)
         | (w, Inl err) \<Rightarrow>
             if sp_IsSingletonAlreadyExists sp err
             then (case sp_ActorOf sp ActorNameRegistrar w of Inl _ \<Rightarrow> (w, None) | Inr pid \<Rightarrow> (w, Some pid))
             else (w, None))
      else sp_Spawn sp ActorNameRegistrar None w)"

definition spawnCredentialBroker :: "'w spawner \<Rightarrow> 'w \<Rightarrow> 'w \<times> handle option" where
  "spawnCredentialBroker sp w = sp_Spawn sp ActorNameCredentialBroker None w"

definition live :: "'w spawner \<Rightarrow> 'w \<Rightarrow> handle option \<Rightarrow> bool" where
  "live sp w pid = (case pid of None \<Rightarrow> False | Some pid \<Rightarrow> sp_IsRunning sp pid w)"

definition spawnFoundationalActors :: "'w spawner \<Rightarrow> Config \<Rightarrow> 'w \<Rightarrow> 'w \<times> go_error option" where
  "spawnFoundationalActors sp config w =
     (let (w, registrar) = spawnRegistrar sp config w;
          auditMailboxSize = (if ac_MailboxSize (cfg_Audit config) = 0 then DefaultAuditMailboxSize
                              else ac_MailboxSize (cfg_Audit config));
          (w, journaler) = sp_Spawn sp ActorNameJournal (Some auditMailboxSize) w;
          (w, healthChecker) = sp_Spawn sp ActorNameHealth None w;
          (w, policyMaker) = sp_Spawn sp ActorNamePolicy None w;
          (w, credentialBroker) = spawnCredentialBroker sp w
      in if live sp w registrar \<and> live sp w policyMaker \<and> live sp w credentialBroker \<and> live sp w journaler \<and>
            live sp w healthChecker
         then
           (let (w, router) = sp_Spawn sp ActorNameRouter None w
            in (if length (cfg_Tools config) > 0 then sp_TellBootstrapTools sp (the registrar) (cfg_Tools config) w else w, None))
         else (w, Some (PlainErr ''router actor cannot be spawned because one or more dependencies are not running'')))"

text \<open>\<open>createAuditSink\<close>: the configured sink whatever its type, or a fresh memory sink.\<close>

datatype audit_sink = ConfiguredSink handle | FreshMemorySink

definition createAuditSink :: "AuditConfig \<Rightarrow> audit_sink" where
  "createAuditSink config = (case ac_Sink config of Some sink \<Rightarrow> ConfiguredSink sink | None \<Rightarrow> FreshMemorySink)"

text \<open>A spawner that records what is started: the actors in \<open>up\<close> start and run, the others do not.\<close>

datatype spawn_record = Spawned string "int option" | Bootstrapped handle "Tool list"

definition recording :: "string set \<Rightarrow> spawn_record list spawner" where
  "recording up =
     \<lparr>sp_Spawn = \<lambda>name mailbox log. (log @ [Spawned name mailbox], if name \<in> up then Some (length log) else None),
      sp_SpawnSingleton = \<lambda>name role log. (log @ [Spawned name None], if name \<in> up then Inr (length log) else Inl (PlainErr ''failed'')),
      sp_IsSingletonAlreadyExists = \<lambda>_. False, sp_ActorOf = \<lambda>_ _. Inl (PlainErr ''not found''),
      sp_IsRunning = \<lambda>_ _. True,
      sp_TellBootstrapTools = \<lambda>pid tools log. log @ [Bootstrapped pid tools]\<rparr>"

definition foundation :: "int \<Rightarrow> spawn_record list" where
  "foundation mailbox =
     [Spawned ActorNameRegistrar None, Spawned ActorNameJournal (Some mailbox), Spawned ActorNameHealth None,
      Spawned ActorNamePolicy None, Spawned ActorNameCredentialBroker None]"

text \<open>
  The router is started last, if and only if the five actors it relies on run; only then
  are the configured tools sent to the registrar, after everything else.
\<close>

lemma foundational_order:
  "spawnFoundationalActors (recording up) config [] =
     (let fs = foundation (if ac_MailboxSize (cfg_Audit config) = 0 then DefaultAuditMailboxSize else ac_MailboxSize (cfg_Audit config))
      in if {ActorNameRegistrar, ActorNameJournal, ActorNameHealth, ActorNamePolicy, ActorNameCredentialBroker} \<subseteq> up
         then (fs @ [Spawned ActorNameRouter None] @ (if cfg_Tools config = [] then [] else [Bootstrapped 0 (cfg_Tools config)]), None)
         else (fs, Some (PlainErr ''router actor cannot be spawned because one or more dependencies are not running'')))"
  by (simp add: spawnFoundationalActors_def recording_def foundation_def spawnRegistrar_def spawnCredentialBroker_def
      live_def Let_def)

lemma toolIDFromPath_session:
  "toolIDFromPath (Some (Path (SessionName t c u) (Some (Path (ToolSupervisorName u) p)))) = u"
  by (simp add: toolIDFromPath_def SessionName_def ToolSupervisorName_def ToolIDFromSupervisorName_def TrimPrefix_def)

section \<open>Starting and stopping\<close>

lemma check_tenants_None:
  "check_tenants seen ts = None \<longleftrightarrow>
     '''' \<notin> tenant_ID ` set ts \<and> distinct (map tenant_ID ts) \<and> set seen \<inter> tenant_ID ` set ts = {}"
  by (induction seen ts rule: check_tenants.induct) (auto simp: IsZero_def)

lemma apply_option_keeps [simp]:
  "gw_config (apply_option opt g) = gw_config g" "gw_system (apply_option opt g) = gw_system g"
  "gw_draining (apply_option opt g) = gw_draining g" "gw_auditStream (apply_option opt g) = gw_auditStream g"
  "gw_testSystem (apply_option opt g) = gw_testSystem g" "gw_eventSub (apply_option opt g) = gw_eventSub g"
  by (cases "(opt, g)" rule: apply_option.cases; simp)+

lemma New_gateway:
  "New cfg opts = Inr g \<Longrightarrow>
     gw_system g = None \<and> \<not> gw_draining g \<and> gw_auditStream g = None \<and> gw_eventSub g = None \<and> gw_testSystem g = None \<and>
     gw_config g = ApplyDefaults cfg"
  by (auto simp: New_def Let_def foldl_frame split: option.splits)

text \<open>What a call that starts a system does to the gateway: nothing but its audit stream when it fails.\<close>

definition start_result :: "Gateway \<Rightarrow> Gateway \<Rightarrow> go_error option \<Rightarrow> bool" where
  "start_result g g' e \<longleftrightarrow>
     gw_draining g' = gw_draining g \<and>
     (case e of Some _ \<Rightarrow> gw_system g' = gw_system g | None \<Rightarrow> gw_system g' \<noteq> None)"

lemma launch_result:
  "launch en options (g, w) = ((g', w'), e) \<Longrightarrow> start_result g g' e \<and> gw_auditStream g' = gw_auditStream g"
  by (auto simp: launch_def startEventConsumer_def start_result_def Let_def
      split: prod.splits sum.splits option.splits if_splits)

lemma Start_result: "Start en (g, w) = ((g', w'), e) \<Longrightarrow> start_result g g' e"
  by (auto simp: Start_def actorSystemOptions_def start_result_def Let_def dest!: launch_result
      split: option.splits prod.splits sum.splits bool.splits if_splits)

section \<open>Interleaved calls\<close>

text \<open>
  Calls of several goroutines. A state holds the gateway, the systems that calls of
  \<open>Stop\<close> in progress are stopping, and the systems that run. A start makes its audit
  stream and, later, installs its system, and others may come in between; the caller starts
  only a gateway that holds no system, as the comment of \<open>Start\<close> asks. The lemma
  \<open>Start_steps\<close> shows that these steps are those of \<open>Start\<close>.
\<close>

type_synonym gw_state = "Gateway \<times> handle list \<times> handle set"

inductive gw_step :: "gw_state \<Rightarrow> gw_state \<Rightarrow> bool" where
  stream: "gw_step (g, stops, up) (g\<lparr>gw_auditStream := Some h\<rparr>, stops, up)"
| started: "gw_system g = None \<Longrightarrow> s \<notin> up \<Longrightarrow>
    gw_step (g, stops, up) (g\<lparr>gw_managerName := n, gw_system := Some s\<rparr>, stops, insert s up)"
| events: "gw_step (g, stops, up) (g\<lparr>gw_eventSub := sub\<rparr>, stops, up)"
| stop: "Stop_begin g = Some (g', s) \<Longrightarrow> gw_step (g, stops, up) (g', s # stops, up)"
| failed: "s \<in> set stops \<Longrightarrow> gw_step (g, stops, up) (Stop_failed g, remove1 s stops, up)"
| finished: "s \<in> set stops \<Longrightarrow> gw_step (g, stops, up) (Stop_cleared g, remove1 s stops, up - {s})"

lemma launch_steps:
  assumes "launch en options (g, w) = ((g', w'), e)" and "gw_system g = None" and "\<forall>s. gw_system g' = Some s \<longrightarrow> s \<notin> up"
  shows "gw_step\<^sup>*\<^sup>* (g, stops, up) (g', stops, up \<union> set_option (gw_system g'))"
proof (cases e)
  case (Some err)
  with assms(1) have "g' = g"
    by (auto simp: launch_def Let_def split: prod.splits sum.splits option.splits if_splits)
  with assms(2) show ?thesis by simp
next
  case None
  with assms(1) obtain n s sub where g': "g' = g\<lparr>gw_managerName := n, gw_system := Some s\<rparr> \<or>
      g' = g\<lparr>gw_managerName := n, gw_system := Some s\<rparr>\<lparr>gw_eventSub := sub\<rparr>"
    by (auto simp: launch_def startEventConsumer_def Let_def split: prod.splits sum.splits option.splits if_splits)
  with assms(3) have "s \<notin> up" and sys: "up \<union> set_option (gw_system g') = insert s up" by auto
  from gw_step.started [OF assms(2) this(1), of stops n] g' show ?thesis
    unfolding sys by (metis gw_step.events r_into_rtranclp rtranclp.rtrancl_into_rtrancl)
qed

lemma Start_steps:
  assumes "Start en (g, w) = ((g', w'), e)" and "gw_system g = None" and "\<forall>s. gw_system g' = Some s \<longrightarrow> s \<notin> up"
  shows "gw_step\<^sup>*\<^sup>* (g, stops, up) (g', stops, up \<union> set_option (gw_system g'))"
proof -
  consider "g' = g" | s n where "g' = g\<lparr>gw_system := Some s, gw_managerName := n\<rparr>"
    | h options w1 where "launch en options (g\<lparr>gw_auditStream := Some h\<rparr>, w1) = ((g', w'), e)"
    using assms(1)
    by (auto simp: Start_def actorSystemOptions_def Let_def split: option.splits prod.splits sum.splits bool.splits if_splits)
  then show ?thesis
  proof cases
    case 1
    with assms(2) show ?thesis by simp
  next
    case 2
    then have g': "g' = g\<lparr>gw_managerName := n, gw_system := Some s\<rparr>" by (cases g) simp
    with assms(3) have "s \<notin> up" by simp
    from gw_step.started [OF assms(2) this, of stops n] g' show ?thesis by auto
  next
    case 3
    have "gw_step\<^sup>*\<^sup>* (g\<lparr>gw_auditStream := Some h\<rparr>, stops, up) (g', stops, up \<union> set_option (gw_system g'))"
      by (rule launch_steps [OF 3]) (use assms(2,3) in auto)
    with gw_step.stream [of g stops up h] show ?thesis by (rule converse_rtranclp_into_rtranclp [of gw_step])
  qed
qed

definition gw_inv :: "gw_state \<Rightarrow> bool" where
  "gw_inv st = (case st of (g, stops, up) \<Rightarrow> gw_draining g \<longrightarrow> stops \<noteq> [] \<and> gw_system g \<noteq> None)"

lemma gw_step_inv: "gw_step st st' \<Longrightarrow> gw_inv st \<Longrightarrow> gw_inv st'"
  by (induction rule: gw_step.induct)
    (auto simp: gw_inv_def Stop_begin_def Stop_failed_def Stop_cleared_def)

lemma gw_reachable_inv: "gw_step\<^sup>*\<^sup>* st st' \<Longrightarrow> gw_inv st \<Longrightarrow> gw_inv st'"
  by (induction rule: rtranclp_induct) (auto intro: gw_step_inv)

section \<open>Properties\<close>

text \<open>C35: A gateway that was started serves requests on its system. If it is then stopped, it
  refuses them as not started, and its audit stream and its event subscription are gone; if
  stopping fails, it serves requests as before, but without its event subscription.\<close>

theorem gateway_start_then_stop:
  assumes "\<not> gw_draining g" and "Start en (g, w) = ((g1, w1), None)" and "Stop en (g1, w1) = ((g2, w2), e)"
  shows "\<exists>system. requireRunning g1 = Inr system \<and> gw_eventSub g2 = None \<and>
    (case e of
       None \<Rightarrow> requireRunning g2 = Inl (rt_error ErrCodeInternal ''gateway not started'') \<and> gw_auditStream g2 = None
     | Some _ \<Rightarrow> requireRunning g2 = Inr system \<and> gw_auditStream g2 = gw_auditStream g1)"
proof -
  obtain system where system: "gw_system g1 = Some system" and idle: "\<not> gw_draining g1"
    using Start_result [OF assms(2)] assms(1) by (auto simp: start_result_def)
  then have "requireRunning g1 = Inr system" by (simp add: requireRunning_def)
  moreover from assms(3) system idle
  have "gw_eventSub g2 = None \<and>
    (case e of
       None \<Rightarrow> requireRunning g2 = Inl (rt_error ErrCodeInternal ''gateway not started'') \<and> gw_auditStream g2 = None
     | Some _ \<Rightarrow> requireRunning g2 = Inr system \<and> gw_auditStream g2 = gw_auditStream g1)"
    by (auto simp: Stop_def Stop_begin_def stopEventConsumer_def Stop_failed_def Stop_finish_def Stop_cleared_def requireRunning_def
        Let_def split: prod.splits option.splits)
  ultimately show ?thesis by blast
qed

text \<open>An engine whose calls succeed, except that spawning and stopping fail when asked to.\<close>

definition example_engine :: "bool \<Rightarrow> bool \<Rightarrow> nat engine" where
  "example_engine spawnOk stopOk =
     \<lparr>en_RegisterMetrics = \<lambda>n. (n, None), en_RegisterTracer = \<lambda>n. n, en_pki = \<lambda>_. no_pki,
      en_NewStream = \<lambda>n. (n + 1, n), en_CloseStream = \<lambda>_ n. n, en_AddSubscriber = \<lambda>_ n. (n + 1, n),
      en_RemoveSubscriber = \<lambda>_ _ n. n, en_NewActorSystem = \<lambda>_ n. (n + 1, Inr n), en_StartSystem = \<lambda>_ n. (n, None),
      en_StopSystem = \<lambda>_ n. (n, if stopOk then None else Some (PlainErr ''stuck'')),
      en_Spawn = \<lambda>_ _ n. (n, if spawnOk then None else Some (PlainErr ''no spawn'')),
      en_Subscribe = \<lambda>_ n. (n + 1, Inr n), en_Unsubscribe = \<lambda>_ _ n. n, en_Hostname = Inr ''pod-1''\<rparr>"

lemma example_new: "\<exists>g. New (example_config [] 0 0 [] []) opts = Inr g"
  by (simp add: New_def Let_def foldl_frame gateway_validateTenants_def ApplyDefaults_def example_config_def)

theorem gateway_start_then_stop_witness:
  "\<exists>g g1 w1 g2 w2 err. New (example_config [] 0 0 [] []) [WithMetrics] = Inr g \<and>
     Start (example_engine True False) (g, 0) = ((g1, w1), None) \<and> gw_eventSub g1 \<noteq> None \<and>
     Stop (example_engine True False) (g1, w1) = ((g2, w2), Some err) \<and>
     requireRunning g2 = requireRunning g1 \<and> gw_eventSub g2 = None"
proof -
  obtain g where g: "New (example_config [] 0 0 [] []) [WithMetrics] = Inr g" using example_new by blast
  then have fresh: "\<not> gw_draining g" "gw_testSystem g = None" "gw_metrics g" "\<not> cl_Enabled (cfg_Cluster (gw_config g))"
    using New_gateway [OF g] by (auto simp: New_def Let_def ApplyDefaults_def example_config_def split: option.splits)
  from fresh(2-) obtain g1 w1 where start: "Start (example_engine True False) (g, 0) = ((g1, w1), None)"
      "gw_eventSub g1 \<noteq> None" "gw_system g1 \<noteq> None"
    by (auto simp: Start_def validateClusterConfig_def actorSystemOptions_def launch_def startEventConsumer_def
        example_engine_def Let_def)
  then obtain g2 w2 err where stop: "Stop (example_engine True False) (g1, w1) = ((g2, w2), Some err)"
    by (auto simp: Stop_def Stop_begin_def stopEventConsumer_def example_engine_def Let_def)
  from gateway_start_then_stop [OF fresh(1) start(1) stop] g start stop show ?thesis by auto
qed

text \<open>C14: However starts and stops interleave, the gateway refuses requests as shutting down only
  while a call of Stop is in progress; otherwise it serves them on the system it
  holds, or refuses them as not started when it holds none.\<close>

theorem gateway_never_stuck_draining:
  assumes "New cfg opts = Inr g0" and "gw_step\<^sup>*\<^sup>* (g0, [], {}) (g, stops, up)"
  shows "(gw_draining g \<longrightarrow> stops \<noteq> []) \<and>
    (stops = [] \<longrightarrow> requireRunning g =
       (case System g of None \<Rightarrow> Inl (rt_error ErrCodeInternal ''gateway not started'') | Some system \<Rightarrow> Inr system))"
proof -
  have "gw_inv (g0, [], {})" using New_gateway [OF assms(1)] by (simp add: gw_inv_def)
  from gw_reachable_inv [OF assms(2) this] have "gw_draining g \<longrightarrow> stops \<noteq> []" by (simp add: gw_inv_def)
  then show ?thesis by (auto simp: requireRunning_def System_def)
qed

theorem gateway_never_stuck_draining_witness:
  "\<exists>g0 g. New (example_config [] 0 0 [] []) [] = Inr g0 \<and> gw_step\<^sup>*\<^sup>* (g0, [], {}) (g, [], {5}) \<and> requireRunning g = Inr 5"
proof -
  obtain g0 where g0: "New (example_config [] 0 0 [] []) [] = Inr g0" using example_new by blast
  note fresh = New_gateway [OF g0]
  let ?g = "g0\<lparr>gw_managerName := ''m'', gw_system := Some 5\<rparr>"
  have "gw_step (g0, [], {}) (?g, [], insert 5 {})" by (rule gw_step.started) (use fresh in auto)
  moreover have "gw_step (?g, [], insert 5 {}) (?g\<lparr>gw_draining := True\<rparr>, [5], insert 5 {})"
    by (rule gw_step.stop) (simp add: Stop_begin_def)
  moreover have "gw_step (?g\<lparr>gw_draining := True\<rparr>, [5], insert 5 {}) (Stop_failed (?g\<lparr>gw_draining := True\<rparr>), remove1 5 [5], insert 5 {})"
    by (rule gw_step.failed) simp
  ultimately have run: "gw_step\<^sup>*\<^sup>* (g0, [], {}) (Stop_failed (?g\<lparr>gw_draining := True\<rparr>), [], {5})"
    by (auto intro: converse_rtranclp_into_rtranclp)
  with g0 gateway_never_stuck_draining [OF g0 run] show ?thesis
    by (auto simp: System_def Stop_failed_def)
qed

text \<open>Two calls of Stop that overlap can lose a system: when the gateway is started again
  after the first has finished, the second, once it finishes, makes the gateway forget the
  new system, which runs on and which no later Stop reaches.\<close>

theorem overlapping_stops_lose_system:
  "\<exists>g0 g. New (example_config [] 0 0 [] []) [] = Inr g0 \<and> gw_step\<^sup>*\<^sup>* (g0, [], {}) (g, [], {2}) \<and>
     System g = None \<and> Stop_begin g = None"
proof -
  obtain g0 where g0: "New (example_config [] 0 0 [] []) [] = Inr g0" using example_new by blast
  note fresh = New_gateway [OF g0]
  let ?g1 = "g0\<lparr>gw_managerName := ''m'', gw_system := Some 1\<rparr>"
  let ?g2 = "?g1\<lparr>gw_draining := True\<rparr>"
  let ?g3 = "(Stop_cleared ?g2)\<lparr>gw_managerName := ''m'', gw_system := Some 2\<rparr>"
  have "gw_step (g0, [], {}) (?g1, [], insert 1 {})" by (rule gw_step.started) (use fresh in auto)
  moreover have "gw_step (?g1, [], insert 1 {}) (?g2, [1], insert 1 {})"
    by (rule gw_step.stop) (simp add: Stop_begin_def)
  moreover have "gw_step (?g2, [1], insert 1 {}) (?g2, [1, 1], insert 1 {})"
    by (rule gw_step.stop) (simp add: Stop_begin_def)
  moreover have "gw_step (?g2, [1, 1], insert 1 {}) (Stop_cleared ?g2, remove1 1 [1, 1], insert 1 {} - {1})"
    by (rule gw_step.finished) simp
  moreover have "gw_step (Stop_cleared ?g2, [1], {}) (?g3, [1], insert 2 {})"
    by (rule gw_step.started) (simp_all add: Stop_cleared_def)
  moreover have "gw_step (?g3, [1], {2}) (Stop_cleared ?g3, remove1 1 [1], {2} - {1})"
    by (rule gw_step.finished) simp
  ultimately have "gw_step\<^sup>*\<^sup>* (g0, [], {}) (Stop_cleared ?g3, [], {2})"
    by (auto intro!: converse_rtranclp_into_rtranclp)
  with g0 show ?thesis
    by (intro exI [of _ g0] exI [of _ "Stop_cleared ?g3"]) (simp add: System_def Stop_begin_def Stop_cleared_def)
qed

text \<open>A start that fails while its actor system is made leaves the audit stream behind: the
  gateway is not running, yet subscribing to the audit events succeeds, and Stop does
  not close the stream.\<close>

theorem failed_start_leaves_audit_stream:
  assumes "New cfg opts = Inr g" and "\<not> cl_Enabled (cfg_Cluster cfg)" and "\<not> gw_metrics g"
    and "Start en (g, w) = ((g', w'), Some err)"
  shows "System g' = None \<and> (\<exists>w'' sub. SubscribeAudit en g' w' = (w'', Inr sub)) \<and> Stop en (g', w') = ((g', w'), None)"
proof -
  note fresh = New_gateway [OF assms(1)]
  have "\<not> cl_Enabled (cfg_Cluster (gw_config g))" using assms(2) fresh by (simp add: ApplyDefaults_def)
  with assms(3,4) fresh obtain options stream w1 where
    "launch en options (g\<lparr>gw_auditStream := Some stream\<rparr>, w1) = ((g', w'), Some err)"
    by (auto simp: Start_def validateClusterConfig_def actorSystemOptions_def Let_def split: prod.splits)
  from launch_result [OF this] fresh show ?thesis
    by (auto simp: start_result_def System_def SubscribeAudit_def Stop_def Stop_begin_def split: prod.splits)
qed

theorem failed_start_leaves_audit_stream_witness:
  "\<exists>g g' w' err. New (example_config [] 0 0 [] []) [] = Inr g \<and>
     Start (example_engine False True) (g, 0) = ((g', w'), Some err) \<and> System g' = None \<and>
     (\<exists>w'' sub. SubscribeAudit (example_engine False True) g' w' = (w'', Inr sub))"
proof -
  obtain g where g: "New (example_config [] 0 0 [] []) [] = Inr g" using example_new by blast
  have off: "\<not> cl_Enabled (cfg_Cluster (example_config [] 0 0 [] []))" by (simp add: example_config_def)
  from g have plain: "\<not> gw_metrics g" by (auto simp: New_def Let_def split: option.splits)
  from New_gateway [OF g] off plain obtain g' w' err
    where start: "Start (example_engine False True) (g, 0) = ((g', w'), Some err)"
    by (auto simp: Start_def validateClusterConfig_def actorSystemOptions_def launch_def example_engine_def Let_def
        ApplyDefaults_def)
  with failed_start_leaves_audit_stream [OF g off plain start] g show ?thesis by blast
qed

text \<open>Making a gateway succeeds exactly when the tenants have distinct non-empty identifiers;
  neither the tools nor the cluster settings are looked at.\<close>

theorem New_checks_only_tenants:
  "(\<exists>g. New cfg opts = Inr g) \<longleftrightarrow>
     '''' \<notin> tenant_ID ` set (cfg_Tenants cfg) \<and> distinct (map tenant_ID (cfg_Tenants cfg))"
proof -
  have "cfg_Tenants (ApplyDefaults cfg) = cfg_Tenants cfg" by (simp add: ApplyDefaults_def)
  then have "(\<exists>g. New cfg opts = Inr g) \<longleftrightarrow> gateway_validateTenants (cfg_Tenants cfg) = None"
    by (auto simp: New_def Let_def foldl_frame split: option.splits)
  then show ?thesis by (simp add: gateway_validateTenants_def check_tenants_None)
qed

end
