(* ===== verification/Gateway_Api.thy ===== *)
theory Gateway_Api
  imports Gateway Registrar Router Ingress
begin

text \<open>
  The public calls of the gateway (api.go, admin.go): each checks that the gateway
  runs, finds the registrar or the router, asks it and reads its reply. The second
  part composes them with the models of the registrar and the router, and gives the
  gateway to the ingress layer.

  How an actor is found and asked is a record of functions over a world \<open>'w\<close>. A reply
  of another type than the messages of the actor is \<open>None\<close>; \<open>ga_TypeName\<close> is what
  the format \<open>%T\<close> prints of a reply.
\<close>

record 'w actors =
  ga_ActorOf :: "handle \<Rightarrow> string \<Rightarrow> 'w \<Rightarrow> go_error + handle"
  ga_Child :: "handle \<Rightarrow> string \<Rightarrow> 'w \<Rightarrow> go_error + handle option"
  ga_AskRegistrar :: "handle \<Rightarrow> reg_msg \<Rightarrow> duration \<Rightarrow> 'w \<Rightarrow> 'w \<times> (go_error + reg_reply option)"
  ga_AskRouter :: "handle \<Rightarrow> Invocation option \<Rightarrow> duration \<Rightarrow> 'w \<Rightarrow> 'w \<times> (go_error + RouteResult option)"
  ga_AskRouterStream :: "handle \<Rightarrow> Invocation option \<Rightarrow> duration \<Rightarrow> 'w \<Rightarrow> 'w \<times> (go_error + RouteStreamResult option)"
  ga_TypeName :: "reg_reply option \<Rightarrow> string"

section \<open>Finding and asking the actors\<close>

definition resolve_actor :: "'w actors \<Rightarrow> string \<Rightarrow> string \<Rightarrow> Gateway \<Rightarrow> handle \<Rightarrow> 'w \<Rightarrow> go_error + handle" where
  "resolve_actor ga name missing g system w =
     (case ga_ActorOf ga system (gw_managerName g) w of
        Inl err \<Rightarrow> Inl (rt_wrap ErrCodeInternal ''GatewayManager not found'' err)
      | Inr manager \<Rightarrow>
          (case ga_Child ga manager name w of
             Inr (Some pid) \<Rightarrow> Inr pid
           | _ \<Rightarrow>
               (case ga_ActorOf ga system name w of
                  Inl err \<Rightarrow> Inl (rt_wrap ErrCodeInternal missing err)
                | Inr pid \<Rightarrow> Inr pid)))"

definition resolveRegistrar :: "'w actors \<Rightarrow> Gateway \<Rightarrow> handle \<Rightarrow> 'w \<Rightarrow> go_error + handle" where
  "resolveRegistrar ga = resolve_actor ga ActorNameRegistrar ''registrar not found''"

definition resolveRouter :: "'w actors \<Rightarrow> Gateway \<Rightarrow> handle \<Rightarrow> 'w \<Rightarrow> go_error + handle" where
  "resolveRouter ga = resolve_actor ga ActorNameRouter ''router not found''"

definition request_timeout :: "Gateway \<Rightarrow> duration" where
  "request_timeout g = rt_RequestTimeout (cfg_Runtime (gw_config g))"

definition unexpected_type :: "string \<Rightarrow> go_error" where
  "unexpected_type t = rt_error ErrCodeInternal (''unexpected response type '' @ t)"

text \<open>What every call on the registrar does first; \<open>check\<close> is the check of the arguments.\<close>

definition ask_registrar ::
  "'w actors \<Rightarrow> Gateway \<Rightarrow> go_error option \<Rightarrow> reg_msg \<Rightarrow> 'w \<Rightarrow> 'w \<times> (go_error + reg_reply option)" where
  "ask_registrar ga g check msg w =
     (case requireRunning g of
        Inl err \<Rightarrow> (w, Inl err)
      | Inr system \<Rightarrow>
     (case check of
        Some err \<Rightarrow> (w, Inl err)
      | None \<Rightarrow>
     (case resolveRegistrar ga g system w of
        Inl err \<Rightarrow> (w, Inl err)
      | Inr registrar \<Rightarrow>
     (case ga_AskRegistrar ga registrar msg (request_timeout g) w of
        (w, Inl err) \<Rightarrow> (w, Inl (rt_wrap ErrCodeInternal ''registrar ask failed'' err))
      | (w, Inr resp) \<Rightarrow> (w, Inr resp)))))"

text \<open>The reply, when it has the expected type.\<close>

definition read_reply ::
  "'w actors \<Rightarrow> (reg_reply \<Rightarrow> (go_error + 'a) option) \<Rightarrow> 'w \<times> (go_error + reg_reply option) \<Rightarrow> 'w \<times> (go_error + 'a)" where
  "read_reply ga expected r =
     (case r of
        (w, Inl err) \<Rightarrow> (w, Inl err)
      | (w, Inr resp) \<Rightarrow>
          (w, case Option.bind resp expected of None \<Rightarrow> Inl (unexpected_type (ga_TypeName ga resp)) | Some x \<Rightarrow> x))"

definition tool_id_check :: "ToolID \<Rightarrow> go_error option" where
  "tool_id_check toolID = (if IsZero toolID then Some (rt_error ErrCodeInvalidRequest ''tool ID is required'') else None)"

text \<open>A result without a value, as a value of the sum type.\<close>

definition done_or :: "go_error option \<Rightarrow> go_error + unit" where
  "done_or err = (case err of None \<Rightarrow> Inr () | Some e \<Rightarrow> Inl e)"

section \<open>Calls on the router (api.go)\<close>

definition Gateway_Invoke :: "'w actors \<Rightarrow> Gateway \<Rightarrow> Invocation option \<Rightarrow> 'w \<Rightarrow> 'w \<times> go_result" where
  "Gateway_Invoke ga g ivk w =
     (case requireRunning g of
        Inl err \<Rightarrow> (w, None, Some err)
      | Inr system \<Rightarrow>
     (case resolveRouter ga g system w of
        Inl err \<Rightarrow> (w, None, Some err)
      | Inr router \<Rightarrow>
     (case ga_AskRouter ga router ivk (request_timeout g) w of
        (w, Inl err) \<Rightarrow> (w, None, Some (rt_wrap ErrCodeInternal ''router ask failed'' err))
      | (w, Inr None) \<Rightarrow> (w, None, Some (unexpected_type (ga_TypeName ga None)))
      | (w, Inr (Some (RouteResult result err))) \<Rightarrow> (w, result, err))))"

definition Gateway_InvokeStream ::
  "'w actors \<Rightarrow> Gateway \<Rightarrow> Invocation option \<Rightarrow> 'w \<Rightarrow> 'w \<times> (go_error + stream_source)" where
  "Gateway_InvokeStream ga g ivk w =
     (case requireRunning g of
        Inl err \<Rightarrow> (w, Inl err)
      | Inr system \<Rightarrow>
     (case resolveRouter ga g system w of
        Inl err \<Rightarrow> (w, Inl err)
      | Inr router \<Rightarrow>
     (case ga_AskRouterStream ga router ivk (request_timeout g) w of
        (w, Inl err) \<Rightarrow> (w, Inl (rt_wrap ErrCodeInternal ''router ask failed'' err))
      | (w, Inr None) \<Rightarrow> (w, Inl (unexpected_type (ga_TypeName ga None)))
      | (w, Inr (Some (RouteStreamResult sr result (Some err)))) \<Rightarrow> (w, Inl err)
      | (w, Inr (Some (RouteStreamResult (Some sr) result None))) \<Rightarrow> (w, Inr sr)
      | (w, Inr (Some (RouteStreamResult None result None))) \<Rightarrow>
          (w, Inr \<lparr>str_progress = [], str_final = result\<rparr>))))"

section \<open>Calls on the registrar (api.go, admin.go)\<close>

fun tools_reply :: "reg_reply \<Rightarrow> (go_error + Tool list) option" where
  "tools_reply (ListToolsResult tools) = Some (Inr tools)"
| "tools_reply _ = None"

definition Gateway_ListTools :: "'w actors \<Rightarrow> Gateway \<Rightarrow> 'w \<Rightarrow> 'w \<times> (go_error + Tool list)" where
  "Gateway_ListTools ga g w = read_reply ga tools_reply (ask_registrar ga g None ListTools w)"

fun register_reply :: "reg_reply \<Rightarrow> (go_error + unit) option" where
  "register_reply (RegisterToolResult err) = Some (done_or err)"
| "register_reply _ = None"

definition Gateway_RegisterTool :: "'w actors \<Rightarrow> Gateway \<Rightarrow> Tool \<Rightarrow> 'w \<Rightarrow> 'w \<times> (go_error + unit)" where
  "Gateway_RegisterTool ga g tool w =
     read_reply ga register_reply (ask_registrar ga g (ValidateTool tool) (reg_msg.RegisterTool tool) w)"

fun update_reply :: "reg_reply \<Rightarrow> (go_error + unit) option" where
  "update_reply (UpdateToolResult err) = Some (done_or err)"
| "update_reply _ = None"

definition Gateway_UpdateTool :: "'w actors \<Rightarrow> Gateway \<Rightarrow> Tool \<Rightarrow> 'w \<Rightarrow> 'w \<times> (go_error + unit)" where
  "Gateway_UpdateTool ga g tool w =
     read_reply ga update_reply (ask_registrar ga g (ValidateTool tool) (UpdateTool tool) w)"

fun disable_reply :: "reg_reply \<Rightarrow> (go_error + unit) option" where
  "disable_reply (DisableToolResult err) = Some (done_or err)"
| "disable_reply _ = None"

definition Gateway_DisableTool :: "'w actors \<Rightarrow> Gateway \<Rightarrow> ToolID \<Rightarrow> 'w \<Rightarrow> 'w \<times> (go_error + unit)" where
  "Gateway_DisableTool ga g toolID w =
     read_reply ga disable_reply (ask_registrar ga g (tool_id_check toolID) (DisableTool toolID) w)"

fun remove_reply :: "reg_reply \<Rightarrow> (go_error + unit) option" where
  "remove_reply (RemoveToolResult err) = Some (done_or err)"
| "remove_reply _ = None"

definition Gateway_RemoveTool :: "'w actors \<Rightarrow> Gateway \<Rightarrow> ToolID \<Rightarrow> 'w \<Rightarrow> 'w \<times> (go_error + unit)" where
  "Gateway_RemoveTool ga g toolID w =
     read_reply ga remove_reply (ask_registrar ga g (tool_id_check toolID) (RemoveTool toolID) w)"

fun enable_reply :: "reg_reply \<Rightarrow> (go_error + unit) option" where
  "enable_reply (EnableToolResult err) = Some (done_or err)"
| "enable_reply _ = None"

definition Gateway_EnableTool :: "'w actors \<Rightarrow> Gateway \<Rightarrow> ToolID \<Rightarrow> 'w \<Rightarrow> 'w \<times> (go_error + unit)" where
  "Gateway_EnableTool ga g toolID w =
     read_reply ga enable_reply (ask_registrar ga g (tool_id_check toolID) (EnableTool toolID) w)"

fun status_reply :: "reg_reply \<Rightarrow> (go_error + ToolStatus option) option" where
  "status_reply (RegGetToolStatusResult st (Some err)) = Some (Inl err)"
| "status_reply (RegGetToolStatusResult st None) = Some (Inr st)"
| "status_reply _ = None"

definition Gateway_GetToolStatus :: "'w actors \<Rightarrow> Gateway \<Rightarrow> ToolID \<Rightarrow> 'w \<Rightarrow> 'w \<times> (go_error + ToolStatus option)" where
  "Gateway_GetToolStatus ga g toolID w =
     read_reply ga status_reply (ask_registrar ga g (tool_id_check toolID) (RegGetToolStatus toolID) w)"

fun sessions_reply :: "reg_reply \<Rightarrow> (go_error + SessionInfo list) option" where
  "sessions_reply (ListAllSessionsResult sessions) = Some (Inr sessions)"
| "sessions_reply _ = None"

definition Gateway_ListSessions :: "'w actors \<Rightarrow> Gateway \<Rightarrow> 'w \<Rightarrow> 'w \<times> (go_error + SessionInfo list)" where
  "Gateway_ListSessions ga g w = read_reply ga sessions_reply (ask_registrar ga g None ListAllSessions w)"

fun drain_reply :: "reg_reply \<Rightarrow> (go_error + unit) option" where
  "drain_reply (RegDrainToolResult err) = Some (done_or err)"
| "drain_reply _ = None"

definition Gateway_DrainTool :: "'w actors \<Rightarrow> Gateway \<Rightarrow> ToolID \<Rightarrow> 'w \<Rightarrow> 'w \<times> (go_error + unit)" where
  "Gateway_DrainTool ga g toolID w =
     read_reply ga drain_reply (ask_registrar ga g (tool_id_check toolID) (RegDrainTool toolID) w)"

fun schema_reply :: "reg_reply \<Rightarrow> (go_error + ToolSchema list) option" where
  "schema_reply (GetToolSchemaResult schemas (Some err)) = Some (Inl err)"
| "schema_reply (GetToolSchemaResult schemas None) = Some (Inr schemas)"
| "schema_reply _ = None"

definition Gateway_GetToolSchema :: "'w actors \<Rightarrow> Gateway \<Rightarrow> ToolID \<Rightarrow> 'w \<Rightarrow> 'w \<times> (go_error + ToolSchema list)" where
  "Gateway_GetToolSchema ga g toolID w =
     read_reply ga schema_reply (ask_registrar ga g (tool_id_check toolID) (GetToolSchema toolID) w)"

fun reset_reply :: "reg_reply \<Rightarrow> (go_error + unit) option" where
  "reset_reply (RegResetCircuitResult err) = Some (done_or err)"
| "reset_reply _ = None"

definition Gateway_ResetCircuit :: "'w actors \<Rightarrow> Gateway \<Rightarrow> ToolID \<Rightarrow> 'w \<Rightarrow> 'w \<times> (go_error + unit)" where
  "Gateway_ResetCircuit ga g toolID w =
     read_reply ga reset_reply (ask_registrar ga g (tool_id_check toolID) (RegResetCircuit toolID) w)"

record GatewayStatus =
  gs_Running :: bool
  gs_ToolCount :: nat
  gs_SessionCount :: nat

text \<open>
  The registrar is found once and asked twice. Asking goes through the same steps as
  above; a gateway that does not run is reported as such.
\<close>

definition Gateway_GetGatewayStatus :: "'w actors \<Rightarrow> Gateway \<Rightarrow> 'w \<Rightarrow> 'w \<times> (go_error + GatewayStatus)" where
  "Gateway_GetGatewayStatus ga g w =
     (case requireRunning g of
        Inl err \<Rightarrow> (w, Inr \<lparr>gs_Running = False, gs_ToolCount = 0, gs_SessionCount = 0\<rparr>)
      | Inr system \<Rightarrow>
     (case resolveRegistrar ga g system w of
        Inl err \<Rightarrow> (w, Inl err)
      | Inr registrar \<Rightarrow>
     (let ask = (\<lambda>msg w. case ga_AskRegistrar ga registrar msg (request_timeout g) w of
                   (w, Inl err) \<Rightarrow> (w, Inl (rt_wrap ErrCodeInternal ''registrar ask failed'' err))
                 | (w, Inr resp) \<Rightarrow> (w, Inr resp))
      in case read_reply ga tools_reply (ask ListTools w) of
           (w, Inl err) \<Rightarrow> (w, Inl err)
         | (w, Inr tools) \<Rightarrow>
             (case read_reply ga sessions_reply (ask ListAllSessions w) of
                (w, Inl err) \<Rightarrow> (w, Inl err)
              | (w, Inr sessions) \<Rightarrow>
                  (w, Inr \<lparr>gs_Running = True, gs_ToolCount = length tools, gs_SessionCount = length sessions\<rparr>)))))"

text \<open>The gateway as the ingress layer sees it.\<close>

definition gateway_invoker :: "'w actors \<Rightarrow> Gateway \<Rightarrow> 'w invoker" where
  "gateway_invoker ga g =
     \<lparr>iv_Invoke = \<lambda>ivk. Gateway_Invoke ga g (Some ivk), iv_ListTools = Gateway_ListTools ga g,
      iv_InvokeStream = \<lambda>ivk. Gateway_InvokeStream ga g (Some ivk)\<rparr>"

lemma ValidateTool_id: "ValidateTool t = None \<Longrightarrow> tool_id_check (tool_ID t) = None"
  by (auto simp: ValidateTool_def tool_id_check_def split: if_splits)

lemma done_or_simps [simp]: "done_or None = Inr ()" "done_or (Some e) = Inl e"
  by (simp_all add: done_or_def)

section \<open>The registry behind the calls\<close>

text \<open>
  What the calls rely on: a registrar that is found, that keeps a map of tools as
  specified for each message, and that answers each message with its own reply.
\<close>

locale registry_service =
  fixes ga :: "'w actors" and registry :: "'w \<Rightarrow> ToolID \<Rightarrow> Tool option" and wf :: "'w \<Rightarrow> bool"
  assumes found: "\<And>g system w. \<exists>pid. resolveRegistrar ga g system w = Inr pid"
    and keeps: "\<And>pid msg d w w' r. wf w \<Longrightarrow> ga_AskRegistrar ga pid msg d w = (w', r) \<Longrightarrow> wf w'"
    and updates: "\<And>pid msg d w w' r. wf w \<Longrightarrow> ga_AskRegistrar ga pid msg d w = (w', r) \<Longrightarrow>
          registry w' = reg_spec (registry w) msg"
    and lists: "\<And>pid d w w' r. wf w \<Longrightarrow> ga_AskRegistrar ga pid ListTools d w = (w', r) \<Longrightarrow>
          \<exists>tools. r = Inr (Some (ListToolsResult tools)) \<and>
            (\<lambda>t. (tool_ID t, tool_State t)) ` set tools = {(k, tool_State t) | k t. registry w k = Some t}"
    and registers: "\<And>pid t d w w' r. wf w \<Longrightarrow> ga_AskRegistrar ga pid (reg_msg.RegisterTool t) d w = (w', r) \<Longrightarrow>
          r = Inr (Some (RegisterToolResult (ValidateTool t)))"
    and disables: "\<And>pid u d w w' r. wf w \<Longrightarrow> ga_AskRegistrar ga pid (DisableTool u) d w = (w', r) \<Longrightarrow>
          r = Inr (Some (DisableToolResult (if registry w u = None then Some ErrToolNotFound else None)))"
    and removes: "\<And>pid u d w w' r. wf w \<Longrightarrow> ga_AskRegistrar ga pid (RemoveTool u) d w = (w', r) \<Longrightarrow>
          r = Inr (Some (RemoveToolResult (if registry w u = None then Some ErrToolNotFound else None)))"
begin

lemma asked:
  assumes "requireRunning g = Inr system" and "check = None"
  obtains pid where "ask_registrar ga g check msg w =
    (case ga_AskRegistrar ga pid msg (request_timeout g) w of
       (w, Inl err) \<Rightarrow> (w, Inl (rt_wrap ErrCodeInternal ''registrar ask failed'' err)) | (w, Inr resp) \<Rightarrow> (w, Inr resp))"
proof -
  obtain pid where "resolveRegistrar ga g system w = Inr pid" using found by blast
  with assms have "ask_registrar ga g check msg w =
    (case ga_AskRegistrar ga pid msg (request_timeout g) w of
       (w, Inl err) \<Rightarrow> (w, Inl (rt_wrap ErrCodeInternal ''registrar ask failed'' err)) | (w, Inr resp) \<Rightarrow> (w, Inr resp))"
    by (simp add: ask_registrar_def)
  then show thesis by (rule that)
qed

text \<open>A listing gives the identifiers and states of the registered tools and changes nothing.\<close>

lemma list_tools:
  assumes "requireRunning g = Inr system" and "wf w" and "Gateway_ListTools ga g w = (w', r)"
  shows "wf w' \<and> registry w' = registry w \<and>
    (\<exists>tools. r = Inr tools \<and> (\<lambda>t. (tool_ID t, tool_State t)) ` set tools = {(k, tool_State t) | k t. registry w k = Some t})"
proof -
  obtain pid where ask: "ask_registrar ga g None ListTools w =
    (case ga_AskRegistrar ga pid ListTools (request_timeout g) w of
       (w, Inl err) \<Rightarrow> (w, Inl (rt_wrap ErrCodeInternal ''registrar ask failed'' err)) | (w, Inr resp) \<Rightarrow> (w, Inr resp))"
    using asked [OF assms(1) refl] by blast
  obtain w1 r1 where r1: "ga_AskRegistrar ga pid ListTools (request_timeout g) w = (w1, r1)" by fastforce
  from lists [OF assms(2) r1] keeps [OF assms(2) r1] updates [OF assms(2) r1] assms(3) r1
  show ?thesis unfolding Gateway_ListTools_def ask by (auto simp: read_reply_def)
qed

text \<open>A call that replies with an error or nothing, and what it does to the registry.\<close>

lemma change_tools:
  assumes "requireRunning g = Inr system" and "wf w" and "check = None"
    and "read_reply ga expected (ask_registrar ga g check msg w) = (w', r)"
    and "\<And>pid d w' r. ga_AskRegistrar ga pid msg d w = (w', r) \<Longrightarrow> r = Inr (Some answer)"
    and "expected answer = Some (done_or e)"
  shows "wf w' \<and> registry w' = reg_spec (registry w) msg \<and> r = done_or e"
proof -
  obtain pid where ask: "ask_registrar ga g check msg w =
    (case ga_AskRegistrar ga pid msg (request_timeout g) w of
       (w, Inl err) \<Rightarrow> (w, Inl (rt_wrap ErrCodeInternal ''registrar ask failed'' err)) | (w, Inr resp) \<Rightarrow> (w, Inr resp))"
    using asked [OF assms(1,3)] by blast
  obtain w1 r1 where r1: "ga_AskRegistrar ga pid msg (request_timeout g) w = (w1, r1)" by fastforce
  from assms(5) [OF r1] keeps [OF assms(2) r1] updates [OF assms(2) r1] assms(4,6) r1
  show ?thesis unfolding ask by (auto simp: read_reply_def)
qed

lemma register_tool:
  assumes "requireRunning g = Inr system" and "wf w" and "ValidateTool t = None"
    and "Gateway_RegisterTool ga g t w = (w', r)"
  shows "wf w' \<and> registry w' (tool_ID t) \<noteq> None \<and> r = Inr ()"
proof -
  have reply: "q = Inr (Some (RegisterToolResult None))" if "ga_AskRegistrar ga pid (reg_msg.RegisterTool t) d w = (v, q)" for pid d v q
    using registers [OF assms(2) that] assms(3) by simp
  have "wf w' \<and> registry w' = reg_spec (registry w) (reg_msg.RegisterTool t) \<and> r = done_or None"
    by (rule change_tools [OF assms(1-3) assms(4) [unfolded Gateway_RegisterTool_def], where answer = "RegisterToolResult None"])
      (auto dest: reply)
  with assms(3) show ?thesis by (auto simp: spec_set_def)
qed

lemma disable_tool:
  assumes "requireRunning g = Inr system" and "wf w" and "tool_id_check u = None" and "registry w u \<noteq> None"
    and "Gateway_DisableTool ga g u w = (w', r)"
  shows "wf w' \<and> (\<exists>t. registry w' u = Some t \<and> tool_State t = ToolStateDisabled) \<and> r = Inr ()"
proof -
  have reply: "q = Inr (Some (DisableToolResult None))" if "ga_AskRegistrar ga pid (DisableTool u) d w = (v, q)" for pid d v q
    using disables [OF assms(2) that] assms(4) by simp
  have "wf w' \<and> registry w' = reg_spec (registry w) (DisableTool u) \<and> r = done_or None"
    by (rule change_tools [OF assms(1-3) assms(5) [unfolded Gateway_DisableTool_def], where answer = "DisableToolResult None"])
      (auto dest: reply)
  with assms(4) show ?thesis by (auto simp: spec_set_def)
qed

lemma remove_tool:
  assumes "requireRunning g = Inr system" and "wf w" and "tool_id_check u = None" and "registry w u \<noteq> None"
    and "Gateway_RemoveTool ga g u w = (w', r)"
  shows "wf w' \<and> registry w' u = None \<and> r = Inr ()"
proof -
  have reply: "q = Inr (Some (RemoveToolResult None))" if "ga_AskRegistrar ga pid (RemoveTool u) d w = (v, q)" for pid d v q
    using removes [OF assms(2) that] assms(4) by simp
  have "wf w' \<and> registry w' = reg_spec (registry w) (RemoveTool u) \<and> r = done_or None"
    by (rule change_tools [OF assms(1-3) assms(5) [unfolded Gateway_RemoveTool_def], where answer = "RemoveToolResult None"])
      (auto dest: reply)
  with assms(4) show ?thesis by (auto simp: spec_set_def)
qed

lemma listed_iff:
  assumes "(\<lambda>t. (tool_ID t, tool_State t)) ` set tools = {(k, tool_State t) | k t. registry w k = Some t}"
  shows "u \<in> tool_ID ` set tools \<longleftrightarrow> registry w u \<noteq> None"
proof -
  have "tool_ID ` set tools = fst ` (\<lambda>t. (tool_ID t, tool_State t)) ` set tools" by (simp add: image_image)
  also have "\<dots> = {k. registry w k \<noteq> None}" unfolding assms by force
  finally show ?thesis by simp
qed

lemma manages_tools:
  assumes run: "requireRunning g = Inr system" and wf: "wf w"
    and register: "Gateway_RegisterTool ga g t w = (w1, Inr ())" and list1: "Gateway_ListTools ga g w1 = (w1', l1)"
    and disable: "Gateway_DisableTool ga g (tool_ID t) w1' = (w2, r2)" and list2: "Gateway_ListTools ga g w2 = (w2', l2)"
    and remove: "Gateway_RemoveTool ga g (tool_ID t) w2' = (w3, r3)" and list3: "Gateway_ListTools ga g w3 = (w3', l3)"
  shows "\<exists>ts1 ts2 ts3. l1 = Inr ts1 \<and> tool_ID t \<in> tool_ID ` set ts1 \<and>
    r2 = Inr () \<and> l2 = Inr ts2 \<and> (tool_ID t, ToolStateDisabled) \<in> (\<lambda>t. (tool_ID t, tool_State t)) ` set ts2 \<and>
    r3 = Inr () \<and> l3 = Inr ts3 \<and> tool_ID t \<notin> tool_ID ` set ts3"
proof -
  from run register have valid: "ValidateTool t = None"
    by (auto simp: Gateway_RegisterTool_def ask_registrar_def read_reply_def split: option.splits)
  then have known: "tool_id_check (tool_ID t) = None" by (rule ValidateTool_id)
  from register_tool [OF run wf valid register] have s1: "wf w1" "registry w1 (tool_ID t) \<noteq> None" by simp_all
  from list_tools [OF run s1(1) list1] s1(2) obtain ts1 where s1': "wf w1'" "registry w1' (tool_ID t) \<noteq> None"
      and l1: "l1 = Inr ts1" "(\<lambda>t. (tool_ID t, tool_State t)) ` set ts1 = {(k, tool_State t) | k t. registry w1 k = Some t}"
    by auto
  from listed_iff [OF l1(2)] s1(2) have in1: "tool_ID t \<in> tool_ID ` set ts1" by simp
  from disable_tool [OF run s1'(1) known s1'(2) disable]
  have s2: "wf w2" "\<exists>t'. registry w2 (tool_ID t) = Some t' \<and> tool_State t' = ToolStateDisabled" "r2 = Inr ()" by simp_all
  from list_tools [OF run s2(1) list2] s2(2) obtain ts2 where s2': "wf w2'" "registry w2' (tool_ID t) \<noteq> None"
      and l2: "l2 = Inr ts2" "(tool_ID t, ToolStateDisabled) \<in> (\<lambda>t. (tool_ID t, tool_State t)) ` set ts2"
    by auto
  from remove_tool [OF run s2'(1) known s2'(2) remove] have s3: "wf w3" "registry w3 (tool_ID t) = None" "r3 = Inr ()" by simp_all
  from list_tools [OF run s3(1) list3] obtain ts3 where "l3 = Inr ts3"
      and l3: "(\<lambda>t. (tool_ID t, tool_State t)) ` set ts3 = {(k, tool_State t) | k t. registry w3 k = Some t}" by auto
  moreover from listed_iff [OF l3] s3(2) have "tool_ID t \<notin> tool_ID ` set ts3" by simp
  ultimately show ?thesis using l1(1) in1 l2 s2(3) s3(3) by blast
qed

end

section \<open>One node\<close>

text \<open>
  The actors of a node, as the router's system of actors sees them: they are found as
  children of the manager, the router runs its pipeline over the system, and a
  message that gets no reply is a failed question.
\<close>

definition system_actors :: "'w system \<Rightarrow> router \<Rightarrow> time \<Rightarrow> 'w actors" where
  "system_actors sys ro now =
     \<lparr>ga_ActorOf = \<lambda>_ _ _. Inr 0, ga_Child = \<lambda>_ _ _. Inr (Some 0),
      ga_AskRegistrar = \<lambda>_ msg _ w.
        (case sys_Registrar sys msg w of (w, Inl err) \<Rightarrow> (w, Inl err) | (w, Inr r) \<Rightarrow> (w, Inr (Some r))),
      ga_AskRouter = \<lambda>_ ivk _ w.
        (case handleRouteInvocation sys ro now ivk w of
           (w, None, _) \<Rightarrow> (w, Inl (PlainErr ''request timed out''))
         | (w, Some r, _) \<Rightarrow> (w, Inr (Some r))),
      ga_AskRouterStream = \<lambda>_ ivk _ w. (case handleRouteInvokeStream sys ro now ivk w of (w, r, _) \<Rightarrow> (w, Inr (Some r))),
      ga_TypeName = \<lambda>_. ''<nil>''\<rparr>"

text \<open>A system whose registrar is the registrar of the model.\<close>

definition node_system :: "reg_env \<Rightarrow> (registrar \<times> 'v) system \<Rightarrow> (registrar \<times> 'v) system" where
  "node_system env sys = sys\<lparr>sys_Registrar := \<lambda>msg w.
     (let (x, out) = registrar_Receive env (fst w) msg
      in ((x, snd w), case ro_reply out of None \<Rightarrow> Inl (PlainErr ''request timed out'') | Some r \<Rightarrow> Inr r))\<rparr>"

definition node_actors ::
  "reg_env \<Rightarrow> (registrar \<times> 'v) system \<Rightarrow> router \<Rightarrow> time \<Rightarrow> (registrar \<times> 'v) actors" where
  "node_actors env sys ro now = system_actors (node_system env sys) ro now"

lemmas node_defs = node_actors_def system_actors_def node_system_def

lemma node_ask_registrar:
  "ga_AskRegistrar (node_actors env sys ro now) pid msg d w = (w', r) \<Longrightarrow>
     fst w' = reg_step (fst w) (env, msg) \<and>
     r = (case ro_reply (snd (registrar_Receive env (fst w) msg)) of
            None \<Rightarrow> Inl (PlainErr ''request timed out'') | Some q \<Rightarrow> Inr (Some q))"
  by (auto simp: node_defs Let_def case_prod_unfold split: option.splits)

lemma catalog_List_states:
  assumes "reg_inv x"
  shows "(\<lambda>t. (tool_ID t, tool_State t)) ` set (catalog_List (rg_catalog x)) = {(k, tool_State t) | k t. tool_of x k = Some t}"
proof -
  have ok: "gm_ok (rg_catalog x)" and ids: "\<And>k t. tool_of x k = Some t \<Longrightarrow> tool_ID t = k"
    using assms by (auto simp: reg_inv_def)
  let ?f = "\<lambda>t. (tool_ID t, tool_State t)"
  have "?f ` set (catalog_List (rg_catalog x)) = {?f (with_metadata e) | k e. (k, e) \<in> set (rg_catalog x)}"
    by (force simp: catalog_List_def)
  also have "\<dots> = {?f (with_metadata e) | k e. gm_get (rg_catalog x) k = Some e}"
    unfolding gm_in_iff [OF ok] ..
  also have "\<dots> = {?f t | k t. tool_of x k = Some t}"
    by (auto simp: with_metadata_def catalog_Get_def)
  also have "\<dots> = {(k, tool_State t) | k t. tool_of x k = Some t}"
    using ids by fastforce
  finally show ?thesis .
qed

interpretation node: registry_service "node_actors env sys ro now" "\<lambda>w. tool_of (fst w)" "\<lambda>w. reg_inv (fst w)"
proof unfold_locales
  show "\<exists>pid. resolveRegistrar (node_actors env sys ro now) g system w = Inr pid" for g system w
    by (simp add: resolveRegistrar_def resolve_actor_def node_defs)
next
  fix pid msg d w w' r
  assume inv: "reg_inv (fst w)" and ask: "ga_AskRegistrar (node_actors env sys ro now) pid msg d w = (w', r)"
  note ask = node_ask_registrar [OF ask]
  show "reg_inv (fst w')" using ask reg.step_keeps [OF inv, of "(env, msg)"] by simp
  show "tool_of (fst w') = reg_spec (tool_of (fst w)) msg" using ask reg_step_refines [OF inv] by simp
next
  fix pid d w w' r
  assume inv: "reg_inv (fst w)" and "ga_AskRegistrar (node_actors env sys ro now) pid ListTools d w = (w', r)"
  from node_ask_registrar [OF this(2)] catalog_List_states [OF inv]
  show "\<exists>tools. r = Inr (Some (ListToolsResult tools)) \<and>
      (\<lambda>t. (tool_ID t, tool_State t)) ` set tools = {(k, tool_State t) | k t. tool_of (fst w) k = Some t}" by simp
next
  fix pid t d w w' r
  assume "ga_AskRegistrar (node_actors env sys ro now) pid (reg_msg.RegisterTool t) d w = (w', r)"
  from node_ask_registrar [OF this] show "r = Inr (Some (RegisterToolResult (ValidateTool t)))"
    by (simp add: handleRegisterTool_def Let_def case_prod_unfold split: option.split)
next
  fix pid u d w w' r
  assume "ga_AskRegistrar (node_actors env sys ro now) pid (DisableTool u) d w = (w', r)"
  from node_ask_registrar [OF this]
  show "r = Inr (Some (DisableToolResult (if tool_of (fst w) u = None then Some ErrToolNotFound else None)))"
    by (simp add: handleDisableTool_def set_tool_state_def Let_def case_prod_unfold split: option.split)
next
  fix pid u d w w' r
  assume "ga_AskRegistrar (node_actors env sys ro now) pid (RemoveTool u) d w = (w', r)"
  from node_ask_registrar [OF this]
  show "r = Inr (Some (RemoveToolResult (if tool_of (fst w) u = None then Some ErrToolNotFound else None)))"
    by (simp add: handleRemoveTool_def Let_def case_prod_unfold catalog_Has_iff split: option.split)
qed

section \<open>Properties\<close>

text \<open>C13: On a node, the calls of a running gateway manage one registry. A tool that was
  registered is listed; disabling it succeeds, and it is then listed as disabled; removing
  it succeeds, and it is then no longer listed.\<close>

theorem gateway_manages_tools:
  fixes env sys ro now
  defines "ga \<equiv> node_actors env sys ro now"
  assumes "requireRunning g = Inr system" and "reg_inv (fst w)"
    and "Gateway_RegisterTool ga g t w = (w1, Inr ())" and "Gateway_ListTools ga g w1 = (w1', l1)"
    and "Gateway_DisableTool ga g (tool_ID t) w1' = (w2, r2)" and "Gateway_ListTools ga g w2 = (w2', l2)"
    and "Gateway_RemoveTool ga g (tool_ID t) w2' = (w3, r3)" and "Gateway_ListTools ga g w3 = (w3', l3)"
  shows "\<exists>ts1 ts2 ts3. l1 = Inr ts1 \<and> tool_ID t \<in> tool_ID ` set ts1 \<and>
    r2 = Inr () \<and> l2 = Inr ts2 \<and> (tool_ID t, ToolStateDisabled) \<in> (\<lambda>t. (tool_ID t, tool_State t)) ` set ts2 \<and>
    r3 = Inr () \<and> l3 = Inr ts3 \<and> tool_ID t \<notin> tool_ID ` set ts3"
  by (rule node.manages_tools [OF assms(2-9) [unfolded ga_def]])

text \<open>A gateway that is not running, or that is shutting down, asks no actor anything: every
  call returns that error and leaves the world as it was, and its status says that it
  does not run.\<close>

theorem gateway_refuses_when_not_running:
  assumes "requireRunning g = Inl err"
  shows "Gateway_Invoke ga g ivk w = (w, None, Some err) \<and> Gateway_InvokeStream ga g ivk w = (w, Inl err) \<and>
    Gateway_ListTools ga g w = (w, Inl err) \<and> Gateway_RegisterTool ga g t w = (w, Inl err) \<and>
    Gateway_UpdateTool ga g t w = (w, Inl err) \<and> Gateway_DisableTool ga g u w = (w, Inl err) \<and>
    Gateway_RemoveTool ga g u w = (w, Inl err) \<and> Gateway_EnableTool ga g u w = (w, Inl err) \<and>
    Gateway_GetToolStatus ga g u w = (w, Inl err) \<and> Gateway_ListSessions ga g w = (w, Inl err) \<and>
    Gateway_DrainTool ga g u w = (w, Inl err) \<and> Gateway_GetToolSchema ga g u w = (w, Inl err) \<and>
    Gateway_ResetCircuit ga g u w = (w, Inl err) \<and>
    Gateway_GetGatewayStatus ga g w = (w, Inr \<lparr>gs_Running = False, gs_ToolCount = 0, gs_SessionCount = 0\<rparr>)"
  using assms
  by (simp add: Gateway_Invoke_def Gateway_InvokeStream_def Gateway_ListTools_def Gateway_RegisterTool_def
      Gateway_UpdateTool_def Gateway_DisableTool_def Gateway_RemoveTool_def Gateway_EnableTool_def
      Gateway_GetToolStatus_def Gateway_ListSessions_def Gateway_DrainTool_def Gateway_GetToolSchema_def
      Gateway_ResetCircuit_def Gateway_GetGatewayStatus_def ask_registrar_def read_reply_def)

text \<open>A call on a node's router returns either a result or an error, and not both, so that a
  protocol client is never told that the gateway's result was empty.\<close>

theorem invoke_result_xor_error:
  "(fst (snd (Gateway_Invoke (system_actors sys ro now) g ivk w)) = None) \<noteq>
   (snd (snd (Gateway_Invoke (system_actors sys ro now) g ivk w)) = None)"
proof -
  have "(case handleRouteInvocation sys ro now ivk w of (_, Some (RouteResult res err), _) \<Rightarrow> (res = None) \<noteq> (err = None) | _ \<Rightarrow> True)"
    by (auto simp: handleRouteInvocation_def validateInvocation_def Let_def split: option.splits prod.splits sum.splits)
  then show ?thesis
    by (auto simp: Gateway_Invoke_def system_actors_def resolveRouter_def resolve_actor_def
        split: sum.splits prod.splits option.splits RouteResult.splits)
qed

text \<open>A gateway that runs on system 1, and one that is shutting down.\<close>

definition example_gateway_on :: "bool \<Rightarrow> Gateway" where
  "example_gateway_on draining =
     \<lparr>gw_config = example_config [] 0 0 [] [], gw_logger = DiscardLogger, gw_metrics = False, gw_tracing = False,
      gw_system = Some 1, gw_draining = draining, gw_eventSub = None, gw_auditStream = None,
      gw_managerName = ActorNameGatewayManager, gw_testSystem = None\<rparr>"

theorem gateway_manages_tools_witness:
  "\<forall>(sys :: (registrar \<times> unit) system) ro. \<exists>w1 ts.
     Gateway_RegisterTool (node_actors example_reg_env sys ro 0) (example_gateway_on False) example_tool
       (registrar_PreStart (Some []), ()) = (w1, Inr ()) \<and>
     snd (Gateway_ListTools (node_actors example_reg_env sys ro 0) (example_gateway_on False) w1) = Inr ts \<and>
     tool_ID example_tool \<in> tool_ID ` set ts"
proof (intro allI)
  fix sys :: "(registrar \<times> unit) system" and ro
  let ?ga = "node_actors example_reg_env sys ro 0" and ?g = "example_gateway_on False"
  let ?w = "(registrar_PreStart (Some []), ())"
  have run: "requireRunning ?g = Inr 1" by (simp add: requireRunning_def example_gateway_on_def)
  have valid: "ValidateTool example_tool = None"
    by (simp add: ValidateTool_None_iff transport_ok_def example_tool_def)
  have inv: "reg_inv (fst ?w)" by simp
  obtain w1 r where "Gateway_RegisterTool ?ga ?g example_tool ?w = (w1, r)" by fastforce
  with node.register_tool [OF run inv valid] have reg: "Gateway_RegisterTool ?ga ?g example_tool ?w = (w1, Inr ())" by blast
  obtain w1' l1 w2 r2 w2' l2 w3 r3 w3' l3 where
      rest: "Gateway_ListTools ?ga ?g w1 = (w1', l1)" "Gateway_DisableTool ?ga ?g (tool_ID example_tool) w1' = (w2, r2)"
        "Gateway_ListTools ?ga ?g w2 = (w2', l2)" "Gateway_RemoveTool ?ga ?g (tool_ID example_tool) w2' = (w3, r3)"
        "Gateway_ListTools ?ga ?g w3 = (w3', l3)"
    by (metis surj_pair)
  from gateway_manages_tools [OF run inv reg rest] reg rest(1)
  show "\<exists>w1 ts. Gateway_RegisterTool ?ga ?g example_tool ?w = (w1, Inr ()) \<and>
     snd (Gateway_ListTools ?ga ?g w1) = Inr ts \<and> tool_ID example_tool \<in> tool_ID ` set ts" by auto
qed

theorem gateway_refuses_when_not_running_witness:
  "\<forall>(ga :: unit actors) ivk. Gateway_Invoke ga (example_gateway_on True) ivk () =
     ((), None, Some (rt_error ErrCodeInternal ''gateway is shutting down''))"
proof -
  have down: "requireRunning (example_gateway_on True) = Inl (rt_error ErrCodeInternal ''gateway is shutting down'')"
    by (simp add: requireRunning_def example_gateway_on_def)
  show ?thesis by (intro allI) (rule gateway_refuses_when_not_running [OF down, THEN conjunct1])
qed

end
