(* ===== verification/Gateway_Ingress.thy ===== *)
theory Gateway_Ingress
  imports Gateway_Api Ingress_Handlers Ingress_Grpc
begin

text \<open>
  The ingress constructors of the gateway (gateway.go: \<open>Handler\<close>, \<open>SSEHandler\<close>,
  \<open>WSHandler\<close>, \<open>RegisterGRPCService\<close>, \<open>GRPCAuthInterceptors\<close>), the list of messages
  that can be sent to another node (\<open>remoteOptions\<close>) and the adapter from the user's
  discovery provider to the actor library's (internal/runtime/cluster/adapter.go).

  A handler keeps a pointer to the gateway and reads it at each request, so the world of
  a handler contains the gateway's state.
\<close>

section \<open>Handlers of a gateway\<close>

definition live_invoker :: "'w actors \<Rightarrow> (Gateway \<times> 'w) invoker" where
  "live_invoker ga =
     \<lparr>iv_Invoke = \<lambda>ivk (g, w). (case Gateway_Invoke ga g (Some ivk) w of (w, r) \<Rightarrow> ((g, w), r)),
      iv_ListTools = \<lambda>(g, w). (case Gateway_ListTools ga g w of (w, r) \<Rightarrow> ((g, w), r)),
      iv_InvokeStream = \<lambda>ivk (g, w). (case Gateway_InvokeStream ga g (Some ivk) w of (w, r) \<Rightarrow> ((g, w), r))\<rparr>"

definition Handler ::
  "('r \<Rightarrow> TokenInfo option) \<Rightarrow> 'w actors \<Rightarrow> 'r IngressConfig \<Rightarrow>
     go_error + ('r, Gateway \<times> 'w) session_handler \<times> StreamableHTTPOptions" where
  "Handler tokenOf ga cfg = HTTP_New tokenOf (live_invoker ga) cfg"

definition SSEHandler ::
  "('r \<Rightarrow> TokenInfo option) \<Rightarrow> 'w actors \<Rightarrow> 'r IngressConfig \<Rightarrow> go_error + ('r, Gateway \<times> 'w) session_handler" where
  "SSEHandler tokenOf ga cfg = SSE_New tokenOf (live_invoker ga) cfg"

definition WSHandler ::
  "('r \<Rightarrow> TokenInfo option) \<Rightarrow> 'w actors \<Rightarrow> 'r IngressConfig \<Rightarrow> 'r WSConfig option \<Rightarrow>
     go_error + ('r, Gateway \<times> 'w) wsHandler" where
  "WSHandler tokenOf ga cfg wsCfg = WS_New tokenOf (live_invoker ga) cfg wsCfg"

text \<open>The services registered on a gRPC server, by their state.\<close>

definition RegisterGRPCService ::
  "'w actors \<Rightarrow> GRPCIngressConfig \<Rightarrow> grpc_server list \<Rightarrow> grpc_server list \<times> go_error option" where
  "RegisterGRPCService ga cfg services =
     (case NewServer (Some (live_invoker ga)) cfg of
        Inl err \<Rightarrow> (services, Some err)
      | Inr svc \<Rightarrow> (services @ [svc], None))"

definition GRPCAuthInterceptors ::
  "(go_error \<Rightarrow> bool) \<Rightarrow> EnterpriseAuthConfig option \<Rightarrow>
     go_error + (grpc_ctx \<Rightarrow> ('w, 'a) grpc_handler \<Rightarrow> 'w \<Rightarrow> 'w \<times> (grpc_status + 'a))" where
  "GRPCAuthInterceptors isInvalidToken ea = AuthInterceptors isInvalidToken ea"

section \<open>Messages between nodes\<close>

text \<open>The types of the messages the remoting layer can encode, by name.\<close>

definition remoteOptions :: "string list" where
  "remoteOptions =
     [''CanAcceptWork'', ''CanAcceptWorkResult'', ''ReportFailure'', ''ReportSuccess'',
      ''RouteInvocation'', ''RouteResult'',
      ''RegisterTool'', ''RegisterToolResult'', ''UpdateTool'', ''UpdateToolResult'', ''DisableTool'', ''DisableToolResult'',
      ''RemoveTool'', ''RemoveToolResult'', ''QueryTool'', ''QueryToolResult'', ''UpdateToolHealth'', ''UpdateToolHealthResult'',
      ''BootstrapTools'', ''GetSupervisor'', ''GetSupervisorResult'', ''ListTools'', ''ListToolsResult'',
      ''CountSessionsForTenant'', ''CountSessionsForTenantResult'',
      ''SupervisorCountSessionsForTenant'', ''SupervisorCountSessionsForTenantResult'',
      ''GetOrCreateSession'', ''GetOrCreateSessionResult'', ''SessionInvoke'', ''SessionInvokeResult'',
      ''SessionInvokeStream'', ''SessionInvokeStreamResult'',
      ''RecordAuditEvent'', ''EvaluateRequest'', ''EvaluateResult'', ''ResolveRequest'', ''ResolveResult'',
      ''EnableTool'', ''EnableToolResult'', ''RefreshToolConfig'',
      ''GetToolStatus'', ''GetToolStatusResult'', ''ResetCircuit'', ''ResetCircuitResult'', ''DrainTool'', ''DrainToolResult'',
      ''ListAllSessions'', ''ListAllSessionsResult'', ''ListSupervisorSessions'', ''ListSupervisorSessionsResult'',
      ''GetSessionIdentity'', ''GetSessionIdentityResult'', ''GetToolSchema'', ''GetToolSchemaResult'']"

section \<open>The discovery adapter\<close>

text \<open>
  The provider's functions see whether the adapter's context has been cancelled; stopping
  it gets a fresh context with the given time limit.
\<close>

record 'w discovery_provider =
  dp_ID :: string
  dp_Start :: "bool \<Rightarrow> 'w \<Rightarrow> 'w \<times> go_error option"
  dp_DiscoverPeers :: "bool \<Rightarrow> 'w \<Rightarrow> 'w \<times> (go_error + string list)"
  dp_Stop :: "duration \<Rightarrow> 'w \<Rightarrow> 'w \<times> go_error option"

record 'w discoveryAdapter =
  da_provider :: "'w discovery_provider"
  da_cancelled :: bool

definition newDiscoveryAdapter :: "'w discovery_provider \<Rightarrow> 'w discoveryAdapter" where
  "newDiscoveryAdapter provider = \<lparr>da_provider = provider, da_cancelled = False\<rparr>"

definition adapter_ID :: "'w discoveryAdapter \<Rightarrow> string" where
  "adapter_ID a = dp_ID (da_provider a)"

definition Initialize :: "'w discoveryAdapter \<Rightarrow> 'w \<Rightarrow> 'w \<times> go_error option" where
  "Initialize a w = dp_Start (da_provider a) (da_cancelled a) w"

definition adapter_Register :: "'w discoveryAdapter \<Rightarrow> 'w \<Rightarrow> 'w \<times> go_error option" where
  "adapter_Register a w = (w, None)"

definition adapter_Deregister :: "'w discoveryAdapter \<Rightarrow> 'w \<Rightarrow> 'w \<times> go_error option" where
  "adapter_Deregister a w = (w, None)"

definition DiscoverPeers :: "'w discoveryAdapter \<Rightarrow> 'w \<Rightarrow> 'w \<times> (go_error + string list)" where
  "DiscoverPeers a w = dp_DiscoverPeers (da_provider a) (da_cancelled a) w"

definition adapter_Close :: "'w discoveryAdapter \<Rightarrow> 'w \<Rightarrow> ('w discoveryAdapter \<times> 'w) \<times> go_error option" where
  "adapter_Close a w =
     (let a = a\<lparr>da_cancelled := True\<rparr>;
          (w, err) = dp_Stop (da_provider a) (10 * second) w
      in ((a, w), err))"

section \<open>Properties\<close>

lemma live_list_tools: "iv_ListTools (live_invoker ga) (g, w) = (case Gateway_ListTools ga g w of (w, r) \<Rightarrow> ((g, w), r))"
  by (simp add: live_invoker_def)

lemma BuildGetServer_live:
  "BuildGetServer (live_invoker ga) resolver r (g, w) =
     (case BuildGetServer (gateway_invoker ga g) resolver r w of (w, srv) \<Rightarrow> ((g, w), srv))"
  by (simp add: BuildGetServer_def live_list_tools gateway_invoker_def split: sum.split prod.split)

lemma not_running_no_session:
  assumes "requireRunning g = Inl err"
  shows "BuildGetServer (live_invoker ga) resolver r (g, w) = ((g, w), None)"
proof -
  have "Gateway_ListTools ga g w = (w, Inl err)"
    using assms by (simp add: Gateway_ListTools_def ask_registrar_def read_reply_def)
  then show ?thesis by (auto simp: BuildGetServer_def live_list_tools split: sum.split)
qed

lemma new_handler_getServer:
  assumes "new_handler msg tokenOf gw cfg = Inr h"
  shows "\<exists>resolver. sh_getServer h = BuildGetServer gw resolver"
  using assms by (auto simp: new_handler_def split: sum.splits option.splits)

text \<open>A handler can be made before the gateway is started: making it asks no actor anything, and
  each request opens a session on the gateway as it is then. While the gateway is not
  running no session opens, and while it runs, the session is the one of that gateway.\<close>

theorem handlers_follow_gateway:
  assumes "Handler tokenOf ga cfg = Inr (h1, opts)" and "SSEHandler tokenOf ga cfg = Inr h2"
    and "WSHandler tokenOf ga cfg wsCfg = Inr h3" and "h \<in> {h1, h2, wh_session h3}"
  shows "\<exists>resolver. \<forall>r g w. sh_getServer h r (g, w) =
    (case requireRunning g of
       Inl _ \<Rightarrow> ((g, w), None)
     | Inr _ \<Rightarrow> (case BuildGetServer (gateway_invoker ga g) resolver r w of (w, srv) \<Rightarrow> ((g, w), srv)))"
proof -
  have "\<exists>resolver. sh_getServer h = BuildGetServer (live_invoker ga) resolver"
    using assms by (auto simp: Handler_def HTTP_New_def SSEHandler_def SSE_New_def WSHandler_def WS_New_def
        dest: new_handler_getServer split: sum.splits)
  then obtain resolver where "sh_getServer h = BuildGetServer (live_invoker ga) resolver" ..
  then have "\<forall>r g w. sh_getServer h r (g, w) =
    (case requireRunning g of
       Inl _ \<Rightarrow> ((g, w), None)
     | Inr _ \<Rightarrow> (case BuildGetServer (gateway_invoker ga g) resolver r w of (w, srv) \<Rightarrow> ((g, w), srv)))"
    by (simp add: not_running_no_session BuildGetServer_live [symmetric] split: sum.split)
  then show ?thesis by blast
qed

text \<open>The type of a message to a supervisor; \<open>PostStart\<close> belongs to the actor library.\<close>

fun sup_msg_type :: "sup_msg \<Rightarrow> string option" where
  "sup_msg_type PostStart = None"
| "sup_msg_type (CanAcceptWork _) = Some ''CanAcceptWork''"
| "sup_msg_type (GetOrCreateSession _ _ _ _) = Some ''GetOrCreateSession''"
| "sup_msg_type (ReportFailure _) = Some ''ReportFailure''"
| "sup_msg_type (ReportSuccess _) = Some ''ReportSuccess''"
| "sup_msg_type (SessionActivated _ _ _) = Some ''SessionActivated''"
| "sup_msg_type (SessionDeactivated _ _ _) = Some ''SessionDeactivated''"
| "sup_msg_type (SupervisorCountSessionsForTenant _) = Some ''SupervisorCountSessionsForTenant''"
| "sup_msg_type (RefreshToolConfig _) = Some ''RefreshToolConfig''"
| "sup_msg_type (GetToolStatus _) = Some ''GetToolStatus''"
| "sup_msg_type (ResetCircuit _) = Some ''ResetCircuit''"
| "sup_msg_type (DrainTool _) = Some ''DrainTool''"
| "sup_msg_type ListSupervisorSessions = Some ''ListSupervisorSessions''"
| "sup_msg_type OtherMessage = None"

text \<open>The two messages by which a session tells its supervisor that it was activated or
  deactivated are not among those that can be sent to another node; all others are.\<close>

theorem session_events_not_serializable:
  assumes "sup_msg_type m = Some ty"
  shows "ty \<in> set remoteOptions \<longleftrightarrow> (\<forall>t c u. m \<noteq> SessionActivated t c u \<and> m \<noteq> SessionDeactivated t c u)"
  using assms by (cases m) (auto simp: remoteOptions_def)

text \<open>After the adapter is closed, a discovery of peers runs under a cancelled context.\<close>

lemma closed_adapter_cancelled:
  "adapter_Close a w = ((a', w'), err) \<Longrightarrow>
     DiscoverPeers a' w'' = dp_DiscoverPeers (da_provider a) True w'' \<and> dp_Stop (da_provider a) (10 * second) w = (w', err)"
  by (auto simp: adapter_Close_def DiscoverPeers_def Let_def split: prod.splits)

end
