(* ===== verification/Foundation.thy ===== *)
theory Foundation
  imports Gateway Router Health
begin

text \<open>
  How the actors of a node find each other (internal/runtime/actor): the gateway manager
  registers the session grains and spawns the actors; the router and the health checker
  look the others up by name once, when they have started, and keep what they found.
\<close>

section \<open>The router and the health checker resolve their actors\<close>

type_synonym directory = "string \<Rightarrow> go_error + handle"

record router_actors =
  ra_journaler :: "handle option"
  ra_registrar :: "handle option"
  ra_policyMaker :: "handle option"
  ra_credentialBroker :: "handle option"

definition newRouterActor :: router_actors where
  "newRouterActor = \<lparr>ra_journaler = None, ra_registrar = None, ra_policyMaker = None, ra_credentialBroker = None\<rparr>"

definition router_resolveActors :: "directory \<Rightarrow> router_actors \<Rightarrow> router_actors \<times> go_error option" where
  "router_resolveActors ActorOf x =
     (case ActorOf ActorNameJournal of
        Inl err \<Rightarrow> (x, Some err)
      | Inr journaler \<Rightarrow>
     (case ActorOf ActorNameRegistrar of
        Inl err \<Rightarrow> (x, Some err)
      | Inr registrar \<Rightarrow>
     (case ActorOf ActorNamePolicy of
        Inl err \<Rightarrow> (x, Some err)
      | Inr policyMaker \<Rightarrow>
     (case ActorOf ActorNameCredentialBroker of
        Inl err \<Rightarrow> (x, Some err)
      | Inr credentialBroker \<Rightarrow>
          (x\<lparr>ra_journaler := Some journaler, ra_registrar := Some registrar,
             ra_policyMaker := Some policyMaker, ra_credentialBroker := Some credentialBroker\<rparr>, None)))))"

record health_actors =
  ha_journal :: "handle option"
  ha_registrar :: "handle option"

definition newHealthChecker :: health_actors where
  "newHealthChecker = \<lparr>ha_journal = None, ha_registrar = None\<rparr>"

definition health_resolveActors :: "directory \<Rightarrow> health_actors \<Rightarrow> health_actors \<times> go_error option" where
  "health_resolveActors ActorOf x =
     (case ActorOf ActorNameJournal of
        Inl err \<Rightarrow> (x, Some err)
      | Inr journal \<Rightarrow>
     (case ActorOf ActorNameRegistrar of
        Inl err \<Rightarrow> (x, Some err)
      | Inr registrar \<Rightarrow> (x\<lparr>ha_journal := Some journal, ha_registrar := Some registrar\<rparr>, None)))"

text \<open>
  The messages of the health checker: after the start it resolves its actors and schedules
  the first run; a run probes and schedules the next one. Other messages are not handled.
\<close>

datatype health_msg = HealthPostStart | RunProbes | HealthOther

definition health_Receive ::
  "'w system \<Rightarrow> directory \<Rightarrow> time \<Rightarrow> healthChecker \<Rightarrow> health_actors \<Rightarrow> health_msg \<Rightarrow> 'w \<Rightarrow>
     (health_actors \<times> 'w) \<times> (reg_msg list \<times> AuditEvent list) \<times> duration option" where
  "health_Receive sys ActorOf now x actors msg w =
     (case msg of
        HealthPostStart \<Rightarrow> ((fst (health_resolveActors ActorOf actors), w), ([], []), scheduleNext x)
      | RunProbes \<Rightarrow> (let (w, tells, evs) = runProbes sys now w in ((actors, w), (tells, evs), scheduleNext x))
      | HealthOther \<Rightarrow> ((actors, w), ([], []), None))"

section \<open>The gateway manager\<close>

record GatewayManager =
  gm_config :: Config

definition manager_PreStart :: "('w \<Rightarrow> 'w \<times> go_error option) \<Rightarrow> Config \<Rightarrow> 'w \<Rightarrow> (GatewayManager \<times> 'w) \<times> go_error option" where
  "manager_PreStart registerGrainKind config w =
     (let (w, err) = registerGrainKind w in ((\<lparr>gm_config = config\<rparr>, w), err))"

datatype manager_msg = ManagerPostStart | ManagerOther

definition manager_Receive :: "'w spawner \<Rightarrow> GatewayManager \<Rightarrow> manager_msg \<Rightarrow> 'w \<Rightarrow> 'w \<times> go_error option" where
  "manager_Receive sp x msg w =
     (case msg of ManagerPostStart \<Rightarrow> spawnFoundationalActors sp (gm_config x) w | ManagerOther \<Rightarrow> (w, None))"

section \<open>Starting a node\<close>

text \<open>
  What the actor library promises of names: an actor that was spawned is found under its
  name, and stays found when others are spawned or told something.
\<close>

definition finds_spawned :: "'w spawner \<Rightarrow> bool" where
  "finds_spawned sp \<longleftrightarrow>
     (\<forall>n mb w w' pid. sp_Spawn sp n mb w = (w', Some pid) \<longrightarrow> sp_ActorOf sp n w' = Inr pid) \<and>
     (\<forall>n mb w w' r n' pid. sp_Spawn sp n mb w = (w', r) \<longrightarrow> n' \<noteq> n \<longrightarrow> sp_ActorOf sp n' w = Inr pid \<longrightarrow>
        sp_ActorOf sp n' w' = Inr pid) \<and>
     (\<forall>n role w w' pid. sp_SpawnSingleton sp n role w = (w', Inr pid) \<longrightarrow> sp_ActorOf sp n w' = Inr pid) \<and>
     (\<forall>pid ts n w. sp_ActorOf sp n (sp_TellBootstrapTools sp pid ts w) = sp_ActorOf sp n w)"

lemmas finds_spawned_self = finds_spawned_def [THEN iffD1, THEN conjunct1, rule_format]
lemmas finds_spawned_other = finds_spawned_def [THEN iffD1, THEN conjunct2, THEN conjunct1, rule_format]

lemmas actor_names =
  ActorNameRegistrar_def ActorNameJournal_def ActorNameHealth_def ActorNamePolicy_def ActorNameCredentialBroker_def
  ActorNameRouter_def

text \<open>A manager that reports no error has spawned every actor the router relies on.\<close>

lemma foundational_spawns:
  assumes "spawnFoundationalActors sp config w = (w', None)"
  obtains w1 w2 w3 w4 w5 w6 reg jr hc pm cb ro mb where
    "spawnRegistrar sp config w = (w1, Some reg)" "sp_Spawn sp ActorNameJournal mb w1 = (w2, Some jr)"
    "sp_Spawn sp ActorNameHealth None w2 = (w3, Some hc)" "sp_Spawn sp ActorNamePolicy None w3 = (w4, Some pm)"
    "sp_Spawn sp ActorNameCredentialBroker None w4 = (w5, Some cb)" "sp_Spawn sp ActorNameRouter None w5 = (w6, ro)"
    "w' = (if length (cfg_Tools config) > 0 then sp_TellBootstrapTools sp reg (cfg_Tools config) w6 else w6)"
    "list_all (\<lambda>pid. sp_IsRunning sp pid w5) [reg, pm, cb, jr, hc]"
  using assms
  by (auto simp: spawnFoundationalActors_def spawnCredentialBroker_def live_def Let_def
      split: prod.splits if_splits option.splits)

section \<open>What an actor sees from its start on\<close>

text \<open>
  A spawner that records, with each spawn, the directory of names as it stands then. An
  actor handles its start message at that moment or a later one, so what it can find are
  the directories recorded from its own spawn on.
\<close>

definition recorded :: "'w spawner \<Rightarrow> ('w \<times> (string \<times> directory) list) spawner" where
  "recorded sp =
     \<lparr>sp_Spawn = (\<lambda>n mb (w, l). let (w, r) = sp_Spawn sp n mb w in ((w, l @ [(n, \<lambda>k. sp_ActorOf sp k w)]), r)),
      sp_SpawnSingleton = (\<lambda>n role (w, l). let (w, r) = sp_SpawnSingleton sp n role w in ((w, l @ [(n, \<lambda>k. sp_ActorOf sp k w)]), r)),
      sp_IsSingletonAlreadyExists = sp_IsSingletonAlreadyExists sp,
      sp_ActorOf = (\<lambda>n (w, l). sp_ActorOf sp n w), sp_IsRunning = (\<lambda>pid (w, l). sp_IsRunning sp pid w),
      sp_TellBootstrapTools = (\<lambda>pid ts (w, l). (sp_TellBootstrapTools sp pid ts w, l))\<rparr>"

definition views_from :: "string \<Rightarrow> (string \<times> directory) list \<Rightarrow> directory list" where
  "views_from name l = map snd (dropWhile (\<lambda>(n, _). n \<noteq> name) l)"

lemma recorded_simps [simp]:
  "sp_Spawn (recorded sp) n mb (w, l) =
     ((fst (sp_Spawn sp n mb w), l @ [(n, \<lambda>k. sp_ActorOf sp k (fst (sp_Spawn sp n mb w)))]), snd (sp_Spawn sp n mb w))"
  "sp_SpawnSingleton (recorded sp) n role (w, l) =
     ((fst (sp_SpawnSingleton sp n role w), l @ [(n, \<lambda>k. sp_ActorOf sp k (fst (sp_SpawnSingleton sp n role w)))]),
      snd (sp_SpawnSingleton sp n role w))"
  "sp_IsSingletonAlreadyExists (recorded sp) = sp_IsSingletonAlreadyExists sp"
  "sp_ActorOf (recorded sp) n (w, l) = sp_ActorOf sp n w"
  "sp_TellBootstrapTools (recorded sp) pid ts (w, l) = (sp_TellBootstrapTools sp pid ts w, l)"
  by (simp_all add: recorded_def case_prod_unfold Let_def)

lemma views_from_Cons [simp]:
  "views_from name ((n, d) # l) = (if n = name then d # map snd l else views_from name l)"
  by (simp add: views_from_def)

lemma spawnRegistrar_recorded:
  assumes "spawnRegistrar (recorded sp) config (w, l) = ((w', l'), Some pid)"
  shows "(\<exists>d. l' = l @ [(ActorNameRegistrar, d)]) \<and> (finds_spawned sp \<longrightarrow> sp_ActorOf sp ActorNameRegistrar w' = Inr pid)"
  using assms
  by (auto simp: spawnRegistrar_def finds_spawned_def split: if_splits sum.splits prod.splits; metis prod.collapse)

section \<open>Properties\<close>


text \<open>A spawner whose world is the list of the names spawned; a name's handle is its position.\<close>

definition index_of :: "string \<Rightarrow> string list \<Rightarrow> nat" where
  "index_of name names = length (takeWhile (\<lambda>n. n \<noteq> name) names)"

definition naming_spawner :: "string list spawner" where
  "naming_spawner =
     \<lparr>sp_Spawn = \<lambda>name mailbox names. (names @ [name], Some (index_of name (names @ [name]))),
      sp_SpawnSingleton = \<lambda>name role names. (names @ [name], Inr (index_of name (names @ [name]))),
      sp_IsSingletonAlreadyExists = \<lambda>_. False,
      sp_ActorOf = \<lambda>name names. if name \<in> set names then Inr (index_of name names) else Inl (PlainErr ''not found''),
      sp_IsRunning = \<lambda>_ _. True, sp_TellBootstrapTools = \<lambda>_ _ names. names\<rparr>"

lemma index_of_append: "name \<in> set names \<Longrightarrow> index_of name (names @ more_names) = index_of name names"
  by (simp add: index_of_def takeWhile_append1)

lemma naming_spawner_finds: "finds_spawned naming_spawner"
  by (auto simp: finds_spawned_def naming_spawner_def index_of_append split: if_splits)


end
