(* ===== verification/Actor_Loops.thy ===== *)
theory Actor_Loops
  imports Foundation Audit_Journal Ingress_Handlers
begin

text \<open>
  The message loops of the foundational actors (the \<open>Receive\<close> methods of policy.go,
  credential_broker.go, journal.go and router.go in internal/runtime/actor), the start of the
  journal, how a session grain finds its supervisor, the keep-alive loop of the WebSocket
  handler (internal/ingress/ws/handler.go) and the version the library reports of itself
  (mcp/version.go).
\<close>

section \<open>Message loops\<close>

text \<open>What a loop does with a message: no reply, a reply, or the message is not handled.\<close>

datatype 'r loop_out = NoReply | Replied 'r | Unhandled

datatype policy_msg = PolicyPostStart | EvaluateRequest "Input option" | PolicyOther

fun policy_Receive :: "time \<Rightarrow> policyMaker \<Rightarrow> policy_msg \<Rightarrow> policyMaker \<times> Result loop_out" where
  "policy_Receive now x PolicyPostStart = (x, NoReply)"
| "policy_Receive now x (EvaluateRequest i) = (let (x, r) = handleEvaluate now i x in (x, Replied r))"
| "policy_Receive now x PolicyOther = (x, Unhandled)"

datatype broker_msg = BrokerPostStart | ResolveRequest TenantID ToolID | BrokerOther

fun broker_Receive ::
  "resolve_clock \<Rightarrow> credentialBroker \<Rightarrow> broker_msg \<Rightarrow> credentialBroker \<times> ResolveResult loop_out" where
  "broker_Receive clk x BrokerPostStart = (x, NoReply)"
| "broker_Receive clk x (ResolveRequest t u) = (let (x, r) = handleResolve clk t u x in (x, Replied r))"
| "broker_Receive clk x BrokerOther = (x, Unhandled)"

text \<open>
  The journal opens the sink of its configuration and takes the audit stream of the
  extension, when there is one.
\<close>

definition journal_PreStart :: "(audit_sink \<Rightarrow> 's) \<Rightarrow> Config \<Rightarrow> AuditEvent list option \<Rightarrow> 's journaler" where
  "journal_PreStart sinkOf config streamExt =
     \<lparr>jr_sink = Some (sinkOf (createAuditSink (cfg_Audit config))), jr_stream = streamExt\<rparr>"

datatype journal_msg = JournalPostStart | RecordAuditEvent "AuditEvent option" | JournalOther

fun journal_Receive ::
  "(AuditEvent \<Rightarrow> 's \<Rightarrow> 's \<times> go_error option) \<Rightarrow> 's journaler \<Rightarrow> journal_msg \<Rightarrow> 's journaler \<times> unit loop_out" where
  "journal_Receive wr x JournalPostStart = (x, NoReply)"
| "journal_Receive wr x (RecordAuditEvent ev) = (handleRecordAuditEvent wr x ev, NoReply)"
| "journal_Receive wr x JournalOther = (x, Unhandled)"

text \<open>
  The router: \<open>None\<close> as the reply to an invocation means that its handler panicked. The audit
  events go to the journal.
\<close>

datatype router_msg =
    RouterPostStart
  | RouteInvocation "Invocation option"
  | RouteInvokeStream "Invocation option"
  | RouterOther

datatype router_reply = RouteReply RouteResult | RouteStreamReply RouteStreamResult

fun router_Receive ::
  "'w system \<Rightarrow> directory \<Rightarrow> router \<Rightarrow> time \<Rightarrow> router_actors \<Rightarrow> router_msg \<Rightarrow> 'w \<Rightarrow>
     'w \<times> router_actors \<times> router_reply loop_out \<times> AuditEvent list" where
  "router_Receive sys ActorOf ro now actors RouterPostStart w = (w, fst (router_resolveActors ActorOf actors), NoReply, [])"
| "router_Receive sys ActorOf ro now actors (RouteInvocation ivk) w =
     (case handleRouteInvocation sys ro now ivk w of
        (w, None, evs) \<Rightarrow> (w, actors, NoReply, evs)
      | (w, Some r, evs) \<Rightarrow> (w, actors, Replied (RouteReply r), evs))"
| "router_Receive sys ActorOf ro now actors (RouteInvokeStream ivk) w =
     (case handleRouteInvokeStream sys ro now ivk w of
        (w, r, evs) \<Rightarrow> (w, actors, Replied (RouteStreamReply r), evs))"
| "router_Receive sys ActorOf ro now actors RouterOther w = (w, actors, Unhandled, [])"

section \<open>The supervisor of a session\<close>

text \<open>\<open>system\<close> is nil before the grain is activated; a lookup may fail, return nil or a stopped actor.\<close>

definition resolveSupervisor ::
  "(string \<Rightarrow> go_error + handle option) option \<Rightarrow> (handle \<Rightarrow> bool) \<Rightarrow> sessionGrain \<Rightarrow> handle option" where
  "resolveSupervisor system IsRunning g =
     (case system of
        None \<Rightarrow> None
      | Some ActorOf \<Rightarrow>
          (case ActorOf (ToolSupervisorName (gr_toolID g)) of
             Inr (Some pid) \<Rightarrow> if IsRunning pid then Some pid else None
           | _ \<Rightarrow> None))"

section \<open>Keeping a connection alive\<close>

text \<open>
  The loop waits for the ticker or for the end of the connection; \<open>events\<close> is the order in
  which they come. An error of a ping is ignored. The result says whether the loop ended.
\<close>

datatype ping_event = PingTick | PingDone

fun pingLoop :: "('n \<Rightarrow> 'n) \<Rightarrow> ping_event list \<Rightarrow> 'n \<Rightarrow> 'n \<times> bool" where
  "pingLoop WriteControl [] conn = (conn, False)"
| "pingLoop WriteControl (PingDone # events) conn = (conn, True)"
| "pingLoop WriteControl (PingTick # events) conn = pingLoop WriteControl events (WriteControl conn)"

section \<open>The version of the library\<close>

record build_module =
  bm_Path :: string
  bm_Version :: string

record build_info =
  bi_Main :: build_module
  bi_Deps :: "build_module list"

definition modulePath :: string where "modulePath = ''github.com/tochemey/goakt-mcp''"

definition Version :: "build_info option \<Rightarrow> string" where
  "Version info =
     (case info of
        None \<Rightarrow> ''dev''
      | Some info \<Rightarrow>
          if bm_Path (bi_Main info) = modulePath \<and> bm_Version (bi_Main info) \<noteq> '''' \<and> bm_Version (bi_Main info) \<noteq> ''(devel)''
          then bm_Version (bi_Main info)
          else case find (\<lambda>dep. bm_Path dep = modulePath) (bi_Deps info) of
                 Some dep \<Rightarrow> bm_Version dep
               | None \<Rightarrow> ''dev'')"

section \<open>Runs of the loops\<close>

text \<open>Only requests count: a run of a loop is the run of its handler over them.\<close>

fun evaluated :: "policy_msg \<Rightarrow> Input option" where
  "evaluated (EvaluateRequest i) = i"
| "evaluated _ = None"

lemma policy_loop_state:
  "fst (policy_Receive now x msg) = (case evaluated msg of None \<Rightarrow> x | Some i \<Rightarrow> fst (handleEvaluate now (Some i) x))"
  by (cases msg) (simp_all add: handleEvaluate_def split: option.split prod.split)

fun recorded :: "journal_msg \<Rightarrow> AuditEvent option" where
  "recorded (RecordAuditEvent ev) = ev"
| "recorded _ = None"

lemma journal_loop_run:
  "foldl (\<lambda>x m. fst (journal_Receive wr x m)) x ms = foldl (handleRecordAuditEvent wr) x (map recorded ms)"
proof (induction ms arbitrary: x)
  case (Cons m ms)
  have "fst (journal_Receive wr x m) = handleRecordAuditEvent wr x (recorded m)"
    by (cases m) (simp_all add: handleRecordAuditEvent_def)
  with Cons show ?case by simp
qed simp

lemma pingLoop_ends: "pingLoop wc (replicate k PingTick @ PingDone # later) conn = ((wc ^^ k) conn, True)"
  by (induction k arbitrary: conn) (simp_all add: funpow_swap1)

section \<open>Properties\<close>

text \<open>From its start to its stop, whatever messages reach it, the journal has written to a memory
  sink, and published on the audit stream, exactly the events of the audit messages, in the
  order they arrived; start messages, empty audit messages and unknown messages leave no
  trace, and unknown messages are the only ones it does not handle.\<close>

theorem journal_loop_complete:
  assumes "\<And>s. sinkOf s = NewMemorySink"
  shows "let x = journal_PreStart sinkOf config (Some []);
             y = foldl (\<lambda>x m. fst (journal_Receive MemorySink_Write x m)) x ms in
    map_option MemorySink_Events (jr_sink (journal_PostStop MemorySink_Close y)) = Some (List.map_filter recorded ms) \<and>
    jr_stream y = Some (List.map_filter recorded ms) \<and>
    (\<forall>m. snd (journal_Receive MemorySink_Write y m) = Unhandled \<longleftrightarrow> m = JournalOther)"
proof -
  let ?x = "journal_PreStart sinkOf config (Some [])"
  have x: "jr_sink ?x = Some NewMemorySink" "jr_stream ?x = Some []"
    by (simp_all add: journal_PreStart_def assms)
  let ?y = "foldl (\<lambda>x m. fst (journal_Receive MemorySink_Write x m)) ?x ms"
  obtain m' where "jr_sink ?y = Some m'" "MemorySink_Events m' = List.map_filter id (map recorded ms)"
      "jr_stream ?y = Some (List.map_filter id (map recorded ms))"
    using mem.journal_run [of ?x NewMemorySink "[]" "map recorded ms"] x
    by (auto simp: journal_loop_run MemorySink_Events_def NewMemorySink_def)
  moreover have "List.map_filter id (map recorded ms) = List.map_filter recorded ms"
    by (induction ms) (auto simp: List.map_filter_def)
  moreover have "snd (journal_Receive MemorySink_Write y m) = Unhandled \<longleftrightarrow> m = JournalOther" for y m
    by (cases m) simp_all
  ultimately show ?thesis
    by (auto simp: Let_def journal_PostStop_def MemorySink_Close_def MemorySink_Events_def)
qed

end
