(* ===== verification/Router_Frame.thy ===== *)
theory Router_Frame
  imports Router
begin

text \<open>
  The router (internal/runtime/actor/router.go, router_pipeline.go) as a client of the
  actors it asks: what their answers keep, a route keeps. The locales name the questions
  the router asks; their lemmas go through the stages of the pipeline once.
\<close>

section \<open>What the router keeps\<close>

text \<open>
  A property of the system that the router's questions keep: those to the registrar and for
  admission, then also the question to the policy actor, or also those that resolve
  credentials and session and execute, and last all of them.
\<close>

fun router_question :: "reg_msg \<Rightarrow> bool" where
  "router_question (QueryTool u) \<longleftrightarrow> True"
| "router_question (CountSessionsForTenant t) \<longleftrightarrow> True"
| "router_question (GetSupervisor u) \<longleftrightarrow> True"
| "router_question _ \<longleftrightarrow> False"

locale asking_system =
  fixes sys :: "'w system" and keep :: "'w \<Rightarrow> bool"
  assumes asks_registrar: "keep w \<Longrightarrow> router_question msg \<Longrightarrow> keep (fst (sys_Registrar sys msg w))"
    and asks_acceptance: "keep w \<Longrightarrow> keep (fst (sys_Supervisor sys pid (CanAcceptWork u) w))"
begin

lemma lookup_keeps:
  assumes "keep w"
  shows "keep (fst (lookupTool sys u w))" "keep (fst (lookupSupervisor sys u w))"
  using asks_registrar [OF assms, of "QueryTool u"] asks_registrar [OF assms, of "GetSupervisor u"]
  by (auto simp: lookupTool_def lookupSupervisor_def split: prod.splits sum.splits reg_reply.splits option.splits)

lemma active_keeps: "keep w \<Longrightarrow> keep (fst (active_sessions sys x t w))"
  using asks_registrar [of w "CountSessionsForTenant t"]
  by (auto simp: active_sessions_def split: prod.splits sum.splits reg_reply.splits)

lemma acceptance_keeps: "keep w \<Longrightarrow> keep (fst (checkAcceptWork sys pid u tool w))"
  using asks_acceptance [of w pid u] by (auto simp: checkAcceptWork_def split: prod.splits sum.splits sup_reply.splits)

end

locale admitting_system = asking_system +
  assumes asks_policy: "keep w \<Longrightarrow> keep (fst (sys_Policy sys i w))"
begin

lemma policy_keeps:
  assumes "keep w"
  shows "keep (fst (evaluatePolicy sys x ivk tool t c w))"
  using asks_policy active_keeps [OF assms, of x t] assms
  by (auto simp: evaluatePolicy_def Let_def split: prod.splits sum.splits option.splits) (metis fst_conv)+

lemma pipeline_cases:
  assumes "keep w" and "runPreExecutionPipeline sys x ivk t c w = (w', r)"
  obtains (refused) f where "r = Inl f" "keep w'"
  | (accepted) w1 tool w2 w3 pid w4 where "lookupTool sys (inv_ToolID ivk) w = (w1, Inr tool)"
      "evaluatePolicy sys x ivk tool t c w1 = (w2, None)" "lookupSupervisor sys (inv_ToolID ivk) w2 = (w3, Inr pid)"
      "checkAcceptWork sys pid (inv_ToolID ivk) tool w3 = (w4, None)" "keep w1" "keep w2" "keep w3" "keep w4"
proof -
  obtain w1 a where s1: "lookupTool sys (inv_ToolID ivk) w = (w1, a)" by fastforce
  then have k1: "keep w1" using lookup_keeps(1) [OF assms(1)] by (metis fst_conv)
  show thesis
  proof (cases a)
    case (Inl e)
    with pipeline_stops(1) [of sys ivk w w1 e x t c] s1 k1 assms(2) refused show thesis by (auto simp: isl_def)
  next
    case (Inr tool)
    note s1 = s1 [unfolded Inr]
    obtain w2 b where s2: "evaluatePolicy sys x ivk tool t c w1 = (w2, b)" by fastforce
    then have k2: "keep w2" using policy_keeps [OF k1] by (metis fst_conv)
    show thesis
    proof (cases b)
      case (Some e)
      with pipeline_stops(2) [OF s1, of x t c w2 e] s2 k2 assms(2) refused show thesis by (auto simp: isl_def)
    next
      case None
      note s2 = s2 [unfolded None]
      obtain w3 d where s3: "lookupSupervisor sys (inv_ToolID ivk) w2 = (w3, d)" by fastforce
      then have k3: "keep w3" using lookup_keeps(2) [OF k2] by (metis fst_conv)
      show thesis
      proof (cases d)
        case (Inl e)
        with pipeline_stops(3) [OF s1 s2, of w3 e] s3 k3 assms(2) refused show thesis by (auto simp: isl_def)
      next
        case (Inr pid)
        note s3 = s3 [unfolded Inr]
        obtain w4 f where s4: "checkAcceptWork sys pid (inv_ToolID ivk) tool w3 = (w4, f)" by fastforce
        then have k4: "keep w4" using acceptance_keeps [OF k3] by (metis fst_conv)
        show thesis
        proof (cases f)
          case (Some e)
          with pipeline_continues [OF s1 s2 s3 s4] k4 assms(2) refused show thesis by (auto simp: isl_def)
        next
          case None
          with accepted s1 s2 s3 s4 k1 k2 k3 k4 show thesis by blast
        qed
      qed
    qed
  qed
qed

end

locale settling_system = asking_system +
  assumes asks_broker: "keep w \<Longrightarrow> keep (fst (sys_Broker sys t u w))"
    and asks_session: "keep w \<Longrightarrow> keep (fst (sys_Supervisor sys pid (GetOrCreateSession t c u creds) w))"
    and asks_grain: "keep w \<Longrightarrow> keep (fst (sys_Grain sys name d m w))"
begin

lemma credentials_keep: "keep w \<Longrightarrow> keep (fst (resolveCredentials sys ivk tool t w))"
  using asks_broker [of w t "inv_ToolID ivk"]
  by (auto simp: resolveCredentials_def split: prod.splits sum.splits option.splits)

lemma session_keeps: "keep w \<Longrightarrow> keep (fst (resolveSession sys pid t c u creds w))"
  using asks_session [of w pid t c u creds]
  by (auto simp: resolveSession_def split: prod.splits sum.splits sup_reply.splits option.splits bool.splits)

text \<open>Once the policy actor has allowed the request, it is not asked again.\<close>

lemma pipeline_after:
  assumes "lookupTool sys (inv_ToolID ivk) w = (w1, Inr tool)" and "evaluatePolicy sys x ivk tool t c w1 = (w2, None)"
    and "keep w2"
  shows "keep (fst (runPreExecutionPipeline sys x ivk t c w))"
proof -
  obtain w3 a where s3: "lookupSupervisor sys (inv_ToolID ivk) w2 = (w3, a)" by fastforce
  then have k3: "keep w3" using lookup_keeps(2) [OF assms(3)] by (metis fst_conv)
  show ?thesis
  proof (cases a)
    case (Inl e)
    with pipeline_stops(3) [OF assms(1,2)] s3 k3 show ?thesis by blast
  next
    case (Inr pid)
    obtain w4 b where s4: "checkAcceptWork sys pid (inv_ToolID ivk) tool w3 = (w4, b)" by fastforce
    then have k4: "keep w4" using acceptance_keeps [OF k3] by (metis fst_conv)
    obtain w5 d where c: "resolveCredentials sys ivk tool t w4 = (w5, d)" by fastforce
    then have k5: "keep w5" using credentials_keep [OF k4] by (metis fst_conv)
    then have "keep (fst (resolveSession sys pid t c (inv_ToolID ivk) cr w5))" for cr
      by (rule session_keeps)
    with k4 k5 pipeline_continues [OF assms(1,2) s3 [unfolded Inr] s4] c show ?thesis
      by (auto split: option.splits sum.splits prod.splits) (metis fst_conv)+
  qed
qed

lemma execute_keeps:
  assumes "keep w"
  shows "keep (fst (executeInvocation sys name ivk tool w))" "keep (fst (executeInvocationStream sys name ivk tool w))"
  using asks_grain [OF assms, of name "exec_timeout tool"]
  by (auto simp: executeInvocation_def executeInvocationStream_def
      split: prod.splits sum.splits grain_reply.splits SessionInvokeResult.splits SessionInvokeStreamResult.splits option.splits)
    (metis fst_conv)+

end

locale executing_system = admitting_system + settling_system
begin

lemma pipeline_keeps:
  assumes "keep w"
  shows "keep (fst (runPreExecutionPipeline sys x ivk t c w))"
proof -
  obtain w' r where run: "runPreExecutionPipeline sys x ivk t c w = (w', r)" by fastforce
  from assms run show ?thesis
  proof (cases rule: pipeline_cases)
    case (accepted w1 tool w2 w3 pid w4)
    from pipeline_after [OF accepted(1,2,6)] show ?thesis .
  qed (simp add: run)
qed

lemma route_keeps:
  assumes "keep w"
  shows "keep (fst (handleRouteInvocation sys x now msg w))" "keep (fst (handleRouteInvokeStream sys x now msg w))"
proof -
  have "keep w2" if "runPreExecutionPipeline sys x ivk t c w = (w1, p)"
      "executeInvocation sys s i u w1 = (w2, r) \<or> executeInvocationStream sys s i u w1 = (w2, r')" for ivk t c w1 p s i u w2 r r'
    using that pipeline_keeps [OF assms, of x ivk t c] execute_keeps [of w1 s i u] by auto
  moreover have "keep w1" if "runPreExecutionPipeline sys x ivk t c w = (w1, p)" for ivk t c w1 p
    using that pipeline_keeps [OF assms, of x ivk t c] by auto
  ultimately show "keep (fst (handleRouteInvocation sys x now msg w))" "keep (fst (handleRouteInvokeStream sys x now msg w))"
    using assms
    by (auto simp: handleRouteInvocation_def handleRouteInvokeStream_def Let_def
        split: option.splits prod.splits sum.splits; metis)+
qed

end

end
