(* ===== verification/Node.thy ===== *)
theory Node
  imports Gateway_Api Router_Frame
begin

text \<open>
  One node: the actors of the other theories put together. The state of a node holds the
  registrar, the policy actor, the credential broker, the running tool supervisors and the
  session layer. A message is handled by the model of the actor it is sent to; messages
  told to other actors are handled in the order they were sent, before the next question
  is asked, which is the order in which the mailboxes of one node hold them.

  The actor runtime stays an argument: \<open>node_env\<close> says which process a name gets when it
  is spawned, what the clock shows at each reading, and how the session layer activates a
  grain and asks it; \<open>Node_Grains\<close> instantiates the session layer by the session grains
  of the model.
\<close>

section \<open>The state of a node\<close>

text \<open>
  The session layer: activating a grain and asking it, with the messages the grains tell
  to supervisors, by actor name.
\<close>

type_synonym told = "(string \<times> sup_msg) list"

record 'b session_layer =
  sl_GrainIdentity :: "('b \<times> told) grain_engine"
  sl_AskGrain :: "string \<Rightarrow> duration \<Rightarrow> grain_msg \<Rightarrow> 'b \<Rightarrow> ('b \<times> told) \<times> (go_error + grain_reply)"

record 'b node_env =
  ne_Spawn :: "string \<Rightarrow> handle option"
  ne_Now :: "nat \<Rightarrow> time"
  ne_circuit :: "CircuitConfig option"
  ne_FetchSchemas :: "(Tool \<Rightarrow> go_error + ToolSchema list) option option"
  ne_FetchResources :: "(Tool \<Rightarrow> go_error + (ResourceSchema list \<times> ResourceTemplateSchema list)) option option"
  ne_layer :: "'b session_layer"

text \<open>\<open>nd_tick\<close> counts the readings of the clock.\<close>

record 'b node =
  nd_registrar :: registrar
  nd_policy :: policyMaker
  nd_broker :: credentialBroker
  nd_supervisors :: "handle \<Rightarrow> (string \<times> toolSupervisor) option"
  nd_sessions :: 'b
  nd_tick :: nat

abbreviation timed_out :: go_error where
  "timed_out \<equiv> PlainErr ''request timed out''"

section \<open>Supervisors\<close>

definition node_ctx :: "'b node_env \<Rightarrow> 'b node \<Rightarrow> string \<Rightarrow> receive_ctx" where
  "node_ctx env n self =
     \<lparr>ctx_now = ne_Now env (nd_tick n), ctx_auditNow = ne_Now env (Suc (nd_tick n)), ctx_Self = self,
      ctx_ActorOf_journal = None, ctx_journalRunning = True, ctx_toolExt = rg_ext (nd_registrar n),
      ctx_circuitExt = ne_circuit env\<rparr>"

text \<open>The supervisor \<open>pid\<close> handles one message; \<open>None\<close> when it does not run.\<close>

definition sup_handle :: "'b node_env \<Rightarrow> handle \<Rightarrow> sup_msg \<Rightarrow> 'b node \<Rightarrow> ('b node \<times> told) \<times> sup_out option" where
  "sup_handle env pid msg n =
     (case nd_supervisors n pid of
        None \<Rightarrow> ((n, []), None)
      | Some (name, x) \<Rightarrow>
          (let ((b, ms), x, out) =
             supervisor_Receive (sl_GrainIdentity (ne_layer env)) (node_ctx env n name) x msg (nd_sessions n, [])
           in ((n\<lparr>nd_sessions := b, nd_supervisors := (nd_supervisors n)(pid \<mapsto> (name, x)),
                  nd_tick := nd_tick n + 2\<rparr>, ms), Some out)))"

text \<open>A message told to a supervisor.\<close>

definition sup_tell :: "'b node_env \<Rightarrow> 'b node \<Rightarrow> handle \<times> sup_msg \<Rightarrow> 'b node" where
  "sup_tell env n m = fst (fst (sup_handle env (fst m) (snd m) n))"

text \<open>The messages of the sessions, which find their supervisor by its name.\<close>

definition deliver :: "'b node_env \<Rightarrow> told \<Rightarrow> 'b node \<Rightarrow> 'b node" where
  "deliver env ms n =
     foldl (\<lambda>n (name, m). case ne_Spawn env name of None \<Rightarrow> n | Some pid \<Rightarrow> sup_tell env n (pid, m)) n ms"

definition node_AskSupervisor :: "'b node_env \<Rightarrow> handle \<Rightarrow> sup_msg \<Rightarrow> 'b node \<Rightarrow> 'b node \<times> (go_error + sup_reply)" where
  "node_AskSupervisor env pid msg n =
     (let ((n, ms), out) = sup_handle env pid msg n
      in (deliver env ms n, case Option.bind out so_reply of None \<Rightarrow> Inl timed_out | Some r \<Rightarrow> Inr r))"

section \<open>The registrar\<close>

definition node_reg_env :: "'b node_env \<Rightarrow> 'b node \<Rightarrow> reg_env" where
  "node_reg_env env n =
     \<lparr>re_Spawn = ne_Spawn env, re_IsRunning = \<lambda>pid. nd_supervisors n pid \<noteq> None,
      re_Ask = \<lambda>pid msg. snd (node_AskSupervisor env pid msg n),
      re_FetchSchemas = ne_FetchSchemas env, re_FetchResources = ne_FetchResources env\<rparr>"

text \<open>
  The questions the registrar asks supervisors while it handles a message, and the
  supervisors it spawns.
\<close>

definition relay_asks :: "reg_env \<Rightarrow> ToolID \<Rightarrow> sup_msg \<Rightarrow> registrar \<Rightarrow> (handle \<times> sup_msg) list" where
  "relay_asks env toolID msg x =
     (if \<not> catalog_Has toolID (rg_catalog x) then []
      else case gm_get (rg_supervisors x) toolID of
             None \<Rightarrow> []
           | Some pid \<Rightarrow> if \<not> re_IsRunning env pid then [] else [(pid, msg)])"

fun reg_asks :: "reg_env \<Rightarrow> registrar \<Rightarrow> reg_msg \<Rightarrow> (handle \<times> sup_msg) list" where
  "reg_asks env x (RegGetToolStatus u) = relay_asks env u (GetToolStatus u) x"
| "reg_asks env x (RegResetCircuit u) = relay_asks env u (ResetCircuit u) x"
| "reg_asks env x (RegDrainTool u) = relay_asks env u (DrainTool u) x"
| "reg_asks env x (CountSessionsForTenant t) =
     map (\<lambda>pid. (pid, SupervisorCountSessionsForTenant t)) (runningSupervisors env x)"
| "reg_asks env x ListAllSessions = map (\<lambda>pid. (pid, ListSupervisorSessions)) (runningSupervisors env x)"
| "reg_asks env x _ = []"

fun reg_spawns :: "reg_msg \<Rightarrow> string list" where
  "reg_spawns (reg_msg.RegisterTool tool) =
     (if ValidateTool tool = None then [ToolSupervisorName (tool_ID tool)] else [])"
| "reg_spawns (BootstrapTools tools) =
     map (\<lambda>tool. ToolSupervisorName (tool_ID tool)) (filter (\<lambda>tool. ValidateTool tool = None) tools)"
| "reg_spawns _ = []"

definition node_stop :: "'b node \<Rightarrow> handle \<Rightarrow> 'b node" where
  "node_stop n pid = n\<lparr>nd_supervisors := (nd_supervisors n)(pid := None)\<rparr>"

definition node_spawn :: "'b node_env \<Rightarrow> 'b node \<Rightarrow> string \<Rightarrow> 'b node" where
  "node_spawn env n name =
     (case ne_Spawn env name of
        None \<Rightarrow> n
      | Some pid \<Rightarrow>
          sup_tell env (n\<lparr>nd_supervisors := (nd_supervisors n)(pid \<mapsto> (name, supervisor_PreStart))\<rparr>) (pid, PostStart))"

definition node_AskRegistrar :: "'b node_env \<Rightarrow> reg_msg \<Rightarrow> 'b node \<Rightarrow> 'b node \<times> (go_error + reg_reply)" where
  "node_AskRegistrar env msg n =
     (let renv = node_reg_env env n;
          asks = reg_asks renv (nd_registrar n) msg;
          (x, out) = registrar_Receive renv (nd_registrar n) msg;
          n = foldl (sup_tell env) n asks;
          n = n\<lparr>nd_registrar := x\<rparr>;
          n = foldl node_stop n (ro_stops out);
          n = foldl (node_spawn env) n (reg_spawns msg);
          n = foldl (sup_tell env) n (ro_tells out)
      in (n, case ro_reply out of None \<Rightarrow> Inl timed_out | Some r \<Rightarrow> Inr r))"

section \<open>Policy, credentials and sessions\<close>

definition node_AskPolicy :: "'b node_env \<Rightarrow> Input \<Rightarrow> 'b node \<Rightarrow> 'b node \<times> (go_error + Result option)" where
  "node_AskPolicy env i n =
     (let (x, r) = handleEvaluate (ne_Now env (nd_tick n)) (Some i) (nd_policy n)
      in (n\<lparr>nd_policy := x, nd_tick := nd_tick n + 1\<rparr>, Inr (Some r)))"

definition node_AskBroker ::
  "'b node_env \<Rightarrow> TenantID \<Rightarrow> ToolID \<Rightarrow> 'b node \<Rightarrow> 'b node \<times> (go_error + ResolveResult option)" where
  "node_AskBroker env t u n =
     (let k = nd_tick n;
          asks = length (br_providers (nd_broker n));
          clk = \<lparr>clk_check = ne_Now env k, clk_touch = ne_Now env (k + 1), clk_asked = \<lambda>i. ne_Now env (k + 2 + i),
                 clk_evict = ne_Now env (k + 2 + asks), clk_store = ne_Now env (k + 3 + asks)\<rparr>;
          (x, r) = handleResolve clk t u (nd_broker n)
      in (n\<lparr>nd_broker := x, nd_tick := k + 4 + asks\<rparr>, Inr (Some r)))"

definition node_AskGrain ::
  "'b node_env \<Rightarrow> string \<Rightarrow> duration \<Rightarrow> grain_msg \<Rightarrow> 'b node \<Rightarrow> 'b node \<times> (go_error + grain_reply)" where
  "node_AskGrain env name d msg n =
     (let ((b, ms), r) = sl_AskGrain (ne_layer env) name d msg (nd_sessions n)
      in (deliver env ms (n\<lparr>nd_sessions := b\<rparr>), r))"

section \<open>The node as the router's system of actors\<close>

definition node_sys :: "'b node_env \<Rightarrow> 'b node system" where
  "node_sys env =
     \<lparr>sys_Registrar = node_AskRegistrar env, sys_Policy = node_AskPolicy env, sys_Broker = node_AskBroker env,
      sys_Supervisor = node_AskSupervisor env, sys_Grain = node_AskGrain env,
      sys_registrarUp = \<lambda>_. True, sys_policyUp = \<lambda>_. True, sys_brokerUp = \<lambda>_. True, sys_journalUp = \<lambda>_. True,
      sys_supervisorUp = \<lambda>pid n. nd_supervisors n pid \<noteq> None\<rparr>"

lemma node_sys_simps [simp]:
  "sys_Registrar (node_sys env) = node_AskRegistrar env" "sys_Policy (node_sys env) = node_AskPolicy env"
  "sys_Broker (node_sys env) = node_AskBroker env" "sys_Supervisor (node_sys env) = node_AskSupervisor env"
  "sys_Grain (node_sys env) = node_AskGrain env" "sys_policyUp (node_sys env) n" "sys_registrarUp (node_sys env) n"
  "sys_brokerUp (node_sys env) n" "sys_journalUp (node_sys env) n"
  "sys_supervisorUp (node_sys env) pid n \<longleftrightarrow> nd_supervisors n pid \<noteq> None"
  by (simp_all add: node_sys_def)

text \<open>
  What happens on a node: the registrar gets a message (from the gateway, the health checker
  or discovery), the router gets an invocation, or the sessions do something of their own
  (a stream ends, an idle session goes) and tell their supervisors.
\<close>

datatype 'b node_event =
    Manage reg_msg
  | Route time "Invocation option"
  | RouteStream time "Invocation option"
  | Sessions 'b told

fun node_step :: "'b node_env \<Rightarrow> router \<Rightarrow> 'b node \<Rightarrow> 'b node_event \<Rightarrow> 'b node" where
  "node_step env ro n (Manage msg) = fst (node_AskRegistrar env msg n)"
| "node_step env ro n (Route now ivk) = fst (handleRouteInvocation (node_sys env) ro now ivk n)"
| "node_step env ro n (RouteStream now ivk) = fst (handleRouteInvokeStream (node_sys env) ro now ivk n)"
| "node_step env ro n (Sessions b ms) = deliver env ms (n\<lparr>nd_sessions := b\<rparr>)"

definition node_start :: "Config \<Rightarrow> 'b \<Rightarrow> 'b node" where
  "node_start config b =
     \<lparr>nd_registrar = registrar_PreStart (Some []), nd_policy = newPolicyMaker config,
      nd_broker = broker_PreStart config, nd_supervisors = \<lambda>_. None, nd_sessions = b, nd_tick = 0\<rparr>"

section \<open>What handling a message changes\<close>

fun session_msg :: "sup_msg \<Rightarrow> bool" where
  "session_msg (ReportFailure u) \<longleftrightarrow> True"
| "session_msg (ReportSuccess u) \<longleftrightarrow> True"
| "session_msg (SessionActivated t c u) \<longleftrightarrow> True"
| "session_msg (SessionDeactivated t c u) \<longleftrightarrow> True"
| "session_msg _ \<longleftrightarrow> False"

abbreviation session_told :: "told \<Rightarrow> bool" where
  "session_told ms \<equiv> \<forall>m \<in> set ms. session_msg (snd m)"

fun session_request :: "sup_msg \<Rightarrow> bool" where
  "session_request (GetOrCreateSession t c u creds) \<longleftrightarrow> True"
| "session_request _ \<longleftrightarrow> False"

text \<open>The runtime: two names never share a process, and sessions only report to supervisors.\<close>

definition layer_ok :: "'b session_layer \<Rightarrow> bool" where
  "layer_ok L \<longleftrightarrow>
     (\<forall>name dep idle b. session_told (snd (fst (sl_GrainIdentity L name dep idle (b, []))))) \<and>
     (\<forall>name d m b. session_told (snd (fst (sl_AskGrain L name d m b))))"

definition env_ok :: "'b node_env \<Rightarrow> bool" where
  "env_ok env \<longleftrightarrow> (\<forall>a b p. ne_Spawn env a = Some p \<longrightarrow> ne_Spawn env b = Some p \<longrightarrow> a = b) \<and> layer_ok (ne_layer env)"

definition sup_after :: "'b node_env \<Rightarrow> handle \<Rightarrow> sup_msg \<Rightarrow> 'b node \<Rightarrow> (string \<times> toolSupervisor) option" where
  "sup_after env pid msg n =
     map_option (\<lambda>(name, x). (name, sup_step x (node_ctx env n name, msg))) (nd_supervisors n pid)"

lemma sup_handle_state:
  "nd_registrar (fst (fst (sup_handle env pid msg n))) = nd_registrar n"
  "nd_policy (fst (fst (sup_handle env pid msg n))) = nd_policy n"
  "nd_broker (fst (fst (sup_handle env pid msg n))) = nd_broker n"
  "nd_supervisors (fst (fst (sup_handle env pid msg n))) = (nd_supervisors n)(pid := sup_after env pid msg n)"
  by (auto simp: sup_handle_def sup_after_def Let_def case_prod_unfold supervisor_Receive_state
      split: option.split)

lemma supervisor_world:
  "\<not> session_request msg \<Longrightarrow> fst (supervisor_Receive g ctx x msg w) = w"
  by (cases msg) simp_all

lemma sup_handle_sessions:
  assumes "\<not> session_request msg"
  shows "nd_sessions (fst (fst (sup_handle env pid msg n))) = nd_sessions n" "snd (fst (sup_handle env pid msg n)) = []"
  by (simp_all add: sup_handle_def Let_def case_prod_unfold supervisor_world [OF assms] split: option.split)

lemma sup_handle_told:
  assumes "layer_ok (ne_layer env)"
  shows "session_told (snd (fst (sup_handle env pid msg n)))"
proof (cases "session_request msg")
  case False
  then show ?thesis by (simp add: sup_handle_sessions)
next
  case True
  then obtain t c u creds where "msg = GetOrCreateSession t c u creds" by (cases msg) auto
  with assms show ?thesis
    by (auto simp: sup_handle_def handleGetOrCreateSession_def layer_ok_def Let_def case_prod_unfold
        split: option.splits sum.splits)
qed

lemma sup_tell_state [simp]:
  "nd_registrar (sup_tell env n (pid, msg)) = nd_registrar n"
  "nd_policy (sup_tell env n (pid, msg)) = nd_policy n"
  "nd_broker (sup_tell env n (pid, msg)) = nd_broker n"
  "nd_supervisors (sup_tell env n (pid, msg)) = (nd_supervisors n)(pid := sup_after env pid msg n)"
  "\<not> session_request msg \<Longrightarrow> nd_sessions (sup_tell env n (pid, msg)) = nd_sessions n"
  by (simp_all add: sup_tell_def sup_handle_state sup_handle_sessions)

lemma session_msg_simps: "session_msg msg \<Longrightarrow> \<not> session_request msg \<and> \<not> config_msg (ctx, msg)"
  by (cases msg) simp_all

text \<open>A property that every message of the sessions keeps is kept by delivering them.\<close>

lemma deliver_keeps:
  assumes "session_told ms" and "P n"
    and "\<And>n pid m. P n \<Longrightarrow> session_msg m \<Longrightarrow> P (sup_tell env n (pid, m))"
  shows "P (deliver env ms n)"
  using assms(1,2)
proof (induction ms arbitrary: n)
  case Nil
  then show ?case by (simp add: deliver_def)
next
  case (Cons m ms)
  have "deliver env (m # ms) n =
      deliver env ms (case ne_Spawn env (fst m) of None \<Rightarrow> n | Some pid \<Rightarrow> sup_tell env n (pid, snd m))"
    by (simp add: deliver_def case_prod_unfold)
  with Cons assms(3) show ?case by (simp split: option.split)
qed

lemma node_AskSupervisor_eq:
  "fst (node_AskSupervisor env pid msg n) = deliver env (snd (fst (sup_handle env pid msg n))) (sup_tell env n (pid, msg))"
  by (simp add: node_AskSupervisor_def sup_tell_def Let_def case_prod_unfold)

lemma deliver_Nil [simp]: "deliver env [] n = n"
  by (simp add: deliver_def)

lemma node_AskSupervisor_quiet:
  "\<not> session_request msg \<Longrightarrow> fst (node_AskSupervisor env pid msg n) = sup_tell env n (pid, msg)"
  by (simp add: node_AskSupervisor_eq sup_handle_sessions)

section \<open>Coherence\<close>

text \<open>
  Every running process is the supervisor of one tool under that tool's name; except for
  the tools in \<open>U\<close>, the registrar knows it and it holds the definition the extension holds.
\<close>

definition coherent :: "'b node_env \<Rightarrow> registrar \<Rightarrow> (handle \<Rightarrow> (string \<times> toolSupervisor) option) \<Rightarrow> ToolID set \<Rightarrow> bool" where
  "coherent env x sups U \<longleftrightarrow>
     (\<forall>pid name sv. sups pid = Some (name, sv) \<longrightarrow> (\<exists>u. name = ToolSupervisorName u \<and> ne_Spawn env name = Some pid \<and>
        sup_inv u sv \<and> (u \<notin> U \<longrightarrow> gm_get (rg_supervisors x) u = Some pid \<and>
           Option.bind (rg_ext x) (ext_Get u) = Some (sv_tool sv)))) \<and>
     (\<forall>u pid. gm_get (rg_supervisors x) u = Some pid \<longrightarrow>
        ne_Spawn env (ToolSupervisorName u) = Some pid \<and> (u \<notin> U \<longrightarrow> sups pid \<noteq> None))"

abbreviation node_coherent :: "'b node_env \<Rightarrow> ToolID set \<Rightarrow> 'b node \<Rightarrow> bool" where
  "node_coherent env U n \<equiv> coherent env (nd_registrar n) (nd_supervisors n) U"

definition node_inv :: "'b node_env \<Rightarrow> 'b node \<Rightarrow> bool" where
  "node_inv env n \<longleftrightarrow> env_ok env \<and> reg_inv (nd_registrar n) \<and> rg_ext (nd_registrar n) \<noteq> None \<and> node_coherent env {} n"

lemma coherentD:
  assumes "coherent env x sups U" and "sups pid = Some (name, sv)"
  obtains u where "name = ToolSupervisorName u" "ne_Spawn env (ToolSupervisorName u) = Some pid" "sup_inv u sv"
    "u \<notin> U \<Longrightarrow> gm_get (rg_supervisors x) u = Some pid" "u \<notin> U \<Longrightarrow> Option.bind (rg_ext x) (ext_Get u) = Some (sv_tool sv)"
  using assms unfolding coherent_def by blast

lemma coherent_named:
  "coherent env x sups U \<Longrightarrow> gm_get (rg_supervisors x) u = Some pid \<Longrightarrow> ne_Spawn env (ToolSupervisorName u) = Some pid"
  unfolding coherent_def by blast

lemma spawn_inj:
  "env_ok env \<Longrightarrow> ne_Spawn env (ToolSupervisorName u) = Some pid \<Longrightarrow> ne_Spawn env (ToolSupervisorName v) = Some pid \<Longrightarrow> u = v"
  unfolding env_ok_def by (metis ToolSupervisorName_inject)

lemma coherent_running:
  assumes "env_ok env" and "coherent env x sups U" and "gm_get (rg_supervisors x) u = Some pid" and "u \<notin> U"
  obtains sv where "sups pid = Some (ToolSupervisorName u, sv)" "sup_inv u sv"
    "Option.bind (rg_ext x) (ext_Get u) = Some (sv_tool sv)"
proof -
  obtain name sv where s: "sups pid = Some (name, sv)"
    using assms(2-4) unfolding coherent_def by fastforce
  obtain v where v: "name = ToolSupervisorName v" "ne_Spawn env (ToolSupervisorName v) = Some pid" "sup_inv v sv"
    "v \<notin> U \<Longrightarrow> Option.bind (rg_ext x) (ext_Get v) = Some (sv_tool sv)"
    by (rule coherentD [OF assms(2) s]) blast
  have "u = v" by (rule spawn_inj [OF assms(1) coherent_named [OF assms(2,3)] v(2)])
  with v s assms(4) show thesis by (intro that [of sv]) simp_all
qed

text \<open>A message that is no configuration message leaves a coherent node coherent.\<close>

lemma sup_legal_plain: "\<not> config_msg (ctx, msg) \<Longrightarrow> sup_legal u (ctx, msg)"
  by (cases msg) simp_all

lemma coherent_update:
  assumes "coherent env x sups U" and "sups pid = Some (name, sv)" and "\<And>u. sup_inv u sv \<Longrightarrow> sup_inv u sv'"
    and "sv_tool sv' = sv_tool sv"
  shows "coherent env x (sups(pid \<mapsto> (name, sv'))) U"
proof -
  have "\<exists>u. name' = ToolSupervisorName u \<and> ne_Spawn env name' = Some p \<and> sup_inv u s \<and>
      (u \<notin> U \<longrightarrow> gm_get (rg_supervisors x) u = Some p \<and> Option.bind (rg_ext x) (ext_Get u) = Some (sv_tool s))"
    if "(sups(pid \<mapsto> (name, sv'))) p = Some (name', s)" for p name' s
    using that assms by (cases "p = pid") (auto elim!: coherentD)
  then show ?thesis using assms(1) unfolding coherent_def by (auto simp del: fun_upd_apply) simp
qed

lemma coherent_tell [keeps_inv]:
  assumes "node_coherent env U n" and "\<And>ctx. \<not> config_msg (ctx, msg)"
  shows "node_coherent env U (sup_tell env n (pid, msg))"
proof (cases "nd_supervisors n pid")
  case None
  then have "(nd_supervisors n)(pid := sup_after env pid msg n) = nd_supervisors n"
    by (auto simp: sup_after_def)
  with assms(1) show ?thesis by (simp del: fun_upd_apply)
next
  case (Some a)
  obtain name sv where a: "a = (name, sv)" by (cases a)
  let ?e = "(node_ctx env n name, msg)"
  have "coherent env (nd_registrar n) ((nd_supervisors n)(pid \<mapsto> (name, sup_step sv ?e))) U"
    using assms Some a
    by (intro coherent_update) (auto simp: sup_tool.step_frame sup_legal_plain intro: sup.legal_step_keeps)
  with Some a show ?thesis by (simp add: sup_after_def del: fun_upd_apply)
qed

section \<open>What the registrar changes\<close>

text \<open>The tools whose supervisor or definition a message may change.\<close>

fun touched :: "reg_msg \<Rightarrow> ToolID set" where
  "touched (reg_msg.RegisterTool t) = (if ValidateTool t = None then {tool_ID t} else {})"
| "touched (BootstrapTools ts) = {tool_ID t | t. t \<in> set ts \<and> ValidateTool t = None}"
| "touched (UpdateTool t) = {tool_ID t}"
| "touched (DisableTool u) = {u}"
| "touched (EnableTool u) = {u}"
| "touched (RemoveTool u) = {u}"
| "touched _ = {}"

abbreviation ext_tool :: "registrar \<Rightarrow> ToolID \<Rightarrow> Tool option" where
  "ext_tool x u \<equiv> Option.bind (rg_ext x) (ext_Get u)"

definition named :: "reg_env \<Rightarrow> registrar \<Rightarrow> bool" where
  "named env x \<longleftrightarrow> (\<forall>u pid. gm_get (rg_supervisors x) u = Some pid \<longrightarrow> re_Spawn env (ToolSupervisorName u) = Some pid)"

text \<open>A registrar in which the tools in \<open>U\<close> have just been installed.\<close>

definition installed :: "reg_env \<Rightarrow> ToolID set \<Rightarrow> registrar \<Rightarrow> registrar \<times> handle list \<Rightarrow> bool" where
  "installed env U x r \<longleftrightarrow>
     (rg_ext (fst r) = None \<longleftrightarrow> rg_ext x = None) \<and>
     (\<forall>u. u \<notin> U \<longrightarrow> gm_get (rg_supervisors (fst r)) u = gm_get (rg_supervisors x) u \<and> ext_tool (fst r) u = ext_tool x u) \<and>
     (\<forall>u \<in> U. gm_get (rg_supervisors (fst r)) u = re_Spawn env (ToolSupervisorName u) \<and>
        (rg_ext x \<noteq> None \<longrightarrow> ext_tool (fst r) u \<noteq> None)) \<and>
     (\<forall>p \<in> set (snd r). \<exists>u \<in> U. re_Spawn env (ToolSupervisorName u) = Some p)"

lemma installed_named: "named env x \<Longrightarrow> installed env U x r \<Longrightarrow> named env (fst r)"
  unfolding named_def installed_def by metis

lemma install_tool_installed:
  assumes "named env x"
  shows "installed env {tool_ID t} x (install_tool env t x)"
proof -
  have stops: "snd (install_tool env t x) = (case gm_get (rg_supervisors x) (tool_ID t) of None \<Rightarrow> [] | Some p \<Rightarrow> [p])"
    by (simp add: install_tool_def spawnSupervisor_def stopSupervisorIfExists_def Let_def case_prod_unfold split: option.split)
  show ?thesis
    using assms
    by (auto simp: installed_def install_tool_frame stops named_def split: option.splits Option.bind_splits
        dest: sym [of "Some _"])
qed

lemma installed_trans:
  assumes "installed env U x (y, s)" and "installed env V y (z, s')"
  shows "installed env (U \<union> V) x (z, s @ s')"
  using assms unfolding installed_def by (auto simp: Ball_def) metis+

lemma bootstrap_installed:
  assumes "named env x"
  shows "installed env (touched (BootstrapTools ts)) x (handleBootstrapTools env ts x)"
  using assms
proof (induction ts arbitrary: x)
  case Nil
  then show ?case by (simp add: installed_def)
next
  case (Cons t ts)
  show ?case
  proof (cases "ValidateTool t = None")
    case False
    then have "touched (BootstrapTools (t # ts)) = touched (BootstrapTools ts)" by auto
    with False Cons show ?thesis by simp
  next
    case True
    obtain y s where i: "install_tool env t x = (y, s)" by (cases "install_tool env t x")
    obtain z s' where b: "handleBootstrapTools env ts y = (z, s')" by (cases "handleBootstrapTools env ts y")
    have y: "installed env {tool_ID t} x (y, s)"
      using install_tool_installed [OF Cons.prems, of t] i by simp
    then have "named env y" using installed_named [OF Cons.prems] by fastforce
    then have "installed env (touched (BootstrapTools ts)) y (z, s')"
      using Cons.IH b by fastforce
    moreover have "{tool_ID t} \<union> touched (BootstrapTools ts) = touched (BootstrapTools (t # ts))"
      using True by auto
    ultimately have "installed env (touched (BootstrapTools (t # ts))) x (z, s @ s')"
      using installed_trans [OF y] by metis
    with True i b show ?thesis by simp
  qed
qed

text \<open>Messages that keep all supervisors; the definitions of others than the tool named stay.\<close>

lemma store_tool_outside:
  "u \<noteq> tool_ID t \<Longrightarrow> ext_tool (store_tool t x) u = ext_tool x u"
  by (simp split: Option.bind_splits)

fun configures :: "reg_msg \<Rightarrow> ToolID option" where
  "configures (UpdateTool t) = Some (tool_ID t)"
| "configures (DisableTool u) = Some u"
| "configures (EnableTool u) = Some u"
| "configures _ = None"

definition changes_def :: "reg_env \<Rightarrow> ToolID \<Rightarrow> registrar \<Rightarrow> registrar \<times> reg_out \<Rightarrow> bool" where
  "changes_def env u x r \<longleftrightarrow>
     rg_supervisors (fst r) = rg_supervisors x \<and> (rg_ext (fst r) = None \<longleftrightarrow> rg_ext x = None) \<and>
     (\<forall>v. v \<noteq> u \<longrightarrow> ext_tool (fst r) v = ext_tool x v) \<and> ro_stops (snd r) = [] \<and>
     (ro_tells (snd r) = [] \<and> fst r = x \<or>
      ro_tells (snd r) = reg_notifySupervisor env u x \<and> (rg_ext x \<noteq> None \<longrightarrow> ext_tool (fst r) u \<noteq> None))"

lemma configures_changes:
  assumes "reg_inv x" and "configures msg = Some u"
  shows "changes_def env u x (registrar_Receive env x msg)"
proof -
  have known: "tool_ID t = k" if "tool_of x k = Some t" for k t
    using assms(1) that by (simp add: reg_inv_def)
  show ?thesis
    using assms(2)
    by (cases msg)
      (auto simp: changes_def_def handleUpdateTool_def handleDisableTool_def handleEnableTool_def set_tool_state_def
        updateToolExtension_def reg_notifySupervisor_def Let_def known split: option.splits Option.bind_splits)
qed

lemma remove_changes:
  assumes "registrar_Receive env x (RemoveTool u) = (x', out)" and "reg_inv x"
  shows "(rg_ext x' = None \<longleftrightarrow> rg_ext x = None) \<and> ro_tells out = [] \<and>
    (\<forall>v. v \<noteq> u \<longrightarrow> gm_get (rg_supervisors x') v = gm_get (rg_supervisors x) v \<and> ext_tool x' v = ext_tool x v) \<and>
    gm_get (rg_supervisors x') u = None \<and>
    ro_stops out = (case gm_get (rg_supervisors x) u of None \<Rightarrow> [] | Some p \<Rightarrow> [p])"
proof (cases "tool_of x u")
  case None
  with assms have "x' = x" "ro_stops out = []" "ro_tells out = []" "gm_get (rg_supervisors x) u = None"
    by (auto simp: handleRemoveTool_def catalog_Has_iff reg_inv_def)
  then show ?thesis by simp
next
  case (Some t)
  have x': "x' = fst (handleRemoveTool u x)" and out: "out = snd (handleRemoveTool u x)" using assms(1) by simp_all
  have "ro_tells out = [] \<and> ro_stops out = (case gm_get (rg_supervisors x) u of None \<Rightarrow> [] | Some p \<Rightarrow> [p])"
    unfolding out using Some
    by (simp add: handleRemoveTool_def catalog_Has_iff stopSupervisorIfExists_def Let_def split: option.split)
  then show ?thesis
    unfolding x' using handleRemoveTool_frame [where x = x and u = u] Some by (auto split: Option.bind_splits)
qed

section \<open>The registrar keeps a node coherent\<close>

lemma coherent_reg:
  assumes "coherent env x sups {}"
    and "\<And>u. u \<notin> U \<Longrightarrow> gm_get (rg_supervisors x') u = gm_get (rg_supervisors x) u \<and> ext_tool x' u = ext_tool x u"
    and "\<And>u pid. gm_get (rg_supervisors x') u = Some pid \<Longrightarrow> ne_Spawn env (ToolSupervisorName u) = Some pid"
  shows "coherent env x' sups U"
proof -
  have "\<exists>u. name = ToolSupervisorName u \<and> ne_Spawn env name = Some p \<and> sup_inv u s \<and>
      (u \<notin> U \<longrightarrow> gm_get (rg_supervisors x') u = Some p \<and> ext_tool x' u = Some (sv_tool s))"
    if "sups p = Some (name, s)" for p name s
    by (rule coherentD [OF assms(1) that]) (use assms(2) in auto)
  moreover have "sups p \<noteq> None" if "gm_get (rg_supervisors x') u = Some p" "u \<notin> U" for u p
    using that assms(1,2) unfolding coherent_def by fastforce
  ultimately show ?thesis using assms(3) unfolding coherent_def by blast
qed

lemma coherent_stop:
  assumes "env_ok env" and "coherent env x sups U" and "ne_Spawn env (ToolSupervisorName u) = Some pid" and "u \<in> U"
  shows "coherent env x (sups(pid := None)) U"
proof -
  have "p \<noteq> pid" if "gm_get (rg_supervisors x) v = Some p" "v \<notin> U" for v p
    using spawn_inj [OF assms(1,3), of v] coherent_named [OF assms(2) that(1)] assms(4) that(2) by auto
  with assms(2) show ?thesis unfolding coherent_def by auto
qed

lemma coherent_forget:
  assumes "coherent env x sups U" and "gm_get (rg_supervisors x) u = None"
    and "\<And>pid. ne_Spawn env (ToolSupervisorName u) = Some pid \<Longrightarrow> sups pid = None"
  shows "coherent env x sups (U - {u})"
proof -
  have "\<exists>v. name = ToolSupervisorName v \<and> ne_Spawn env name = Some p \<and> sup_inv v s \<and>
      (v \<notin> U - {u} \<longrightarrow> gm_get (rg_supervisors x) v = Some p \<and> ext_tool x v = Some (sv_tool s))"
    if s: "sups p = Some (name, s)" for p name s
    by (rule coherentD [OF assms(1) s]) (use assms(3) s in auto)
  moreover have "sups p \<noteq> None" if "gm_get (rg_supervisors x) v = Some p" "v \<notin> U - {u}" for v p
    using that assms(1,2) unfolding coherent_def by (cases "v = u") auto
  ultimately show ?thesis using coherent_named [OF assms(1)] unfolding coherent_def by blast
qed

lemma coherent_set:
  assumes "env_ok env" and "coherent env x sups U" and "gm_get (rg_supervisors x) u = Some pid"
    and "sup_inv u sv" and "ext_tool x u = Some (sv_tool sv)"
  shows "coherent env x (sups(pid \<mapsto> (ToolSupervisorName u, sv))) (U - {u})"
proof -
  note pid = coherent_named [OF assms(2,3)]
  have "\<exists>v. name = ToolSupervisorName v \<and> ne_Spawn env name = Some p \<and> sup_inv v s \<and>
      (v \<notin> U - {u} \<longrightarrow> gm_get (rg_supervisors x) v = Some p \<and> ext_tool x v = Some (sv_tool s))"
    if s: "(sups(pid \<mapsto> (ToolSupervisorName u, sv))) p = Some (name, s)" for p name s
  proof (cases "p = pid")
    case True
    with s pid assms(3-5) show ?thesis by (intro exI [of _ u]) auto
  next
    case False
    with s have "sups p = Some (name, s)" by simp
    then show ?thesis by (rule coherentD [OF assms(2)]) (use False pid in auto)
  qed
  moreover have "(sups(pid \<mapsto> (ToolSupervisorName u, sv))) p \<noteq> None"
    if "gm_get (rg_supervisors x) v = Some p" "v \<notin> U - {u}" for v p
    using that assms(2,3) unfolding coherent_def by (cases "v = u") auto
  ultimately show ?thesis using coherent_named [OF assms(2)] unfolding coherent_def by blast
qed

lemma ext_ok: "reg_inv x \<Longrightarrow> rg_ext x = Some e \<Longrightarrow> ext_inv e"
  by (simp add: reg_inv_def)

lemma node_spawn_state [simp]:
  "nd_registrar (node_spawn env n name) = nd_registrar n" "nd_policy (node_spawn env n name) = nd_policy n"
  "nd_broker (node_spawn env n name) = nd_broker n" "nd_sessions (node_spawn env n name) = nd_sessions n"
  by (simp_all add: node_spawn_def split: option.split)

lemma coherent_spawn:
  assumes "env_ok env" and "reg_inv (nd_registrar n)" and "node_coherent env U n"
    and "gm_get (rg_supervisors (nd_registrar n)) u = ne_Spawn env (ToolSupervisorName u)"
    and "ext_tool (nd_registrar n) u \<noteq> None"
  shows "node_coherent env (U - {u}) (node_spawn env n (ToolSupervisorName u))"
proof (cases "ne_Spawn env (ToolSupervisorName u)")
  case None
  with coherent_forget [OF assms(3), of u] assms(4) show ?thesis by (simp add: node_spawn_def)
next
  case (Some pid)
  let ?n = "n\<lparr>nd_supervisors := (nd_supervisors n)(pid \<mapsto> (ToolSupervisorName u, supervisor_PreStart))\<rparr>"
  let ?ctx = "node_ctx env ?n (ToolSupervisorName u)"
  obtain tool e where e: "rg_ext (nd_registrar n) = Some e" "ext_Get u e = Some tool"
    using assms(5) by (auto split: Option.bind_splits)
  then have "started_ok u ?ctx tool"
    using ext_ok [OF assms(2)] by (simp add: started_ok_def node_ctx_def)
  note st = started [OF this]
  have "node_coherent env (U - {u}) (n\<lparr>nd_supervisors := (nd_supervisors n)
      (pid \<mapsto> (ToolSupervisorName u, start_supervisor ?ctx))\<rparr>)"
    using coherent_set [OF assms(1,3) _ st(1)] assms(4) Some e st(2) by (simp del: sup_step_simps)
  with Some show ?thesis by (simp add: node_spawn_def sup_after_def del: sup_step_simps)
qed

lemma coherent_refresh:
  assumes "env_ok env" and "reg_inv (nd_registrar n)" and "node_coherent env {u} n"
    and "gm_get (rg_supervisors (nd_registrar n)) u = Some pid" and "ext_tool (nd_registrar n) u \<noteq> None"
    and "nd_supervisors n pid \<noteq> None"
  shows "node_coherent env {} (sup_tell env n (pid, RefreshToolConfig u))"
proof -
  obtain name sv where s: "nd_supervisors n pid = Some (name, sv)" using assms(6) by auto
  obtain v where v: "name = ToolSupervisorName v" "ne_Spawn env (ToolSupervisorName v) = Some pid" "sup_inv v sv"
    by (rule coherentD [OF assms(3) s]) blast
  have "v = u" by (rule spawn_inj [OF assms(1) v(2) coherent_named [OF assms(3,4)]])
  obtain tool e where e: "rg_ext (nd_registrar n) = Some e" "ext_Get u e = Some tool"
    using assms(5) by (auto split: Option.bind_splits)
  let ?e = "(node_ctx env n name, RefreshToolConfig u)"
  have ctx: "ctx_toolExt (node_ctx env n name) = Some e" using e by (simp add: node_ctx_def)
  have "sup_legal u ?e" using ext_ok [OF assms(2) e(1)] ctx by simp
  then have "sup_inv u (sup_step sv ?e)" using v(3) \<open>v = u\<close> by (metis sup.legal_step_keeps)
  from coherent_set [OF assms(1,3,4) this] refresh_installs(1) [OF ctx e(2)] e s v(1) \<open>v = u\<close>
  show ?thesis by (simp add: sup_after_def del: sup_step_simps fun_upd_apply)
qed

text \<open>Messages that configure nothing and ask for no session.\<close>

abbreviation plain_msg :: "sup_msg \<Rightarrow> bool" where
  "plain_msg m \<equiv> \<not> session_request m \<and> (\<forall>ctx. \<not> config_msg (ctx, m))"

lemma reg_asks_plain: "m \<in> set (reg_asks env x msg) \<Longrightarrow> plain_msg (snd m)"
  by (cases msg) (auto simp: relay_asks_def split: if_splits option.splits)

lemma tells_frame:
  assumes "\<forall>m \<in> set ms. \<not> session_request (snd m)"
  shows "nd_registrar (foldl (sup_tell env) n ms) = nd_registrar n" "nd_policy (foldl (sup_tell env) n ms) = nd_policy n"
    "nd_broker (foldl (sup_tell env) n ms) = nd_broker n" "nd_sessions (foldl (sup_tell env) n ms) = nd_sessions n"
  using assms by (induction ms arbitrary: n) auto

lemma tells_coherent:
  "node_coherent env U n \<Longrightarrow> \<forall>m \<in> set ms. plain_msg (snd m) \<Longrightarrow> node_coherent env U (foldl (sup_tell env) n ms)"
  by (induction ms arbitrary: n) (simp, simp only: foldl_Cons, metis coherent_tell list.set_intros prod.collapse)

lemma stops_frame [simp]:
  "nd_registrar (foldl node_stop n ps) = nd_registrar n" "nd_policy (foldl node_stop n ps) = nd_policy n"
  "nd_broker (foldl node_stop n ps) = nd_broker n" "nd_sessions (foldl node_stop n ps) = nd_sessions n"
  "nd_supervisors (foldl node_stop n ps) p = (if p \<in> set ps then None else nd_supervisors n p)"
  by (induction ps arbitrary: n) (auto simp: node_stop_def)

lemma stops_coherent:
  assumes "env_ok env" and "node_coherent env U n"
    and "\<And>p. p \<in> set ps \<Longrightarrow> \<exists>u \<in> U. ne_Spawn env (ToolSupervisorName u) = Some p"
  shows "node_coherent env U (foldl node_stop n ps)"
  using assms(2,3)
proof (induction ps arbitrary: n)
  case Nil
  then show ?case by simp
next
  case (Cons p ps)
  obtain u where "u \<in> U" "ne_Spawn env (ToolSupervisorName u) = Some p" using Cons.prems(2) by auto
  with coherent_stop [OF assms(1) Cons.prems(1)] have "node_coherent env U (node_stop n p)"
    by (simp add: node_stop_def del: fun_upd_apply)
  with Cons show ?case by simp
qed

lemma spawns_frame:
  "nd_registrar (foldl (node_spawn env) n names) = nd_registrar n" "nd_policy (foldl (node_spawn env) n names) = nd_policy n"
  "nd_broker (foldl (node_spawn env) n names) = nd_broker n" "nd_sessions (foldl (node_spawn env) n names) = nd_sessions n"
  by (induction names arbitrary: n) simp_all

lemma spawns_coherent:
  assumes "env_ok env" and "reg_inv (nd_registrar n)" and "node_coherent env U n"
    and "\<And>u. u \<in> set us \<Longrightarrow> gm_get (rg_supervisors (nd_registrar n)) u = ne_Spawn env (ToolSupervisorName u)"
    and "\<And>u. u \<in> set us \<Longrightarrow> ext_tool (nd_registrar n) u \<noteq> None"
  shows "node_coherent env (U - set us) (foldl (node_spawn env) n (map ToolSupervisorName us))"
  using assms(2-5)
proof (induction us arbitrary: n U)
  case Nil
  then show ?case by simp
next
  case (Cons u us)
  have "node_coherent env (U - {u}) (node_spawn env n (ToolSupervisorName u))"
    using Cons.prems by (intro coherent_spawn [OF assms(1)]) simp_all
  then have "node_coherent env (U - {u} - set us) (foldl (node_spawn env) (node_spawn env n (ToolSupervisorName u))
      (map ToolSupervisorName us))"
    using Cons.prems by (intro Cons.IH) simp_all
  then show ?case by (simp add: Diff_insert2 [symmetric] Diff_insert [symmetric])
qed

lemma node_reg_env_simps [simp]:
  "re_Spawn (node_reg_env env n) = ne_Spawn env" "re_IsRunning (node_reg_env env n) pid \<longleftrightarrow> nd_supervisors n pid \<noteq> None"
  by (simp_all add: node_reg_env_def)

lemma node_AskRegistrar_eq:
  assumes "registrar_Receive (node_reg_env env n) (nd_registrar n) msg = (x, out)"
  shows "fst (node_AskRegistrar env msg n) = foldl (sup_tell env) (foldl (node_spawn env) (foldl node_stop
      ((foldl (sup_tell env) n (reg_asks (node_reg_env env n) (nd_registrar n) msg))\<lparr>nd_registrar := x\<rparr>)
      (ro_stops out)) (reg_spawns msg)) (ro_tells out)"
  using assms by (simp add: node_AskRegistrar_def Let_def)

text \<open>Registering and bootstrapping: the tools are installed, their supervisors started anew.\<close>

lemma install_coherent:
  assumes "node_inv env n" and "reg_asks (node_reg_env env n) (nd_registrar n) msg = []"
    and "registrar_Receive (node_reg_env env n) (nd_registrar n) msg = (x, out)" and "ro_tells out = []"
    and "reg_spawns msg = map ToolSupervisorName us"
    and "installed (node_reg_env env n) (set us) (nd_registrar n) (x, ro_stops out)"
  shows "node_inv env (fst (node_AskRegistrar env msg n))"
proof -
  have ok: "env_ok env" and inv: "reg_inv (nd_registrar n)" and ext: "rg_ext (nd_registrar n) \<noteq> None"
    and coh: "node_coherent env {} n"
    using assms(1) by (auto simp: node_inv_def)
  have x: "reg_inv x" using reg.step_keeps [OF inv, of "(node_reg_env env n, msg)"] assms(3) by simp
  note ins = assms(6) [unfolded installed_def fst_conv snd_conv node_reg_env_simps]
  let ?n1 = "n\<lparr>nd_registrar := x\<rparr>"
  let ?n2 = "foldl node_stop ?n1 (ro_stops out)"
  have "coherent env x (nd_supervisors n) (set us)"
    by (rule coherent_reg [OF coh]) (use ins coherent_named [OF coh] in \<open>metis\<close>)+
  then have "node_coherent env (set us) ?n2"
    using ins by (intro stops_coherent [OF ok]) auto
  then have "node_coherent env (set us - set us) (foldl (node_spawn env) ?n2 (map ToolSupervisorName us))"
    using ins x ext by (intro spawns_coherent [OF ok]) auto
  moreover have "fst (node_AskRegistrar env msg n) = foldl (node_spawn env) ?n2 (map ToolSupervisorName us)"
    using node_AskRegistrar_eq [OF assms(3)] assms(2,4,5) by simp
  ultimately show ?thesis
    using ok x ins ext by (simp add: node_inv_def spawns_frame)
qed

lemma configure_coherent:
  assumes "node_inv env n" and "configures msg = Some u"
  shows "node_inv env (fst (node_AskRegistrar env msg n))"
proof -
  have ok: "env_ok env" and inv: "reg_inv (nd_registrar n)" and ext: "rg_ext (nd_registrar n) \<noteq> None"
    and coh: "node_coherent env {} n"
    using assms(1) by (auto simp: node_inv_def)
  let ?r = "node_reg_env env n"
  obtain x out where rc: "registrar_Receive ?r (nd_registrar n) msg = (x, out)" by fastforce
  have x: "reg_inv x" using reg.step_keeps [OF inv, of "(?r, msg)"] rc by simp
  note ch = configures_changes [OF inv assms(2), of ?r, unfolded rc changes_def_def fst_conv snd_conv]
  have quiet: "reg_asks ?r (nd_registrar n) msg = []" "reg_spawns msg = []"
    using assms(2) by (cases msg; simp)+
  have eq: "fst (node_AskRegistrar env msg n) = foldl (sup_tell env) (n\<lparr>nd_registrar := x\<rparr>) (ro_tells out)"
    using node_AskRegistrar_eq [OF rc] quiet ch by simp
  have part: "node_coherent env {u} (n\<lparr>nd_registrar := x\<rparr>)"
    using coherent_reg [OF coh, of "{u}" x] ch coherent_named [OF coh] by simp
  consider "ro_tells out = []" "x = nd_registrar n" | "ro_tells out = reg_notifySupervisor ?r u (nd_registrar n)" "ext_tool x u \<noteq> None"
    using ch ext by blast
  then have "node_coherent env {} (fst (node_AskRegistrar env msg n))"
  proof cases
    case 1
    with coh show ?thesis by (simp add: eq)
  next
    case 2
    show ?thesis
    proof (cases "gm_get (rg_supervisors (nd_registrar n)) u")
      case None
      then have "nd_supervisors n pid = None" if "ne_Spawn env (ToolSupervisorName u) = Some pid" for pid
        using coherentD [OF coh, of pid] spawn_inj [OF ok that] by (cases "nd_supervisors n pid") fastforce+
      with coherent_forget [OF part, of u] None ch 2 show ?thesis by (simp add: eq reg_notifySupervisor_def)
    next
      case (Some pid)
      have run: "nd_supervisors n pid \<noteq> None" by (rule coherent_running [OF ok coh Some]) simp_all
      with coherent_refresh [OF ok _ part, of pid] x 2 Some ch show ?thesis
        by (simp add: eq reg_notifySupervisor_def del: sup_tell_state)
    qed
  qed
  moreover have "nd_registrar (fst (node_AskRegistrar env msg n)) = x"
    using ch by (auto simp: eq reg_notifySupervisor_def tells_frame split: option.splits if_splits)
  ultimately show ?thesis using ok x ext ch by (simp add: node_inv_def)
qed

lemma remove_coherent:
  assumes "node_inv env n"
  shows "node_inv env (fst (node_AskRegistrar env (RemoveTool u) n))"
proof -
  have ok: "env_ok env" and inv: "reg_inv (nd_registrar n)" and ext: "rg_ext (nd_registrar n) \<noteq> None"
    and coh: "node_coherent env {} n"
    using assms(1) by (auto simp: node_inv_def)
  let ?r = "node_reg_env env n"
  obtain x out where rc: "registrar_Receive ?r (nd_registrar n) (RemoveTool u) = (x, out)" by fastforce
  have x: "reg_inv x" using reg.step_keeps [OF inv, of "(?r, RemoveTool u)"] rc by simp
  note ch = remove_changes [OF rc inv]
  let ?n = "foldl node_stop (n\<lparr>nd_registrar := x\<rparr>) (ro_stops out)"
  have eq: "fst (node_AskRegistrar env (RemoveTool u) n) = ?n"
    using node_AskRegistrar_eq [OF rc] ch by simp
  have part: "coherent env x (nd_supervisors n) {u}"
    by (rule coherent_reg [OF coh]) (use ch coherent_named [OF coh] in \<open>metis empty_iff insert_iff option.distinct(1)\<close>)+
  then have "node_coherent env {u} ?n"
    using ch coherent_named [OF coh, of u] by (intro stops_coherent [OF ok]) (auto split: option.splits)
  moreover have "nd_supervisors ?n pid = None" if spawn: "ne_Spawn env (ToolSupervisorName u) = Some pid" for pid
  proof (cases "nd_supervisors n pid")
    case (Some a)
    then obtain name sv where "nd_supervisors n pid = Some (name, sv)" by (cases a) auto
    then obtain v where "ne_Spawn env (ToolSupervisorName v) = Some pid" "gm_get (rg_supervisors (nd_registrar n)) v = Some pid"
      by (rule coherentD [OF coh]) simp
    with spawn_inj [OF ok spawn] have "gm_get (rg_supervisors (nd_registrar n)) u = Some pid" by blast
    with ch show ?thesis by (simp add: node_stop_def)
  qed simp
  ultimately have "node_coherent env ({u} - {u}) ?n"
    using ch by (intro coherent_forget) simp_all
  with ok x ext ch show ?thesis by (simp add: node_inv_def eq)
qed

text \<open>Questions and health updates leave the supervisors' table and the extension alone.\<close>

fun observes :: "reg_msg \<Rightarrow> bool" where
  "observes (reg_msg.RegisterTool t) \<longleftrightarrow> ValidateTool t \<noteq> None"
| "observes (UpdateTool t) \<longleftrightarrow> False"
| "observes (DisableTool u) \<longleftrightarrow> False"
| "observes (EnableTool u) \<longleftrightarrow> False"
| "observes (RemoveTool u) \<longleftrightarrow> False"
| "observes (BootstrapTools ts) \<longleftrightarrow> False"
| "observes _ \<longleftrightarrow> True"

lemma observes_frame:
  assumes "observes msg" and "registrar_Receive env x msg = (x', out)"
  shows "rg_supervisors x' = rg_supervisors x" "rg_ext x' = rg_ext x" "ro_tells out = []" "ro_stops out = []"
    "reg_spawns msg = []"
  using assms by (cases msg; auto simp: handleRegisterTool_def handleUpdateToolHealth_def split: option.splits)+

lemma observe_eq:
  assumes "observes msg" and "registrar_Receive (node_reg_env env n) (nd_registrar n) msg = (x, out)"
  shows "fst (node_AskRegistrar env msg n) =
    (foldl (sup_tell env) n (reg_asks (node_reg_env env n) (nd_registrar n) msg))\<lparr>nd_registrar := x\<rparr>"
  using node_AskRegistrar_eq [OF assms(2)] observes_frame [OF assms] by simp

lemma observe_coherent:
  assumes "node_inv env n" and "observes msg"
  shows "node_inv env (fst (node_AskRegistrar env msg n))"
proof -
  have inv: "reg_inv (nd_registrar n)" and coh: "node_coherent env {} n"
    using assms(1) by (auto simp: node_inv_def)
  let ?r = "node_reg_env env n"
  obtain x out where rc: "registrar_Receive ?r (nd_registrar n) msg = (x, out)" by fastforce
  have x: "reg_inv x" using reg.step_keeps [OF inv, of "(?r, msg)"] rc by simp
  let ?n = "foldl (sup_tell env) n (reg_asks ?r (nd_registrar n) msg)"
  have "node_coherent env {} ?n" "nd_registrar ?n = nd_registrar n"
    using tells_coherent [OF coh] tells_frame(1) reg_asks_plain by blast+
  then have "coherent env x (nd_supervisors ?n) {}"
    using observes_frame(1,2) [OF assms(2) rc] by (simp add: coherent_def)
  then show ?thesis
    using assms(1) x observes_frame(2) [OF assms(2) rc] by (simp add: node_inv_def observe_eq [OF assms(2) rc])
qed

lemma node_AskRegistrar_inv [keeps_inv]:
  assumes "node_inv env n"
  shows "node_inv env (fst (node_AskRegistrar env msg n))"
proof -
  have ok: "env_ok env" and coh: "node_coherent env {} n" using assms by (auto simp: node_inv_def)
  let ?r = "node_reg_env env n" and ?x = "nd_registrar n"
  have named: "named ?r ?x" using coherent_named [OF coh] by (simp add: named_def)
  consider u where "configures msg = Some u" | u where "msg = RemoveTool u" | "observes msg"
    | t where "msg = reg_msg.RegisterTool t" "ValidateTool t = None" | ts where "msg = BootstrapTools ts"
    by (cases msg) auto
  then show ?thesis
  proof cases
    case (4 t)
    let ?t = "kept_state (tool_of ?x (tool_ID t)) t"
    have "registrar_Receive ?r ?x msg = (fst (install_tool ?r ?t ?x),
        (respond (RegisterToolResult None))\<lparr>ro_stops := snd (install_tool ?r ?t ?x)\<rparr>)"
      using 4 by (simp add: handleRegisterTool_def kept_state_def Let_def case_prod_unfold split: option.split)
    from install_coherent [OF assms _ this, of "[tool_ID t]"] install_tool_installed [OF named, of ?t] 4
    show ?thesis by simp
  next
    case (5 ts)
    let ?us = "map tool_ID (filter (\<lambda>t. ValidateTool t = None) ts)"
    have "registrar_Receive ?r ?x msg = (fst (handleBootstrapTools ?r ts ?x),
        \<lparr>ro_tells = [], ro_stops = snd (handleBootstrapTools ?r ts ?x), ro_reply = None\<rparr>)"
      using 5 by (simp add: Let_def case_prod_unfold)
    moreover have "set ?us = touched (BootstrapTools ts)" by auto
    ultimately show ?thesis
      using install_coherent [OF assms, of msg _ _ ?us] bootstrap_installed [OF named, of ts] 5
      by (simp add: comp_def)
  qed (use assms in \<open>auto intro: configure_coherent remove_coherent observe_coherent\<close>)
qed

section \<open>Every event keeps a node coherent\<close>

lemma node_inv_tell [keeps_inv]:
  assumes "node_inv env n" and "\<And>ctx. \<not> config_msg (ctx, msg)"
  shows "node_inv env (sup_tell env n (pid, msg))"
  using assms coherent_tell [where env = env and n = n and U = "{}" and msg = msg and pid = pid]
  by (simp add: node_inv_def del: sup_tell_state(4))

lemma node_coherent_session_told:
  assumes "node_inv env n" and "session_told ms"
  shows "node_inv env (deliver env ms n)"
  using assms(2,1) by (rule deliver_keeps) (simp add: node_inv_tell session_msg_simps)

lemma node_inv_frame:
  "node_inv env (n\<lparr>nd_sessions := b\<rparr>) = node_inv env n" "node_inv env (n\<lparr>nd_policy := p, nd_tick := k\<rparr>) = node_inv env n"
  "node_inv env (n\<lparr>nd_broker := br, nd_tick := k\<rparr>) = node_inv env n"
  by (simp_all add: node_inv_def)

lemma node_AskSupervisor_inv [keeps_inv]:
  assumes "node_inv env n" and "\<And>ctx. \<not> config_msg (ctx, msg)"
  shows "node_inv env (fst (node_AskSupervisor env pid msg n))"
proof -
  have "session_told (snd (fst (sup_handle env pid msg n)))"
    using assms(1) by (intro sup_handle_told) (simp add: node_inv_def env_ok_def)
  then show ?thesis
    unfolding node_AskSupervisor_eq by (rule node_coherent_session_told [OF node_inv_tell [OF assms]])
qed

lemma node_asks_inv [keeps_inv]:
  assumes "node_inv env n"
  shows "node_inv env (fst (node_AskPolicy env i n))" "node_inv env (fst (node_AskBroker env t u n))"
    "node_inv env (fst (node_AskGrain env name d m n))"
proof -
  have "layer_ok (ne_layer env)" using assms by (simp add: node_inv_def env_ok_def)
  then have "session_told (snd (fst (sl_AskGrain (ne_layer env) name d m (nd_sessions n))))" by (simp add: layer_ok_def)
  then show "node_inv env (fst (node_AskGrain env name d m n))"
    using assms node_coherent_session_told [of env "n\<lparr>nd_sessions := b\<rparr>" for b]
    by (simp add: node_AskGrain_def Let_def case_prod_unfold node_inv_frame)
qed (use assms in \<open>simp_all add: node_AskPolicy_def node_AskBroker_def Let_def case_prod_unfold node_inv_frame\<close>)

interpretation nodes: executing_system "node_sys env" "node_inv env" for env
  by unfold_locales (simp_all add: keeps_inv)

text \<open>Only messages of sessions come from the session layer.\<close>

fun node_legal :: "'b node_event \<Rightarrow> bool" where
  "node_legal (Sessions b ms) \<longleftrightarrow> session_told ms"
| "node_legal _ \<longleftrightarrow> True"

interpretation node_run: actor_guarded "node_step env ro" "node_inv env" node_legal for env ro
proof unfold_locales
  fix n :: "'a node" and e :: "'a node_event"
  assume "node_inv env n" and "node_legal e"
  then show "node_inv env (node_step env ro n e)"
    by (cases e) (simp_all add: node_AskRegistrar_inv nodes.route_keeps node_coherent_session_told node_inv_frame)
qed

abbreviation node_after :: "'b node_env \<Rightarrow> router \<Rightarrow> 'b node \<Rightarrow> 'b node_event list \<Rightarrow> 'b node" where
  "node_after env ro \<equiv> foldl (node_step env ro)"

lemma node_inv_start: "env_ok env \<Longrightarrow> node_inv env (node_start config b)"
  by (simp add: node_inv_def node_start_def coherent_def) (simp add: registrar_PreStart_def)

lemma ext_tool_registered:
  assumes "reg_inv x" and "ext_tool x u = Some s"
  shows "\<exists>t. tool_of x u = Some t \<and> same_tool t s \<and> ValidateTool t = None"
proof -
  obtain e where e: "rg_ext x = Some e" "ext_Get u e = Some s" using assms(2) by (cases "rg_ext x") auto
  then have "rel_option same_tool (tool_of x u) (Some s)"
    using assms(1) by (simp add: reg_inv_def) metis
  then obtain t where t: "tool_of x u = Some t" "same_tool t s"
    by (auto simp: option_rel_Some2)
  moreover have "ValidateTool t = None" using assms(1) t(1) by (simp add: reg_inv_def)
  ultimately show ?thesis by blast
qed

section \<open>Properties\<close>

text \<open>C5: On a node, whatever requests, administrative messages and session events have been
  handled: every running supervisor is the one the registrar has filed for its tool, runs
  under that tool's name, holds the tool's registered definition (up to the health state) and
  has a well-formed breaker; and every supervisor the registrar has filed runs.\<close>

theorem node_supervisors_in_step:
  assumes "env_ok env" and "\<forall>e \<in> set es. node_legal e"
  shows "let n = node_after env ro (node_start config b) es; x = nd_registrar n in
    (\<forall>pid name sv. nd_supervisors n pid = Some (name, sv) \<longrightarrow>
       (\<exists>u t. name = ToolSupervisorName u \<and> gm_get (rg_supervisors x) u = Some pid \<and> tool_of x u = Some t \<and>
          same_tool t (sv_tool sv) \<and> ValidateTool t = None \<and> circuit_inv (sv_circuit sv))) \<and>
    (\<forall>u pid. gm_get (rg_supervisors x) u = Some pid \<longrightarrow> nd_supervisors n pid \<noteq> None)"
proof -
  let ?n = "node_after env ro (node_start config b) es"
  have "node_inv env ?n"
    by (rule node_run.legal_run_keeps [OF node_inv_start [OF assms(1)] assms(2)])
  then have reg: "reg_inv (nd_registrar ?n)" and coh: "node_coherent env {} ?n" by (auto simp: node_inv_def)
  have "\<exists>u t. name = ToolSupervisorName u \<and> gm_get (rg_supervisors (nd_registrar ?n)) u = Some pid \<and>
      tool_of (nd_registrar ?n) u = Some t \<and> same_tool t (sv_tool sv) \<and> ValidateTool t = None \<and> circuit_inv (sv_circuit sv)"
    if s: "nd_supervisors ?n pid = Some (name, sv)" for pid name sv
  proof -
    obtain u where u: "name = ToolSupervisorName u" "sup_inv u sv" "gm_get (rg_supervisors (nd_registrar ?n)) u = Some pid"
        "ext_tool (nd_registrar ?n) u = Some (sv_tool sv)"
      by (rule coherentD [OF coh s]) simp
    with ext_tool_registered [OF reg u(4)] show ?thesis by (auto simp: sup_inv_def)
  qed
  moreover have "nd_supervisors ?n pid \<noteq> None" if "gm_get (rg_supervisors (nd_registrar ?n)) u = Some pid" for u pid
    using coh that by (simp add: coherent_def)
  ultimately show ?thesis unfolding Let_def by blast
qed

section \<open>A concrete node\<close>

text \<open>A session layer that counts the invocations it executes, and a runtime that spawns one tool's supervisor.\<close>

definition example_layer :: "nat session_layer" where
  "example_layer =
     \<lparr>sl_GrainIdentity = \<lambda>name dep idle w. (w, Inr name),
      sl_AskGrain = \<lambda>name d msg b. ((Suc b, []),
        case msg of
          SessionInvoke (Some ivk) \<Rightarrow> Inr (InvokeReply (SessionInvokeResult (Some (example_result ivk)) None))
        | _ \<Rightarrow> Inl timed_out)\<rparr>"

definition example_node_env :: "'b session_layer \<Rightarrow> 'b node_env" where
  "example_node_env L =
     \<lparr>ne_Spawn = \<lambda>name. if name = ToolSupervisorName ''fs'' then Some 7 else None, ne_Now = int,
      ne_circuit = Some \<lparr>FailureThreshold = 1, OpenDuration = 10, HalfOpenMaxRequests = 1\<rparr>,
      ne_FetchSchemas = None, ne_FetchResources = None, ne_layer = L\<rparr>"

abbreviation example_router :: router where
  "example_router \<equiv> \<lparr>ro_hasConcurrencyQuotas = False, ro_requestTimeout = second\<rparr>"

lemma example_env_ok: "layer_ok L \<Longrightarrow> env_ok (example_node_env L)"
  by (simp add: env_ok_def example_node_env_def)

lemma example_layer_ok [simp]: "layer_ok example_layer"
  by (simp add: layer_ok_def example_layer_def)

lemma example_tool_valid [simp]: "ValidateTool example_tool = None"
  by (simp add: ValidateTool_None_iff transport_ok_def example_tool_def)

abbreviation example_node :: "'b session_layer \<Rightarrow> Config \<Rightarrow> 'b \<Rightarrow> 'b node" where
  "example_node L config b \<equiv> node_after (example_node_env L) example_router (node_start config b)
     [Manage (reg_msg.RegisterTool example_tool)]"

definition example_supervisor :: toolSupervisor where
  "example_supervisor = \<lparr>sv_tool = example_tool,
     sv_circuit = NewCircuitBreaker \<lparr>FailureThreshold = 1, OpenDuration = 10, HalfOpenMaxRequests = 1\<rparr>,
     sv_journal = True, sv_draining = False, sv_sessions = []\<rparr>"

lemma example_node_state:
  "nd_registrar (example_node L config b) = example_registrar"
  "nd_policy (example_node L config b) = newPolicyMaker config"
  "nd_supervisors (example_node L config b) = [7 \<mapsto> (ToolSupervisorName ''fs'', example_supervisor)]"
  "nd_sessions (example_node L config b) = b"
  by (simp_all add: node_AskRegistrar_def node_start_def registrar_PreStart_def handleRegisterTool_def catalog_defs
      install_tool_def spawnSupervisor_def stopSupervisorIfExists_def fetchAndCacheSchemas_def fetchAndCacheResources_def
      node_reg_env_def example_node_env_def example_registrar_def ext_Remove_def ext_Register_def node_spawn_def
      sup_tell_def sup_handle_def handlePostStart_def node_ctx_def ext_Get_def supervisor_PreStart_def
      example_supervisor_def Let_def)

theorem node_supervisors_in_step_witness:
  "\<exists>t. tool_of example_registrar ''fs'' = Some t \<and> same_tool t (sv_tool example_supervisor) \<and>
     circuit_inv (sv_circuit example_supervisor)"
proof -
  let ?es = "[Manage (reg_msg.RegisterTool example_tool)]"
  let ?n = "example_node example_layer (example_config [] 0 0 [] []) 0"
  have "nd_supervisors ?n 7 = Some (ToolSupervisorName ''fs'', example_supervisor)"
    by (simp only: example_node_state) simp
  with node_supervisors_in_step [OF example_env_ok [OF example_layer_ok], of ?es example_router
      "example_config [] 0 0 [] []" 0]
  have "\<exists>u t. ToolSupervisorName ''fs'' = ToolSupervisorName u \<and> tool_of (nd_registrar ?n) u = Some t \<and>
      same_tool t (sv_tool example_supervisor) \<and> circuit_inv (sv_circuit example_supervisor)"
    unfolding Let_def by (simp only: list.set ball_simps node_legal.simps simp_thms) blast
  then show ?thesis unfolding example_node_state by simp
qed

end
