(* ===== verification/Node_Service.thy ===== *)
theory Node_Service
  imports Node
begin

text \<open>
  Tools out of service on a node: a tool that was disabled, or that drains, and what the
  router does with invocations of it.
\<close>

section \<open>A disabled tool\<close>

definition disabled :: "registrar \<Rightarrow> ToolID \<Rightarrow> bool" where
  "disabled x u \<longleftrightarrow> (\<exists>t. tool_of x u = Some t \<and> tool_State t = ToolStateDisabled) \<and>
     (\<exists>t. ext_tool x u = Some t \<and> tool_State t = ToolStateDisabled)"

text \<open>The messages that may put a tool back into service.\<close>

fun reopens :: "ToolID \<Rightarrow> reg_msg \<Rightarrow> bool" where
  "reopens u (EnableTool v) \<longleftrightarrow> v = u"
| "reopens u (RemoveTool v) \<longleftrightarrow> v = u"
| "reopens u (UpdateToolHealth v st) \<longleftrightarrow> v = u \<and> st \<noteq> ToolStateDisabled"
| "reopens u (BootstrapTools ts) \<longleftrightarrow> (\<exists>t \<in> set ts. tool_ID t = u)"
| "reopens u _ \<longleftrightarrow> False"

lemma bootstrap_frame:
  "u \<notin> tool_ID ` set ts \<Longrightarrow> tool_of (fst (handleBootstrapTools env ts x)) u = tool_of x u \<and>
     ext_tool (fst (handleBootstrapTools env ts x)) u = ext_tool x u"
  by (induction ts arbitrary: x)
    (auto simp: Let_def case_prod_unfold install_tool_frame split: Option.bind_splits)

lemma disabled_step:
  assumes "reg_inv x" and "disabled x u" and "\<not> reopens u msg"
  shows "disabled (fst (registrar_Receive env x msg)) u"
proof -
  obtain t e where t: "tool_of x u = Some t" "tool_State t = ToolStateDisabled" "rg_ext x = Some e"
    "ext_Get u e \<noteq> None" "tool_State (the (ext_Get u e)) = ToolStateDisabled"
    using assms(2) by (auto simp: disabled_def split: Option.bind_splits)
  have known: "tool_ID t' = k" if "tool_of x k = Some t'" for k t'
    using assms(1) that by (simp add: reg_inv_def)
  have remove: "disabled (fst (handleRemoveTool v x)) u" if "v \<noteq> u" for v
    using assms(2) that handleRemoveTool_frame [where x = x and u = v] handleRemoveTool_none [where x = x and u = v]
    by (cases "tool_of x v") (auto simp: disabled_def split: Option.bind_splits)
  have boot: "disabled (fst (handleBootstrapTools env ts x)) u" if "u \<notin> tool_ID ` set ts" for ts
    using bootstrap_frame [OF that] assms(2) by (simp add: disabled_def)
  show ?thesis
  proof (cases msg)
    case (BootstrapTools ts)
    with boot assms(3) show ?thesis by (auto simp: Let_def case_prod_unfold)
  next
    case (RemoveTool v)
    with remove assms(3) show ?thesis by simp
  qed (use assms(2,3) t known in \<open>auto simp: disabled_def handleRegisterTool_eq install_tool_frame kept_state_def
      handleUpdateTool_eq set_state_eq handleUpdateToolHealth_eq updated_tool_def cat.get_update
      split: option.splits Option.bind_splits\<close>)
qed

lemma disable_disables:
  assumes "reg_inv x" and "rg_ext x \<noteq> None" and "tool_of x u \<noteq> None"
  shows "disabled (fst (registrar_Receive env x (DisableTool u))) u"
  using assms by (auto simp: disabled_def set_state_eq cat.get_update reg_inv_def)

section \<open>A tool that is out of service is not served\<close>

lemma reg_tells_refresh:
  "m \<in> set (ro_tells (snd (registrar_Receive env x msg))) \<Longrightarrow> \<exists>u. snd m = RefreshToolConfig u"
  by (cases msg) (auto simp: handleRegisterTool_def handleUpdateTool_def handleDisableTool_def handleEnableTool_def
      handleRemoveTool_def handleUpdateToolHealth_def set_tool_state_def reg_notifySupervisor_def updateToolExtension_def
      Let_def case_prod_unfold split: option.splits if_splits)

lemma node_AskRegistrar_frame:
  "nd_registrar (fst (node_AskRegistrar env msg n)) = reg_step (nd_registrar n) (node_reg_env env n, msg)"
  "nd_policy (fst (node_AskRegistrar env msg n)) = nd_policy n"
  "nd_sessions (fst (node_AskRegistrar env msg n)) = nd_sessions n"
proof -
  obtain x out where rc: "registrar_Receive (node_reg_env env n) (nd_registrar n) msg = (x, out)" by fastforce
  have "\<forall>m \<in> set (ro_tells out). \<not> session_request (snd m)"
    using reg_tells_refresh [of _ "node_reg_env env n" "nd_registrar n" msg] rc by fastforce
  moreover have "\<forall>m \<in> set (reg_asks (node_reg_env env n) (nd_registrar n) msg). \<not> session_request (snd m)"
    using reg_asks_plain by blast
  ultimately show "nd_registrar (fst (node_AskRegistrar env msg n)) = reg_step (nd_registrar n) (node_reg_env env n, msg)"
    "nd_policy (fst (node_AskRegistrar env msg n)) = nd_policy n"
    "nd_sessions (fst (node_AskRegistrar env msg n)) = nd_sessions n"
    unfolding node_AskRegistrar_eq [OF rc] using rc by (simp_all add: tells_frame spawns_frame)
qed

text \<open>Out of service: disabled, or every supervisor of it is draining.\<close>

definition draining :: "'b node \<Rightarrow> ToolID \<Rightarrow> bool" where
  "draining n u \<longleftrightarrow> (\<forall>pid sv. nd_supervisors n pid = Some (ToolSupervisorName u, sv) \<longrightarrow> sv_draining sv)"

definition out_of_service :: "'b node_env \<Rightarrow> ToolID \<Rightarrow> 'b \<Rightarrow> 'b node \<Rightarrow> bool" where
  "out_of_service env u b n \<longleftrightarrow>
     node_inv env n \<and> (disabled (nd_registrar n) u \<or> draining n u) \<and> nd_sessions n = b"

lemma draining_tell:
  assumes "draining n u" and "\<And>ctx. \<not> config_msg (ctx, m)"
  shows "draining (sup_tell env n (pid, m)) u"
proof -
  have "sv_draining (sup_step sv (ctx, m))" if "sv_draining sv" for sv ctx
    using drained.legal_step_keeps that assms(2) by blast
  with assms(1) show ?thesis by (auto simp: draining_def sup_after_def simp del: sup_step_simps)
qed

lemma draining_tells:
  "draining n u \<Longrightarrow> \<forall>m \<in> set ms. plain_msg (snd m) \<Longrightarrow> draining (foldl (sup_tell env) n ms) u"
  by (induction ms arbitrary: n) (simp, simp only: foldl_Cons, metis draining_tell list.set_intros prod.collapse)

lemma draining_frame [simp]:
  "draining (n\<lparr>nd_registrar := x\<rparr>) u = draining n u" "draining (n\<lparr>nd_sessions := b\<rparr>) u = draining n u"
  "draining (n\<lparr>nd_policy := p, nd_tick := k\<rparr>) u = draining n u"
  by (simp_all add: draining_def)

lemma draining_observed:
  assumes "draining n u" and "observes msg"
  shows "draining (fst (node_AskRegistrar env msg n)) u"
proof -
  obtain x out where rc: "registrar_Receive (node_reg_env env n) (nd_registrar n) msg = (x, out)" by fastforce
  show ?thesis
    unfolding observe_eq [OF assms(2) rc] using draining_tells [OF assms(1)] reg_asks_plain by (metis draining_frame(1))
qed

lemma router_question_simps: "router_question msg \<Longrightarrow> observes msg \<and> (\<forall>x env. fst (registrar_Receive env x msg) = x)"
  by (cases msg) simp_all

interpretation shut: admitting_system "node_sys env" "out_of_service env u b" for env u b
proof unfold_locales
  show "out_of_service env u b (fst (sys_Registrar (node_sys env) msg n))"
    if "out_of_service env u b n" "router_question msg" for n msg
    using that router_question_simps [OF that(2)] draining_observed
    by (auto simp: out_of_service_def node_AskRegistrar_frame node_AskRegistrar_inv)
  show "out_of_service env u b (fst (sys_Policy (node_sys env) i n))" if "out_of_service env u b n" for n i
    using that node_asks_inv(1)
    by (auto simp: out_of_service_def) (auto simp: node_AskPolicy_def Let_def case_prod_unfold)
  show "out_of_service env u b (fst (sys_Supervisor (node_sys env) pid (CanAcceptWork v) n))"
    if "out_of_service env u b n" for n pid v
    using that node_inv_tell [of env n "CanAcceptWork v" pid] draining_tell [of n u "CanAcceptWork v" env pid]
    by (auto simp: out_of_service_def node_AskSupervisor_quiet)
qed

text \<open>The answer of a supervisor that is asked to accept work.\<close>

lemma node_accepts:
  assumes "nd_supervisors n pid = Some (name, sv)"
  shows "snd (checkAcceptWork (node_sys env) pid u tool n) = None \<longleftrightarrow> sup_accepts (node_ctx env n name) u sv"
proof -
  have "\<exists>a r k. so_reply (snd (handleCanAcceptWork (node_ctx env n name) u sv)) = Some (CanAcceptWorkResult a r k)"
    by (auto simp: handleCanAcceptWork_def Let_def split: prod.split CircuitAcquireOutcome.split)
  then obtain a r k where
    answer: "so_reply (snd (handleCanAcceptWork (node_ctx env n name) u sv)) = Some (CanAcceptWorkResult a r k)" by blast
  obtain n' q where ask: "node_AskSupervisor env pid (CanAcceptWork u) n = (n', q)" by fastforce
  then have "q = Inr (CanAcceptWorkResult a r k)"
    using assms answer by (auto simp: node_AskSupervisor_def sup_handle_def Let_def case_prod_unfold)
  with ask answer show ?thesis by (simp add: checkAcceptWork_def sup_accepts_def)
qed

lemma node_lookupSupervisor:
  assumes "lookupSupervisor (node_sys env) u n = (n', Inr pid)"
  shows "n' = n \<and> gm_get (rg_supervisors (nd_registrar n)) u = Some pid"
  using assms
  by (auto simp: lookupSupervisor_def node_AskRegistrar_def handleGetSupervisor_def Let_def split: option.splits if_splits)

lemma out_of_service_refuses:
  assumes "out_of_service env u b n" and "gm_get (rg_supervisors (nd_registrar n)) u = Some pid"
  shows "snd (checkAcceptWork (node_sys env) pid u tool n) \<noteq> None"
proof -
  have inv: "node_inv env n" and shut: "disabled (nd_registrar n) u \<or> draining n u"
    using assms(1) by (auto simp: out_of_service_def)
  obtain sv where sv: "nd_supervisors n pid = Some (ToolSupervisorName u, sv)"
      "ext_tool (nd_registrar n) u = Some (sv_tool sv)"
    by (rule coherent_running [OF _ _ assms(2)]) (use inv in \<open>auto simp: node_inv_def\<close>)
  then have "tool_State (sv_tool sv) = ToolStateDisabled \<or> sv_draining sv"
    using shut by (auto simp: disabled_def draining_def)
  then show ?thesis by (auto simp: node_accepts [OF sv(1)] sup_accepts_iff)
qed

lemma out_of_service_stops:
  assumes "out_of_service env (inv_ToolID ivk) b n"
    and "runPreExecutionPipeline (node_sys env) ro ivk t c n = (n', r)"
  obtains f where "r = Inl f" "nd_sessions n' = b"
proof -
  from assms show thesis
  proof (cases rule: shut.pipeline_cases)
    case (refused f)
    with that show thesis by (auto simp: out_of_service_def)
  next
    case (accepted w1 tool w2 w3 pid w4)
    from node_lookupSupervisor [OF accepted(3)] accepted(6) out_of_service_refuses [of env "inv_ToolID ivk" b w2 pid tool]
    show thesis using accepted(4) by simp
  qed
qed

lemma out_of_service_route:
  assumes "out_of_service env (inv_ToolID ivk) (nd_sessions n) n"
  shows "\<exists>n' err. nd_sessions n' = nd_sessions n \<and>
    Gateway_Invoke (system_actors (node_sys env) ro now) g (Some ivk) n = (n', None, Some err)"
    "\<exists>n' err. nd_sessions n' = nd_sessions n \<and>
    Gateway_InvokeStream (system_actors (node_sys env) ro now) g (Some ivk) n = (n', Inl err)"
proof -
  obtain n' r where run: "runPreExecutionPipeline (node_sys env) ro ivk (fst (resolveIdentity ivk)) (snd (resolveIdentity ivk)) n = (n', r)"
    by fastforce
  obtain f where "r = Inl f" "nd_sessions n' = nd_sessions n"
    by (rule out_of_service_stops [OF assms run])
  with run show "\<exists>n' err. nd_sessions n' = nd_sessions n \<and>
      Gateway_Invoke (system_actors (node_sys env) ro now) g (Some ivk) n = (n', None, Some err)"
    "\<exists>n' err. nd_sessions n' = nd_sessions n \<and>
      Gateway_InvokeStream (system_actors (node_sys env) ro now) g (Some ivk) n = (n', Inl err)"
    by (auto simp: Gateway_Invoke_def Gateway_InvokeStream_def system_actors_def resolveRouter_def resolve_actor_def
        handleRouteInvocation_def handleRouteInvokeStream_def Let_def case_prod_unfold split: sum.split option.split)
qed

section \<open>Staying out of service\<close>

lemma deliver_frame [simp]:
  "nd_registrar (deliver env ms n) = nd_registrar n" "nd_policy (deliver env ms n) = nd_policy n"
proof -
  have "nd_registrar (deliver env ms n) = nd_registrar n \<and> nd_policy (deliver env ms n) = nd_policy n"
    by (induction ms arbitrary: n) (auto simp: deliver_def case_prod_unfold split: option.split)
  then show "nd_registrar (deliver env ms n) = nd_registrar n" "nd_policy (deliver env ms n) = nd_policy n" by auto
qed

lemma node_asks_frame [simp]:
  "nd_registrar (fst (node_AskSupervisor env pid msg n)) = nd_registrar n"
  "nd_registrar (fst (node_AskPolicy env i n)) = nd_registrar n"
  "nd_registrar (fst (node_AskBroker env t v n)) = nd_registrar n"
  "nd_registrar (fst (node_AskGrain env name d m n)) = nd_registrar n"
  "nd_policy (fst (node_AskSupervisor env pid msg n)) = nd_policy n"
  "nd_policy (fst (node_AskBroker env t v n)) = nd_policy n"
  "nd_policy (fst (node_AskGrain env name d m n)) = nd_policy n"
  "nd_supervisors (fst (node_AskPolicy env i n)) = nd_supervisors n"
  "nd_supervisors (fst (node_AskBroker env t v n)) = nd_supervisors n"
  by (simp_all add: node_AskSupervisor_eq node_AskPolicy_def node_AskBroker_def node_AskGrain_def Let_def case_prod_unfold)

text \<open>Routing an invocation does not change the registrar.\<close>

interpretation unregistered: executing_system "node_sys env" "\<lambda>n. nd_registrar n = x" for env x
  by unfold_locales (simp_all add: node_AskRegistrar_frame router_question_simps)

lemma node_step_registrar:
  "nd_registrar (node_step env ro n e) =
     (case e of Manage msg \<Rightarrow> reg_step (nd_registrar n) (node_reg_env env n, msg) | _ \<Rightarrow> nd_registrar n)"
  using unregistered.route_keeps [OF refl, of env ro]
  by (cases e) (simp_all add: node_AskRegistrar_frame)

interpretation disabled_run: actor_guarded "node_step env ro" "\<lambda>n. node_inv env n \<and> disabled (nd_registrar n) u"
  "\<lambda>e. node_legal e \<and> (\<forall>msg. e = Manage msg \<longrightarrow> \<not> reopens u msg)" for env ro u
proof unfold_locales
  fix n :: "'a node" and e :: "'a node_event"
  assume n: "node_inv env n \<and> disabled (nd_registrar n) u" and e: "node_legal e \<and> (\<forall>msg. e = Manage msg \<longrightarrow> \<not> reopens u msg)"
  then have "disabled (nd_registrar (node_step env ro n e)) u"
    by (cases e) (auto simp: node_step_registrar node_inv_def simp del: node_step.simps intro: disabled_step)
  with n e show "node_inv env (node_step env ro n e) \<and> disabled (nd_registrar (node_step env ro n e)) u"
    using node_run.legal_step_keeps by blast
qed

lemma draining_names: "nd_supervisors n pid = Some (name, sv) \<Longrightarrow> name \<noteq> ToolSupervisorName u \<Longrightarrow> draining n u \<Longrightarrow>
    draining (sup_tell env n (pid, m)) u"
  by (auto simp: draining_def sup_after_def)

lemma draining_stops: "draining n u \<Longrightarrow> draining (foldl node_stop n ps) u"
  by (simp add: draining_def)

lemma draining_spawns:
  "draining n u \<Longrightarrow> ToolSupervisorName u \<notin> set names \<Longrightarrow> draining (foldl (node_spawn env) n names) u"
proof (induction names arbitrary: n)
  case (Cons name names)
  have "draining (n\<lparr>nd_supervisors := (nd_supervisors n)(pid \<mapsto> (name, supervisor_PreStart))\<rparr>) u" for pid
    using Cons.prems by (auto simp: draining_def)
  from draining_names [OF _ _ this] Cons.prems have "draining (node_spawn env n name) u"
    by (auto simp: node_spawn_def split: option.split)
  with Cons show ?case by simp
qed simp

lemma reg_spawns_touched: "name \<in> set (reg_spawns msg) \<Longrightarrow> \<exists>v \<in> touched msg. name = ToolSupervisorName v"
  by (cases msg) (auto split: if_splits)

lemma configures_quiet:
  "configures msg = Some v \<Longrightarrow> reg_asks env x msg = [] \<and> reg_spawns msg = [] \<and> v \<in> touched msg"
  by (cases msg) simp_all

lemma reg_tells_configures: "ro_tells (snd (registrar_Receive env x msg)) \<noteq> [] \<Longrightarrow> \<exists>v. configures msg = Some v"
  by (cases msg) (auto simp: handleRegisterTool_def handleRemoveTool_def handleUpdateToolHealth_def
      Let_def case_prod_unfold split: option.splits if_splits)

lemma draining_manage:
  assumes "node_inv env n" and "draining n u" and "u \<notin> touched msg"
  shows "draining (fst (node_AskRegistrar env msg n)) u"
proof -
  have inv: "reg_inv (nd_registrar n)" and ok: "env_ok env" and coh: "node_coherent env {} n"
    using assms(1) by (auto simp: node_inv_def)
  let ?r = "node_reg_env env n"
  obtain x out where rc: "registrar_Receive ?r (nd_registrar n) msg = (x, out)" by fastforce
  show ?thesis
  proof (cases "configures msg")
    case None
    then have "ro_tells out = []" using reg_tells_configures [of ?r "nd_registrar n" msg] rc by auto
    moreover have "ToolSupervisorName u \<notin> set (reg_spawns msg)"
      using reg_spawns_touched [of "ToolSupervisorName u" msg] assms(3) by auto
    moreover have "draining (foldl (sup_tell env) n (reg_asks ?r (nd_registrar n) msg)) u"
      using draining_tells [OF assms(2)] reg_asks_plain by blast
    ultimately show ?thesis
      unfolding node_AskRegistrar_eq [OF rc] by (simp add: draining_spawns draining_stops)
  next
    case (Some v)
    note quiet = configures_quiet [OF Some, of ?r "nd_registrar n"]
    note ch = configures_changes [OF inv Some, of ?r, unfolded rc changes_def_def fst_conv snd_conv]
    have eq: "fst (node_AskRegistrar env msg n) = foldl (sup_tell env) (n\<lparr>nd_registrar := x\<rparr>) (ro_tells out)"
      using node_AskRegistrar_eq [OF rc] quiet ch by simp
    show ?thesis
    proof (cases "gm_get (rg_supervisors (nd_registrar n)) v")
      case None
      then show ?thesis unfolding eq using ch assms(2) by (auto simp: reg_notifySupervisor_def)
    next
      case (Some pid)
      obtain sv where "nd_supervisors n pid = Some (ToolSupervisorName v, sv)"
        by (rule coherent_running [OF ok coh Some]) simp_all
      then have "draining (sup_tell env (n\<lparr>nd_registrar := x\<rparr>) (pid, RefreshToolConfig v)) u"
        using quiet assms(2,3) by (intro draining_names) auto
      then show ?thesis unfolding eq using ch assms(2) Some by (auto simp: reg_notifySupervisor_def)
    qed
  qed
qed

lemma draining_told: "session_told ms \<Longrightarrow> draining n u \<Longrightarrow> draining (deliver env ms n) u"
  by (rule deliver_keeps) (auto simp: draining_tell session_msg_simps)

lemma draining_asked:
  assumes "node_inv env n" and "draining n u" and "\<And>ctx. \<not> config_msg (ctx, msg)"
  shows "draining (fst (node_AskSupervisor env pid msg n)) u"
  unfolding node_AskSupervisor_eq using assms
  by (intro draining_told draining_tell sup_handle_told) (auto simp: node_inv_def env_ok_def)

lemma draining_executed:
  assumes "node_inv env n" and "draining n u"
  shows "draining (fst (node_AskGrain env name d m n)) u"
proof -
  have "session_told (snd (fst (sl_AskGrain (ne_layer env) name d m (nd_sessions n))))"
    using assms(1) by (simp add: node_inv_def env_ok_def layer_ok_def)
  with assms(2) show ?thesis by (simp add: node_AskGrain_def draining_told Let_def case_prod_unfold)
qed

interpretation draining_sys: executing_system "node_sys env" "\<lambda>n. node_inv env n \<and> draining n u" for env u
  by unfold_locales (auto simp: keeps_inv draining_observed router_question_simps draining_asked draining_executed,
    auto simp: draining_def)

interpretation draining_run: actor_guarded "node_step env ro" "\<lambda>n. node_inv env n \<and> draining n u"
  "\<lambda>e. node_legal e \<and> (\<forall>msg. e = Manage msg \<longrightarrow> u \<notin> touched msg)" for env ro u
proof unfold_locales
  fix n :: "'a node" and e :: "'a node_event"
  assume n: "node_inv env n \<and> draining n u" and e: "node_legal e \<and> (\<forall>msg. e = Manage msg \<longrightarrow> u \<notin> touched msg)"
  then have "draining (node_step env ro n e) u"
    by (cases e) (simp_all add: draining_manage draining_sys.route_keeps draining_told)
  with n e show "node_inv env (node_step env ro n e) \<and> draining (node_step env ro n e) u"
    using node_run.legal_step_keeps by blast
qed

section \<open>Calls of the gateway\<close>

lemma gateway_asked:
  assumes "read_reply (system_actors (node_sys env) ro now) f
    (ask_registrar (system_actors (node_sys env) ro now) g check msg n) = (n', Inr v)"
  shows "n' = fst (node_AskRegistrar env msg n) \<and> (\<exists>r. snd (node_AskRegistrar env msg n) = Inr r \<and> f r = Some (Inr v))"
  using assms
  by (auto simp: read_reply_def ask_registrar_def system_actors_def resolveRegistrar_def resolve_actor_def
      split: sum.splits option.splits prod.splits Option.bind_splits)

lemma disable_reply_registered:
  assumes "snd (node_AskRegistrar env (DisableTool u) n) = Inr r" and "disable_reply r = Some (Inr ())"
  shows "tool_of (nd_registrar n) u \<noteq> None"
  using assms
  by (auto simp: node_AskRegistrar_def handleDisableTool_def Let_def case_prod_unfold split: option.splits)

lemma gateway_disables:
  assumes "Gateway_DisableTool (system_actors (node_sys env) ro now) g u n = (n', Inr ())" and "node_inv env n"
  shows "node_inv env n' \<and> disabled (nd_registrar n') u"
proof -
  from gateway_asked [OF assms(1) [unfolded Gateway_DisableTool_def]] obtain r where
    n': "n' = fst (node_AskRegistrar env (DisableTool u) n)" and
    r: "snd (node_AskRegistrar env (DisableTool u) n) = Inr r" "disable_reply r = Some (Inr ())" by blast
  have "disabled (fst (registrar_Receive (node_reg_env env n) (nd_registrar n) (DisableTool u))) u"
    using assms(2) disable_reply_registered [OF r] by (intro disable_disables) (auto simp: node_inv_def)
  with n' assms(2) show ?thesis by (simp add: node_AskRegistrar_frame node_AskRegistrar_inv del: registrar_Receive.simps)
qed

lemma drain_reply_asked:
  assumes "snd (node_AskRegistrar env (RegDrainTool u) n) = Inr r" and "drain_reply r = Some (Inr ())"
  obtains pid where "gm_get (rg_supervisors (nd_registrar n)) u = Some pid"
    "fst (node_AskRegistrar env (RegDrainTool u) n) = sup_tell env n (pid, DrainTool u)"
proof -
  let ?x = "nd_registrar n"
  obtain pid where "catalog_Has u (rg_catalog ?x)" "gm_get (rg_supervisors ?x) u = Some pid" "nd_supervisors n pid \<noteq> None"
    using assms
    by (auto simp: node_AskRegistrar_def reg_handleDrainTool_def relay_def Let_def done_or_def split: if_splits option.splits)
  moreover have "(sup_tell env n (pid, DrainTool u))\<lparr>nd_registrar := nd_registrar n\<rparr> = sup_tell env n (pid, DrainTool u)"
    by (rule node.equality) simp_all
  ultimately show thesis
    by (intro that [of pid]) (simp_all add: observe_eq relay_asks_def)
qed

lemma gateway_drains:
  assumes "Gateway_DrainTool (system_actors (node_sys env) ro now) g u n = (n', Inr ())" and "node_inv env n"
  shows "node_inv env n' \<and> draining n' u \<and> nd_sessions n' = nd_sessions n"
proof -
  from gateway_asked [OF assms(1) [unfolded Gateway_DrainTool_def]] obtain r where
    n': "n' = fst (node_AskRegistrar env (RegDrainTool u) n)" and
    r: "snd (node_AskRegistrar env (RegDrainTool u) n) = Inr r" "drain_reply r = Some (Inr ())" by blast
  obtain pid where pid: "gm_get (rg_supervisors (nd_registrar n)) u = Some pid" "n' = sup_tell env n (pid, DrainTool u)"
    using drain_reply_asked [OF r] n' by metis
  have ok: "env_ok env" and coh: "node_coherent env {} n" using assms(2) by (auto simp: node_inv_def)
  have "sv_draining sv" if s: "nd_supervisors n' p = Some (ToolSupervisorName u, sv)" for p sv
  proof -
    obtain sv0 where sv0: "nd_supervisors n p = Some (ToolSupervisorName u, sv0)"
      using s pid(2) by (auto simp: sup_after_def split: if_splits)
    then obtain v where v: "ToolSupervisorName u = ToolSupervisorName v" "ne_Spawn env (ToolSupervisorName v) = Some p" "sup_inv v sv0"
      by (rule coherentD [OF coh]) blast
    then have "p = pid" using coherent_named [OF coh pid(1)] by simp
    with s sv0 v pid(2) show ?thesis by (auto simp: sup_after_def handleDrainTool_def sup_inv_def)
  qed
  then have "draining n' u" by (simp add: draining_def)
  moreover have "nd_sessions n' = nd_sessions n" unfolding pid(2) by simp
  ultimately show ?thesis using n' assms(2) by (simp add: node_AskRegistrar_inv)
qed

text \<open>A drained tool is refused to everybody, as long as no message changes its definition.\<close>

lemma drained_refuses:
  assumes "Gateway_DrainTool (system_actors (node_sys env) ro now) g u n0 = (n, Inr ())" and "node_inv env n0"
    and "\<forall>e \<in> set later. node_legal e \<and> (\<forall>msg. e = Manage msg \<longrightarrow> u \<notin> touched msg)"
    and "inv_ToolID ivk = u" and "n' = node_after env ro n later"
  shows "\<exists>n'' err. nd_sessions n'' = nd_sessions n' \<and>
      Gateway_Invoke (system_actors (node_sys env) ro now) g' (Some ivk) n' = (n'', None, Some err)"
    "\<exists>n'' err. nd_sessions n'' = nd_sessions n' \<and>
      Gateway_InvokeStream (system_actors (node_sys env) ro now) g' (Some ivk) n' = (n'', Inl err)"
proof -
  from gateway_drains [OF assms(1,2)] have "node_inv env n \<and> draining n u" by blast
  then have "node_inv env n' \<and> draining n' u"
    unfolding assms(5) by (rule draining_run.legal_run_keeps) (use assms(3) in blast)
  then have "out_of_service env (inv_ToolID ivk) (nd_sessions n') n'"
    using assms(4) by (simp add: out_of_service_def)
  note refused = out_of_service_route [OF this]
  show "\<exists>n'' err. nd_sessions n'' = nd_sessions n' \<and>
      Gateway_Invoke (system_actors (node_sys env) ro now) g' (Some ivk) n' = (n'', None, Some err)" by (rule refused(1))
  show "\<exists>n'' err. nd_sessions n'' = nd_sessions n' \<and>
      Gateway_InvokeStream (system_actors (node_sys env) ro now) g' (Some ivk) n' = (n'', Inl err)" by (rule refused(2))
qed

section \<open>Properties\<close>

text \<open>C2: On a node that has handled any events, a tool that was disabled through the gateway stays
  out of service: as long as it is not enabled, removed, bootstrapped or reported healthy,
  whatever else happens (it may be registered again or updated), every invocation of it
  fails, streaming or not, and no session is asked or opened for it.\<close>

theorem disabled_tool_never_served:
  fixes env ro now
  defines "ga \<equiv> system_actors (node_sys env) ro now"
  assumes "env_ok env" and "\<forall>e \<in> set es. node_legal e"
    and "Gateway_DisableTool ga g u (node_after env ro (node_start config b) es) = (n, Inr ())"
    and "\<forall>e \<in> set later. node_legal e \<and> (\<forall>msg. e = Manage msg \<longrightarrow> \<not> reopens u msg)"
    and "inv_ToolID ivk = u"
  shows "let n' = node_after env ro n later in
    (\<exists>n'' err. Gateway_Invoke ga g' (Some ivk) n' = (n'', None, Some err) \<and> nd_sessions n'' = nd_sessions n') \<and>
    (\<exists>n'' err. Gateway_InvokeStream ga g' (Some ivk) n' = (n'', Inl err) \<and> nd_sessions n'' = nd_sessions n')"
proof -
  have "node_inv env (node_after env ro (node_start config b) es)"
    by (rule node_run.legal_run_keeps [OF node_inv_start [OF assms(2)] assms(3)])
  from gateway_disables [OF assms(4) [unfolded ga_def] this]
  have "node_inv env (node_after env ro n later) \<and> disabled (nd_registrar (node_after env ro n later)) u"
    by (rule disabled_run.legal_run_keeps) (use assms(5) in blast)
  then have "out_of_service env (inv_ToolID ivk) (nd_sessions (node_after env ro n later)) (node_after env ro n later)"
    using assms(6) by (simp add: out_of_service_def)
  from out_of_service_route [OF this] show ?thesis unfolding ga_def Let_def by blast
qed

section \<open>The properties on a concrete node\<close>

abbreviation example_ga :: "nat node actors" where
  "example_ga \<equiv> system_actors (node_sys (example_node_env example_layer)) example_router 0"

abbreviation example_served_node :: "nat node" where
  "example_served_node \<equiv> example_node example_layer (example_config [] 0 0 [] []) 0"

lemma example_running: "requireRunning (example_gateway_on False) = Inr 1"
  by (simp add: requireRunning_def example_gateway_on_def)

lemma example_disable:
  "snd (Gateway_DisableTool example_ga (example_gateway_on False) ''fs'' example_served_node) = Inr ()"
proof -
  have reg: "tool_of (nd_registrar example_served_node) ''fs'' = Some example_tool"
    unfolding example_node_state by simp
  show ?thesis
    using reg example_running
    by (simp add: Gateway_DisableTool_def read_reply_def ask_registrar_def system_actors_def tool_id_check_def IsZero_def
        resolveRegistrar_def resolve_actor_def node_AskRegistrar_def handleDisableTool_def Let_def case_prod_unfold
        del: foldl_Cons)
qed

lemma example_drain:
  fixes L and b
  defines "n \<equiv> example_node L (example_config [] 0 0 [] []) b"
  shows "snd (Gateway_DrainTool (system_actors (node_sys (example_node_env L)) example_router 0) (example_gateway_on False) ''fs'' n) = Inr ()"
proof -
  have st: "tool_of (nd_registrar n) ''fs'' = Some example_tool" "gm_get (rg_supervisors (nd_registrar n)) ''fs'' = Some 7"
      "nd_supervisors n 7 = Some (ToolSupervisorName ''fs'', example_supervisor)"
    unfolding n_def example_node_state by simp_all
  have "snd (node_AskSupervisor (example_node_env L) 7 (DrainTool ''fs'') n) = Inr (DrainToolResult None)"
    using st(3) by (simp add: node_AskSupervisor_def sup_handle_def handleDrainTool_def example_supervisor_def Let_def)
  with st have "reg_handleDrainTool (node_reg_env (example_node_env L) n) ''fs'' (nd_registrar n) = RegDrainToolResult None"
    by (simp add: reg_handleDrainTool_def relay_def catalog_Has_iff node_reg_env_def)
  then show ?thesis
    using example_running
    by (simp add: Gateway_DrainTool_def read_reply_def ask_registrar_def system_actors_def tool_id_check_def IsZero_def
        resolveRegistrar_def resolve_actor_def node_AskRegistrar_def Let_def case_prod_unfold)
qed

theorem disabled_tool_never_served_witness:
  "\<exists>err. snd (Gateway_Invoke example_ga (example_gateway_on False) (Some (example_invocation ''acme'' ''web'' ''fs''))
     (node_after (example_node_env example_layer) example_router
        (fst (Gateway_DisableTool example_ga (example_gateway_on False) ''fs'' example_served_node))
        [Manage (reg_msg.RegisterTool example_tool)])) = (None, Some err)"
proof -
  obtain n where n: "Gateway_DisableTool example_ga (example_gateway_on False) ''fs'' example_served_node = (n, Inr ())"
    using example_disable by (metis prod.collapse)
  have "inv_ToolID (example_invocation ''acme'' ''web'' ''fs'') = ''fs''" by (simp add: example_invocation_def)
  from disabled_tool_never_served [OF example_env_ok [OF example_layer_ok] _ n, of "[Manage (reg_msg.RegisterTool example_tool)]",
      OF _ _ this, of "example_gateway_on False"]
  show ?thesis unfolding n fst_conv Let_def by (simp del: foldl_Cons) (metis snd_conv)
qed

end
