(* ===== verification/Node_Quota.thy ===== *)
theory Node_Quota
  imports Node_Service
begin

text \<open>
  The quota of a tenant on a node: how many of its invocations are served in one calendar
  minute, however they interleave with other events.
\<close>

section \<open>The rate limit of a tenant on a node\<close>

text \<open>The clock is read, never set back.\<close>

lemma sup_tell_tick: "nd_tick n \<le> nd_tick (sup_tell env n m)"
  by (simp add: sup_tell_def sup_handle_def Let_def case_prod_unfold split: option.split)

lemma tells_tick: "nd_tick n \<le> nd_tick (foldl (sup_tell env) n ms)"
  by (induction ms arbitrary: n) (auto intro: order_trans [OF sup_tell_tick])

lemma deliver_tick: "nd_tick n \<le> nd_tick (deliver env ms n)"
  by (induction ms arbitrary: n)
    (auto simp: deliver_def case_prod_unfold intro: order_trans [OF sup_tell_tick] split: option.split)

lemma spawn_tick: "nd_tick n \<le> nd_tick (node_spawn env n name)"
  by (auto simp: node_spawn_def intro: order_trans [OF _ sup_tell_tick] split: option.split)

lemma spawns_tick: "nd_tick n \<le> nd_tick (foldl (node_spawn env) n names)"
  by (induction names arbitrary: n) (auto intro: order_trans [OF spawn_tick])

lemma stops_tick: "nd_tick (foldl node_stop n ps) = nd_tick n"
  by (induction ps arbitrary: n) (simp_all add: node_stop_def)

lemma ask_registrar_tick: "nd_tick n \<le> nd_tick (fst (node_AskRegistrar env msg n))"
proof -
  obtain x out where rc: "registrar_Receive (node_reg_env env n) (nd_registrar n) msg = (x, out)" by fastforce
  let ?n = "(foldl (sup_tell env) n (reg_asks (node_reg_env env n) (nd_registrar n) msg))\<lparr>nd_registrar := x\<rparr>"
  have "nd_tick n \<le> nd_tick (foldl node_stop ?n (ro_stops out))"
    using tells_tick [of n env] by (simp add: stops_tick)
  also have "\<dots> \<le> nd_tick (foldl (node_spawn env) (foldl node_stop ?n (ro_stops out)) (reg_spawns msg))"
    by (rule spawns_tick)
  also note tells_tick
  finally show ?thesis unfolding node_AskRegistrar_eq [OF rc] .
qed

lemma ask_tick:
  "nd_tick n \<le> nd_tick (fst (node_AskSupervisor env pid m n))" "nd_tick n \<le> nd_tick (fst (node_AskBroker env t u n))"
  "nd_tick n \<le> nd_tick (fst (node_AskGrain env name d gm n))"
  using order_trans [OF sup_tell_tick deliver_tick] deliver_tick [of "n\<lparr>nd_sessions := b\<rparr>" env for b]
  by (auto simp: node_AskSupervisor_eq node_AskBroker_def node_AskGrain_def Let_def case_prod_unfold)

text \<open>
  What is left of a tenant's quota in minute \<open>m\<close> is at most \<open>k\<close>, and the policy actor has
  seen no later minute than the clock shows.
\<close>

definition quota_left :: "'b node_env \<Rightarrow> TenantID \<Rightarrow> TenantConfig \<Rightarrow> int \<Rightarrow> int \<Rightarrow> 'b node \<Rightarrow> bool" where
  "quota_left env t tc m k n \<longleftrightarrow>
     mono (ne_Now env) \<and> lookupTenantConfig (pm_config (nd_policy n)) t = Some tc \<and>
     0 < quota_RequestsPerMinute (tenant_Quotas tc) \<and>
     budget (quota_RequestsPerMinute (tenant_Quotas tc)) (nd_policy n) t m \<le> k \<and>
     pm_currentMinute (nd_policy n) \<le> unix_minute (ne_Now env (nd_tick n))"

lemma quota_left_later:
  assumes "quota_left env t tc m k n" and "nd_policy n' = nd_policy n" and "nd_tick n \<le> nd_tick n'"
  shows "quota_left env t tc m k n'"
proof -
  have "unix_minute (ne_Now env (nd_tick n)) \<le> unix_minute (ne_Now env (nd_tick n'))"
    using assms(1,3) by (intro unix_minute_mono) (auto simp: quota_left_def mono_def)
  with assms show ?thesis by (auto simp: quota_left_def)
qed

lemma quota_left_policy:
  assumes "quota_left env t tc m k n"
  shows "quota_left env t tc m k (fst (node_AskPolicy env i n))"
    and "in_TenantID i = t \<Longrightarrow> unix_minute (ne_Now env (nd_tick n)) = m \<Longrightarrow>
      Allowed (snd (handleEvaluate (ne_Now env (nd_tick n)) (Some i) (nd_policy n))) \<Longrightarrow>
      quota_left env t tc m (k - 1) (fst (node_AskPolicy env i n))"
proof -
  have "unix_minute (ne_Now env (nd_tick n)) \<le> unix_minute (ne_Now env (Suc (nd_tick n)))"
    using assms by (intro unix_minute_mono) (auto simp: quota_left_def mono_def)
  moreover note budget_step [of "quota_RequestsPerMinute (tenant_Quotas tc)" "nd_policy n" "ne_Now env (nd_tick n)" t tc i m]
  ultimately show "quota_left env t tc m k (fst (node_AskPolicy env i n))"
    "in_TenantID i = t \<Longrightarrow> unix_minute (ne_Now env (nd_tick n)) = m \<Longrightarrow>
      Allowed (snd (handleEvaluate (ne_Now env (nd_tick n)) (Some i) (nd_policy n))) \<Longrightarrow>
      quota_left env t tc m (k - 1) (fst (node_AskPolicy env i n))"
    using assms by (auto simp: quota_left_def node_AskPolicy_def Let_def case_prod_unfold split: if_splits)
qed

interpretation quota: executing_system "node_sys env" "quota_left env t tc m k" for env t tc m k
  by unfold_locales
    (auto simp: quota_left_policy(1) node_AskRegistrar_frame ask_registrar_tick ask_tick elim: quota_left_later)

text \<open>After the policy actor has answered, nothing of a route changes it.\<close>

interpretation policy_done: settling_system "node_sys env" "\<lambda>n. nd_policy n = p" for env p
  by unfold_locales (simp_all add: node_AskRegistrar_frame)

lemma node_policy_allows:
  assumes "evaluatePolicy (node_sys env) ro ivk tool t c n = (n', None)" and "quota_left env t tc m k n"
    and "pm_currentMinute (nd_policy n') = m"
  shows "quota_left env t tc m (k - 1) n'"
proof -
  obtain n1 cnt where a: "active_sessions (node_sys env) ro t n = (n1, cnt)" by fastforce
  have q1: "quota_left env t tc m k n1" using quota.active_keeps [OF assms(2), of ro t] a by simp
  define i where "i = \<lparr>in_Invocation = Some ivk, in_Tool = tool, in_TenantID = t, in_ClientID = c, in_TenantConfig = None,
    in_ActiveSessionCount = cnt, in_RequestsInCurrentMinute = 0, in_Scopes = inv_Scopes ivk\<rparr>"
  have i: "in_TenantID i = t" "n' = fst (node_AskPolicy env i n1)"
      "Allowed (snd (handleEvaluate (ne_Now env (nd_tick n1)) (Some i) (nd_policy n1)))"
    using assms(1) a
    by (auto simp: i_def evaluatePolicy_def node_AskPolicy_def Let_def case_prod_unfold split: if_splits)
  moreover have "unix_minute (ne_Now env (nd_tick n1)) = m"
    using assms(3) i(2) by (simp add: node_AskPolicy_def Let_def case_prod_unfold)
  ultimately show ?thesis using quota_left_policy(2) [OF q1] by blast
qed

text \<open>An invocation is served when its caller gets a result, or a stream.\<close>

fun route_serves :: "'b node_env \<Rightarrow> router \<Rightarrow> TenantID \<Rightarrow> 'b node \<Rightarrow> 'b node_event \<Rightarrow> bool" where
  "route_serves env ro t n (Route now (Some ivk)) \<longleftrightarrow> fst (resolveIdentity ivk) = t \<and>
     (case fst (snd (handleRouteInvocation (node_sys env) ro now (Some ivk) n)) of
        Some (RouteResult (Some result) err) \<Rightarrow> True | _ \<Rightarrow> False)"
| "route_serves env ro t n (RouteStream now (Some ivk)) \<longleftrightarrow> fst (resolveIdentity ivk) = t \<and>
     (case fst (snd (handleRouteInvokeStream (node_sys env) ro now (Some ivk) n)) of
        RouteStreamResult sr result None \<Rightarrow> True | _ \<Rightarrow> False)"
| "route_serves env ro t n _ \<longleftrightarrow> False"

text \<open>
  The invocations of a tenant served in a minute, in a run of events; the minute is the one
  the policy actor read from the clock when it admitted the invocation.
\<close>

fun served :: "'b node_env \<Rightarrow> router \<Rightarrow> TenantID \<Rightarrow> int \<Rightarrow> 'b node \<Rightarrow> 'b node_event list \<Rightarrow> nat" where
  "served env ro t m n [] = 0"
| "served env ro t m n (e # es) =
     (if route_serves env ro t n e \<and> pm_currentMinute (nd_policy (node_step env ro n e)) = m then 1 else 0)
       + served env ro t m (node_step env ro n e) es"

lemma admitted_quota:
  assumes "quota_left env t tc m k n" and "runPreExecutionPipeline (node_sys env) ro ivk t c n = (n', Inr rc)"
    and "pm_currentMinute (nd_policy n') = m"
  shows "quota_left env t tc m (k - 1) n'"
  using assms(1,2)
proof (cases rule: quota.pipeline_cases)
  case (accepted w1 tool w2 w3 pid w4)
  have "nd_policy n' = nd_policy w2"
    using policy_done.pipeline_after [OF accepted(1,2) refl] assms(2) by simp
  then have "quota_left env t tc m (k - 1) w2"
    using node_policy_allows [OF accepted(2,5)] assms(3) by simp
  from quota.pipeline_after [OF accepted(1,2) this] assms(2) show ?thesis by simp
qed simp

lemma executed_quota:
  assumes "quota_left env t tc m k n"
  shows "quota_left env t tc m k (fst (executeInvocation (node_sys env) s i u n))"
    "quota_left env t tc m k (fst (executeInvocationStream (node_sys env) s i u n))"
    "nd_policy (fst (executeInvocation (node_sys env) s i u n)) = nd_policy n"
    "nd_policy (fst (executeInvocationStream (node_sys env) s i u n)) = nd_policy n"
  using quota.execute_keeps [OF assms] policy_done.execute_keeps [OF refl] by auto

lemma route_admitted:
  assumes "route_serves env ro t n e"
  obtains ivk c n1 rc s i u where "runPreExecutionPipeline (node_sys env) ro ivk t c n = (n1, Inr rc)"
    "node_step env ro n e = fst (executeInvocation (node_sys env) s i u n1) \<or>
     node_step env ro n e = fst (executeInvocationStream (node_sys env) s i u n1)"
proof (cases e)
  case (Route now msg)
  with assms obtain ivk where msg: "msg = Some ivk" "fst (resolveIdentity ivk) = t" by (cases msg) auto
  obtain n1 p where run: "runPreExecutionPipeline (node_sys env) ro ivk t (snd (resolveIdentity ivk)) n = (n1, p)" by fastforce
  show thesis
  proof (cases p)
    case (Inl f)
    with assms run msg Route show thesis by (auto simp: handleRouteInvocation_def case_prod_unfold Let_def split: option.splits)
  next
    case (Inr rc)
    have "fst (handleRouteInvocation (node_sys env) ro now msg n) = fst (executeInvocation (node_sys env) (rc_Session rc) (rc_Invocation rc) (rc_Tool rc) n1)"
      using assms run msg Route Inr
      by (auto simp: handleRouteInvocation_def case_prod_unfold Let_def split: option.splits prod.splits sum.splits)
    with Route that [OF run [unfolded Inr], of "rc_Session rc" "rc_Invocation rc" "rc_Tool rc"] show thesis by simp
  qed
next
  case (RouteStream now msg)
  with assms obtain ivk where msg: "msg = Some ivk" "fst (resolveIdentity ivk) = t" by (cases msg) auto
  obtain n1 p where run: "runPreExecutionPipeline (node_sys env) ro ivk t (snd (resolveIdentity ivk)) n = (n1, p)" by fastforce
  show thesis
  proof (cases p)
    case (Inl f)
    with assms run msg RouteStream show thesis by (auto simp: handleRouteInvokeStream_def case_prod_unfold Let_def split: option.splits)
  next
    case (Inr rc)
    have "fst (handleRouteInvokeStream (node_sys env) ro now msg n) = fst (executeInvocationStream (node_sys env) (rc_Session rc) (rc_Invocation rc) (rc_Tool rc) n1)"
      using assms run msg RouteStream Inr
      by (auto simp: handleRouteInvokeStream_def case_prod_unfold Let_def split: option.splits prod.splits sum.splits)
    with RouteStream that [OF run [unfolded Inr], of "rc_Session rc" "rc_Invocation rc" "rc_Tool rc"] show thesis by simp
  qed
qed (use assms in auto)

lemma step_quota:
  assumes "quota_left env t tc m k n"
  shows "quota_left env t tc m k (node_step env ro n e)"
    and "route_serves env ro t n e \<Longrightarrow> pm_currentMinute (nd_policy (node_step env ro n e)) = m \<Longrightarrow>
      quota_left env t tc m (k - 1) (node_step env ro n e)"
proof -
  show "quota_left env t tc m k (node_step env ro n e)"
  proof (cases e)
    case (Manage msg)
    with quota_left_later [OF assms] show ?thesis by (simp add: node_AskRegistrar_frame ask_registrar_tick)
  next
    case (Sessions b ms)
    have "nd_tick n \<le> nd_tick (deliver env ms (n\<lparr>nd_sessions := b\<rparr>))" by (rule order_trans [OF _ deliver_tick]) simp
    with Sessions quota_left_later [OF assms] show ?thesis by simp
  qed (simp_all add: quota.route_keeps [OF assms])
next
  assume "route_serves env ro t n e" and minute: "pm_currentMinute (nd_policy (node_step env ro n e)) = m"
  then obtain ivk c n1 rc s i u where run: "runPreExecutionPipeline (node_sys env) ro ivk t c n = (n1, Inr rc)"
    and step: "node_step env ro n e = fst (executeInvocation (node_sys env) s i u n1) \<or>
     node_step env ro n e = fst (executeInvocationStream (node_sys env) s i u n1)"
    by (elim route_admitted) blast
  have "quota_left env t tc m k n1" using quota.pipeline_keeps [OF assms, of ro ivk t c] run by simp
  from executed_quota [OF this] step minute have "pm_currentMinute (nd_policy n1) = m" by auto
  from executed_quota(1,2) [OF admitted_quota [OF assms run this]] step
  show "quota_left env t tc m (k - 1) (node_step env ro n e)" by auto
qed

lemma served_quota: "quota_left env t tc m k n \<Longrightarrow> int (served env ro t m n es) \<le> k"
proof (induction es arbitrary: n k)
  case Nil
  then show ?case by (auto simp: quota_left_def budget_def split: if_splits)
next
  case (Cons e es)
  show ?case
  proof (cases "route_serves env ro t n e \<and> pm_currentMinute (nd_policy (node_step env ro n e)) = m")
    case True
    with Cons.IH [OF step_quota(2) [OF Cons.prems, of ro e]] show ?thesis by auto
  next
    case False
    with Cons.IH [OF step_quota(1) [OF Cons.prems, of ro e]] show ?thesis by auto
  qed
qed

section \<open>Properties\<close>

text \<open>C3: On a node whose clock does not run backwards, the number of invocations of a tenant that
  are served in one calendar minute, with a result or a stream, never exceeds the tenant's
  requests-per-minute quota, whatever requests of other tenants, administrative messages
  and session events are interleaved.\<close>

theorem node_rate_limit:
  assumes "mono (ne_Now env)" and "0 \<le> ne_Now env 0"
    and "lookupTenantConfig config t = Some tc" and "0 < quota_RequestsPerMinute (tenant_Quotas tc)"
  shows "int (served env ro t m (node_start config b) es) \<le> quota_RequestsPerMinute (tenant_Quotas tc)"
proof (rule served_quota)
  have "0 \<le> unix_minute (ne_Now env 0)" using assms(2) by (simp add: unix_minute_def)
  with assms(1,3,4)
  show "quota_left env t tc m (quota_RequestsPerMinute (tenant_Quotas tc)) (node_start config b)"
    by (auto simp: quota_left_def node_start_def newPolicyMaker_def budget_def)
qed

theorem node_rate_limit_witness:
  "int (served (example_node_env example_layer) example_router ''acme'' 0
     (node_start (example_config [] 0 0 [example_tenant ''acme'' 1 0] []) 0)
     [Manage (reg_msg.RegisterTool example_tool), Route 0 (Some (example_invocation ''acme'' ''web'' ''fs'')),
      Route 0 (Some (example_invocation ''acme'' ''web'' ''fs''))]) \<le> 1"
proof -
  have "mono (ne_Now (example_node_env example_layer))" "0 \<le> ne_Now (example_node_env example_layer) 0"
    by (simp_all add: example_node_env_def mono_def)
  note clock = this
  have tc: "lookupTenantConfig (example_config [] 0 0 [example_tenant ''acme'' 1 0] []) ''acme'' =
      Some (example_tenant ''acme'' 1 0)"
    by (simp add: lookupTenantConfig_def example_config_def example_tenant_def)
  have q: "quota_RequestsPerMinute (tenant_Quotas (example_tenant ''acme'' 1 0)) = 1"
    by (simp add: example_tenant_def)
  show ?thesis
    by (rule node_rate_limit [OF clock tc, unfolded q]) simp
qed

end
