(* ===== verification/Node_Grains.thy ===== *)
theory Node_Grains
  imports Node_Service
begin

text \<open>
  Serving an invocation on a node whose session layer is made of the session grains of
  internal/runtime/actor/session_grain.go.
\<close>

section \<open>An invocation that is served\<close>

lemma deliver_sessions: "session_told ms \<Longrightarrow> nd_sessions (deliver env ms n) = nd_sessions n"
  by (rule deliver_keeps) (auto simp: session_msg_simps)

lemma counting_frame:
  "nd_supervisors (foldl (sup_tell env) n (map (\<lambda>pid. (pid, SupervisorCountSessionsForTenant t)) pids)) = nd_supervisors n"
proof (induction pids arbitrary: n)
  case (Cons pid pids)
  have "nd_supervisors (sup_tell env n (pid, SupervisorCountSessionsForTenant t)) = nd_supervisors n"
    by (simp add: sup_after_def option.map_id fun_upd_idem)
  with Cons show ?case by simp
qed simp

lemma active_sessions_frame:
  assumes "active_sessions (node_sys env) ro t n = (n', k)"
  shows "nd_registrar n' = nd_registrar n \<and> nd_policy n' = nd_policy n \<and> nd_supervisors n' = nd_supervisors n \<and>
    nd_sessions n' = nd_sessions n"
proof -
  have "n' = n \<or> n' = fst (node_AskRegistrar env (CountSessionsForTenant t) n)"
    using assms by (auto simp: active_sessions_def split: if_splits prod.splits sum.splits reg_reply.splits)
  moreover have "nd_supervisors (fst (node_AskRegistrar env (CountSessionsForTenant t) n)) = nd_supervisors n"
    by (simp add: observe_eq counting_frame)
  ultimately show ?thesis by (auto simp: node_AskRegistrar_frame)
qed

lemma node_lookupTool:
  "tool_of (nd_registrar n) u = Some tool \<Longrightarrow> lookupTool (node_sys env) u n = (n, Inr tool)"
  by (simp add: lookupTool_def node_AskRegistrar_def handleQueryTool_def Let_def)

lemma node_evaluates:
  assumes "lookupTenantConfig (pm_config (nd_policy n)) t = None" and "tool_AuthorizationPolicy tool \<noteq> AuthorizationPolicyTenantAllowlist"
    and "tool_ID tool \<noteq> ''''"
  obtains n' where "evaluatePolicy (node_sys env) ro ivk tool t c n = (n', None)" "nd_registrar n' = nd_registrar n"
    "nd_supervisors n' = nd_supervisors n" "nd_sessions n' = nd_sessions n"
proof -
  obtain n1 cnt where a: "active_sessions (node_sys env) ro t n = (n1, cnt)" by fastforce
  define i where "i = \<lparr>in_Invocation = Some ivk, in_Tool = tool, in_TenantID = t, in_ClientID = c, in_TenantConfig = None,
    in_ActiveSessionCount = cnt, in_RequestsInCurrentMinute = 0, in_Scopes = inv_Scopes ivk\<rparr>"
  note fr = active_sessions_frame [OF a]
  obtain n2 r where p: "node_AskPolicy env i n1 = (n2, r)" by fastforce
  have "Allowed (snd (handleEvaluate (ne_Now env (nd_tick n1)) (Some i) (nd_policy n1)))"
    using assms fr by (simp add: handleEvaluate_allowed_iff Allowed_checkAuthorization within_quotas_def custom_ok_def i_def)
  then have "\<exists>res. r = Inr (Some res) \<and> Allowed res" "nd_sessions n2 = nd_sessions n1"
    using p by (auto simp: node_AskPolicy_def Let_def case_prod_unfold)
  moreover from this(1) a p have "evaluatePolicy (node_sys env) ro ivk tool t c n = (n2, None)"
    by (auto simp: evaluatePolicy_def i_def Let_def)
  ultimately show thesis
    using that [of n2] fr p node_asks_frame(2,8) [of env i n1] by simp
qed

lemma node_finds_supervisor:
  "gm_get (rg_supervisors (nd_registrar n)) u = Some pid \<Longrightarrow> nd_supervisors n pid \<noteq> None \<Longrightarrow>
     lookupSupervisor (node_sys env) u n = (n, Inr pid)"
  by (simp add: lookupSupervisor_def node_AskRegistrar_def handleGetSupervisor_def Let_def)

lemma node_admits:
  assumes "nd_supervisors n pid = Some (name, sv)" and "sup_accepts (node_ctx env n name) u sv"
  obtains n' sv' where "checkAcceptWork (node_sys env) pid u tool n = (n', None)" "nd_registrar n' = nd_registrar n"
    "nd_supervisors n' pid = Some (name, sv')" "sv_tool sv' = sv_tool sv" "nd_sessions n' = nd_sessions n"
proof -
  obtain n' r where c: "checkAcceptWork (node_sys env) pid u tool n = (n', r)" by fastforce
  then have r: "r = None" using node_accepts [OF assms(1), of env u tool] assms(2) by simp
  have "n' = fst (node_AskSupervisor env pid (CanAcceptWork u) n)"
    using c by (auto simp: checkAcceptWork_def split: prod.splits sum.splits sup_reply.splits if_splits)
  then have n': "n' = sup_tell env n (pid, CanAcceptWork u)" by (simp add: node_AskSupervisor_quiet)
  have "sv_tool (sup_step sv (ctx, CanAcceptWork u)) = sv_tool sv" for ctx
    by (simp add: sup_tool.step_frame del: sup_step_simps)
  with that [of n'] c r n' assms(1) show thesis by (simp add: sup_after_def del: sup_step_simps)
qed

lemma node_opens_session:
  assumes "layer_ok (ne_layer env)" and "nd_supervisors n pid = Some (name, sv)" and "tool_ID (sv_tool sv) = u"
    and "sl_GrainIdentity (ne_layer env) (SessionName t c u) (NewSessionDependency t c u (sv_tool sv) creds)
           (sessionIdleTimeout (sv_tool sv)) (nd_sessions n, []) = ((b, ms), Inr identity)"
  obtains n' where "resolveSession (node_sys env) pid t c u creds n = (n', Inr identity)" "nd_sessions n' = b"
proof -
  obtain n' r where a: "node_AskSupervisor env pid (GetOrCreateSession t c u creds) n = (n', r)" by fastforce
  then have r: "r = Inr (GetOrCreateSessionResult (Some identity) True None)"
    using assms(2-4) by (auto simp: node_AskSupervisor_def sup_handle_def handleGetOrCreateSession_def Let_def)
  have "session_told ms" using assms(1,4) unfolding layer_ok_def by (metis fst_conv snd_conv)
  then have "nd_sessions n' = b"
    using a assms(2-4)
    by (auto simp: node_AskSupervisor_def sup_handle_def handleGetOrCreateSession_def Let_def deliver_sessions)
  with that a r show thesis by (simp add: resolveSession_def)
qed

text \<open>
  The conditions under which a tool is open to a request: registered with a running
  supervisor that accepts, no tenant configuration and no allowlist, no credentials required.
\<close>

definition open_to :: "'b node \<Rightarrow> ToolID \<Rightarrow> TenantID \<Rightarrow> Tool \<Rightarrow> toolSupervisor \<Rightarrow> bool" where
  "open_to n u t tool sv \<longleftrightarrow>
     tool_of (nd_registrar n) u = Some tool \<and> u \<noteq> '''' \<and>
     (\<exists>pid. gm_get (rg_supervisors (nd_registrar n)) u = Some pid \<and> nd_supervisors n pid = Some (ToolSupervisorName u, sv)) \<and>
     tool_State (sv_tool sv) \<noteq> ToolStateDisabled \<and> \<not> sv_draining sv \<and> cb_state (sv_circuit sv) = CircuitClosed \<and>
     tool_MaxSessionsPerTool (sv_tool sv) \<le> 0 \<and>
     lookupTenantConfig (pm_config (nd_policy n)) t = None \<and>
     tool_AuthorizationPolicy tool \<noteq> AuthorizationPolicyTenantAllowlist \<and>
     tool_CredentialPolicy tool \<noteq> CredentialPolicyRequired"

lemma closed_circuit_accepts: "cb_state c = CircuitClosed \<Longrightarrow> fst (snd (Acquire now c)) = CircuitAcquireAccepted"
  by (simp add: circuit_defs Let_def)

lemma open_to_admits:
  assumes "node_inv env n" and "open_to n u t tool sv" and "inv_ToolID ivk = u"
    and "sl_GrainIdentity (ne_layer env) (SessionName t c u) (NewSessionDependency t c u (sv_tool sv) (inv_Credentials ivk))
           (sessionIdleTimeout (sv_tool sv)) (nd_sessions n, []) = ((b, ms), Inr identity)"
  obtains n' pid where "runPreExecutionPipeline (node_sys env) ro ivk t c n = (n', Inr \<lparr>rc_Invocation = ivk, rc_Tool = tool,
      rc_TenantID = t, rc_ClientID = c, rc_Supervisor = pid, rc_Session = identity\<rparr>)" "nd_sessions n' = b"
proof -
  obtain pid where o: "tool_of (nd_registrar n) u = Some tool" "u \<noteq> ''''" "gm_get (rg_supervisors (nd_registrar n)) u = Some pid"
      "nd_supervisors n pid = Some (ToolSupervisorName u, sv)" "lookupTenantConfig (pm_config (nd_policy n)) t = None"
      "tool_AuthorizationPolicy tool \<noteq> AuthorizationPolicyTenantAllowlist"
    using assms(2) by (auto simp: open_to_def)
  have inv: "layer_ok (ne_layer env)" "tool_ID tool = u"
    using assms(1) o(1) by (auto simp: node_inv_def env_ok_def reg_inv_def)
  have coh: "node_coherent env {} n" using assms(1) by (simp add: node_inv_def)
  have id: "tool_ID (sv_tool sv) = u"
    by (rule coherentD [where sups = "nd_supervisors n", OF coh o(4)]) (simp add: sup_inv_def)
  obtain n1 where n1: "evaluatePolicy (node_sys env) ro ivk tool t c n = (n1, None)" "nd_registrar n1 = nd_registrar n"
      "nd_supervisors n1 = nd_supervisors n" "nd_sessions n1 = nd_sessions n"
    using node_evaluates [OF o(5,6)] inv(2) o(2) by metis
  have "sup_accepts (node_ctx env n1 (ToolSupervisorName u)) u sv"
    using assms(2) id by (simp add: open_to_def sup_accepts_iff closed_circuit_accepts)
  with n1 o(4) obtain n2 sv' where n2: "checkAcceptWork (node_sys env) pid u tool n1 = (n2, None)"
      "nd_supervisors n2 pid = Some (ToolSupervisorName u, sv')" "sv_tool sv' = sv_tool sv" "nd_sessions n2 = nd_sessions n1"
    using node_admits [of n1 pid "ToolSupervisorName u" sv env u tool] by metis
  obtain n3 where n3: "resolveSession (node_sys env) pid t c u (inv_Credentials ivk) n2 = (n3, Inr identity)" "nd_sessions n3 = b"
    using node_opens_session [OF inv(1) n2(2), of u t c "inv_Credentials ivk" b ms identity] n1(4) n2(3,4) id assms(4) by metis
  have "runPreExecutionPipeline (node_sys env) ro ivk t c n = (n3, Inr \<lparr>rc_Invocation = ivk, rc_Tool = tool,
      rc_TenantID = t, rc_ClientID = c, rc_Supervisor = pid, rc_Session = identity\<rparr>)"
    using node_lookupTool [OF o(1), of env] node_finds_supervisor [of n1 u pid env] n1 n2(1) n3(1) o(3,4) assms(2,3)
    by (simp add: runPreExecutionPipeline_def resolveCredentials_def open_to_def)
  then show thesis using n3(2) by (rule that)
qed

lemma open_to_serves:
  assumes "node_inv env n" and "open_to n u (fst (resolveIdentity ivk)) tool sv" and "inv_ToolID ivk = u"
    and "sl_GrainIdentity (ne_layer env) (SessionName (fst (resolveIdentity ivk)) (snd (resolveIdentity ivk)) u)
           (NewSessionDependency (fst (resolveIdentity ivk)) (snd (resolveIdentity ivk)) u (sv_tool sv) (inv_Credentials ivk))
           (sessionIdleTimeout (sv_tool sv)) (nd_sessions n, []) = ((b, ms), Inr identity)"
    and "sl_AskGrain (ne_layer env) identity (exec_timeout tool) (SessionInvoke (Some ivk)) b =
           ((b', ms'), Inr (InvokeReply (SessionInvokeResult (Some result) None)))"
    and "requireRunning g = Inr system"
  shows "\<exists>n'. Gateway_Invoke (system_actors (node_sys env) ro now) g (Some ivk) n = (n', Some result, None) \<and> nd_sessions n' = b'"
proof -
  obtain n1 pid where run: "runPreExecutionPipeline (node_sys env) ro ivk (fst (resolveIdentity ivk)) (snd (resolveIdentity ivk)) n =
      (n1, Inr \<lparr>rc_Invocation = ivk, rc_Tool = tool, rc_TenantID = fst (resolveIdentity ivk),
      rc_ClientID = snd (resolveIdentity ivk), rc_Supervisor = pid, rc_Session = identity\<rparr>)" and b: "nd_sessions n1 = b"
    by (rule open_to_admits [OF assms(1-4)])
  have told: "session_told ms'"
    using assms(1,5) unfolding node_inv_def env_ok_def layer_ok_def by (metis fst_conv snd_conv)
  have "IsZero (inv_ToolID ivk) = False" using assms(2,3) by (simp add: open_to_def IsZero_def)
  with run b told assms(5,6) show ?thesis
    by (simp add: Gateway_Invoke_def system_actors_def resolveRouter_def resolve_actor_def handleRouteInvocation_def
        validateInvocation_def executeInvocation_def node_AskGrain_def case_prod_unfold Let_def deliver_sessions)
qed

section \<open>The session grains as the session layer\<close>

text \<open>
  Activating a grain that is not active runs \<open>OnActivate\<close> on a new grain; an active one is
  found by its name. \<open>d1\<close> and \<open>d2\<close> are the times an attempt and its retry take.
\<close>

type_synonym 'w grains = "(string \<Rightarrow> sessionGrain option) \<times> 'w"

definition to_supervisor :: "sessionGrain \<Rightarrow> sup_msg list \<Rightarrow> told" where
  "to_supervisor g ms = map (Pair (ToolSupervisorName (gr_toolID g))) ms"

definition grain_layer :: "'w backend \<Rightarrow> duration \<Rightarrow> duration \<Rightarrow> 'w grains session_layer" where
  "grain_layer be d1 d2 =
     \<lparr>sl_GrainIdentity = \<lambda>name dep idle ((gs, w), l).
        (case gs name of
           Some g \<Rightarrow> (((gs, w), l), Inr name)
         | None \<Rightarrow>
             (case OnActivate be True [Some dep] newSessionGrain w of
                (w, g, ms, Some err) \<Rightarrow> (((gs, w), l), Inl err)
              | (w, g, ms, None) \<Rightarrow> (((gs(name \<mapsto> g), w), l @ to_supervisor g ms), Inr name))),
      sl_AskGrain = \<lambda>name d msg (gs, w).
        (case gs name of
           None \<Rightarrow> (((gs, w), []), Inl (PlainErr ''grain is not active''))
         | Some g \<Rightarrow>
             (case grain_OnReceive be True d1 d2 msg g w of
                (w, g, r, ms) \<Rightarrow>
                  (((gs(name \<mapsto> g), w), to_supervisor g ms), case r of None \<Rightarrow> Inl timed_out | Some r \<Rightarrow> Inr r)))\<rparr>"

lemma grain_tells:
  "grain_OnReceive be True d1 d2 m g w = (w', g', r, ms) \<Longrightarrow> \<forall>m \<in> set ms. session_msg m"
  by (cases m) (auto simp: handleSessionInvoke_def handleSessionInvokeStream_def handleSessionInvokeStreamFallback_def
      reportOutcomeToSupervisor_def Let_def split: option.splits prod.splits if_splits sum.splits)

lemma grain_layer_ok: "layer_ok (grain_layer be d1 d2)"
proof -
  have "\<forall>m \<in> set ms. session_msg m" if "OnActivate be True deps g w = (w', g', ms, err)" for deps g w w' g' ms err
    using that by (auto simp: OnActivate_def notifySupervisor_def Let_def split: option.splits prod.splits sum.splits if_splits)
  then show ?thesis
    by (fastforce simp: layer_ok_def grain_layer_def to_supervisor_def split: option.splits prod.splits dest: grain_tells)
qed

text \<open>The first request of a client: a grain is activated and executes the invocation.\<close>

lemma grain_layer_activates:
  assumes "gs name = None" and "be_Factory be = Some (Some create)" and "u \<noteq> ''''"
    and "create tool creds w = (w1, Inr ex)"
  obtains g ms where "sl_GrainIdentity (grain_layer be d1 d2) name (NewSessionDependency t c u tool creds) idle ((gs, w), []) =
      (((gs(name \<mapsto> g), w1), ms), Inr name)" "gr_executor g = ex" "gr_tool g = tool" "gr_toolID g = u"
proof -
  have "dep_credentials (NewSessionDependency t c u tool creds) = creds"
    by (cases creds) (simp_all add: NewSessionDependency_def)
  with that assms show thesis
    by (simp add: grain_layer_def OnActivate_def findSessionDependency_def createExecutor_def NewSessionDependency_def
        IsZero_def Let_def)
qed

text \<open>A result with the elapsed time filled in where the executor has left it zero.\<close>

definition timed :: "duration \<Rightarrow> ExecutionResult \<Rightarrow> ExecutionResult" where
  "timed elapsed r = (if exec_Duration r = 0 then r\<lparr>exec_Duration := elapsed\<rparr> else r)"

lemma grain_layer_executes:
  assumes "gs name = Some g" and "gr_executor g = Some ex" and "inv_ToolID ivk = gr_toolID g"
    and "dispatch be (requestTimeout g) (Some ex) ivk w = (w', Some (Some result, None))"
    and "\<not> isTransportFailure (Some result)"
  shows "\<exists>ms. sl_AskGrain (grain_layer be d1 d2) name d (SessionInvoke (Some ivk)) (gs, w) =
    (((gs(name \<mapsto> g), w'), ms), Inr (InvokeReply (SessionInvokeResult (Some (timed d1 result)) None)))"
  using assms
  by (simp add: grain_layer_def handleSessionInvoke_def executeOnce_def settle_result_def timed_def Let_def)

section \<open>Properties\<close>

text \<open>C4: On a node that has handled any events, an invocation of a tool that is open to the tenant,
  from a client that has no session yet, opens a session whose executor is made for the
  definition the supervisor holds and the credentials of the invocation, and asks this
  executor once: to call the tool, or to read a resource when the invocation says so. When
  the executor answers with a result and no error, and the result does not report a
  transport failure, the gateway returns that result, with the time the session has
  measured where the executor has left the duration zero.\<close>

theorem node_serves_open_tool:
  assumes "env_ok env" and "\<forall>e \<in> set es. node_legal e"
    and "n = node_after env ro (node_start config b) es" and "ne_layer env = grain_layer be d1 d2"
    and "resolveIdentity ivk = (t, c)" and "open_to n (inv_ToolID ivk) t tool sv"
    and "nd_sessions n = (gs, w)" and "gs (SessionName t c (inv_ToolID ivk)) = None"
    and "be_Factory be = Some (Some create)" and "create (sv_tool sv) (inv_Credentials ivk) w = (w1, Inr (Some ex))"
    and "dispatch be (if tool_RequestTimeout (sv_tool sv) > 0 then tool_RequestTimeout (sv_tool sv)
           else DefaultRequestTimeout) (Some ex) ivk w1 = (w2, Some (Some result, None))"
    and "\<not> isTransportFailure (Some result)" and "requireRunning g = Inr system"
  shows "\<exists>n' gr. Gateway_Invoke (system_actors (node_sys env) ro now) g (Some ivk) n = (n', Some (timed d1 result), None) \<and>
    nd_sessions n' = (gs(SessionName t c (inv_ToolID ivk) \<mapsto> gr), w2) \<and> gr_executor gr = Some ex"
proof -
  let ?s = "SessionName t c (inv_ToolID ivk)"
  have inv: "node_inv env n"
    unfolding assms(3) by (rule node_run.legal_run_keeps [OF node_inv_start [OF assms(1)] assms(2)])
  have "inv_ToolID ivk \<noteq> ''''" using assms(6) by (simp add: open_to_def)
  then obtain gr ms where act: "sl_GrainIdentity (ne_layer env) ?s (NewSessionDependency t c (inv_ToolID ivk) (sv_tool sv) (inv_Credentials ivk))
      (sessionIdleTimeout (sv_tool sv)) (nd_sessions n, []) = (((gs(?s \<mapsto> gr), w1), ms), Inr ?s)"
    and gr: "gr_executor gr = Some ex" "gr_tool gr = sv_tool sv" "gr_toolID gr = inv_ToolID ivk"
    unfolding assms(4,7) by (rule grain_layer_activates [where gs = gs and name = ?s and create = create, OF assms(8,9) _ assms(10)])
  have "dispatch be (requestTimeout gr) (Some ex) ivk w1 = (w2, Some (Some result, None))"
    using assms(11) gr(2) by (simp add: requestTimeout_def split: if_splits)
  from grain_layer_executes [OF _ gr(1) gr(3) [symmetric] this assms(12), of "gs(?s \<mapsto> gr)" ?s d1 d2 "exec_timeout tool"]
  obtain ms' where ex: "sl_AskGrain (ne_layer env) ?s (exec_timeout tool) (SessionInvoke (Some ivk)) (gs(?s \<mapsto> gr), w1) =
      (((gs(?s \<mapsto> gr), w2), ms'), Inr (InvokeReply (SessionInvokeResult (Some (timed d1 result)) None)))"
    unfolding assms(4) by auto
  from open_to_serves [OF inv, of "inv_ToolID ivk" ivk tool sv] assms(5,6,13) act ex gr(1)
  show ?thesis by (metis fst_conv snd_conv)
qed

definition example_backend :: "nat backend" where
  "example_backend =
     \<lparr>be_Execute = \<lambda>ex d ivk w. (Suc w, Some (example_result ivk\<lparr>exec_Duration := 0\<rparr>), None),
      be_ReadResource = \<lambda>ex d ivk w. (Suc w, Some (example_result ivk), None),
      be_ExecuteStream = \<lambda>ex d ivk w. (w, Inl timed_out), be_Close = \<lambda>ex w. w,
      be_Factory = Some (Some (\<lambda>tool creds w. (w, Inr (Some \<lparr>ex_id = 1, ex_resource = True, ex_stream = False\<rparr>))))\<rparr>"

theorem node_serves_open_tool_witness:
  "let ivk = example_invocation ''acme'' ''web'' ''fs''; L = grain_layer example_backend 1 1 in
   \<exists>n'. Gateway_Invoke (system_actors (node_sys (example_node_env L)) example_router 0) (example_gateway_on False)
     (Some ivk) (example_node L (example_config [] 0 0 [] []) (\<lambda>_. None, 0)) = (n', Some (example_result ivk\<lparr>exec_Duration := 1\<rparr>), None) \<and>
     snd (nd_sessions n') = 1"
proof -
  let ?ivk = "example_invocation ''acme'' ''web'' ''fs''" and ?L = "grain_layer example_backend 1 1"
  let ?n = "example_node ?L (example_config [] 0 0 [] []) (\<lambda>_. None, 0)"
  have ivk: "inv_ToolID ?ivk = ''fs''" "inv_Method ?ivk \<noteq> MethodResourcesRead"
    by (simp_all add: example_invocation_def MethodToolsCall_def MethodResourcesRead_def)
  have id: "resolveIdentity ?ivk = (''acme'', ''web'')"
    by (simp add: resolveIdentity_def example_invocation_def IsZero_def)
  have op: "open_to ?n (inv_ToolID ?ivk) ''acme'' example_tool example_supervisor"
    unfolding open_to_def example_node_state ivk
    by (simp add: example_supervisor_def newPolicyMaker_def lookupTenantConfig_def example_config_def NewCircuitBreaker_def)
      (simp add: example_tool_def)
  let ?r = "example_result ?ivk\<lparr>exec_Duration := 0\<rparr>"
  have res: "\<not> isTransportFailure (Some ?r)" "timed 1 ?r = example_result ?ivk\<lparr>exec_Duration := 1\<rparr>"
    by (simp_all add: isTransportFailure_def example_result_def timed_def)
  have L: "ne_layer (example_node_env ?L) = ?L" by (simp add: example_node_env_def)
  let ?ex = "\<lparr>ex_id = 1, ex_resource = True, ex_stream = False\<rparr>"
  have fac: "be_Factory example_backend = Some (Some (\<lambda>tool creds w. (w, Inr (Some ?ex))))"
    by (simp add: example_backend_def)
  have run: "dispatch example_backend d (Some ?ex) ?ivk 0 = (1, Some (Some ?r, None))" for d
    using ivk(2) by (simp add: example_backend_def dispatch_def)
  have legal: "\<forall>e \<in> set [Manage (reg_msg.RegisterTool example_tool)]. node_legal e" by simp
  note node_serves_open_tool [OF example_env_ok [OF grain_layer_ok] legal refl L id op example_node_state(4) refl
      fac refl run res(1) example_running, of 0]
  then show ?thesis unfolding Let_def res(2) by auto
qed

text \<open>C22: Draining a tool closes no session and lets no new one open. On a node that has handled any
  events, draining a tool through the gateway leaves every open session as it is; from then
  on, as long as no message changes the definition of the tool, no invocation of it opens a
  session, streaming or not, and one for a client that has no session of the tool fails.\<close>

theorem drained_tool_opens_no_session:
  fixes env ro now
  defines "ga \<equiv> system_actors (node_sys env) ro now"
  assumes "env_ok env" and "\<forall>e \<in> set es. node_legal e" and "ne_layer env = grain_layer be d1 d2"
    and "n0 = node_after env ro (node_start config b) es" and "Gateway_DrainTool ga g u n0 = (n, Inr ())"
    and "\<forall>e \<in> set later. node_legal e \<and> (\<forall>msg. e = Manage msg \<longrightarrow> u \<notin> touched msg)"
    and "n' = node_after env ro n later" and "nd_sessions n' = (gs, w)"
    and "inv_ToolID ivk = u" and "resolveIdentity ivk = (t, c)"
  shows "nd_sessions n = nd_sessions n0 \<and>
    (\<exists>n'' res. Gateway_Invoke ga g' (Some ivk) n' = (n'', res) \<and> dom (fst (nd_sessions n'')) = dom gs \<and>
       (gs (SessionName t c u) = None \<longrightarrow> (\<exists>err. res = (None, Some err)))) \<and>
    (\<exists>n'' res. Gateway_InvokeStream ga g' (Some ivk) n' = (n'', res) \<and> dom (fst (nd_sessions n'')) = dom gs \<and>
       (gs (SessionName t c u) = None \<longrightarrow> (\<exists>err. res = Inl err)))"
proof -
  have inv: "node_inv env n0"
    unfolding assms(5) by (rule node_run.legal_run_keeps [OF node_inv_start [OF assms(2)] assms(3)])
  note drain = assms(6) [unfolded ga_def]
  from drained_refuses [OF drain inv assms(7,10,8)] gateway_drains [OF drain inv] assms(9) show ?thesis
    unfolding ga_def by (metis fst_conv)
qed

theorem drained_tool_opens_no_session_witness:
  "let L = grain_layer example_backend 1 1; ga = system_actors (node_sys (example_node_env L)) example_router 0 in
   \<exists>err. snd (Gateway_Invoke ga (example_gateway_on False) (Some (example_invocation ''acme'' ''web'' ''fs''))
     (fst (Gateway_DrainTool ga (example_gateway_on False) ''fs'' (example_node L (example_config [] 0 0 [] []) (\<lambda>_. None, 0))))) =
     (None, Some err)"
proof -
  let ?L = "grain_layer example_backend 1 1"
  let ?ga = "system_actors (node_sys (example_node_env ?L)) example_router 0" and ?ivk = "example_invocation ''acme'' ''web'' ''fs''"
  let ?n0 = "example_node ?L (example_config [] 0 0 [] []) (\<lambda>_. None, 0)"
  obtain n where n: "Gateway_DrainTool ?ga (example_gateway_on False) ''fs'' ?n0 = (n, Inr ())"
    using example_drain by (metis prod.collapse)
  have "node_inv (example_node_env ?L) ?n0"
    by (rule node_run.legal_run_keeps [OF node_inv_start [OF example_env_ok [OF grain_layer_ok]]]) simp
  with gateway_drains [OF n] have st: "nd_sessions n = (\<lambda>_. None, 0)" unfolding example_node_state by blast
  have legal: "\<forall>e \<in> set [Manage (reg_msg.RegisterTool example_tool)]. node_legal e"
      "\<forall>e \<in> set []. node_legal e \<and> (\<forall>msg. e = Manage msg \<longrightarrow> ''fs'' \<notin> touched msg)" by simp_all
  have L: "ne_layer (example_node_env ?L) = ?L" by (simp add: example_node_env_def)
  have ivk: "inv_ToolID ?ivk = ''fs''" "resolveIdentity ?ivk = (''acme'', ''web'')"
    by (simp_all add: resolveIdentity_def example_invocation_def IsZero_def)
  have later: "n = node_after (example_node_env ?L) example_router n []" by simp
  from drained_tool_opens_no_session [OF example_env_ok [OF grain_layer_ok] legal(1) L refl n legal(2) later st ivk]
  show ?thesis unfolding Let_def n fst_conv by (metis snd_conv)
qed

end
