(* ===== verification/Spec2Isabelle.thy ===== *)
theory Spec2Isabelle
  imports Mcp_Circuit Naming Policy Credential_Broker Audit_Journal Extensions Tool_Supervisor Session_Grain Registrar Router Health Egress_Backend Schema_Fetch Ingress_Grpc Ingress_Handlers Token_Exchange Audit_File_Sink Telemetry Gateway_Ingress Foundation Actor_Loops Node_Quota Node_Grains
begin

text \<open>
  A verification development of goakt-mcp, a gateway between clients of the Model Context
  Protocol and the tools they call, built on an actor system.

  \<^bold>\<open>The program.\<close> A client speaks HTTP, SSE, WebSocket or gRPC to an ingress handler. The
  handler resolves the identity of the client, turns a call into an invocation and hands
  it to the gateway (\<open>gateway.go\<close>, \<open>api.go\<close>), which asks the router actor. The router asks
  the registrar for the tool, the policy actor for permission, the tool's supervisor
  whether it accepts work (a circuit breaker and session limits decide), the credential
  broker for secrets, and then the session grain of the tenant, client and tool. The
  session calls the tool through an executor (a child process, HTTP or gRPC), retries
  once on a transport failure, and reports the outcome to the supervisor. The outcome of
  every invocation is written to the audit journal. A health checker probes the supervisors.

  \<^bold>\<open>The theories,\<close> each of which says at its beginning which files it models:
  \<^item> \<open>Prelude\<close>: Go maps as association lists with distinct keys, the contract of a finite
    map and of an actor that keeps an invariant (locales \<open>finite_map\<close> and the actor
    locales), lists and strings; \<open>Mcp_Types\<close>: the data of package \<open>mcp\<close>.
  \<^item> \<open>Mcp_Circuit\<close>, \<open>Naming\<close>, \<open>Mcp_Config\<close>, \<open>Tls\<close>, \<open>Logger\<close>, \<open>Telemetry\<close>: the circuit
    breaker, the names of actors, configuration and its validation, TLS settings, logging
    and measurements.
  \<^item> \<open>Policy\<close>, \<open>Credential_Broker\<close>, \<open>Audit_Journal\<close>, \<open>Audit_File_Sink\<close>, \<open>Extensions\<close>,
    \<open>Tool_Supervisor\<close>, \<open>Session_Grain\<close>, \<open>Registrar\<close>, \<open>Router\<close>, \<open>Health\<close>, \<open>Foundation\<close>,
    \<open>Actor_Loops\<close>: the actors of internal/runtime and what they share. The state of an actor
    is a record, each message handler a function on it, and what a handler sends is part of
    its result.
  \<^item> \<open>Egress\<close>, \<open>Grpc_Descriptors\<close>, \<open>Grpc_Executor\<close>, \<open>Egress_Backend\<close>, \<open>Schema_Fetch\<close>: the
    executors of internal/egress, descriptor reflection, JSON schemas and discovery.
  \<^item> \<open>Ingress\<close>, \<open>Ingress_Grpc\<close>, \<open>Ingress_Handlers\<close>, \<open>Token_Exchange\<close>: the ingress layers of
    internal/ingress and the authorization of package \<open>mcp\<close>.
  \<^item> \<open>Gateway\<close>, \<open>Gateway_Api\<close>, \<open>Gateway_Ingress\<close>: the life of a gateway, its public calls
    and the handlers it makes.
  \<^item> \<open>Router_Frame\<close>, \<open>Node\<close>, \<open>Node_Service\<close>, \<open>Node_Quota\<close>, \<open>Node_Grains\<close>: the actors put
    together on one node, and what holds of the node from its start on.
  \<^item> this theory: properties that span the ingress, the gateway and the actors.

  \<^bold>\<open>Composition.\<close> Where one component calls another, the caller is stated over the operations
  it uses: the router over a \<open>system\<close> of actors, the session over a \<open>backend\<close>, the ingress
  over an \<open>invoker\<close>, the gateway over \<open>actors\<close>. The contracts are locales, interpreted on the
  modelled providers: the in-memory sink for the journal, the bundled executors for the
  session (\<open>answering_backend\<close>), a node with its registrar and router for the gateway
  (\<open>registry_service\<close>). A whole node is the record \<open>node\<close>: the states of the registrar, the
  policy actor, the broker and every running supervisor, and a session layer. Its events
  (\<open>node_event\<close>) are messages to the registrar, invocations, and what sessions do of their
  own; \<open>node_sys\<close> answers the router's questions from that state. What the router keeps of such
  a state follows from the answers alone (\<open>asking_system\<close> and the locales built on it), and
  each property of the node is an interpretation of them. Messages told within a node are
  handled in the order they were sent, before the next question; messages between nodes of a
  cluster, which may come later, are not covered by these theorems. Concurrency is modelled where the code shares state outside actors:
  interleaved calls of \<open>Start\<close> and \<open>Stop\<close> (\<open>gw_step\<close>, of which a start is shown to be a run) and of requests on the tool name cache
  (\<open>cache_run\<close>) are inductive relations over the sections that run under a lock.

  \<^bold>\<open>What is shown.\<close> No invocation reaches a session unless policy, supervisor and, where
  required, the broker admitted it, whichever ingress it came through; each invocation that
  is answered is closed by one audit event, and the circuit events of a supervisor tell the
  history of its breaker. On a node, after any events, the running supervisors are in step
  with the registry; a tool that was disabled is served to nobody until it is put back; a
  tool that was drained opens no session; a tenant is never served more invocations in a
  minute than its quota; and an invocation of a tool that is open to its tenant returns the
  result of the tool. The circuit breaker, the registrar and the supervisor's session
  registry refine abstract specifications; rate limits hold over every minute; what the
  caches for credentials and tool names answer is never older than their lifetime; a
  session closes each of its executors once and retries once, and the bundled executors
  always answer; the text of a result and the contents of a resource survive the way back;
  the file sink only appends, loses at most one buffer, and nothing when it closes without
  an error; TLS settings are honoured or no connection is made; the actors of a node find
  each other from the moment they are spawned.

  \<^bold>\<open>Where the code and its comments differ\<close> the definitions follow the code, and a property
  is stated where both agree: the registry is specified for registrations in the enabled
  state and updates that keep the transport (the comments of the messages and of the
  handlers differ on the rest); recovery of an executor is stated without the order of
  making the new one and closing the old one; the audit property counts the events that
  close an invocation, since the start and admission events the documentation lists are
  never emitted; draining is stated for new sessions only, since the code refuses existing
  ones too; and a stream is a use of an executor only where it is begun, since recovery may
  close an executor that a stream still reads. Lemmas of the component theories show these
  departures.

  \<^bold>\<open>Arguments and bounds.\<close> Libraries outside the repository are arguments: the actor library,
  the MCP, gRPC and WebSocket libraries, encodings, clocks and random sources, the
  operating system. What is relied on is a named hypothesis (\<open>serves\<close>, \<open>counted\<close>,
  \<open>finds_spawned\<close>, \<open>env_ok\<close>) with a witness. Integers that stay far from their range, times and
  counters, are \<open>int\<close> and \<open>nat\<close>. The only fuel is the number of reflection requests before a
  deadline, and it is shown that a large enough one gives the result; the read loop of a
  WebSocket, which may not end, is a partial function with values in an option type.

  \<^bold>\<open>Not modelled.\<close> The transports themselves, the document served for a protected
  resource, spans and exporters of telemetry, log lines, generated protocol code, and the
  example programs: they are input and output or plumbing of libraries without decisions
  of their own.
\<close>

section \<open>From the ingress to the session\<close>

lemma dispatch_routes:
  assumes "requireRunning g = Inr system"
    and "DispatchToolCall js (gateway_invoker (system_actors sys ro now) g) stamp info req toolID tenantID clientID w = (w', res)"
  obtains (refused) "w' = w"
  | (routed) ivk r evs where
      "RequestToInvocation (json_Unmarshal js) stamp req toolID tenantID clientID = Inr ivk"
      "handleRouteInvocation sys ro now (Some (with_scopes info ivk)) w = (w', r, evs)"
proof (cases "RequestToInvocation (json_Unmarshal js) stamp req toolID tenantID clientID")
  case (Inl err)
  with assms(2) show ?thesis by (intro refused) (simp add: DispatchToolCall_def)
next
  case (Inr ivk)
  obtain w1 r evs where route: "handleRouteInvocation sys ro now (Some (with_scopes info ivk)) w = (w1, r, evs)"
    by (metis surj_pair)
  with Inr assms have "w1 = w'"
    by (auto simp: DispatchToolCall_def gateway_invoker_def Gateway_Invoke_def system_actors_def resolveRouter_def
        resolve_actor_def Let_def split: option.splits prod.splits RouteResult.splits)
  with Inr route show ?thesis by (intro routed) auto
qed

lemma RequestToInvocation_fields:
  assumes "RequestToInvocation unmarshal stamp req toolID tenantID clientID = Inr ivk"
  shows "inv_ToolID ivk = toolID" "inv_Scopes ivk = []"
    "inv_Correlation ivk = \<lparr>corr_TenantID = tenantID, corr_ClientID = clientID, corr_RequestID = fst stamp, corr_TraceID = ''''\<rparr>"
  using assms by (auto simp: RequestToInvocation_def new_invocation_def Let_def split: option.splits sum.splits prod.splits)

lemma with_scopes_fields [simp]:
  "inv_ToolID (with_scopes info ivk) = inv_ToolID ivk" "inv_Correlation (with_scopes info ivk) = inv_Correlation ivk"
  "inv_Params (with_scopes info ivk) = inv_Params ivk"
  by (simp_all add: with_scopes_def split: option.split)

lemma with_scopes_scopes:
  "inv_Scopes ivk = [] \<Longrightarrow> inv_Scopes (with_scopes info ivk) = (case info of None \<Rightarrow> [] | Some i \<Rightarrow> ti_Scopes i)"
  by (simp add: with_scopes_def split: option.split)

section \<open>Properties\<close>

text \<open>C1: A tool call that a client makes over HTTP, SSE or WebSocket, in a protocol session with a
  non-empty tenant and client, reaches a session of the tool only when it was admitted.
  While the policy actor runs, the session is asked at most once and last, and it is asked
  to execute the invocation made from this request with the scopes of its token, with the
  credentials the broker resolved where the tool requires them; before that the policy
  actor has allowed this invocation and these scopes for the tenant and client of the
  protocol session, and the supervisor of the tool has accepted the work and named the
  session.\<close>

theorem client_call_executes_only_if_admitted:
  assumes "\<forall>w. sys_policyUp sys w" and "requireRunning g = Inr system"
    and "tenantID \<noteq> ''''" and "clientID \<noteq> ''''"
    and "DispatchToolCall js (gateway_invoker (system_actors (traced sys) ro now) g) stamp info req toolID tenantID clientID (w, []) =
      ((w', l), res)"
    and "AskGrain name d m rep \<in> set l"
  shows "\<exists>pre rc ivk. RequestToInvocation (json_Unmarshal js) stamp req toolID tenantID clientID = Inr ivk \<and>
    l = pre @ [AskGrain name d m rep] \<and> (\<forall>i \<in> set pre. \<not> is_grain_ask i) \<and>
    name = rc_Session rc \<and> m = SessionInvoke (Some (rc_Invocation rc)) \<and>
    admission pre (with_scopes info ivk) tenantID clientID rc \<and> inv_ToolID ivk = toolID \<and>
    inv_Scopes (with_scopes info ivk) = (case info of None \<Rightarrow> [] | Some i \<Rightarrow> ti_Scopes i)"
  using assms(2,5)
proof (cases rule: dispatch_routes)
  case refused
  with assms(6) show ?thesis by simp
next
  case (routed ivk r evs)
  let ?ivk = "with_scopes info ivk"
  note fields = RequestToInvocation_fields [OF routed(1)]
  have id: "resolveIdentity ?ivk = (tenantID, clientID)"
    using assms(3,4) by (simp add: resolveIdentity_def IsZero_def fields)
  from route_traced [OF assms(1) routed(2)] assms(6) obtain pre rc rep'
    where l: "l = pre @ [AskGrain (rc_Session rc) (exec_timeout (rc_Tool rc)) (SessionInvoke (Some (rc_Invocation rc))) rep']"
      "no_grain pre" "admission pre ?ivk tenantID clientID rc"
    unfolding id by fastforce
  with assms(6) have "l = pre @ [AskGrain name d m rep]" "name = rc_Session rc" "m = SessionInvoke (Some (rc_Invocation rc))"
    by fastforce+
  with l(2,3) fields with_scopes_scopes [OF fields(2), of info] routed(1) show ?thesis
    by (intro exI [of _ pre] exI [of _ rc] exI [of _ ivk]) simp
qed

theorem client_call_executes_only_if_admitted_witness:
  "let l = snd (fst (DispatchToolCall \<lparr>json_Unmarshal = \<lambda>_. Inr [], json_Marshal = \<lambda>_. Inr ''{}''\<rparr>
             (gateway_invoker (system_actors (traced (example_system example_tool))
                \<lparr>ro_hasConcurrencyQuotas = False, ro_requestTimeout = second\<rparr> 0) (example_gateway_on False))
             (''r1'', 0) None (Some \<lparr>ctp_Name = ''read'', ctp_Arguments = ''''\<rparr>) ''fs'' ''acme'' ''web'' ((), [])))
   in \<exists>pre name d rep rc ivk. l = pre @ [AskGrain name d (SessionInvoke (Some (rc_Invocation rc))) rep] \<and>
        admission pre ivk ''acme'' ''web'' rc \<and> inv_ToolID ivk = ''fs''"
proof -
  let ?sys = "example_system example_tool" and ?ro = "\<lparr>ro_hasConcurrencyQuotas = False, ro_requestTimeout = second\<rparr>"
  let ?js = "\<lparr>json_Unmarshal = \<lambda>_. Inr [], json_Marshal = \<lambda>_. Inr ''{}''\<rparr>" and ?g = "example_gateway_on False"
  let ?req = "Some \<lparr>ctp_Name = ''read'', ctp_Arguments = ''''\<rparr>"
  let ?call = "DispatchToolCall ?js (gateway_invoker (system_actors (traced ?sys) ?ro 0) ?g) (''r1'', 0) None ?req ''fs'' ''acme'' ''web'' ((), [])"
  have run: "requireRunning ?g = Inr 1" by (simp add: requireRunning_def example_gateway_on_def)
  have up: "\<forall>w. sys_policyUp ?sys w" by (simp add: example_system_def)
  obtain w' l res where call: "?call = ((w', l), res)" by (metis surj_pair)
  from run call have "\<exists>name d m rep. AskGrain name d m rep \<in> set l"
  proof (cases rule: dispatch_routes)
    case refused
    then show ?thesis using call run
      by (auto simp: DispatchToolCall_def RequestToInvocation_def new_invocation_def gateway_invoker_def Gateway_Invoke_def
        system_actors_def resolveRouter_def resolve_actor_def route_defs example_system_def exec_timeout_def example_tool_def
        Allowed_def Resolved_def rr_values_def Let_def with_scopes_def IsZero_def)
  next
    case (routed ivk r evs)
    then show ?thesis
      by (auto simp: RequestToInvocation_def new_invocation_def route_defs example_system_def exec_timeout_def example_tool_def
        Allowed_def Resolved_def rr_values_def Let_def with_scopes_def IsZero_def)
  qed
  then obtain name d m rep where grain: "AskGrain name d m rep \<in> set l" by blast
  have "''acme'' \<noteq> ''''" "''web'' \<noteq> ''''" by simp_all
  from client_call_executes_only_if_admitted [OF up run this call grain] obtain pre rc ivk
    where "l = pre @ [AskGrain name d (SessionInvoke (Some (rc_Invocation rc))) rep]" "admission pre ivk ''acme'' ''web'' rc" "inv_ToolID ivk = ''fs''"
    by (metis with_scopes_fields(1))
  then show ?thesis unfolding Let_def call fst_conv snd_conv by blast
qed

text \<open>C30: A session offers only tools the gateway knows: on a node, each name in the catalogue of a
  session that is opened leads to a tool that is registered and valid, and a call of it
  is an invocation that passes the validation of the router.\<close>

theorem session_offers_registered_tools:
  assumes "requireRunning g = Inr system" and "reg_inv (fst w)"
    and "BuildGetServer (gateway_invoker (node_actors env sys ro now) g) resolver r w = (w', Some srv)"
    and "gm_get (srv_Tools srv) name = Some t"
    and "RequestToInvocation unmarshal stamp req (mt_Target t) tenantID clientID = Inr ivk"
  shows "\<exists>tool. tool_of (fst w) (mt_Target t) = Some tool \<and> ValidateTool tool = None \<and>
    validateInvocation (Some (with_scopes info ivk)) = None"
proof -
  obtain ten cli tools where tools: "Gateway_ListTools (node_actors env sys ro now) g w = (w', Inr tools)"
      and srv: "srv = foldl (\<lambda>srv t. RegisterResources t (Ingress.RegisterTool t srv)) (new_server ten cli) tools"
    using assms(3) by (rule BuildGetServer_Some) (simp add: gateway_invoker_def)
  from catalogue_targets [of "new_server ten cli" tools name] assms(4)
  have "last_advertiser tools name = Some (mt_Target t)"
    unfolding srv [symmetric] by (auto simp: new_server_def split: option.splits)
  then have listed: "mt_Target t \<in> tool_ID ` set tools" by (metis imageI last_advertiser_in)
  from node.list_tools [OF assms(1,2) tools]
  have "(\<lambda>t. (tool_ID t, tool_State t)) ` set tools = {(k, tool_State t) | k t. tool_of (fst w) k = Some t}" by auto
  from node.listed_iff [OF this] listed obtain tool where tool: "tool_of (fst w) (mt_Target t) = Some tool" by auto
  with assms(2) have "ValidateTool tool = None" "tool_ID tool = mt_Target t" by (auto simp: reg_inv_def)
  with ValidateTool_id [of tool] have "\<not> IsZero (mt_Target t)" by (auto simp: tool_id_check_def split: if_splits)
  with tool \<open>ValidateTool tool = None\<close> RequestToInvocation_fields(1) [OF assms(5)] show ?thesis
    by (simp add: validateInvocation_def)
qed

theorem session_offers_registered_tools_witness:
  "\<forall>(sys :: (registrar \<times> unit) system) ro. \<exists>w' srv t ivk.
     BuildGetServer (gateway_invoker (node_actors example_reg_env sys ro 0) (example_gateway_on False))
       (\<lambda>_ :: unit. Inr (''acme'', ''web'')) () (example_registrar, ()) = (w', Some srv) \<and>
     gm_get (srv_Tools srv) ''fs'' = Some t \<and>
     RequestToInvocation (\<lambda>_. Inr []) (''r1'', 0) (Some \<lparr>ctp_Name = ''fs'', ctp_Arguments = ''''\<rparr>) (mt_Target t) ''acme'' ''web'' = Inr ivk \<and>
     validateInvocation (Some ivk) = None"
proof (intro allI)
  fix sys :: "(registrar \<times> unit) system" and ro
  let ?gw = "gateway_invoker (node_actors example_reg_env sys ro 0) (example_gateway_on False)"
  let ?resolver = "\<lambda>_ :: unit. Inr (''acme'', ''web'')" and ?req = "Some \<lparr>ctp_Name = ''fs'', ctp_Arguments = ''''\<rparr>"
  have run: "requireRunning (example_gateway_on False) = Inr 1" by (simp add: requireRunning_def example_gateway_on_def)
  have inv: "reg_inv (fst (example_registrar, ()))" by simp
  obtain srv t where srv: "BuildGetServer ?gw ?resolver () (example_registrar, ()) = ((example_registrar, ()), Some srv)"
      and t: "gm_get (srv_Tools srv) ''fs'' = Some t"
    using run
    by (auto simp: BuildGetServer_def gateway_invoker_def Gateway_ListTools_def ask_registrar_def read_reply_def
        resolveRegistrar_def resolve_actor_def node_defs Let_def example_registrar_def catalog_List_def with_metadata_def
        Ingress.RegisterTool_def add_tool_def RegisterResources_def example_tool_def gomap_simps)
  obtain ivk where ivk: "RequestToInvocation (\<lambda>_. Inr []) (''r1'', 0) ?req (mt_Target t) ''acme'' ''web'' = Inr ivk"
    by (simp add: RequestToInvocation_def Let_def case_prod_unfold)
  from session_offers_registered_tools [OF run inv srv t ivk, of None] srv t ivk
  show "\<exists>w' srv t ivk. BuildGetServer ?gw ?resolver () (example_registrar, ()) = (w', Some srv) \<and>
     gm_get (srv_Tools srv) ''fs'' = Some t \<and>
     RequestToInvocation (\<lambda>_. Inr []) (''r1'', 0) ?req (mt_Target t) ''acme'' ''web'' = Inr ivk \<and>
     validateInvocation (Some ivk) = None" by (auto simp: with_scopes_def)
qed

end
